(* ===== verification/Codec.thy ===== *)
theory Codec
  imports Prelude
begin

text \<open>
  The contract of a pair of conversions between values and their external form (a
  volume name, a file name, a wire number, a protobuf message). A \<open>printer\<close> reads
  back what it wrote; a \<open>codec\<close> moreover writes back exactly what it read. Each pair
  of conversions of the source is an interpretation of one of the two in the theory
  of its component.
\<close>

locale printer =
  fixes print :: "'a \<Rightarrow> 's"
    and parse :: "'s \<Rightarrow> 'a option"
    and wf :: "'a \<Rightarrow> bool"
  assumes parse_print: "wf x \<Longrightarrow> parse (print x) = Some x"
begin

lemma print_inject: "wf x \<Longrightarrow> wf y \<Longrightarrow> print x = print y \<longleftrightarrow> x = y"
  using parse_print by (metis option.inject)

lemma inj_on_print: "inj_on print {x. wf x}"
  by (rule inj_onI) (simp add: print_inject)

lemma parse_map_print: "\<forall>x \<in> set xs. wf x \<Longrightarrow> map parse (map print xs) = map Some xs"
  by (simp add: parse_print)

end

locale codec = printer +
  assumes print_parse: "parse s = Some x \<Longrightarrow> wf x \<and> print x = s"
begin

lemma parse_Some_iff: "parse s = Some x \<longleftrightarrow> wf x \<and> s = print x"
  using parse_print print_parse by blast

lemma parse_inject: "parse s = Some x \<Longrightarrow> parse t = Some x \<Longrightarrow> s = t"
  by (simp add: parse_Some_iff)

lemma parse_defined_iff: "parse s \<noteq> None \<longleftrightarrow> s \<in> print ` {x. wf x}"
  using parse_Some_iff by (auto simp: image_iff)

end

end
