(* ===== verification/Paths.thy ===== *)
theory Paths
  imports Prelude
begin

text \<open>
  Unix paths as the source uses them through \<open>std::path\<close>: the components of a path, joining,
  the file name and its extension. A relative path all of whose components are plain names
  (\<open>plain_path\<close>) cannot leave the directory it is joined to.
\<close>

datatype path_component = RootDir | CurDir | ParentDir | Normal string

definition path_is_absolute :: "string \<Rightarrow> bool" where
  "path_is_absolute p = starts_with ''/'' p"

definition component_of :: "string \<Rightarrow> path_component" where
  "component_of s = (if s = ''..'' then ParentDir else Normal s)"

text \<open>\<open>Path::components\<close>: empty pieces vanish, and so does \<open>.\<close> unless it begins the path.\<close>

definition components :: "string \<Rightarrow> path_component list" where
  "components p =
     (let ps = split_on CHR ''/'' p;
          plain = map component_of (filter (\<lambda>s. s \<noteq> [] \<and> s \<noteq> ''.'') ps)
      in (if path_is_absolute p then RootDir # plain
          else if hd ps = ''.'' then CurDir # plain else plain))"

text \<open>\<open>Path::join\<close> and \<open>PathBuf::push\<close>.\<close>

definition path_join :: "string \<Rightarrow> string \<Rightarrow> string" where
  "path_join base p =
     (if path_is_absolute p \<or> base = [] then p
      else if List.last base = CHR ''/'' then base @ p
      else base @ ''/'' @ p)"

definition path_file_name :: "string \<Rightarrow> string option" where
  "path_file_name p =
     (case rev (components p) of Normal n # _ \<Rightarrow> Some n | _ \<Rightarrow> None)"

text \<open>
  \<open>Path::parent\<close>: the text without its last component, and without separators and \<open>.\<close>
  components at its end. The first function works on the reversed text.
\<close>

fun trim_back :: "string \<Rightarrow> string" where
  "trim_back (c # d # r) =
     (if c = CHR ''/'' \<or> c = CHR ''.'' \<and> d = CHR ''/'' then trim_back (d # r) else c # d # r)"
| "trim_back r = r"

definition path_parent :: "string \<Rightarrow> string option" where
  "path_parent p =
     (let r = trim_back (rev p) in
      if r = [] \<or> r = ''/'' then None
      else Some (rev (trim_back (dropWhile (\<lambda>c. c \<noteq> CHR ''/'') r))))"

definition path_extension :: "string \<Rightarrow> string option" where
  "path_extension p =
     (case path_file_name p of
        None \<Rightarrow> None
      | Some n \<Rightarrow>
          (case rsplit_once CHR ''.'' n of
             None \<Rightarrow> None
           | Some (stem, ext) \<Rightarrow> if stem = [] then None else Some ext))"

text \<open>\<open>Path::with_added_extension\<close>.\<close>

definition path_add_extension :: "string \<Rightarrow> string \<Rightarrow> string" where
  "path_add_extension p ext =
     (if path_file_name p = None then p else rev (trim_back (rev p)) @ ''.'' @ ext)"

section \<open>Plain relative paths\<close>

definition plain_name :: "string \<Rightarrow> bool" where
  "plain_name s = (s \<noteq> [] \<and> s \<noteq> ''.'' \<and> s \<noteq> ''..'' \<and> CHR ''/'' \<notin> set s)"

definition plain_path :: "string \<Rightarrow> bool" where
  "plain_path p = (\<exists>ns. ns \<noteq> [] \<and> list_all plain_name ns \<and> components p = map Normal ns \<and>
     p = join_with ''/'' ns)"

lemma component_of_Normal: "component_of s = Normal n \<longleftrightarrow> s = n \<and> n \<noteq> ''..''"
  by (auto simp: component_of_def)

lemma plain_name_ends:
  "plain_name s \<Longrightarrow> s \<noteq> [] \<and> hd s \<noteq> CHR ''/'' \<and> List.last s \<noteq> CHR ''/''"
  unfolding plain_name_def using hd_in_set last_in_set by metis

lemma join_with_ends:
  "list_all plain_name ns \<Longrightarrow> ns \<noteq> [] \<Longrightarrow>
     join_with ''/'' ns \<noteq> [] \<and> hd (join_with ''/'' ns) \<noteq> CHR ''/'' \<and>
     List.last (join_with ''/'' ns) \<noteq> CHR ''/''"
proof (induction "''/''" ns rule: join_with.induct)
  case (2 p)
  then show ?case by (simp add: plain_name_ends)
next
  case (3 p q qs)
  then show ?case using plain_name_ends [of p] by auto
qed simp

lemma join_with_relative:
  assumes "list_all plain_name ns" "ns \<noteq> []"
  shows "\<not> path_is_absolute (join_with ''/'' ns)"
  using join_with_ends [OF assms] by (auto simp: path_is_absolute_def starts_with_iff)

lemma components_join:
  assumes "list_all plain_name ns" "ns \<noteq> []"
  shows "components (join_with ''/'' ns) = map Normal ns"
proof -
  have s: "split_on CHR ''/'' (join_with ''/'' ns) = ns"
    using assms by (intro split_on_join) (auto simp: plain_name_def list_all_iff)
  have "\<not> path_is_absolute (join_with ''/'' ns)"
    using assms by (rule join_with_relative)
  moreover have "hd ns \<noteq> ''.''"
    using assms by (cases ns) (auto simp: plain_name_def)
  moreover have "filter (\<lambda>s. s \<noteq> [] \<and> s \<noteq> ''.'') ns = ns"
    using assms(1) by (intro filter_True) (auto simp: plain_name_def list_all_iff)
  moreover have "map component_of ns = map Normal ns"
    using assms(1) by (auto simp: plain_name_def list_all_iff component_of_def)
  ultimately show ?thesis by (simp add: components_def s)
qed

lemma plain_pathI: "list_all plain_name ns \<Longrightarrow> ns \<noteq> [] \<Longrightarrow> plain_path (join_with ''/'' ns)"
  unfolding plain_path_def using components_join by blast

lemma components_Normal:
  assumes "Normal n \<in> set (components p)"
  shows "plain_name n"
proof -
  have "n \<in> set (split_on CHR ''/'' p)" "n \<noteq> []" "n \<noteq> ''.''" "n \<noteq> ''..''"
    using assms by (auto simp: components_def Let_def component_of_def split: if_splits)
  then show ?thesis using split_on_pieces [of n "CHR ''/''" p] by (auto simp: plain_name_def)
qed

lemma components_RootDir: "RootDir \<in> set (components p) \<longleftrightarrow> path_is_absolute p"
  by (auto simp: components_def Let_def component_of_def)

text \<open>Pushing plain names one by one gives their joined form.\<close>

lemma fold_push_plain:
  assumes "list_all plain_name ns" "ns \<noteq> []"
  shows "foldl path_join [] ns = join_with ''/'' ns"
  using assms
proof (induction ns rule: rev_induct)
  case (snoc n ns)
  show ?case
  proof (cases "ns = []")
    case True
    then show ?thesis using snoc.prems by (simp add: path_join_def)
  next
    case False
    then have ih: "foldl path_join [] ns = join_with ''/'' ns"
      using snoc by simp
    have n: "plain_name n" using snoc.prems by simp
    have "List.last (join_with ''/'' ns) \<noteq> CHR ''/''" "join_with ''/'' ns \<noteq> []"
      using join_with_ends [of ns] snoc.prems False by auto
    moreover have "\<not> path_is_absolute n"
      using n by (auto simp: path_is_absolute_def starts_with_iff plain_name_def)
    ultimately have "path_join (join_with ''/'' ns) n = join_with ''/'' (ns @ [n])"
      using False by (simp add: path_join_def join_with_snoc)
    then show ?thesis by (simp add: ih)
  qed
qed simp

text \<open>A plain path joined to a directory stays below it.\<close>

lemma plain_path_below:
  assumes "plain_path p"
  shows "\<exists>pre. path_join base p = pre @ p \<and> (base \<noteq> [] \<longrightarrow> starts_with base pre)"
proof -
  have "\<not> path_is_absolute p"
    using assms join_with_relative by (auto simp: plain_path_def)
  then show ?thesis by (auto simp: path_join_def starts_with_iff)
qed

end
