(* ===== verification/Image_Slot.thy ===== *)
theory Image_Slot
  imports Codec Paths
begin

text \<open>
  Update slots of the image-based updater: versions (\<open>crates/ota-update/src/image/version.rs\<close>),
  logical volumes (\<open>lvm.rs\<close>), command lines (\<open>pipeline.rs\<close>) and slots (\<open>slot.rs\<close>), whose kind
  and status are encoded in the name of their volume.
\<close>

section \<open>Versions and volumes\<close>

record version =
  ver_revision :: string
  ver_hash :: "string option"

abbreviation mk_version :: "string \<Rightarrow> string option \<Rightarrow> version" where
  "mk_version r h \<equiv> \<lparr>ver_revision = r, ver_hash = h\<rparr>"

definition has_hash :: "version \<Rightarrow> bool" where
  "has_hash v = (ver_hash v \<noteq> None)"

text \<open>\<open>Display\<close> of a version, plain and in its alternate form.\<close>

definition version_display :: "version \<Rightarrow> string" where
  "version_display v = ver_revision v"

definition version_display_alt :: "version \<Rightarrow> string" where
  "version_display_alt v = ver_revision v @ (case ver_hash v of Some hash \<Rightarrow> ''-'' @ hash | None \<Rightarrow> [])"

record volume =
  lv_name :: string
  vg_name :: string
  lv_attr :: "string option"
  lv_size_bytes :: "u64 option"

definition device_file :: "volume \<Rightarrow> string" where
  "device_file v = path_join ''/dev/mapper'' (vg_name v @ ''-'' @ lv_name v)"

text \<open>The report of \<open>lvs\<close> as \<open>serde_json\<close> delivers it: the volumes of all its parts.\<close>

definition lvs_volumes :: "volume list list \<Rightarrow> volume list" where
  "lvs_volumes report = concat report"

section \<open>Commands\<close>

record command_spec =
  cs_program :: string
  cs_args :: "string list"

abbreviation cmd :: "string \<Rightarrow> string list \<Rightarrow> command_spec" where
  "cmd p as \<equiv> \<lparr>cs_program = p, cs_args = as\<rparr>"

record pipeline =
  pl_stages :: "command_spec list"

definition pipeline_new :: "command_spec \<Rightarrow> pipeline" where
  "pipeline_new first = \<lparr>pl_stages = [first]\<rparr>"

definition pipe :: "pipeline \<Rightarrow> command_spec \<Rightarrow> pipeline" where
  "pipe p next = \<lparr>pl_stages = pl_stages p @ [next]\<rparr>"

text \<open>\<open>escape\<close> is the function of the crate \<open>shell_escape\<close>.\<close>

definition format_shell :: "(string \<Rightarrow> string) \<Rightarrow> pipeline \<Rightarrow> string" where
  "format_shell escape p = join_with '' | ''
     (map (\<lambda>c. cs_program c @ concat (map (\<lambda>a. '' '' @ escape a) (cs_args c))) (pl_stages p))"

section \<open>Slots\<close>

datatype kind = Root | Verity

fun kind_display :: "kind \<Rightarrow> string" where
  "kind_display Root = ''root''"
| "kind_display Verity = ''verity''"

definition kind_from_str :: "string \<Rightarrow> kind option" where
  "kind_from_str s = (if s = ''root'' then Some Root else if s = ''verity'' then Some Verity else None)"

datatype empty_id = Known string | LegacyId

datatype slot_status = Used version | Empty empty_id

record slot =
  sl_kind :: kind
  sl_status :: slot_status
  sl_volume :: volume

datatype slot_class = Broken | Active | EmptySlot | Inactive

definition decode_status :: "string \<Rightarrow> (kind \<times> slot_status) result" where
  "decode_status value =
     (case rsplitn 3 CHR ''_'' value of
        [] \<Rightarrow> Inl (Msg ''empty input'')
      | [_] \<Rightarrow> Inl (Msg ''missing version'')
      | lastp # middle # rest \<Rightarrow>
          let (name, version_raw, hash_or_id) =
                (case rest of [] \<Rightarrow> (middle, lastp, None) | name # _ \<Rightarrow> (name, middle, Some lastp))
          in
          rbind (ensure (name \<noteq> []) ''name is empty'') (\<lambda>_.
          let status =
                (if version_raw = ''empty'' then
                   Empty (case hash_or_id of Some ident \<Rightarrow> Known ident | None \<Rightarrow> LegacyId)
                 else Used (mk_version version_raw hash_or_id))
          in
          rbind (ok_or (kind_from_str name) (Msg ''Matching variant not found'')) (\<lambda>kind.
            Inr (kind, status))))"

fun from_volumes :: "volume list \<Rightarrow> slot list \<times> volume list" where
  "from_volumes [] = ([], [])"
| "from_volumes (volume # vols) =
     (case from_volumes vols of (slots, unparsed) \<Rightarrow>
        (case decode_status (lv_name volume) of
           Inr (kind, status) \<Rightarrow> (\<lparr>sl_kind = kind, sl_status = status, sl_volume = volume\<rparr> # slots, unparsed)
         | Inl _ \<Rightarrow> (slots, volume # unparsed)))"

fun status_suffix :: "slot_status \<Rightarrow> string" where
  "status_suffix (Used v) = ver_revision v @ (case ver_hash v of Some h \<Rightarrow> ''_'' @ h | None \<Rightarrow> [])"
| "status_suffix (Empty (Known ident)) = ''empty_'' @ ident"
| "status_suffix (Empty LegacyId) = ''empty''"

definition slot_name :: "kind \<times> slot_status \<Rightarrow> string" where
  "slot_name ks = kind_display (fst ks) @ ''_'' @ status_suffix (snd ks)"

definition slot_display :: "slot \<Rightarrow> string" where
  "slot_display s = slot_name (sl_kind s, sl_status s)"

definition slot_is_empty :: "slot \<Rightarrow> bool" where
  "slot_is_empty s = (case sl_status s of Empty _ \<Rightarrow> True | Used _ \<Rightarrow> False)"

definition slot_is_used :: "slot \<Rightarrow> bool" where
  "slot_is_used s = (case sl_status s of Used _ \<Rightarrow> True | Empty _ \<Rightarrow> False)"

definition slot_is_legacy :: "slot \<Rightarrow> bool" where
  "slot_is_legacy s =
     (case sl_status s of
        Used version \<Rightarrow> \<not> has_hash version
      | Empty LegacyId \<Rightarrow> True
      | Empty (Known _) \<Rightarrow> False)"

definition slot_empty_id :: "slot \<Rightarrow> string option" where
  "slot_empty_id s = (case sl_status s of Empty (Known known) \<Rightarrow> Some known | _ \<Rightarrow> None)"

definition slot_version :: "slot \<Rightarrow> version option" where
  "slot_version s = (case sl_status s of Used version \<Rightarrow> Some version | _ \<Rightarrow> None)"

definition into_version :: "slot \<Rightarrow> version \<Rightarrow> slot result" where
  "into_version s version =
     rbind (ensure (\<not> slot_is_used s) ''Can't assign version to already used slot'') (\<lambda>_.
       Inr (s\<lparr>sl_status := Used version\<rparr>))"

definition into_empty :: "slot \<Rightarrow> string \<Rightarrow> slot" where
  "into_empty s identifier = s\<lparr>sl_status := Empty (Known identifier)\<rparr>"

definition slot_rename :: "slot \<Rightarrow> pipeline" where
  "slot_rename s = pipeline_new
     (cmd ''lvrename'' [vg_name (sl_volume s), lv_name (sl_volume s), slot_display s])"

definition slot_matches :: "slot \<Rightarrow> slot \<Rightarrow> bool" where
  "slot_matches s other = (sl_status s = sl_status other)"

section \<open>Slot names\<close>

text \<open>
  The names that can be read back: no underscore inside the parts, and no revision
  called \<open>empty\<close>.
\<close>

fun slot_wf :: "slot_status \<Rightarrow> bool" where
  "slot_wf (Used v) =
     (CHR ''_'' \<notin> set (ver_revision v) \<and> ver_revision v \<noteq> ''empty'' \<and>
      (case ver_hash v of Some h \<Rightarrow> CHR ''_'' \<notin> set h | None \<Rightarrow> True))"
| "slot_wf (Empty (Known ident)) = (CHR ''_'' \<notin> set ident)"
| "slot_wf (Empty LegacyId) = True"

lemma kind_from_str_iff [simp]: "kind_from_str s = Some k \<longleftrightarrow> s = kind_display k"
  by (cases k) (auto simp: kind_from_str_def)

lemma kind_from_str_display [simp]: "kind_from_str (kind_display k) = Some k"
  by simp

lemma kind_display_chars [simp]: "CHR ''_'' \<notin> set (kind_display k)" "kind_display k \<noteq> []"
  by (cases k; simp)+

lemma rsplitn_3:
  "CHR ''_'' \<notin> set lastp \<Longrightarrow> CHR ''_'' \<notin> set middle \<Longrightarrow>
     rsplitn 3 CHR ''_'' (name @ CHR ''_'' # middle @ CHR ''_'' # lastp) = [lastp, middle, name]"
  "CHR ''_'' \<notin> set lastp \<Longrightarrow> CHR ''_'' \<notin> set middle \<Longrightarrow>
     rsplitn 3 CHR ''_'' (middle @ CHR ''_'' # lastp) = [lastp, middle]"
  using rsplit_once_notin [of "CHR ''_''" lastp "name @ CHR ''_'' # middle"]
  by (simp_all add: numeral_3_eq_3 rsplit_once_notin)

lemma decode_slot_name: "slot_wf st \<Longrightarrow> decode_status (slot_name (k, st)) = Inr (k, st)"
proof (cases st)
  case (Used v)
  assume "slot_wf st"
  then show ?thesis
    using Used by (cases v; cases "ver_hash v") (simp_all add: slot_name_def decode_status_def rsplitn_3 ensure_def)
next
  case (Empty e)
  assume "slot_wf st"
  then show ?thesis
    using Empty rsplitn_3(1) [of _ "''empty''" "kind_display k"] rsplitn_3(2) [of "''empty''" "kind_display k"]
    by (cases e) (simp_all add: slot_name_def decode_status_def ensure_def)
qed

lemma slot_name_decode:
  assumes "decode_status s = Inr (k, st)"
  shows "slot_wf st \<and> slot_name (k, st) = s"
proof (cases "rsplit_once CHR ''_'' s")
  case None
  then show ?thesis using assms by (simp add: decode_status_def numeral_3_eq_3 del: rsplit_once_None)
next
  case (Some lr)
  then obtain l lastp where s: "rsplit_once CHR ''_'' s = Some (l, lastp)" by (cases lr) auto
  then have sl: "s = l @ CHR ''_'' # lastp" "CHR ''_'' \<notin> set lastp" by (simp_all add: rsplit_once_Some)
  show ?thesis
  proof (cases "rsplit_once CHR ''_'' l")
    case None
    then have l: "CHR ''_'' \<notin> set l" by simp
    then have "rsplitn 3 CHR ''_'' s = [lastp, l]" using sl rsplitn_3(2) by simp
    then show ?thesis
      using assms sl l
      by (auto simp: decode_status_def result_simps slot_name_def split: if_splits)
  next
    case (Some nm)
    then obtain name middle where l: "rsplit_once CHR ''_'' l = Some (name, middle)" by (cases nm) auto
    then have lm: "l = name @ CHR ''_'' # middle" "CHR ''_'' \<notin> set middle"
      by (simp_all add: rsplit_once_Some)
    then have "rsplitn 3 CHR ''_'' s = [lastp, middle, name]" using sl rsplitn_3(1) by simp
    then show ?thesis
      using assms sl lm
      by (auto simp: decode_status_def result_simps slot_name_def split: if_splits)
  qed
qed

interpretation sln: codec slot_name "\<lambda>s. result_ok (decode_status s)" "\<lambda>ks. slot_wf (snd ks)"
  by unfold_locales (auto simp: decode_slot_name dest: slot_name_decode)

lemma decode_status_iff: "decode_status s = Inr (k, st) \<longleftrightarrow> slot_wf st \<and> s = slot_name (k, st)"
  using decode_slot_name slot_name_decode by auto

section \<open>Scanning volumes\<close>

lemma from_volumes_Cons:
  "fst (from_volumes (v # vs)) =
     (case decode_status (lv_name v) of
        Inr (k, st) \<Rightarrow> \<lparr>sl_kind = k, sl_status = st, sl_volume = v\<rparr> # fst (from_volumes vs)
      | Inl _ \<Rightarrow> fst (from_volumes vs))"
  by (simp split: sum.splits prod.splits)

text \<open>Every slot was read from the name of its volume.\<close>

definition slot_ok :: "slot \<Rightarrow> bool" where
  "slot_ok s = (slot_wf (sl_status s) \<and> lv_name (sl_volume s) = slot_display s)"

lemma from_volumes_ok: "s \<in> set (fst (from_volumes vs)) \<Longrightarrow> slot_ok s \<and> sl_volume s \<in> set vs"
  by (induction vs)
    (auto simp: slot_ok_def slot_display_def decode_status_iff split: sum.splits prod.splits)

lemma from_volumes_single:
  "slot_wf st \<Longrightarrow> lv_name v = slot_name (k, st) \<Longrightarrow>
     from_volumes [v] = ([\<lparr>sl_kind = k, sl_status = st, sl_volume = v\<rparr>], [])"
  by (simp add: decode_slot_name)

lemma slot_predicates [simp]:
  "slot_is_used s \<longleftrightarrow> \<not> slot_is_empty s"
  "slot_is_empty s \<longleftrightarrow> slot_version s = None"
  by (auto simp: slot_is_used_def slot_is_empty_def slot_version_def split: slot_status.splits)

end
