(* ===== verification/Bootctl.thy ===== *)
theory Bootctl
  imports Paths
begin

text \<open>
  The boot loader's entries as \<open>bootctl\<close> reports them (\<open>crates/ota-update/src/bootctl.rs\<close>).
  Reading JSON is the business of \<open>serde_json\<close>: \<open>json\<close> splits the report into its items,
  \<open>key_of\<close> is the string an item has under \<open>sortKey\<close>, \<open>decode\<close> decodes items.
\<close>

record bootctl_addon =
  ba_global_addon :: "string option"
  ba_local_addon :: "string option"
  ba_options :: string

record bootctl_item =
  bi_type :: string
  bi_source :: string
  bi_id :: string
  bi_path :: string
  bi_root :: string
  bi_title :: string
  bi_show_title :: string
  bi_sort_key :: string
  bi_version :: string
  bi_machine_id :: "string option"
  bi_options :: string
  bi_linux :: "string option"
  bi_efi :: "string option"
  bi_initrd :: "string list option"
  bi_is_reported :: bool
  bi_is_default :: bool
  bi_is_selected :: bool
  bi_addons :: "bootctl_addon list option"
  bi_cmdline :: string

text \<open>What a finished process leaves: its exit code (none when it was killed) and output.\<close>

record process_output =
  po_code :: "int option"
  po_stdout :: string
  po_stderr :: string

definition parse_bootctl ::
  "(string \<Rightarrow> 'j list result) \<Rightarrow> ('j \<Rightarrow> string option) \<Rightarrow> ('j list \<Rightarrow> bootctl_item list result) \<Rightarrow>
   string \<Rightarrow> bootctl_item list result" where
  "parse_bootctl json key_of decode input =
     rbind (with_context ''Parsing bootctl output'' (json input)) (\<lambda>info.
       with_context ''While decoding bootctl json output''
         (decode (filter (\<lambda>item. key_of item = Some ''nixos'') info)))"

text \<open>
  \<open>get_bootctl_info\<close> on the outcome of running \<open>bootctl list --json short\<close>; on a machine
  without an EFI partition the tool fails and mentions \<open>--esp-path\<close>, which is no error.
\<close>

definition get_bootctl_info ::
  "(string \<Rightarrow> bootctl_item list result) \<Rightarrow> process_output result \<Rightarrow> bootctl_item list result" where
  "get_bootctl_info parse bootctl =
     rbind bootctl (\<lambda>out.
     rbind (ok_or (po_code out) (Msg ''bootctl crashed/killed by signal'')) (\<lambda>code.
       if code = 0 then parse (po_stdout out)
       else if sublist ''--esp-path'' (po_stderr out) then Inr []
       else Inl (Msg (''bootctl failed with exit code '' @ show_i32 code @
                      '', and stderr output: '' @ po_stderr out))))"

definition find_init :: "bootctl_item \<Rightarrow> string option" where
  "find_init item =
     (case List.map_filter (strip_prefix ''init='') (split_whitespace (bi_cmdline item)) of
        [] \<Rightarrow> None | i # _ \<Rightarrow> Some i)"

end
