(* ===== verification/Image_Uki.thy ===== *)
theory Image_Uki
  imports Image_Slot Bootctl
begin

text \<open>
  Boot entries (\<open>crates/ota-update/src/image/uki.rs\<close>): the file name of a unified kernel image
  carries the version of its slot and the boot counters of the boot loader.
\<close>

record boot_counter =
  bc_remaining :: u32
  bc_used :: "u32 option"

record uki_entry =
  ue_version :: version
  ue_boot_counter :: "boot_counter option"

datatype boot_entry_kind = ManagedUki uki_entry | UnmanagedUki | LegacyBoot

record boot_entry =
  be_id :: string
  be_kind :: boot_entry_kind

definition counter_display :: "boot_counter \<Rightarrow> string" where
  "counter_display c = ''+'' @ show_nat (unat (bc_remaining c)) @
     (case bc_used c of Some used \<Rightarrow> ''-'' @ show_nat (unat used) | None \<Rightarrow> [])"

definition uki_display :: "uki_entry \<Rightarrow> string" where
  "uki_display u = ''ghaf-'' @ version_display_alt (ue_version u) @
     (case ue_boot_counter u of Some counter \<Rightarrow> counter_display counter | None \<Rightarrow> []) @ ''.efi''"

definition boot_entry_display :: "boot_entry \<Rightarrow> string" where
  "boot_entry_display b =
     (case be_kind b of
        ManagedUki uki \<Rightarrow> ''managed: '' @ uki_display uki @ '' [id='' @ be_id b @ '']''
      | UnmanagedUki \<Rightarrow> ''unmanaged: id='' @ be_id b
      | LegacyBoot \<Rightarrow> ''legacy: id='' @ be_id b)"

definition parse_counter :: "string \<Rightarrow> boot_counter result" where
  "parse_counter right =
     (case split_once CHR ''-'' right of
        Some (r, u) \<Rightarrow>
          rbind (ok_or (parse_u32 r) (Msg ''invalid remaining counter'')) (\<lambda>remaining.
          rbind (ok_or (parse_u32 u) (Msg ''invalid used counter'')) (\<lambda>used.
            Inr \<lparr>bc_remaining = remaining, bc_used = Some used\<rparr>))
      | None \<Rightarrow>
          rbind (ok_or (parse_u32 right) (Msg ''invalid remaining counter'')) (\<lambda>remaining.
            Inr \<lparr>bc_remaining = remaining, bc_used = None\<rparr>))"

definition uki_from_str :: "string \<Rightarrow> uki_entry result" where
  "uki_from_str name =
     (let n = length name - 4 in
      rbind (ensure (eq_ignore_ascii_case (drop n name) ''.efi'') ''Not an EFI'') (\<lambda>_.
      rbind (ok_or (strip_prefix ''ghaf-'' (take n name)) (Msg ''invalid UKI prefix'')) (\<lambda>stem.
      rbind (case rsplit_once CHR ''+'' stem of
               Some (left, right) \<Rightarrow> rbind (parse_counter right) (\<lambda>c. Inr (left, Some c))
             | None \<Rightarrow> Inr (stem, None)) (\<lambda>(core, boot_counter).
      rbind (ok_or (split_once CHR ''-'' core) (Msg ''missing version/hash'')) (\<lambda>(version, hash).
        if version = ''empty'' then Inl (Msg (''UKI version must not be '' @ quoted ''empty''))
        else Inr \<lparr>ue_version = mk_version version (Some hash), ue_boot_counter = boot_counter\<rparr>)))))"

definition boot_entry_of_item :: "bootctl_item \<Rightarrow> boot_entry option" where
  "boot_entry_of_item item =
     (if bi_type item = ''type2'' then
        Some \<lparr>be_id = bi_id item,
              be_kind = (case uki_from_str (bi_id item) of Inr uki \<Rightarrow> ManagedUki uki | Inl _ \<Rightarrow> UnmanagedUki)\<rparr>
      else if bi_type item = ''type1'' then Some \<lparr>be_id = bi_id item, be_kind = LegacyBoot\<rparr>
      else None)"

definition from_bootctl :: "bootctl_item list \<Rightarrow> boot_entry list" where
  "from_bootctl items = List.map_filter boot_entry_of_item items"

definition boot_is_managed :: "boot_entry \<Rightarrow> bool" where
  "boot_is_managed b = (case be_kind b of ManagedUki _ \<Rightarrow> True | _ \<Rightarrow> False)"

definition boot_is_legacy :: "boot_entry \<Rightarrow> bool" where
  "boot_is_legacy b = (case be_kind b of LegacyBoot \<Rightarrow> True | _ \<Rightarrow> False)"

definition boot_uki :: "boot_entry \<Rightarrow> uki_entry option" where
  "boot_uki b = (case be_kind b of ManagedUki uki \<Rightarrow> Some uki | _ \<Rightarrow> None)"

definition boot_version :: "boot_entry \<Rightarrow> version option" where
  "boot_version b = map_option ue_version (boot_uki b)"

definition uki_matches :: "uki_entry \<Rightarrow> slot \<Rightarrow> bool" where
  "uki_matches u s = (slot_version s = Some (ue_version u))"

definition boot_matches :: "boot_entry \<Rightarrow> slot \<Rightarrow> bool" where
  "boot_matches b s = (case be_kind b of ManagedUki uki \<Rightarrow> uki_matches uki s | _ \<Rightarrow> False)"

definition boot_to_remove :: "boot_entry \<Rightarrow> pipeline" where
  "boot_to_remove b = pipeline_new (cmd ''bootctl'' [''unlink'', be_id b])"

definition boot_entry_from_uki :: "uki_entry \<Rightarrow> boot_entry" where
  "boot_entry_from_uki uki = \<lparr>be_id = uki_display uki, be_kind = ManagedUki uki\<rparr>"

definition uki_full_name :: "string \<Rightarrow> uki_entry \<Rightarrow> string" where
  "uki_full_name base_dir u = path_join base_dir (uki_display u)"

section \<open>File names\<close>

text \<open>
  The entries whose name can be read back: a hash is present, the revision has no dash and is
  not \<open>empty\<close>, and without counters no plus sign is left that would look like one.
\<close>

definition uki_wf :: "uki_entry \<Rightarrow> bool" where
  "uki_wf u =
     (case ver_hash (ue_version u) of
        None \<Rightarrow> False
      | Some h \<Rightarrow>
          CHR ''-'' \<notin> set (ver_revision (ue_version u)) \<and> ver_revision (ue_version u) \<noteq> ''empty'' \<and>
          (ue_boot_counter u = None \<longrightarrow>
             CHR ''+'' \<notin> set (ver_revision (ue_version u)) \<and> CHR ''+'' \<notin> set h))"

lemma parse_counter_display: "parse_counter (tl (counter_display c)) = Inr c"
  by (cases c; cases "bc_used c")
    (simp_all add: counter_display_def parse_counter_def split_once_notin digit_not_in_show_nat
      parse_u32_show)

lemma counter_display_plus:
  "\<exists>d. counter_display c = CHR ''+'' # d \<and> CHR ''+'' \<notin> set d \<and> parse_counter d = Inr c"
  using parse_counter_display [of c]
  by (cases "bc_used c") (auto simp: counter_display_def digit_not_in_show_nat)

lemma uki_from_str_stem:
  "uki_from_str (''ghaf-'' @ stem @ ''.efi'') =
     rbind (case rsplit_once CHR ''+'' stem of
              Some (left, right) \<Rightarrow> rbind (parse_counter right) (\<lambda>c. Inr (left, Some c))
            | None \<Rightarrow> Inr (stem, None)) (\<lambda>(core, boot_counter).
     rbind (ok_or (split_once CHR ''-'' core) (Msg ''missing version/hash'')) (\<lambda>(version, hash).
       if version = ''empty'' then Inl (Msg (''UKI version must not be '' @ quoted ''empty''))
       else Inr \<lparr>ue_version = mk_version version (Some hash), ue_boot_counter = boot_counter\<rparr>))"
proof -
  have "strip_prefix ''ghaf-'' (''ghaf-'' @ stem) = Some stem" by (rule strip_prefix_append)
  then show ?thesis by (simp add: uki_from_str_def Let_def ensure_def)
qed

interpretation ukn: printer uki_display "\<lambda>s. result_ok (uki_from_str s)" uki_wf
proof unfold_locales
  fix u
  assume wf: "uki_wf u"
  then obtain r h where v: "ue_version u = mk_version r (Some h)"
    and r: "CHR ''-'' \<notin> set r" "r \<noteq> ''empty''"
    by (cases "ue_version u") (auto simp: uki_wf_def split: option.splits)
  then have core: "split_once CHR ''-'' (version_display_alt (ue_version u)) = Some (r, h)"
    by (simp add: version_display_alt_def split_once_notin)
  show "result_ok (uki_from_str (uki_display u)) = Some u"
  proof (cases "ue_boot_counter u")
    case None
    then have "CHR ''+'' \<notin> set (version_display_alt (ue_version u))"
      using wf v by (simp add: uki_wf_def version_display_alt_def)
    with None core r show ?thesis
      using uki_from_str_stem [of "version_display_alt (ue_version u)"] v
      by (cases u) (simp add: uki_display_def)
  next
    case (Some c)
    obtain d where d: "counter_display c = CHR ''+'' # d" "CHR ''+'' \<notin> set d" "parse_counter d = Inr c"
      using counter_display_plus by blast
    with Some core r show ?thesis
      using uki_from_str_stem [of "version_display_alt (ue_version u) @ CHR ''+'' # d"] v
      by (cases u) (simp add: uki_display_def rsplit_once_notin)
  qed
qed

text \<open>Whatever is read has a version with a hash.\<close>

lemma uki_from_str_Inr:
  assumes "uki_from_str s = Inr u"
  shows "\<exists>h. ver_hash (ue_version u) = Some h" "ver_revision (ue_version u) \<noteq> ''empty''"
    "CHR ''-'' \<notin> set (ver_revision (ue_version u))"
  using assms
  by (auto simp: uki_from_str_def Let_def result_simps split_once_Some split: prod.splits if_splits)

lemma from_bootctl_managed:
  "b \<in> set (from_bootctl items) \<Longrightarrow> boot_is_managed b \<Longrightarrow> \<exists>v. boot_version b = Some v \<and> ver_hash v \<noteq> None"
  by (auto simp: from_bootctl_def List.map_filter_def boot_entry_of_item_def boot_is_managed_def
      boot_version_def boot_uki_def dest: uki_from_str_Inr(1) split: if_splits sum.splits)

end
