(* ===== verification/Image_Group.thy ===== *)
theory Image_Group
  imports Image_Uki
begin

text \<open>
  Slot groups (\<open>crates/ota-update/src/image/group.rs\<close>): the root volume, the verity volume and
  the boot entry that belong together. \<open>group_volumes\<close> collects them by searching a growing
  list; it is shown to compute the partition of the slots by their status.
\<close>

section \<open>Kernel parameters\<close>

text \<open>
  \<open>KernelParams\<close> of \<open>runtime.rs\<close>, which decides what is active. A hash on the command line has
  64 hexadecimal digits, so taking 16 of them cannot fail.
\<close>

record kernel_params =
  kp_store_hash :: "string option"
  kp_revision :: "string option"

definition find_arg :: "string \<Rightarrow> string \<Rightarrow> string option" where
  "find_arg cmdline key =
     map_option snd (find (\<lambda>(k, _). k = key) (List.map_filter (split_once CHR ''='') (split_whitespace cmdline)))"

definition from_cmdline :: "string \<Rightarrow> kernel_params result" where
  "from_cmdline cmdline =
     (let store_hash = find_arg cmdline ''ghaf.storehash'' in
      rbind (ensure (case store_hash of None \<Rightarrow> True
               | Some hash \<Rightarrow> list_all is_ascii_hexdigit hash \<and> length hash = 64) ''Invalid verity hash'') (\<lambda>_.
        Inr \<lparr>kp_store_hash = store_hash, kp_revision = find_arg cmdline ''ghaf.revision''\<rparr>))"

definition verity_hash_fragment :: "kernel_params \<Rightarrow> string option" where
  "verity_hash_fragment k = map_option (take 16) (kp_store_hash k)"

definition kernel_to_version :: "kernel_params \<Rightarrow> version option" where
  "kernel_to_version k = map_option (\<lambda>r. mk_version r (verity_hash_fragment k)) (kp_revision k)"

section \<open>Groups\<close>

record slot_group =
  sg_root :: "slot option"
  sg_verity :: "slot option"
  sg_boot :: "boot_entry option"

definition slot_group_default :: slot_group where
  "slot_group_default = \<lparr>sg_root = None, sg_verity = None, sg_boot = None\<rparr>"

definition matches_slot :: "slot_group \<Rightarrow> slot \<Rightarrow> bool" where
  "matches_slot g s =
     (is_some_and (sg_root g) (\<lambda>r. slot_matches r s) \<or> is_some_and (sg_verity g) (\<lambda>v. slot_matches v s))"

definition matches_boot :: "slot_group \<Rightarrow> boot_entry \<Rightarrow> bool" where
  "matches_boot g b =
     is_some_and (sg_root g) (\<lambda>r. slot_version r = boot_version b \<or>
       is_some_and (sg_verity g) (\<lambda>v. slot_version v = boot_version b))"

definition attach_slot :: "slot \<Rightarrow> slot_group \<Rightarrow> slot_group result" where
  "attach_slot s g =
     (case sl_kind s of
        Root \<Rightarrow>
          rbind (ensure (sg_root g = None) ''Duplicate root slot in group'') (\<lambda>_. Inr (g\<lparr>sg_root := Some s\<rparr>))
      | Verity \<Rightarrow>
          rbind (ensure (sg_verity g = None) ''Duplicate verity slot in group'') (\<lambda>_. Inr (g\<lparr>sg_verity := Some s\<rparr>)))"

text \<open>\<open>iter_mut().find\<close>: the change of the first element that satisfies the predicate.\<close>

fun change_first :: "('a \<Rightarrow> bool) \<Rightarrow> ('a \<Rightarrow> 'a result) \<Rightarrow> 'a list \<Rightarrow> 'a list result option" where
  "change_first p f [] = None"
| "change_first p f (g # gs) =
     (if p g then Some (rbind (f g) (\<lambda>g'. Inr (g' # gs)))
      else map_option (\<lambda>r. rbind r (\<lambda>gs'. Inr (g # gs'))) (change_first p f gs))"

definition add_slot :: "slot \<Rightarrow> slot_group list \<Rightarrow> slot_group list result" where
  "add_slot s groups =
     (case change_first (\<lambda>g. matches_slot g s) (attach_slot s) groups of
        Some r \<Rightarrow> r
      | None \<Rightarrow> rbind (attach_slot s slot_group_default) (\<lambda>g. Inr (groups @ [g])))"

definition attach_boot :: "boot_entry \<Rightarrow> slot_group \<Rightarrow> slot_group result" where
  "attach_boot b g =
     (if sg_boot g \<noteq> None then
        (case boot_version b of
           None \<Rightarrow> Inl (Panic ''Invalid state: attached UKI have no version'')
         | Some v \<Rightarrow> Inl (Msg (''invalid state: multiple UKIs for version='' @ version_display v)))
      else Inr (g\<lparr>sg_boot := Some b\<rparr>))"

definition add_boot :: "boot_entry \<Rightarrow> slot_group list \<Rightarrow> slot_group list result" where
  "add_boot b groups =
     (case change_first (\<lambda>g. matches_boot g b) (attach_boot b) groups of
        Some r \<Rightarrow> r
      | None \<Rightarrow> Inr (groups @ [\<lparr>sg_root = None, sg_verity = None, sg_boot = Some b\<rparr>]))"

definition group_volumes :: "slot list \<Rightarrow> boot_entry list \<Rightarrow> slot_group list result" where
  "group_volumes slots boots = rbind (rfold add_slot slots []) (rfold add_boot boots)"

definition group_version :: "slot_group \<Rightarrow> version option" where
  "group_version g =
     (case sg_root g of
        Some root \<Rightarrow> slot_version root
      | None \<Rightarrow>
          (case sg_verity g of
             Some verity \<Rightarrow> slot_version verity
           | None \<Rightarrow> (case sg_boot g of Some boot \<Rightarrow> boot_version boot | None \<Rightarrow> None)))"

definition group_empty_id :: "slot_group \<Rightarrow> string option" where
  "group_empty_id g =
     (case sg_root g of
        Some root \<Rightarrow> slot_empty_id root
      | None \<Rightarrow> (case sg_verity g of Some verity \<Rightarrow> slot_empty_id verity | None \<Rightarrow> None))"

definition group_is_empty :: "slot_group \<Rightarrow> bool" where
  "group_is_empty g =
     ((case sg_root g of Some root \<Rightarrow> slot_is_empty root | None \<Rightarrow> True) \<and>
      (case sg_verity g of Some verity \<Rightarrow> slot_is_empty verity | None \<Rightarrow> True) \<and>
      (sg_root g \<noteq> None \<or> sg_verity g \<noteq> None))"

definition group_is_used :: "slot_group \<Rightarrow> bool" where
  "group_is_used g =
     (is_some_and (sg_root g) (\<lambda>s. \<not> slot_is_empty s) \<or>
      is_some_and (sg_verity g) (\<lambda>s. \<not> slot_is_empty s) \<or> sg_boot g \<noteq> None)"

definition group_is_complete :: "slot_group \<Rightarrow> bool" where
  "group_is_complete g = (sg_root g \<noteq> None \<and> sg_verity g \<noteq> None)"

definition group_is_legacy :: "slot_group \<Rightarrow> bool" where
  "group_is_legacy g = (is_some_and (sg_root g) slot_is_legacy \<or> is_some_and (sg_verity g) slot_is_legacy)"

definition group_is_active :: "kernel_params \<Rightarrow> slot_group \<Rightarrow> bool" where
  "group_is_active kp g =
     (case (group_version g, kernel_to_version kp) of
        (Some slot_v, Some kernel_v) \<Rightarrow> slot_v = kernel_v
      | (Some _, None) \<Rightarrow> group_is_legacy g
      | _ \<Rightarrow> False)"

definition group_validate :: "slot_group \<Rightarrow> unit result" where
  "group_validate g =
     rbind (case (sg_root g, sg_verity g) of
              (Some root, Some verity) \<Rightarrow>
                ensure (slot_matches root verity)
                  (''root and verity slots do not match: '' @ slot_display root @ '' vs '' @ slot_display verity)
            | _ \<Rightarrow> Inr ()) (\<lambda>_.
     rbind (case sg_boot g of
              Some boot \<Rightarrow>
                rbind (case sg_root g of
                         Some root \<Rightarrow> ensure (boot_matches boot root)
                           (''UKI does not match root slot: '' @ boot_entry_display boot @ '' vs '' @ slot_display root)
                       | None \<Rightarrow> Inr ()) (\<lambda>_.
                  case sg_verity g of
                    Some verity \<Rightarrow> ensure (boot_matches boot verity)
                      (''UKI does not match verity slot: '' @ boot_entry_display boot @ '' vs '' @ slot_display verity)
                  | None \<Rightarrow> Inr ())
            | None \<Rightarrow> Inr ()) (\<lambda>_.
       ensure (group_is_empty g \<and> sg_boot g \<noteq> None) ''empty slot group contains UKI''))"

definition classify :: "kernel_params \<Rightarrow> slot_group \<Rightarrow> slot_class" where
  "classify kp g =
     (if \<not> is_ok (group_validate g) then Broken
      else if group_is_active kp g then Active
      else if group_is_empty g then EmptySlot
      else Inactive)"

definition attach_uki :: "uki_entry \<Rightarrow> slot_group \<Rightarrow> slot_group result" where
  "attach_uki uki g =
     rbind (ensure (sg_boot g = None) ''Already have UKI (state error)'') (\<lambda>_.
       Inr (g\<lparr>sg_boot := Some (boot_entry_from_uki uki)\<rparr>))"

section \<open>Grouping is partitioning by status\<close>

text \<open>
  The reference: the statuses in the order of their first slot, and for each the slot of
  either kind.
\<close>

definition status_order :: "slot list \<Rightarrow> slot_status list" where
  "status_order slots = rev (remdups (rev (map sl_status slots)))"

definition pick :: "kind \<Rightarrow> slot_status \<Rightarrow> slot list \<Rightarrow> slot option" where
  "pick k st slots = find (\<lambda>s. sl_kind s = k \<and> sl_status s = st) slots"

definition status_group :: "slot list \<Rightarrow> slot_status \<Rightarrow> slot_group" where
  "status_group slots st = \<lparr>sg_root = pick Root st slots, sg_verity = pick Verity st slots, sg_boot = None\<rparr>"

definition status_groups :: "slot list \<Rightarrow> slot_group list" where
  "status_groups slots = map (status_group slots) (status_order slots)"

text \<open>No two slots of the same kind and status.\<close>

definition distinct_slots :: "slot list \<Rightarrow> bool" where
  "distinct_slots slots = distinct (map (\<lambda>s. (sl_kind s, sl_status s)) slots)"

lemma status_order_snoc:
  "status_order (xs @ [s]) =
     (if sl_status s \<in> sl_status ` set xs then status_order xs else status_order xs @ [sl_status s])"
  by (simp add: status_order_def)

lemma status_order_set [simp]: "set (status_order xs) = sl_status ` set xs"
  by (simp add: status_order_def)

lemma status_order_distinct [simp]: "distinct (status_order xs)"
  by (simp add: status_order_def)

lemma pick_Some:
  "pick k st xs = Some s \<Longrightarrow> s \<in> set xs \<and> sl_kind s = k \<and> sl_status s = st"
  unfolding pick_def by (drule find_Some_in) simp

lemma pick_None: "pick k st xs = None \<longleftrightarrow> (\<forall>s \<in> set xs. \<not> (sl_kind s = k \<and> sl_status s = st))"
  by (auto simp: pick_def find_None_iff)

lemma pick_snoc:
  "pick k st (xs @ [s]) =
     (case pick k st xs of Some t \<Rightarrow> Some t
      | None \<Rightarrow> if sl_kind s = k \<and> sl_status s = st then Some s else None)"
  by (induction xs) (simp_all add: pick_def)

lemma pick_any: "st \<in> sl_status ` set xs \<Longrightarrow> \<exists>k s. pick k st xs = Some s"
  using pick_None by (metis imageE option.exhaust)

lemma matches_status_group:
  "st \<in> sl_status ` set xs \<Longrightarrow> matches_slot (status_group xs st) s \<longleftrightarrow> sl_status s = st"
proof -
  assume "st \<in> sl_status ` set xs"
  then obtain k t where t: "pick k st xs = Some t" using pick_any by blast
  show ?thesis
    using t pick_Some [OF t]
    by (cases k) (auto simp: matches_slot_def status_group_def slot_matches_def is_some_and_iff dest: pick_Some)
qed

lemma change_first_None: "change_first p f xs = None \<longleftrightarrow> (\<forall>x \<in> set xs. \<not> p x)"
  by (induction xs) auto

lemma change_first_map:
  assumes "distinct ys" and "y \<in> set ys" and "\<And>z. z \<in> set ys \<Longrightarrow> p (f z) \<longleftrightarrow> z = y"
  shows "change_first p h (map f ys) =
    Some (rbind (h (f y)) (\<lambda>g'. Inr (map (\<lambda>z. if z = y then g' else f z) ys)))"
  using assms
proof (induction ys)
  case (Cons x ys)
  show ?case
  proof (cases "x = y")
    case True
    with Cons.prems have eq: "map (\<lambda>z. if z = y then g else f z) ys = map f ys" for g
      by (intro map_cong) auto
    show ?thesis using True Cons.prems by (simp add: eq del: map_eq_conv)
  next
    case False
    with Cons show ?thesis by (cases "h (f y)") auto
  qed
qed simp

lemma attach_slot_status_group:
  assumes "distinct_slots (xs @ [s])"
  shows "attach_slot s (status_group xs (sl_status s)) = Inr (status_group (xs @ [s]) (sl_status s))"
proof -
  have "pick (sl_kind s) (sl_status s) xs = None"
    using assms by (auto simp: pick_None distinct_slots_def image_iff)
  then show ?thesis
    by (cases "sl_kind s")
      (simp_all add: attach_slot_def status_group_def pick_snoc ensure_def split: option.splits)
qed

lemma status_group_snoc: "st \<noteq> sl_status s \<Longrightarrow> status_group (xs @ [s]) st = status_group xs st"
  by (simp add: status_group_def pick_snoc split: option.splits)

lemma status_group_new:
  "sl_status s \<notin> sl_status ` set xs \<Longrightarrow>
     status_group xs (sl_status s) = slot_group_default"
  by (auto simp: status_group_def slot_group_default_def pick_None image_iff)

lemma change_first_status:
  assumes "sl_status s \<in> sl_status ` set xs"
  shows "change_first (\<lambda>g. matches_slot g s) h (status_groups xs) =
    Some (rbind (h (status_group xs (sl_status s))) (\<lambda>g'.
      Inr (map (\<lambda>st. if st = sl_status s then g' else status_group xs st) (status_order xs))))"
  unfolding status_groups_def
proof (rule change_first_map)
  show "matches_slot (status_group xs st) s \<longleftrightarrow> st = sl_status s" if "st \<in> set (status_order xs)" for st
    using that by (auto simp: matches_status_group)
qed (use assms in auto)

lemma add_slot_status_groups:
  assumes "distinct_slots (xs @ [s])"
  shows "add_slot s (status_groups xs) = Inr (status_groups (xs @ [s]))"
proof (cases "sl_status s \<in> sl_status ` set xs")
  case True
  have "change_first (\<lambda>g. matches_slot g s) (attach_slot s) (status_groups xs) =
      Some (Inr (map (\<lambda>st. if st = sl_status s then status_group (xs @ [s]) (sl_status s) else status_group xs st)
        (status_order xs)))"
    by (simp add: change_first_status [OF True] attach_slot_status_group [OF assms])
  moreover have "(if st = sl_status s then status_group (xs @ [s]) (sl_status s) else status_group xs st) =
      status_group (xs @ [s]) st" for st
    by (simp add: status_group_snoc)
  ultimately show ?thesis
    using True by (simp add: add_slot_def status_groups_def status_order_snoc)
next
  case False
  have "change_first (\<lambda>g. matches_slot g s) (attach_slot s) (status_groups xs) = None"
    using False by (auto simp: change_first_None status_groups_def matches_status_group image_iff)
  moreover have "status_groups (xs @ [s]) = status_groups xs @ [status_group (xs @ [s]) (sl_status s)]"
    using False by (auto simp: status_groups_def status_order_snoc image_iff intro!: status_group_snoc)
  ultimately show ?thesis
    using attach_slot_status_group [OF assms] status_group_new [OF False] by (simp add: add_slot_def)
qed

lemma group_slots_distinct:
  "distinct_slots slots \<Longrightarrow> rfold add_slot slots [] = Inr (status_groups slots)"
proof (induction slots rule: rev_induct)
  case Nil
  then show ?case by (simp add: status_groups_def status_order_def)
next
  case (snoc s xs)
  then have "distinct_slots xs" by (simp add: distinct_slots_def)
  with snoc show ?case by (simp add: rfold_append add_slot_status_groups)
qed

lemma add_slot_duplicate:
  assumes "distinct_slots xs" and "\<not> distinct_slots (xs @ [s])"
  shows "add_slot s (status_groups xs) = Inl (Msg (''Duplicate '' @ kind_display (sl_kind s) @ '' slot in group''))"
proof -
  obtain t where t: "t \<in> set xs" "sl_kind t = sl_kind s" "sl_status t = sl_status s"
    using assms by (auto simp: distinct_slots_def)
  then have st: "sl_status s \<in> sl_status ` set xs" by (metis imageI)
  from t have "pick (sl_kind s) (sl_status s) xs \<noteq> None" by (auto simp: pick_None)
  then have "attach_slot s (status_group xs (sl_status s)) =
      Inl (Msg (''Duplicate '' @ kind_display (sl_kind s) @ '' slot in group''))"
    by (cases "sl_kind s") (auto simp: attach_slot_def status_group_def ensure_def)
  then show ?thesis by (simp add: add_slot_def change_first_status [OF st])
qed

lemma group_slots_duplicate:
  "\<not> distinct_slots slots \<Longrightarrow>
     \<exists>k. rfold add_slot slots [] = Inl (Msg (''Duplicate '' @ kind_display k @ '' slot in group''))"
proof (induction slots rule: rev_induct)
  case (snoc s xs)
  show ?case
  proof (cases "distinct_slots xs")
    case True
    then show ?thesis
      using snoc.prems by (auto simp: rfold_append group_slots_distinct add_slot_duplicate)
  next
    case False
    then show ?thesis using snoc.IH by (auto simp: rfold_append)
  qed
qed (simp add: distinct_slots_def)

text \<open>The slots of the groups are the slots given, each in one group.\<close>

definition group_slots :: "slot_group \<Rightarrow> slot list" where
  "group_slots g = (case sg_root g of Some s \<Rightarrow> [s] | None \<Rightarrow> []) @ (case sg_verity g of Some s \<Rightarrow> [s] | None \<Rightarrow> [])"

lemma set_group_slots: "set (group_slots g) = set_option (sg_root g) \<union> set_option (sg_verity g)"
  by (auto simp: group_slots_def split: option.splits)

lemma status_groups_slots:
  assumes "g \<in> set (status_groups slots)"
  shows "\<exists>st \<in> sl_status ` set slots.
    sg_root g = pick Root st slots \<and> sg_verity g = pick Verity st slots \<and> sg_boot g = None"
  using assms by (auto simp: status_groups_def status_group_def)

lemma status_groups_member:
  assumes "distinct_slots slots" and "s \<in> set slots"
  shows "pick (sl_kind s) (sl_status s) slots = Some s"
proof -
  obtain t where t: "pick (sl_kind s) (sl_status s) slots = Some t"
    using assms(2) pick_None by (metis option.exhaust)
  then have "t \<in> set slots" "(sl_kind t, sl_status t) = (sl_kind s, sl_status s)"
    using pick_Some by auto
  then have "t = s"
    using assms by (auto simp: distinct_slots_def distinct_map inj_on_def)
  with t show ?thesis by simp
qed

section \<open>Boot entries\<close>

lemma matches_boot_update [simp]: "matches_boot (g\<lparr>sg_boot := b\<rparr>) = matches_boot g"
  by (simp add: matches_boot_def fun_eq_iff)

text \<open>A group of slots and the boot entries with versions: at most one group matches an entry.\<close>

lemma matches_boot_status:
  assumes "matches_boot (status_group xs st) b" and "boot_version b = Some v"
  shows "st = Used v"
proof -
  have "slot_version s = Some v \<Longrightarrow> pick k st xs = Some s \<Longrightarrow> st = Used v" for k s
    by (auto dest!: pick_Some simp: slot_version_def split: slot_status.splits)
  then show ?thesis
    using assms by (auto simp: matches_boot_def status_group_def is_some_and_iff)
qed

definition orphan :: "boot_entry \<Rightarrow> slot_group" where
  "orphan b = \<lparr>sg_root = None, sg_verity = None, sg_boot = Some b\<rparr>"

lemma orphan_matches [simp]: "\<not> matches_boot (orphan b) c"
  by (simp add: orphan_def matches_boot_def)

text \<open>The reference for the second phase: every group takes the entry it matches, the others follow.\<close>

definition with_boots :: "slot list \<Rightarrow> boot_entry list \<Rightarrow> slot_group list" where
  "with_boots slots boots =
     map (\<lambda>st. (status_group slots st)\<lparr>sg_boot := find (matches_boot (status_group slots st)) boots\<rparr>)
       (status_order slots) @
     map orphan (filter (\<lambda>b. list_all (\<lambda>g. \<not> matches_boot g b) (status_groups slots)) boots)"

text \<open>No two boot entries claim the same group.\<close>

definition distinct_boots :: "slot list \<Rightarrow> boot_entry list \<Rightarrow> bool" where
  "distinct_boots slots boots =
     list_all (\<lambda>g. length (filter (matches_boot g) boots) \<le> 1) (status_groups slots)"

lemma change_first_append:
  "change_first p f (xs @ ys) =
     (case change_first p f xs of
        Some r \<Rightarrow> Some (rbind r (\<lambda>xs'. Inr (xs' @ ys)))
      | None \<Rightarrow> map_option (\<lambda>r. rbind r (\<lambda>ys'. Inr (xs @ ys'))) (change_first p f ys))"
proof (induction xs)
  case Nil
  then show ?case by (cases "change_first p f ys") simp_all
next
  case (Cons x xs)
  then show ?case
    by (cases "change_first p f xs"; cases "change_first p f ys") simp_all
qed

definition booted_group :: "slot list \<Rightarrow> boot_entry list \<Rightarrow> slot_status \<Rightarrow> slot_group" where
  "booted_group slots boots st =
     (status_group slots st)\<lparr>sg_boot := find (matches_boot (status_group slots st)) boots\<rparr>"

lemma with_boots_eq:
  "with_boots slots boots = map (booted_group slots boots) (status_order slots) @
     map orphan (filter (\<lambda>b. list_all (\<lambda>g. \<not> matches_boot g b) (status_groups slots)) boots)"
  by (simp add: with_boots_def booted_group_def)

lemma matches_booted_group [simp]: "matches_boot (booted_group slots boots st) = matches_boot (status_group slots st)"
  by (simp add: booted_group_def)

lemma booted_group_snoc:
  "\<not> matches_boot (status_group slots st) b \<Longrightarrow> booted_group slots (bs @ [b]) st = booted_group slots bs st"
  by (simp add: booted_group_def find_snoc split: option.splits)

lemma attach_boot_booted_group:
  assumes "distinct_boots slots (bs @ [b])" and "st \<in> set (status_order slots)"
    and m: "matches_boot (status_group slots st) b"
  shows "attach_boot b (booted_group slots bs st) = Inr (booted_group slots (bs @ [b]) st)"
proof -
  have "length (filter (matches_boot (status_group slots st)) (bs @ [b])) \<le> 1"
    using assms(1,2) by (auto simp: distinct_boots_def status_groups_def list_all_iff)
  with m have "filter (matches_boot (status_group slots st)) bs = []" by simp
  then have "find (matches_boot (status_group slots st)) bs = None"
    by (simp add: find_None_iff filter_empty_conv)
  with m show ?thesis by (simp add: attach_boot_def booted_group_def find_snoc status_group_def)
qed

lemma add_boot_with_boots:
  assumes d: "distinct_boots slots (bs @ [b])" and v: "boot_version b = Some v"
  shows "add_boot b (with_boots slots bs) = Inr (with_boots slots (bs @ [b]))"
proof (cases "\<exists>st \<in> set (status_order slots). matches_boot (status_group slots st) b")
  case True
  then obtain st where st: "st \<in> set (status_order slots)" "matches_boot (status_group slots st) b" by blast
  have uniq: "matches_boot (status_group slots z) b \<longleftrightarrow> z = st" for z
    using matches_boot_status [OF _ v] st(2) by blast
  have "change_first (\<lambda>g. matches_boot g b) (attach_boot b) (map (booted_group slots bs) (status_order slots)) =
      Some (Inr (map (\<lambda>z. if z = st then booted_group slots (bs @ [b]) st else booted_group slots bs z) (status_order slots)))"
    using change_first_map [of "status_order slots" st "\<lambda>g. matches_boot g b" "booted_group slots bs" "attach_boot b"]
    by (simp add: st(1) uniq attach_boot_booted_group [OF d st] del: status_order_set)
  moreover have "(if z = st then booted_group slots (bs @ [b]) st else booted_group slots bs z) =
      booted_group slots (bs @ [b]) z" for z
    using uniq by (simp add: booted_group_snoc)
  moreover have "\<not> list_all (\<lambda>g. \<not> matches_boot g b) (status_groups slots)"
    using True by (auto simp: status_groups_def list_all_iff)
  ultimately show ?thesis by (simp add: add_boot_def with_boots_eq change_first_append)
next
  case False
  then have no: "change_first (\<lambda>g. matches_boot g b) (attach_boot b) (with_boots slots bs) = None"
    by (auto simp: change_first_None with_boots_eq simp del: status_order_set)
  have "map (booted_group slots (bs @ [b])) (status_order slots) = map (booted_group slots bs) (status_order slots)"
    using False by (auto intro!: booted_group_snoc simp del: status_order_set)
  moreover have "list_all (\<lambda>g. \<not> matches_boot g b) (status_groups slots)"
    using False by (auto simp: status_groups_def list_all_iff simp del: status_order_set)
  ultimately show ?thesis using no by (simp add: add_boot_def with_boots_eq orphan_def del: map_eq_conv)
qed

lemma group_boots_distinct:
  assumes "distinct_boots slots boots" and "\<forall>b \<in> set boots. boot_version b \<noteq> None"
  shows "rfold add_boot boots (status_groups slots) = Inr (with_boots slots boots)"
  using assms
proof (induction boots rule: rev_induct)
  case Nil
  have "booted_group slots [] st = status_group slots st" for st
    by (simp add: booted_group_def status_group_def)
  then show ?case by (simp add: with_boots_eq status_groups_def)
next
  case (snoc b bs)
  then have "distinct_boots slots bs"
    by (auto simp: distinct_boots_def list_all_iff split: if_splits)
  with snoc show ?case by (auto simp: rfold_append add_boot_with_boots)
qed

lemma group_volumes_eq:
  assumes "distinct_slots slots" "distinct_boots slots boots" "\<forall>b \<in> set boots. boot_version b \<noteq> None"
  shows "group_volumes slots boots = Inr (with_boots slots boots)"
  using assms by (simp add: group_volumes_def group_slots_distinct group_boots_distinct)

lemma add_boot_duplicate:
  assumes d: "distinct_boots slots bs" and n: "\<not> distinct_boots slots (bs @ [b])" and v: "boot_version b = Some v"
  shows "add_boot b (with_boots slots bs) =
    Inl (Msg (''invalid state: multiple UKIs for version='' @ version_display v))"
proof -
  obtain st where st: "st \<in> set (status_order slots)"
    "\<not> length (filter (matches_boot (status_group slots st)) (bs @ [b])) \<le> 1"
    using n by (auto simp: distinct_boots_def list_all_iff status_groups_def)
  moreover have "length (filter (matches_boot (status_group slots st)) bs) \<le> 1"
    using d st(1) by (auto simp: distinct_boots_def list_all_iff status_groups_def)
  ultimately have m: "matches_boot (status_group slots st) b"
    and f: "filter (matches_boot (status_group slots st)) bs \<noteq> []"
    by (auto split: if_splits)
  have uniq: "matches_boot (status_group slots z) b \<longleftrightarrow> z = st" for z
    using matches_boot_status [OF _ v] m by blast
  have "sg_boot (booted_group slots bs st) \<noteq> None"
    using f by (auto simp: booted_group_def find_None_iff filter_empty_conv)
  then have "attach_boot b (booted_group slots bs st) =
      Inl (Msg (''invalid state: multiple UKIs for version='' @ version_display v))"
    by (auto simp: attach_boot_def v)
  then show ?thesis
    using change_first_map [of "status_order slots" st "\<lambda>g. matches_boot g b" "booted_group slots bs" "attach_boot b"]
    by (simp add: st(1) uniq add_boot_def with_boots_eq change_first_append del: status_order_set)
qed

lemma group_boots_duplicate:
  assumes "\<not> distinct_boots slots boots" and "\<forall>b \<in> set boots. boot_version b \<noteq> None"
  shows "\<exists>v. rfold add_boot boots (status_groups slots) =
    Inl (Msg (''invalid state: multiple UKIs for version='' @ version_display v))"
  using assms
proof (induction boots rule: rev_induct)
  case (snoc b bs)
  show ?case
  proof (cases "distinct_boots slots bs")
    case True
    then show ?thesis
      using snoc.prems by (auto simp: rfold_append group_boots_distinct add_boot_duplicate)
  next
    case False
    then show ?thesis using snoc by (auto simp: rfold_append)
  qed
qed (simp add: distinct_boots_def list_all_iff)

section \<open>Validation\<close>

text \<open>The guard against a boot entry in an empty group is inverted: validation never succeeds.\<close>

lemma group_validate_fails: "\<not> is_ok (group_validate g)"
proof
  assume "is_ok (group_validate g)"
  then have boot: "sg_boot g \<noteq> None" and empty: "group_is_empty g"
    and root: "\<And>b r. sg_boot g = Some b \<Longrightarrow> sg_root g = Some r \<Longrightarrow> boot_matches b r"
    and verity: "\<And>b r. sg_boot g = Some b \<Longrightarrow> sg_verity g = Some r \<Longrightarrow> boot_matches b r"
    by (auto simp: group_validate_def is_ok_iff result_simps split: option.splits)
  obtain b where b: "sg_boot g = Some b" using boot by blast
  have "\<not> boot_matches b s" if "slot_is_empty s" for s
    using that by (auto simp: boot_matches_def uki_matches_def split: boot_entry_kind.splits)
  moreover have "(\<exists>r. sg_root g = Some r \<and> slot_is_empty r) \<or> (\<exists>r. sg_verity g = Some r \<and> slot_is_empty r)"
    using empty by (auto simp: group_is_empty_def split: option.splits)
  ultimately show False using root [OF b] verity [OF b] by blast
qed

end
