(* ===== verification/Image_Manifest.thy ===== *)
theory Image_Manifest
  imports Image_Slot Paths
begin

text \<open>
  The manifest of an image (\<open>crates/ota-update/src/image/manifest.rs\<close>) as \<open>serde_json\<close> delivers
  it: the version, the verity hash and the three files, their validation against a directory and
  the normalisation of their names.
\<close>

record manifest_file =
  mf_name :: string
  mf_sha256sum :: string
  mf_unpacked_size :: "u64 option"

record manifest =
  mn_meta :: "(string \<times> string) list"
  mn_manifest_version :: u32
  mn_system :: "string option"
  mn_version :: string
  mn_root_verity_hash :: string
  mn_kernel :: manifest_file
  mn_store :: manifest_file
  mn_verity :: manifest_file

text \<open>A slice beyond the end of the string panics.\<close>

definition hash_fragment :: "manifest \<Rightarrow> string result" where
  "hash_fragment m =
     (if length (mn_root_verity_hash m) < 16
      then Inl (Panic ''byte index 16 is out of bounds'')
      else Inr (take 16 (mn_root_verity_hash m)))"

definition manifest_to_version :: "manifest \<Rightarrow> version result" where
  "manifest_to_version m =
     rbind (hash_fragment m) (\<lambda>h. Inr (mk_version (mn_version m) (Some h)))"

definition file_full_name :: "string \<Rightarrow> manifest_file \<Rightarrow> string" where
  "file_full_name base_dir f = path_join base_dir (mf_name f)"

definition is_compressed :: "manifest_file \<Rightarrow> bool" where
  "is_compressed f =
     is_some_and (path_extension (mf_name f)) (\<lambda>ext. eq_ignore_ascii_case ext ''zst'')"

section \<open>Names\<close>

fun push_components :: "string \<Rightarrow> path_component list \<Rightarrow> string \<Rightarrow> string result" where
  "push_components value [] out = Inr out"
| "push_components value (Normal item # cs) out = push_components value cs (path_join out item)"
| "push_components value (CurDir # cs) out = push_components value cs out"
| "push_components value (ParentDir # cs) out =
     Inl (Msg (''parent dir '' @ quoted ''..'' @ '' is not allowed in manifest path: '' @ value))"
| "push_components value (RootDir # cs) out =
     Inl (Msg (''non-relative path is not allowed in manifest: '' @ value))"

definition normalize_relative_path :: "string \<Rightarrow> string result" where
  "normalize_relative_path value =
     (if path_is_absolute value then Inl (Msg (''absolute path is not allowed in manifest: '' @ value))
      else rbind (push_components value (components value) []) (\<lambda>out.
        if out = [] then Inl (Msg ''empty path is not allowed in manifest'') else Inr out))"

definition normalize_path :: "manifest_file \<Rightarrow> manifest_file result" where
  "normalize_path f = rbind (normalize_relative_path (mf_name f)) (\<lambda>n. Inr (f\<lparr>mf_name := n\<rparr>))"

definition normalize_paths :: "manifest \<Rightarrow> manifest result" where
  "normalize_paths m =
     rbind (normalize_path (mn_kernel m)) (\<lambda>k.
     rbind (normalize_path (mn_store m)) (\<lambda>s.
     rbind (normalize_path (mn_verity m)) (\<lambda>v.
       Inr (m\<lparr>mn_kernel := k, mn_store := s, mn_verity := v\<rparr>))))"

section \<open>Validation\<close>

text \<open>
  What validation asks of the system: whether a path exists, whether it is a regular file,
  its SHA-256 (\<open>checksum.rs\<close>, which maps the file and feeds it to the crate \<open>sha2\<close>), and the
  hexadecimal form of a digest (crate \<open>hex\<close>).
\<close>

record file_env =
  fe_exists :: "string \<Rightarrow> bool result"
  fe_is_file :: "string \<Rightarrow> bool result"
  fe_sha256 :: "string \<Rightarrow> string result"
  fe_hex :: "string \<Rightarrow> string"

definition file_validate :: "file_env \<Rightarrow> string \<Rightarrow> bool \<Rightarrow> manifest_file \<Rightarrow> unit result" where
  "file_validate env base_dir checksum f =
     (let full_name = file_full_name base_dir f in
      rbind (fe_exists env full_name) (\<lambda>exists.
      if \<not> exists then Inl (Msg (''Missing file '' @ full_name))
      else
        rbind (with_context (''reading metadata for '' @ full_name) (fe_is_file env full_name)) (\<lambda>is_file.
        if \<not> is_file then Inl (Msg (''Not a regular file '' @ full_name))
        else if checksum then
          rbind (fe_sha256 env full_name) (\<lambda>actual.
            ensure (actual = mf_sha256sum f)
              (''Checksum mismatch for '' @ full_name @ '': expected '' @ fe_hex env (mf_sha256sum f) @
               '', got '' @ fe_hex env actual))
        else Inr ())))"

definition manifest_validate :: "file_env \<Rightarrow> string \<Rightarrow> bool \<Rightarrow> manifest \<Rightarrow> unit result" where
  "manifest_validate env base_dir checksum m =
     rbind (with_context ''while validating kernel''
              (file_validate env base_dir checksum (mn_kernel m))) (\<lambda>_.
     rbind (with_context ''while validating store image''
              (file_validate env base_dir checksum (mn_store m))) (\<lambda>_.
       with_context ''while validating verity image''
         (file_validate env base_dir checksum (mn_verity m))))"

text \<open>A manifest that passes with checksums names three regular files with the stated digests.\<close>

lemma file_validate_Inr:
  "file_validate env base_dir checksum f = Inr () \<longleftrightarrow>
     fe_exists env (file_full_name base_dir f) = Inr True \<and>
     fe_is_file env (file_full_name base_dir f) = Inr True \<and>
     (checksum \<longrightarrow> fe_sha256 env (file_full_name base_dir f) = Inr (mf_sha256sum f))"
  by (auto simp: file_validate_def Let_def result_simps ensure_def split: if_splits)

lemma manifest_validate_Inr:
  "manifest_validate env base_dir checksum m = Inr () \<longleftrightarrow>
     (\<forall>f \<in> {mn_kernel m, mn_store m, mn_verity m}. file_validate env base_dir checksum f = Inr ())"
  by (auto simp: manifest_validate_def result_simps)

section \<open>Normalised names\<close>

definition normal_names :: "path_component list \<Rightarrow> string list" where
  "normal_names cs = List.map_filter (\<lambda>c. case c of Normal n \<Rightarrow> Some n | _ \<Rightarrow> None) cs"

lemma push_components_Inr:
  "push_components v cs out = Inr p \<longleftrightarrow>
     ParentDir \<notin> set cs \<and> RootDir \<notin> set cs \<and> p = foldl path_join out (normal_names cs)"
  by (induction v cs out rule: push_components.induct) (auto simp: normal_names_def)

lemma normal_names_components: "list_all plain_name (normal_names (components p))"
proof -
  have "n \<in> set (normal_names cs) \<Longrightarrow> Normal n \<in> set cs" for n cs
    by (auto simp: normal_names_def List.map_filter_def split: path_component.splits)
  then show ?thesis using components_Normal by (auto simp: list_all_iff)
qed

lemma normal_names_map [simp]: "normal_names (map Normal ns) = ns"
  by (induction ns) (simp_all add: normal_names_def)

lemma normalize_relative_path_Inr:
  assumes "normalize_relative_path v = Inr p"
  shows "plain_path p" "ParentDir \<notin> set (components v)" "\<not> path_is_absolute v"
    "p = join_with ''/'' (normal_names (components v))"
proof -
  have abs: "\<not> path_is_absolute v" and "p \<noteq> []"
    and push: "push_components v (components v) [] = Inr p"
    using assms by (auto simp: normalize_relative_path_def result_simps split: if_splits)
  let ?ns = "normal_names (components v)"
  from push have p: "p = foldl path_join [] ?ns" and pd: "ParentDir \<notin> set (components v)"
    using push_components_Inr by blast+
  have ne: "?ns \<noteq> []" using \<open>p \<noteq> []\<close> unfolding p by (cases "normal_names (components v)") simp_all
  have eq: "p = join_with ''/'' ?ns"
    unfolding p by (rule fold_push_plain [OF normal_names_components ne])
  show "plain_path p" unfolding eq by (rule plain_pathI [OF normal_names_components ne])
  show "p = join_with ''/'' ?ns" by (rule eq)
  show "ParentDir \<notin> set (components v)" by (rule pd)
  show "\<not> path_is_absolute v" by (rule abs)
qed

lemma normalize_relative_path_plain:
  assumes "plain_path p"
  shows "normalize_relative_path p = Inr p"
proof -
  obtain ns where ns: "ns \<noteq> []" "list_all plain_name ns" "components p = map Normal ns" "p = join_with ''/'' ns"
    using assms by (auto simp: plain_path_def)
  have "push_components p (map Normal ms) out = Inr (foldl path_join out ms)" for ms out
    by (induction ms arbitrary: out) simp_all
  then have "push_components p (components p) [] = Inr p"
    by (simp only: ns(3) fold_push_plain [OF ns(2,1)] ns(4) [symmetric])
  moreover have "p \<noteq> []" "\<not> path_is_absolute p"
    using join_with_ends [OF ns(2,1)] join_with_relative [OF ns(2,1)] by (simp_all only: ns(4) not_False_eq_True)
  ultimately show ?thesis by (simp add: normalize_relative_path_def)
qed

lemma normalize_relative_path_ok:
  "is_ok (normalize_relative_path v) \<longleftrightarrow>
     \<not> path_is_absolute v \<and> ParentDir \<notin> set (components v) \<and> normal_names (components v) \<noteq> []"
proof -
  let ?ns = "normal_names (components v)"
  have "foldl path_join [] ?ns = [] \<longleftrightarrow> ?ns = []"
    using fold_push_plain [OF normal_names_components] join_with_ends [OF normal_names_components]
    by (cases "?ns = []") auto
  moreover have "is_ok (normalize_relative_path v) \<longleftrightarrow>
      \<not> path_is_absolute v \<and> (\<exists>p. push_components v (components v) [] = Inr p \<and> p \<noteq> [])"
    by (cases "push_components v (components v) []") (auto simp: normalize_relative_path_def is_ok_def)
  ultimately show ?thesis by (auto simp: push_components_Inr components_RootDir)
qed

end
