(* ===== verification/Image_Runtime.thy ===== *)
theory Image_Runtime
  imports Image_Group Image_Manifest
begin

text \<open>
  The state of a machine as the updater sees it (\<open>crates/ota-update/src/image/runtime.rs\<close>):
  scanning volumes, boot entries and the kernel command line, looking up slots, and choosing
  the slot an image goes to.
\<close>

record runtime =
  rt_slotgroups :: "slot_group list"
  rt_volumes :: "volume list"
  rt_kernel :: kernel_params
  rt_boot_entries :: "boot_entry list"
  rt_boot :: string

datatype slot_selection = AlreadyInstalled | Selected slot_group "pipeline list"

definition runtime_new :: "volume list \<Rightarrow> string \<Rightarrow> bootctl_item list \<Rightarrow> runtime result" where
  "runtime_new vols cmdline bootctl =
     (let (slots, volumes) = from_volumes vols;
          (managed, unmanaged) = partition boot_is_managed (from_bootctl bootctl)
      in
      rbind (group_volumes slots managed) (\<lambda>slotgroups.
      rbind (from_cmdline cmdline) (\<lambda>k.
        Inr \<lparr>rt_slotgroups = slotgroups, rt_volumes = volumes, rt_kernel = k,
             rt_boot_entries = unmanaged, rt_boot = ''/boot''\<rparr>)))"

definition slots_by_class :: "runtime \<Rightarrow> slot_group list \<Rightarrow> slot_class \<Rightarrow> slot_group list" where
  "slots_by_class rt groups class = filter (\<lambda>g. classify (rt_kernel rt) g = class) groups"

section \<open>Looking up groups\<close>

definition find_exact_one_group ::
  "runtime \<Rightarrow> (slot_group \<Rightarrow> bool) \<Rightarrow> string \<Rightarrow> slot_group option result" where
  "find_exact_one_group rt predicate reason =
     (case filter predicate (rt_slotgroups rt) of
        [] \<Rightarrow> Inr None
      | [g] \<Rightarrow> Inr (Some g)
      | _ \<Rightarrow> Inl (Msg (''ambiguous slot selection for '' @ reason)))"

definition find_slot_group :: "runtime \<Rightarrow> version \<Rightarrow> slot_group result" where
  "find_slot_group rt version =
     rbind (find_exact_one_group rt (\<lambda>g. group_version g = Some version)
              (''version='' @ version_display version)) (\<lambda>exact.
     case exact of
       Some g \<Rightarrow> Inr g
     | None \<Rightarrow>
         if \<not> has_hash version then
           rbind (find_exact_one_group rt
                    (\<lambda>g. is_some_and (group_version g) (\<lambda>v. ver_revision v = ver_revision version \<and> has_hash v))
                    (''version='' @ version_display version @ '' (fallback by revision)'')) (\<lambda>fallback.
             case fallback of
               Some g \<Rightarrow> Inr g
             | None \<Rightarrow> Inl (Msg (''slot not found: version='' @ version_display version)))
         else Inl (Msg (''slot not found: version='' @ version_display version)))"

definition active_slot :: "runtime \<Rightarrow> slot_group result" where
  "active_slot rt =
     rbind (find_exact_one_group rt (group_is_active (rt_kernel rt)) ''active slot'') (\<lambda>g.
       ok_or g (Msg ''no active slot detected''))"

definition has_empty_with_hash :: "runtime \<Rightarrow> string \<Rightarrow> bool" where
  "has_empty_with_hash rt hash = list_ex (\<lambda>g. group_empty_id g = Some hash) (rt_slotgroups rt)"

definition allocate_empty_identifier :: "runtime \<Rightarrow> string result" where
  "allocate_empty_identifier rt =
     (let used = List.map_filter group_empty_id (rt_slotgroups rt) in
      case find (\<lambda>i. show_nat i \<notin> set used) [0..<100] of
        Some i \<Rightarrow> Inr (show_nat i)
      | None \<Rightarrow> Inl (Msg ''empty identifier space exhausted''))"

section \<open>Selecting a slot\<close>

definition resize_step :: "slot option \<Rightarrow> u64 option \<Rightarrow> pipeline list" where
  "resize_step slot needed =
     (case (slot, needed) of
        (Some s, Some needed) \<Rightarrow>
          (let vol = sl_volume s in
           if is_some_and (lv_size_bytes vol) (\<lambda>cur. cur < needed)
           then [pipeline_new (cmd ''lvresize''
                   [''-f'', ''-L'', show_nat (unat needed) @ ''b'', vg_name vol @ ''/'' @ lv_name vol])]
           else [])
      | _ \<Rightarrow> [])"

definition resize_steps_for_slot :: "slot_group \<Rightarrow> manifest \<Rightarrow> pipeline list" where
  "resize_steps_for_slot g m =
     resize_step (sg_root g) (mf_unpacked_size (mn_store m)) @
     resize_step (sg_verity g) (mf_unpacked_size (mn_verity m))"

definition create_volume ::
  "string \<Rightarrow> string \<Rightarrow> string \<Rightarrow> u64 option \<Rightarrow> u64 option \<Rightarrow> (slot \<times> pipeline) result" where
  "create_volume vg empty_id pfx manifest_size active_size =
     rbind (ok_or (case manifest_size of Some s \<Rightarrow> Some s | None \<Rightarrow> active_size)
       (Msg (''cannot determine '' @ pfx @ '' LV size: no unpacked_size in manifest and no active '' @ pfx @ '' size'')))
     (\<lambda>size.
       let name = pfx @ ''_empty_'' @ empty_id;
           step = pipeline_new (cmd ''lvcreate''
             [''--yes'', ''--wipesignatures'', ''y'', ''-L'', show_nat (unat size) @ ''b'', ''-n'', name, vg]);
           vol = \<lparr>lv_name = name, vg_name = vg, lv_attr = None, lv_size_bytes = Some size\<rparr>
       in
       rbind (ok_or (case fst (from_volumes [vol]) of [] \<Rightarrow> None | s # _ \<Rightarrow> Some s)
                (Msg (''failed to parse created '' @ pfx @ '' slot''))) (\<lambda>s.
         Inr (s, step)))"

definition create_empty_slot :: "runtime \<Rightarrow> manifest \<Rightarrow> (slot_group \<times> pipeline list) result" where
  "create_empty_slot rt m =
     rbind (active_slot rt) (\<lambda>active.
     rbind (ok_or (sg_root active) (Msg ''active slot has no root'')) (\<lambda>active_root.
     rbind (ok_or (sg_verity active) (Msg ''active slot has no verity'')) (\<lambda>active_verity.
     let vg = vg_name (sl_volume active_root) in
     rbind (allocate_empty_identifier rt) (\<lambda>empty_id.
     rbind (create_volume vg empty_id ''root'' (mf_unpacked_size (mn_store m))
              (lv_size_bytes (sl_volume active_root))) (\<lambda>(root, root_step).
     rbind (create_volume vg empty_id ''verity'' (mf_unpacked_size (mn_verity m))
              (lv_size_bytes (sl_volume active_verity))) (\<lambda>(verity, verity_step).
       Inr (\<lparr>sg_root = Some root, sg_verity = Some verity, sg_boot = None\<rparr>, [root_step, verity_step])))))))"

definition select_update_slot :: "runtime \<Rightarrow> manifest \<Rightarrow> slot_selection result" where
  "select_update_slot rt m =
     rbind (manifest_to_version m) (\<lambda>target.
     let uki = \<lparr>ue_version = target, ue_boot_counter = None\<rparr> in
     if list_ex (\<lambda>g. group_is_used g \<and> group_is_complete g \<and> group_version g = Some target) (rt_slotgroups rt)
     then Inr AlreadyInstalled
     else (case find (\<lambda>g. group_is_empty g \<and> \<not> group_is_active (rt_kernel rt) g \<and> group_is_complete g)
                  (rt_slotgroups rt) of
             Some g \<Rightarrow>
               rbind (attach_uki uki g) (\<lambda>g'. Inr (Selected g' (resize_steps_for_slot g m)))
           | None \<Rightarrow>
               rbind (create_empty_slot rt m) (\<lambda>(g, pre_steps).
               rbind (attach_uki uki g) (\<lambda>g'. Inr (Selected g' pre_steps)))))"

section \<open>Scanned runtimes\<close>

text \<open>What \<open>runtime_new\<close> establishes: the groups are the partition of the slots it read.\<close>

definition scanned :: "slot list \<Rightarrow> boot_entry list \<Rightarrow> runtime \<Rightarrow> bool" where
  "scanned slots boots rt =
     (rt_slotgroups rt = with_boots slots boots \<and> distinct_slots slots \<and> distinct_boots slots boots \<and>
      list_all slot_ok slots \<and> list_all (\<lambda>b. boot_version b \<noteq> None) boots)"

lemma group_volumes_Inr:
  assumes "group_volumes slots boots = Inr gs" and "\<forall>b \<in> set boots. boot_version b \<noteq> None"
  shows "gs = with_boots slots boots \<and> distinct_slots slots \<and> distinct_boots slots boots"
proof (cases "distinct_slots slots")
  case True
  show ?thesis
  proof (cases "distinct_boots slots boots")
    case db: True
    with assms True show ?thesis by (simp add: group_volumes_eq)
  next
    case False
    with assms True show ?thesis
      using group_boots_duplicate [OF False assms(2)] by (auto simp: group_volumes_def group_slots_distinct)
  qed
next
  case False
  with assms show ?thesis using group_slots_duplicate [OF False] by (auto simp: group_volumes_def)
qed

lemma runtime_new_Inr:
  assumes "runtime_new vols cmdline bootctl = Inr rt"
  shows "scanned (fst (from_volumes vols)) (filter boot_is_managed (from_bootctl bootctl)) rt"
    "rt_boot_entries rt = filter (\<lambda>b. \<not> boot_is_managed b) (from_bootctl bootctl)"
    "rt_boot rt = ''/boot''" "from_cmdline cmdline = Inr (rt_kernel rt)"
proof -
  have v: "\<forall>b \<in> set (filter boot_is_managed (from_bootctl bootctl)). boot_version b \<noteq> None"
    using from_bootctl_managed by fastforce
  obtain gs where gs: "group_volumes (fst (from_volumes vols)) (filter boot_is_managed (from_bootctl bootctl)) = Inr gs"
    and rt: "rt_slotgroups rt = gs" "rt_boot_entries rt = filter (\<lambda>b. \<not> boot_is_managed b) (from_bootctl bootctl)"
      "rt_boot rt = ''/boot''" "from_cmdline cmdline = Inr (rt_kernel rt)"
    using assms by (auto simp: runtime_new_def Let_def split_beta result_simps comp_def)
  show "scanned (fst (from_volumes vols)) (filter boot_is_managed (from_bootctl bootctl)) rt"
    using group_volumes_Inr [OF gs v] rt(1) v from_volumes_ok
    by (auto simp: scanned_def list_all_iff)
qed (use assms in \<open>auto simp: runtime_new_def Let_def split_beta result_simps comp_def\<close>)

text \<open>The groups of a scanned runtime: slots of one status, or an orphaned boot entry.\<close>

lemma booted_group_simps [simp]:
  "sg_root (booted_group slots boots st) = pick Root st slots"
  "sg_verity (booted_group slots boots st) = pick Verity st slots"
  "sg_boot (booted_group slots boots st) = find (matches_boot (status_group slots st)) boots"
  by (simp_all add: booted_group_def status_group_def)

lemma orphan_simps [simp]:
  "sg_root (orphan b) = None" "sg_verity (orphan b) = None" "sg_boot (orphan b) = Some b"
  by (simp_all add: orphan_def)

lemma with_boots_cases:
  assumes "g \<in> set (with_boots slots boots)"
  obtains (slots) st where "st \<in> sl_status ` set slots" "g = booted_group slots boots st"
  | (orphan) b where "g = orphan b" "b \<in> set boots"
  using assms unfolding with_boots_eq by (auto simp del: booted_group_simps)

lemma group_slots_booted:
  assumes "distinct_slots slots"
  shows "set (group_slots (booted_group slots boots st)) = {s \<in> set slots. sl_status s = st}"
proof (rule set_eqI)
  fix s
  show "s \<in> set (group_slots (booted_group slots boots st)) \<longleftrightarrow> s \<in> {s \<in> set slots. sl_status s = st}"
    using status_groups_member [OF assms, of s]
    by (cases "sl_kind s") (auto simp: set_group_slots dest: pick_Some)
qed

lemma group_slots_orphan [simp]: "group_slots (orphan b) = []"
  by (simp add: group_slots_def)

text \<open>An empty group has no boot entry, a group with a version has slots of that version.\<close>

lemma group_is_empty_slots:
  "group_is_empty g \<longleftrightarrow> group_slots g \<noteq> [] \<and> (\<forall>s \<in> set (group_slots g). slot_is_empty s)"
  by (auto simp: group_is_empty_def group_slots_def split: option.splits)

lemma empty_group_boot:
  assumes "g \<in> set (with_boots slots boots)" and "distinct_slots slots"
    and v: "\<forall>b \<in> set boots. boot_version b \<noteq> None" and "group_is_empty g"
  shows "sg_boot g = None"
  using assms(1)
proof (cases rule: with_boots_cases)
  case (slots st)
  have "st \<noteq> Used w" for w
  proof
    assume "st = Used w"
    then have "\<forall>s \<in> set (group_slots g). \<not> slot_is_empty s"
      using slots assms(2) by (auto simp: group_slots_booted slot_version_def)
    then show False using assms(4) by (auto simp: group_is_empty_slots)
  qed
  then have "\<not> matches_boot (status_group slots st) b" if "b \<in> set boots" for b
    using that v matches_boot_status by blast
  then show ?thesis using slots by (auto simp: find_None_iff)
next
  case (orphan b)
  then show ?thesis using assms(4) by (simp add: group_is_empty_slots)
qed

text \<open>The group of a status knows the status.\<close>

lemma booted_group_status:
  assumes "st \<in> sl_status ` set slots"
  shows "group_version (booted_group slots boots st) = (case st of Used v \<Rightarrow> Some v | Empty _ \<Rightarrow> None)"
    "group_empty_id (booted_group slots boots st) = (case st of Empty (Known i) \<Rightarrow> Some i | _ \<Rightarrow> None)"
proof -
  obtain k s where s: "pick k st slots = Some s" using pick_any [OF assms] by blast
  have ver: "slot_version t = (case st of Used v \<Rightarrow> Some v | Empty _ \<Rightarrow> None)"
    "slot_empty_id t = (case st of Empty (Known i) \<Rightarrow> Some i | _ \<Rightarrow> None)"
    if "pick k' st slots = Some t" for k' t
    using pick_Some [OF that] by (auto simp: slot_version_def slot_empty_id_def split: slot_status.splits)
  have some: "pick Root st slots = None \<Longrightarrow> pick Verity st slots \<noteq> None" using s by (cases k) auto
  show "group_version (booted_group slots boots st) = (case st of Used v \<Rightarrow> Some v | Empty _ \<Rightarrow> None)"
    using some by (auto simp: group_version_def dest!: ver(1) split: option.splits)
  show "group_empty_id (booted_group slots boots st) = (case st of Empty (Known i) \<Rightarrow> Some i | _ \<Rightarrow> None)"
    using some by (auto simp: group_empty_id_def dest!: ver(2) split: option.splits)
qed

lemma booted_group_in:
  "st \<in> sl_status ` set slots \<Longrightarrow> booted_group slots boots st \<in> set (with_boots slots boots)"
  by (auto simp: with_boots_eq)

lemma has_empty_with_hash_iff:
  assumes "scanned slots boots rt"
  shows "has_empty_with_hash rt h \<longleftrightarrow> (\<exists>s \<in> set slots. sl_status s = Empty (Known h))"
proof
  assume "has_empty_with_hash rt h"
  then obtain g where g: "g \<in> set (with_boots slots boots)" "group_empty_id g = Some h"
    using assms by (auto simp: has_empty_with_hash_def scanned_def list_ex_iff)
  from g(1) show "\<exists>s \<in> set slots. sl_status s = Empty (Known h)"
  proof (cases rule: with_boots_cases)
    case (slots st)
    then have "st = Empty (Known h)"
      using g(2) by (auto simp: booted_group_status split: slot_status.splits empty_id.splits)
    then show ?thesis using slots(1) by force
  next
    case (orphan b)
    then show ?thesis using g(2) by (simp add: group_empty_id_def)
  qed
next
  assume "\<exists>s \<in> set slots. sl_status s = Empty (Known h)"
  then have st: "Empty (Known h) \<in> sl_status ` set slots" by force
  then have "booted_group slots boots (Empty (Known h)) \<in> set (rt_slotgroups rt)"
    using assms by (simp add: scanned_def booted_group_in)
  with booted_group_status(2) [OF st] show "has_empty_with_hash rt h"
    by (auto simp: has_empty_with_hash_def list_ex_iff)
qed

lemma allocate_empty_identifier_Inr:
  assumes "allocate_empty_identifier rt = Inr i"
  shows "\<not> has_empty_with_hash rt i" "CHR ''_'' \<notin> set i" "\<exists>n < 100. i = show_nat n"
proof -
  obtain n where n: "find (\<lambda>i. show_nat i \<notin> set (List.map_filter group_empty_id (rt_slotgroups rt))) [0..<100] = Some n"
    "i = show_nat n"
    using assms by (auto simp: allocate_empty_identifier_def Let_def split: option.splits)
  from find_Some_in [OF n(1)] have "n < 100"
    "show_nat n \<notin> set (List.map_filter group_empty_id (rt_slotgroups rt))" by auto
  then show "\<not> has_empty_with_hash rt i" "CHR ''_'' \<notin> set i" "\<exists>n < 100. i = show_nat n"
    using n(2) by (auto simp: has_empty_with_hash_def list_ex_iff in_map_filter_iff digit_not_in_show_nat)
qed

lemma allocate_empty_identifier_Inl:
  "allocate_empty_identifier rt = Inl e \<Longrightarrow> n < 100 \<Longrightarrow> has_empty_with_hash rt (show_nat n)"
  by (auto simp: allocate_empty_identifier_def Let_def find_None_iff has_empty_with_hash_def list_ex_iff
      in_map_filter_iff split: option.splits)

text \<open>A volume made for an identifier reads back as an empty slot of that identifier.\<close>

lemma create_volume_eq:
  assumes "CHR ''_'' \<notin> set i"
  shows "create_volume vg i (kind_display k) msize asize =
    (case (case msize of Some s \<Rightarrow> Some s | None \<Rightarrow> asize) of
       None \<Rightarrow> Inl (Msg (''cannot determine '' @ kind_display k @
         '' LV size: no unpacked_size in manifest and no active '' @ kind_display k @ '' size''))
     | Some sz \<Rightarrow> Inr
        (\<lparr>sl_kind = k, sl_status = Empty (Known i),
          sl_volume = \<lparr>lv_name = slot_name (k, Empty (Known i)), vg_name = vg, lv_attr = None, lv_size_bytes = Some sz\<rparr>\<rparr>,
         pipeline_new (cmd ''lvcreate'' [''--yes'', ''--wipesignatures'', ''y'', ''-L'',
           show_nat (unat sz) @ ''b'', ''-n'', slot_name (k, Empty (Known i)), vg])))"
proof -
  have name: "kind_display k @ ''_empty_'' @ i = slot_name (k, Empty (Known i))"
    by (simp add: slot_name_def)
  have "from_volumes [v] = ([\<lparr>sl_kind = k, sl_status = Empty (Known i), sl_volume = v\<rparr>], [])"
    if "lv_name v = slot_name (k, Empty (Known i))" for v
    using assms that by (intro from_volumes_single) simp_all
  then show ?thesis
    unfolding create_volume_def name by (auto simp: Let_def split: option.splits)
qed

end
