(* ===== verification/State_Result.thy ===== *)
theory State_Result
  imports Prelude
begin

text \<open>
  Fallible code that changes state: a function from the state to a result and the new
  state, which is kept when the code fails (a handler that returns early leaves what it
  has already done). \<open>preserves P m\<close> says that \<open>m\<close> keeps \<open>P\<close> on every path, errors
  included; its rules are collected in \<open>preserves_rules\<close>.
\<close>

named_theorems preserves_rules \<open>rules that show that a computation keeps a state predicate\<close>

type_synonym ('s, 'a) sresult = "'s \<Rightarrow> 'a result \<times> 's"

definition sret :: "'a \<Rightarrow> ('s, 'a) sresult" where
  "sret x s = (Inr x, s)"

definition sfail :: "error \<Rightarrow> ('s, 'a) sresult" where
  "sfail e s = (Inl e, s)"

definition sbind :: "('s, 'a) sresult \<Rightarrow> ('a \<Rightarrow> ('s, 'b) sresult) \<Rightarrow> ('s, 'b) sresult" where
  "sbind m f s = (case m s of (Inl e, t) \<Rightarrow> (Inl e, t) | (Inr x, t) \<Rightarrow> f x t)"

text \<open>Reading the state with a fallible function.\<close>

definition sread :: "('s \<Rightarrow> 'a result) \<Rightarrow> ('s, 'a) sresult" where
  "sread f s = (f s, s)"

definition smodify :: "('s \<Rightarrow> 's) \<Rightarrow> ('s, unit) sresult" where
  "smodify f s = (Inr (), f s)"

definition scontext :: "string \<Rightarrow> ('s, 'a) sresult \<Rightarrow> ('s, 'a) sresult" where
  "scontext c m s = (case m s of (r, t) \<Rightarrow> (with_context c r, t))"

text \<open>A call whose error is logged and dropped; a panic is not.\<close>

fun not_panic :: "'a result \<Rightarrow> bool" where
  "not_panic (Inl (Panic p)) = False"
| "not_panic r = True"

definition scatch :: "('s, 'a) sresult \<Rightarrow> ('s, 'a result) sresult" where
  "scatch m s = (case m s of (r, t) \<Rightarrow>
     (case r of Inl (Panic p) \<Rightarrow> (Inl (Panic p), t) | _ \<Rightarrow> (Inr r, t)))"

primrec sforeach :: "'a list \<Rightarrow> ('a \<Rightarrow> ('s, unit) sresult) \<Rightarrow> ('s, unit) sresult" where
  "sforeach [] f = sret ()"
| "sforeach (x # xs) f = sbind (f x) (\<lambda>_. sforeach xs f)"

lemmas sresult_defs = sret_def sfail_def sread_def smodify_def sbind_def scontext_def scatch_def

lemma sbind_simps [simp]:
  "sbind (sret x) f = f x"
  "sbind (sfail e) f = sfail e"
  "sbind m sret = m"
  "sbind (sbind m f) g = sbind m (\<lambda>x. sbind (f x) g)"
  by (auto simp: fun_eq_iff sresult_defs split: sum.splits prod.splits)

lemma sbind_Inr:
  "sbind m f s = (Inr y, u) \<longleftrightarrow> (\<exists>x t. m s = (Inr x, t) \<and> f x t = (Inr y, u))"
  by (auto simp: sbind_def split: sum.splits prod.splits)

lemma sbind_apply:
  "m s = (Inr x, t) \<Longrightarrow> sbind m f s = f x t"
  "m s = (Inl e, t) \<Longrightarrow> sbind m f s = (Inl e, t)"
  by (simp_all add: sbind_def)

lemma sret_Inr [simp]: "sret x s = (Inr y, t) \<longleftrightarrow> y = x \<and> t = s"
  by (auto simp: sret_def)

lemma sread_Inr [simp]: "sread f s = (Inr y, t) \<longleftrightarrow> f s = Inr y \<and> t = s"
  by (auto simp: sread_def)

lemma smodify_Inr [simp]: "smodify f s = (Inr y, t) \<longleftrightarrow> t = f s"
  by (auto simp: smodify_def)

lemma sfail_Inr [simp]: "sfail e s \<noteq> (Inr y, t)"
  by (simp add: sfail_def)

lemma scontext_Inr [simp]: "scontext c m s = (Inr y, t) \<longleftrightarrow> m s = (Inr y, t)"
  by (auto simp: scontext_def split: prod.splits)

lemma sforeach_append: "sforeach (xs @ ys) f = sbind (sforeach xs f) (\<lambda>_. sforeach ys f)"
  by (induction xs) simp_all

section \<open>Kept predicates\<close>

definition preserves :: "('s \<Rightarrow> bool) \<Rightarrow> ('s, 'a) sresult \<Rightarrow> bool" where
  "preserves P m = (\<forall>s. P s \<longrightarrow> P (snd (m s)))"

lemma preservesD: "preserves P m \<Longrightarrow> P s \<Longrightarrow> P (snd (m s))"
  by (simp add: preserves_def)

lemma preserves_sret [preserves_rules]: "preserves P (sret x)"
  by (simp add: preserves_def sret_def)

lemma preserves_sfail [preserves_rules]: "preserves P (sfail e)"
  by (simp add: preserves_def sfail_def)

lemma preserves_sread [preserves_rules]: "preserves P (sread f)"
  by (simp add: preserves_def sread_def)

lemma preserves_smodify: "(\<And>s. P s \<Longrightarrow> P (f s)) \<Longrightarrow> preserves P (smodify f)"
  by (simp add: preserves_def smodify_def)

lemma preserves_sbind [preserves_rules]:
  assumes m: "preserves P m" and f: "\<And>x. preserves P (f x)"
  shows "preserves P (sbind m f)"
  unfolding preserves_def
proof (intro allI impI)
  fix s
  assume "P s"
  with m have "P (snd (m s))" by (rule preservesD)
  then show "P (snd (sbind m f s))"
    using f by (auto simp: sbind_def preserves_def split: sum.splits prod.splits)
qed

text \<open>What was read may be used in the rest.\<close>

lemma preserves_sread_bind:
  "(\<And>s x. f s = Inr x \<Longrightarrow> preserves P (g x)) \<Longrightarrow> preserves P (sbind (sread f) g)"
  by (auto simp: preserves_def sbind_def sread_def split: sum.splits)

lemma preserves_prod [preserves_rules]:
  "(\<And>x y. preserves P (f x y)) \<Longrightarrow> preserves P (case p of (x, y) \<Rightarrow> f x y)"
  by (cases p) simp

lemma preserves_scontext [preserves_rules]: "preserves P m \<Longrightarrow> preserves P (scontext c m)"
  by (simp add: preserves_def scontext_def split_beta)

lemma preserves_scatch [preserves_rules]: "preserves P m \<Longrightarrow> preserves P (scatch m)"
  by (auto simp: preserves_def scatch_def split_beta split: sum.splits error.splits)

lemma preserves_if [preserves_rules]:
  "preserves P m \<Longrightarrow> preserves P n \<Longrightarrow> preserves P (if b then m else n)"
  by simp

lemma preserves_option [preserves_rules]:
  "preserves P m \<Longrightarrow> (\<And>x. preserves P (f x)) \<Longrightarrow> preserves P (case y of None \<Rightarrow> m | Some x \<Rightarrow> f x)"
  by (cases y) simp_all

lemma preserves_sum [preserves_rules]:
  "(\<And>e. preserves P (f e)) \<Longrightarrow> (\<And>x. preserves P (g x)) \<Longrightarrow>
     preserves P (case y of Inl e \<Rightarrow> f e | Inr x \<Rightarrow> g x)"
  by (cases y) simp_all

lemma preserves_sforeach [preserves_rules]:
  "(\<And>x. x \<in> set xs \<Longrightarrow> preserves P (f x)) \<Longrightarrow> preserves P (sforeach xs f)"
  by (induction xs) (auto intro: preserves_rules)

end
