(* ===== verification/Image_Plan.thy ===== *)
theory Image_Plan
  imports Image_Runtime State_Result
begin

text \<open>
  Plans (\<open>crates/ota-update/src/image/plan.rs\<close>): the commands that install an image into a slot
  or turn an installed slot back into an empty one, and their execution
  (\<open>executor.rs\<close>, \<open>install.rs\<close>).
\<close>

definition install_volume :: "volume \<Rightarrow> manifest_file \<Rightarrow> string \<Rightarrow> pipeline" where
  "install_volume vol file source =
     (let target = device_file vol; input = file_full_name source file in
      if is_compressed file then
        pipe (pipeline_new (cmd ''zstdcat'' [input]))
          (cmd ''dd'' [''of='' @ target, ''bs=4M'', ''status=progress''])
      else pipeline_new (cmd ''dd'' [''if='' @ input, ''of='' @ target, ''bs=4M'', ''status=progress'']))"

definition install_uki :: "slot_group \<Rightarrow> manifest_file \<Rightarrow> string \<Rightarrow> string \<Rightarrow> pipeline result" where
  "install_uki g file boot source =
     rbind (ok_or (map_option uki_display (Option.bind (sg_boot g) boot_uki))
              (Msg ''cannot determine UKI name for slot'')) (\<lambda>uki_name.
       Inr (pipeline_new (cmd ''install''
         [''-m'', ''0644'', file_full_name source file, boot @ ''/EFI/Linux/'' @ uki_name])))"

definition legacy_bootloader_migration :: "runtime \<Rightarrow> pipeline list" where
  "legacy_bootloader_migration rt =
     [pipeline_new (cmd ''sed'' [''-i'', ''s/^default .*/default @saved/'', rt_boot rt @ ''/loader/loader.conf'']),
      pipeline_new (cmd ''rm'' [''-f'', rt_boot rt @ ''/loader/entries.srel'']),
      pipeline_new (cmd ''bootctl'' [''set-default'', ''auto''])]"

definition finalize_flush :: "volume \<Rightarrow> pipeline" where
  "finalize_flush vol = pipeline_new (cmd ''blockdev'' [''--flushbufs'', device_file vol])"

definition install_into_slot ::
  "runtime \<Rightarrow> manifest \<Rightarrow> slot_group \<Rightarrow> string \<Rightarrow> pipeline list result" where
  "install_into_slot rt m g source =
     rbind (ok_or (sg_root g) (Msg ''slot has no root volume'')) (\<lambda>root.
     rbind (ok_or (sg_verity g) (Msg ''slot has no verity volume'')) (\<lambda>verity.
     rbind (manifest_to_version m) (\<lambda>version.
     rbind (into_version root version) (\<lambda>root'.
     rbind (into_version verity version) (\<lambda>verity'.
     rbind (install_uki g (mn_kernel m) (rt_boot rt) source) (\<lambda>uki.
     rbind (active_slot rt) (\<lambda>active.
       Inr ([install_volume (sl_volume root) (mn_store m) source,
             install_volume (sl_volume verity) (mn_verity m) source,
             finalize_flush (sl_volume root),
             finalize_flush (sl_volume verity),
             slot_rename root',
             slot_rename verity',
             uki] @
            (if group_is_legacy active then legacy_bootloader_migration rt else [])))))))))"

definition plan_install :: "runtime \<Rightarrow> manifest \<Rightarrow> string \<Rightarrow> pipeline list result" where
  "plan_install rt m source =
     rbind (select_update_slot rt m) (\<lambda>selection.
       case selection of
         AlreadyInstalled \<Rightarrow> Inr []
       | Selected g pre_steps \<Rightarrow>
           rbind (install_into_slot rt m g source) (\<lambda>steps. Inr (pre_steps @ steps)))"

definition rename_volume_to :: "volume \<Rightarrow> string \<Rightarrow> pipeline" where
  "rename_volume_to vol new_name = pipeline_new (cmd ''lvrename'' [vg_name vol, lv_name vol, new_name])"

definition rename_slot_to_empty :: "slot_group \<Rightarrow> string \<Rightarrow> pipeline list" where
  "rename_slot_to_empty g empty_id =
     (case sg_root g of
        Some root \<Rightarrow> [rename_volume_to (sl_volume root) (''root_empty_'' @ empty_id)] | None \<Rightarrow> []) @
     (case sg_verity g of
        Some verity \<Rightarrow> [rename_volume_to (sl_volume verity) (''verity_empty_'' @ empty_id)] | None \<Rightarrow> [])"

definition plan_remove :: "runtime \<Rightarrow> version \<Rightarrow> pipeline list result" where
  "plan_remove rt version =
     rbind (find_slot_group rt version) (\<lambda>g.
       if group_is_active (rt_kernel rt) g then Inl (Msg ''cannot remove active slot'')
       else
         rbind (case group_empty_id g of
                  Some h \<Rightarrow> if \<not> has_empty_with_hash rt h then Inr h else allocate_empty_identifier rt
                | None \<Rightarrow> allocate_empty_identifier rt) (\<lambda>empty_id.
           Inr ((case sg_boot g of Some boot \<Rightarrow> [boot_to_remove boot] | None \<Rightarrow> []) @
                (if group_is_legacy g then map boot_to_remove (filter boot_is_legacy (rt_boot_entries rt)) else []) @
                rename_slot_to_empty g empty_id)))"

section \<open>Execution\<close>

text \<open>
  \<open>Executor::run_plan\<close> over the trait's \<open>run_pipeline\<close>. \<open>sh\<close> is the shell: it takes a command
  line and gives the exit status, \<open>None\<close> when it was killed.
\<close>

definition run_plan :: "(pipeline \<Rightarrow> ('s, unit) sresult) \<Rightarrow> pipeline list \<Rightarrow> ('s, unit) sresult" where
  "run_plan run_pipeline steps = sforeach steps run_pipeline"

definition dry_run_pipeline ::
  "(string \<Rightarrow> string) \<Rightarrow> pipeline \<Rightarrow> (string list, unit) sresult" where
  "dry_run_pipeline escape p = smodify (\<lambda>out. out @ [''DRY-RUN: '' @ format_shell escape p])"

definition shell_run_pipeline ::
  "(string \<Rightarrow> string) \<Rightarrow> (string \<Rightarrow> 's \<Rightarrow> int option \<times> 's) \<Rightarrow> pipeline \<Rightarrow> ('s, unit) sresult" where
  "shell_run_pipeline escape sh p s =
     (let cmdline = format_shell escape p in
      case sh cmdline s of
        (status, t) \<Rightarrow>
          if status = Some 0 then (Inr (), t)
          else (Inl (Msg (''pipeline failed (exit='' @
                  show_i32 (case status of Some c \<Rightarrow> c | None \<Rightarrow> - 1) @ ''): '' @ cmdline)), t))"

end
