(* ===== verification/Image_Inspect.thy ===== *)
theory Image_Inspect
  imports Image_Runtime
begin

text \<open>
  The status report of the image updater (\<open>Runtime::inspect\<close> and \<open>format_size\<close> of
  \<open>crates/ota-update/src/image/runtime.rs\<close>). Sizes are converted to \<open>f64\<close>, divided by a power
  of two, which is exact, and printed with one decimal; both roundings go to the nearest
  value, ties to even.
\<close>

section \<open>Sizes\<close>

definition round_half_even :: "nat \<Rightarrow> nat \<Rightarrow> nat" where
  "round_half_even a b =
     (let q = a div b; r = a mod b in
      if 2 * r < b \<or> 2 * r = b \<and> even q then q else q + 1)"

fun f64_shift :: "nat \<Rightarrow> nat" where
  "f64_shift n = (if n < 2 ^ 53 then 0 else Suc (f64_shift (n div 2)))"

declare f64_shift.simps [simp del]

text \<open>The value of \<open>bytes as f64\<close>: the nearest number with 53 significant bits.\<close>

definition f64_of_u64 :: "u64 \<Rightarrow> nat" where
  "f64_of_u64 bytes = (let e = f64_shift (unat bytes) in round_half_even (unat bytes) (2 ^ e) * 2 ^ e)"

definition tenths_of_gib :: "u64 \<Rightarrow> nat" where
  "tenths_of_gib bytes = round_half_even (10 * f64_of_u64 bytes) (1024 * 1024 * 1024)"

definition format_size :: "u64 option \<Rightarrow> string" where
  "format_size bytes_opt =
     (case bytes_opt of
        None \<Rightarrow> []
      | Some bytes \<Rightarrow>
          (let t = tenths_of_gib bytes in
           '' ('' @ show_nat (t div 10) @ ''.'' @ show_nat (t mod 10) @ ''G)''))"

section \<open>The report\<close>

definition line :: "string \<Rightarrow> string" where
  "line s = s @ ''\<newline>''"

definition show_bool :: "bool \<Rightarrow> string" where
  "show_bool b = (if b then ''true'' else ''false'')"

definition inspect_volume :: "volume \<Rightarrow> string" where
  "inspect_volume v = vg_name v @ ''/'' @ lv_name v @ format_size (lv_size_bytes v)"

definition inspect_group :: "kernel_params \<Rightarrow> slot_group \<Rightarrow> string" where
  "inspect_group kp g =
     line (''- slot: '' @ (if group_is_used g then ''used'' else ''empty'')) @
     (case group_version g of
        Some v \<Rightarrow>
          (case ver_hash v of
             Some hash \<Rightarrow> line (''  version: '' @ ver_revision v @ '' (hash='' @ hash @ '')'')
           | None \<Rightarrow> line (''  version: '' @ ver_revision v))
      | None \<Rightarrow>
          (case group_empty_id g of
             Some i \<Rightarrow> line (''  id: '' @ i)
           | None \<Rightarrow> line ''  id: <none>'')) @
     line (''  legacy: '' @ show_bool (group_is_legacy g)) @
     line (''  active: '' @ show_bool (group_is_active kp g)) @
     line (''  root: '' @ (case sg_root g of Some root \<Rightarrow> inspect_volume (sl_volume root) | None \<Rightarrow> ''<missing>'')) @
     line (''  verity: '' @ (case sg_verity g of Some verity \<Rightarrow> inspect_volume (sl_volume verity) | None \<Rightarrow> ''<missing>'')) @
     line (''  boot: '' @ (case sg_boot g of Some boot \<Rightarrow> boot_entry_display boot | None \<Rightarrow> ''<none>'')) @
     line []"

definition inspect_boot :: "boot_entry \<Rightarrow> string" where
  "inspect_boot b =
     line (case be_kind b of
             ManagedUki uki \<Rightarrow> ''  [ERROR] managed: '' @ uki_display uki @ '' [id='' @ be_id b @ '']''
           | LegacyBoot \<Rightarrow> ''  legacy: id='' @ be_id b
           | UnmanagedUki \<Rightarrow> ''  unmanaged: id='' @ be_id b)"

definition inspect :: "runtime \<Rightarrow> string" where
  "inspect rt =
     line ''Slot groups:'' @
     concat (map (inspect_group (rt_kernel rt)) (rt_slotgroups rt)) @
     (if rt_volumes rt \<noteq> [] then
        line ''Unrecognized volumes:'' @ concat (map (\<lambda>v. line (''- '' @ inspect_volume v)) (rt_volumes rt))
      else []) @
     (if rt_boot_entries rt \<noteq> [] then
        line ''Boot entries:'' @ concat (map inspect_boot (rt_boot_entries rt))
      else [])"

section \<open>Rounding\<close>

lemma round_half_even_nearest:
  assumes "0 < b"
  shows "2 * \<bar>int a - int (round_half_even a b * b)\<bar> \<le> int b"
proof -
  have a: "a = a div b * b + a mod b" by simp
  have m: "a mod b < b" using assms by simp
  show ?thesis
  proof (cases "2 * (a mod b) < b \<or> 2 * (a mod b) = b \<and> even (a div b)")
    case True
    then have "round_half_even a b * b = a - a mod b"
      by (simp add: round_half_even_def Let_def minus_mod_eq_div_mult)
    then show ?thesis using True by (auto simp: of_nat_diff)
  next
    case False
    then have "round_half_even a b * b = a div b * b + b"
      unfolding round_half_even_def Let_def by (subst if_not_P) simp_all
    moreover have "int a - int (a div b * b + b) = int (a mod b) - int b"
      using arg_cong [OF a, of int] by (simp only: of_nat_add)
    moreover have "\<bar>int (a mod b) - int b\<bar> = int b - int (a mod b)" using m by simp
    ultimately show ?thesis using False by (simp add: not_less)
  qed
qed

lemma round_half_even_1 [simp]: "round_half_even a (Suc 0) = a"
  by (simp add: round_half_even_def)

lemma f64_of_u64_exact: "unat b < 2 ^ 53 \<Longrightarrow> f64_of_u64 b = unat b"
  by (simp add: f64_of_u64_def f64_shift.simps [of "unat b"])

end
