(* ===== verification/Update_Lock.thy ===== *)
theory Update_Lock
  imports State_Result
begin

text \<open>
  The lock that keeps two updaters apart (\<open>crates/ota-update/src/lock.rs\<close>): a file whose inode
  carries an exclusive \<open>flock\<close>, written with the name of its owner and unlinked when the
  lock is dropped. An open file is known by its handle; a lock belongs to the handle and
  goes when the handle is closed. \<open>io\<close> says which of the calls that may fail succeed.
\<close>

record lock_fs =
  lf_dir :: "string \<Rightarrow> nat option"
  lf_next :: nat
  lf_held :: "nat \<Rightarrow> nat option"
  lf_text :: "nat \<Rightarrow> string"

datatype lock_io = OpenLock | TruncateLock | WriteLock | SyncLock

section \<open>What the file system does\<close>

definition fs_open :: "string \<Rightarrow> lock_fs \<Rightarrow> nat \<times> lock_fs" where
  "fs_open path fs =
     (case lf_dir fs path of
        Some i \<Rightarrow> (i, fs)
      | None \<Rightarrow> (lf_next fs,
          fs\<lparr>lf_dir := (lf_dir fs)(path := Some (lf_next fs)), lf_next := Suc (lf_next fs)\<rparr>))"

definition fs_try_lock :: "nat \<Rightarrow> nat \<Rightarrow> lock_fs \<Rightarrow> lock_fs option" where
  "fs_try_lock h i fs =
     (if lf_held fs i = None then Some (fs\<lparr>lf_held := (lf_held fs)(i := Some h)\<rparr>) else None)"

definition fs_set_text :: "nat \<Rightarrow> string \<Rightarrow> lock_fs \<Rightarrow> lock_fs" where
  "fs_set_text i t fs = fs\<lparr>lf_text := (lf_text fs)(i := t)\<rparr>"

definition fs_unlink :: "string \<Rightarrow> lock_fs \<Rightarrow> lock_fs" where
  "fs_unlink path fs = fs\<lparr>lf_dir := (lf_dir fs)(path := None)\<rparr>"

definition fs_close :: "nat \<Rightarrow> nat \<Rightarrow> lock_fs \<Rightarrow> lock_fs" where
  "fs_close h i fs =
     (if lf_held fs i = Some h then fs\<lparr>lf_held := (lf_held fs)(i := None)\<rparr> else fs)"

section \<open>Taking and dropping the lock\<close>

definition lock_owner_text :: "string option \<Rightarrow> nat \<Rightarrow> string \<Rightarrow> string" where
  "lock_owner_text hostname_file pid purpose =
     (let hostname = (case map_option trim hostname_file of
                        Some v \<Rightarrow> if v = [] then ''unknown'' else v
                      | None \<Rightarrow> ''unknown'')
      in ''host='' @ hostname @ ''\<newline>pid='' @ show_nat pid @ ''\<newline>purpose='' @ purpose @ ''\<newline>'')"

record update_lock =
  ul_file :: nat
  ul_path :: string
  ul_handle :: nat

text \<open>A step after the lock is taken that may fail, which closes the file again.\<close>

definition locked_step :: "nat \<Rightarrow> nat \<Rightarrow> bool \<Rightarrow> string \<Rightarrow> (lock_fs \<Rightarrow> lock_fs) \<Rightarrow> (lock_fs, unit) sresult" where
  "locked_step h i ok reason act fs =
     (if ok then (Inr (), act fs) else (Inl (Ctx reason (Msg ''I/O error'')), fs_close h i fs))"

definition acquire ::
  "(lock_io \<Rightarrow> bool) \<Rightarrow> string option \<Rightarrow> nat \<Rightarrow> nat \<Rightarrow> string \<Rightarrow> string \<Rightarrow> (lock_fs, update_lock) sresult" where
  "acquire io hostname pid h path purpose fs =
     (if \<not> io OpenLock then (Inl (Ctx (''opening lock file '' @ path) (Msg ''I/O error'')), fs)
      else
        (let (i, fs1) = fs_open path fs in
         case fs_try_lock h i fs1 of
           None \<Rightarrow> (Inl (Ctx (''another ota-update instance is already running (lock: '' @ path @ '')'')
                        (Msg ''I/O error'')), fs_close h i fs1)
         | Some fs2 \<Rightarrow>
             sbind (locked_step h i (io TruncateLock) (''truncating lock file '' @ path) (fs_set_text i [])) (\<lambda>_.
             sbind (locked_step h i (io WriteLock) (''writing lock owner into '' @ path)
                      (fs_set_text i (lock_owner_text hostname pid purpose))) (\<lambda>_.
             sbind (locked_step h i (io SyncLock) (''sync lock file '' @ path) id) (\<lambda>_.
               sret \<lparr>ul_file = i, ul_path = path, ul_handle = h\<rparr>))) fs2))"

text \<open>\<open>Drop for UpdateLock\<close>, after which the file itself is dropped and so closed.\<close>

definition drop_lock :: "update_lock \<Rightarrow> lock_fs \<Rightarrow> lock_fs" where
  "drop_lock l fs = fs_close (ul_handle l) (ul_file l) (fs_unlink (ul_path l) fs)"

definition lock_free :: "string \<Rightarrow> lock_fs \<Rightarrow> bool" where
  "lock_free path fs = (case lf_dir fs path of None \<Rightarrow> True | Some i \<Rightarrow> lf_held fs i = None)"

text \<open>Inodes not yet used are free, and inodes in the directory have been used.\<close>

definition lock_fs_ok :: "lock_fs \<Rightarrow> bool" where
  "lock_fs_ok fs \<longleftrightarrow>
     (\<forall>p i. lf_dir fs p = Some i \<longrightarrow> i < lf_next fs) \<and>
     (\<forall>i. lf_next fs \<le> i \<longrightarrow> lf_held fs i = None) \<and>
     (\<forall>p q i. lf_dir fs p = Some i \<longrightarrow> lf_dir fs q = Some i \<longrightarrow> p = q)"

lemmas lock_defs = acquire_def drop_lock_def fs_open_def fs_try_lock_def fs_set_text_def
  fs_unlink_def fs_close_def locked_step_def

lemma lock_fs_okD:
  assumes "lock_fs_ok fs"
  shows "lf_held fs (lf_next fs) = None" "lf_dir fs p = Some i \<Longrightarrow> i < lf_next fs"
    "lf_dir fs p = Some i \<Longrightarrow> lf_dir fs q = Some i \<Longrightarrow> p = q"
  using assms unfolding lock_fs_ok_def by auto

lemma fs_open_dir: "fs_open path fs = (i, fs') \<Longrightarrow> lf_dir fs' path = Some i"
  by (auto simp: fs_open_def split: option.splits)

text \<open>\<open>acquire\<close> succeeds exactly on a free path whose file can be written, and then holds it.\<close>

lemma acquire_Inr:
  assumes "lock_fs_ok fs"
  shows "(\<exists>l fs'. acquire io hn pid h path purpose fs = (Inr l, fs')) \<longleftrightarrow> (\<forall>op. io op) \<and> lock_free path fs"
proof -
  have all: "(\<forall>op. io op) \<longleftrightarrow> io OpenLock \<and> io TruncateLock \<and> io WriteLock \<and> io SyncLock"
    by (metis lock_io.exhaust)
  show ?thesis
    unfolding all using lock_fs_okD(1) [OF assms]
    by (auto simp: lock_defs lock_free_def sresult_defs split: option.splits)
qed

lemma acquire_held:
  assumes "acquire io hn pid h path purpose fs = (Inr l, fs')"
  shows "lf_dir fs' path = Some (ul_file l)" "lf_held fs' (ul_file l) = Some h"
    "ul_path l = path" "ul_handle l = h"
    "lf_text fs' (ul_file l) = lock_owner_text hn pid purpose"
  using assms by (auto simp: lock_defs sresult_defs split: option.splits if_splits)

lemma acquire_ok:
  assumes "lock_fs_ok fs"
  shows "lock_fs_ok (snd (acquire io hn pid h path purpose fs))"
  using assms unfolding lock_fs_ok_def
  by (auto simp: lock_defs sresult_defs less_Suc_eq split: option.splits if_splits) (meson leD)

lemma drop_lock_ok: "lock_fs_ok fs \<Longrightarrow> lock_fs_ok (drop_lock l fs)"
  unfolding lock_fs_ok_def by (auto simp: lock_defs split: if_splits)

text \<open>Dropping the lock frees the path, the lock file is gone.\<close>

lemma drop_lock_free: "lf_dir (drop_lock l fs) (ul_path l) = None" "lock_free (ul_path l) (drop_lock l fs)"
  by (simp_all add: lock_defs lock_free_def)

section \<open>Several updaters\<close>

text \<open>
  Updaters run in any order, each by the calls of \<open>acquire\<close> and of the drop, in which other
  updaters may come between two calls.
\<close>

datatype lock_phase = NoFile | HasOpened string nat | HasLocked update_lock | HasUnlinked update_lock

record lock_sys =
  ly_fs :: lock_fs
  ly_phase :: "nat \<Rightarrow> lock_phase"

definition lock_go :: "nat \<Rightarrow> lock_phase \<Rightarrow> lock_fs \<Rightarrow> lock_sys \<Rightarrow> lock_sys" where
  "lock_go h ph fs s = \<lparr>ly_fs = fs, ly_phase = (ly_phase s)(h := ph)\<rparr>"

inductive lock_step :: "lock_sys \<Rightarrow> lock_sys \<Rightarrow> bool" where
  open_file: "ly_phase s h = NoFile \<Longrightarrow> fs_open path (ly_fs s) = (i, fs) \<Longrightarrow>
    lock_step s (lock_go h (HasOpened path i) fs s)"
| take_lock: "ly_phase s h = HasOpened path i \<Longrightarrow> fs_try_lock h i (ly_fs s) = Some fs \<Longrightarrow>
    lock_step s (lock_go h (HasLocked \<lparr>ul_file = i, ul_path = path, ul_handle = h\<rparr>) fs s)"
| lock_busy: "ly_phase s h = HasOpened path i \<Longrightarrow> fs_try_lock h i (ly_fs s) = None \<Longrightarrow>
    lock_step s (lock_go h NoFile (fs_close h i (ly_fs s)) s)"
| write_owner: "ly_phase s h = HasLocked l \<Longrightarrow>
    lock_step s (lock_go h (HasLocked l) (fs_set_text (ul_file l) t (ly_fs s)) s)"
| give_up: "ly_phase s h = HasLocked l \<Longrightarrow>
    lock_step s (lock_go h NoFile (fs_close h (ul_file l) (ly_fs s)) s)"
| unlink_file: "ly_phase s h = HasLocked l \<Longrightarrow>
    lock_step s (lock_go h (HasUnlinked l) (fs_unlink (ul_path l) (ly_fs s)) s)"
| close_file: "ly_phase s h = HasUnlinked l \<Longrightarrow>
    lock_step s (lock_go h NoFile (fs_close h (ul_file l) (ly_fs s)) s)"

definition lock_start :: "lock_sys \<Rightarrow> bool" where
  "lock_start s \<longleftrightarrow> (\<forall>h. ly_phase s h = NoFile) \<and> (\<forall>i. lf_held (ly_fs s) i = None) \<and> lock_fs_ok (ly_fs s)"

text \<open>The inode a handle has locked.\<close>

fun locked_inode :: "lock_phase \<Rightarrow> nat option" where
  "locked_inode (HasLocked l) = Some (ul_file l)"
| "locked_inode (HasUnlinked l) = Some (ul_file l)"
| "locked_inode _ = None"

definition lock_inv :: "lock_sys \<Rightarrow> bool" where
  "lock_inv s \<longleftrightarrow> lock_fs_ok (ly_fs s) \<and>
     (\<forall>h i. lf_held (ly_fs s) i = Some h \<longleftrightarrow> locked_inode (ly_phase s h) = Some i) \<and>
     (\<forall>h path i. ly_phase s h = HasOpened path i \<longrightarrow> i < lf_next (ly_fs s))"

lemma lock_inv_start: "lock_start s \<Longrightarrow> lock_inv s"
  by (simp add: lock_start_def lock_inv_def)

lemma lock_go_simps [simp]:
  "ly_fs (lock_go h ph fs s) = fs"
  "ly_phase (lock_go h ph fs s) k = (if k = h then ph else ly_phase s k)"
  by (simp_all add: lock_go_def)

lemma fs_open_ok:
  assumes "lock_fs_ok fs" and "fs_open path fs = (i, fs')"
  shows "lock_fs_ok fs'" "lf_held fs' = lf_held fs" "i < lf_next fs'" "lf_next fs \<le> lf_next fs'"
    "lf_dir fs' path = Some i" "lf_dir fs q = Some j \<Longrightarrow> lf_dir fs' q = Some j"
    "lf_dir fs path = None \<Longrightarrow> i = lf_next fs"
  using assms lock_fs_okD [OF assms(1)]
  by (auto simp: fs_open_def lock_fs_ok_def less_Suc_eq split: option.splits if_splits) (meson less_irrefl)+

lemma fs_other_ok [simp]:
  "lock_fs_ok fs \<Longrightarrow> lock_fs_ok (fs_close h i fs)"
  "lock_fs_ok fs \<Longrightarrow> lock_fs_ok (fs_unlink path fs)"
  "lock_fs_ok (fs_set_text i t fs) = lock_fs_ok fs"
  "lf_next (fs_close h i fs) = lf_next fs" "lf_dir (fs_close h i fs) = lf_dir fs"
  "lf_next (fs_unlink path fs) = lf_next fs" "lf_held (fs_unlink path fs) = lf_held fs"
  "lf_next (fs_set_text i t fs) = lf_next fs" "lf_held (fs_set_text i t fs) = lf_held fs"
  "lf_dir (fs_set_text i t fs) = lf_dir fs"
  by (auto simp: lock_defs lock_fs_ok_def split: if_splits)

lemma fs_close_held:
  "lf_held (fs_close h i fs) j = (if j = i \<and> lf_held fs i = Some h then None else lf_held fs j)"
  by (simp add: fs_close_def)

lemma fs_try_lock_Some:
  "fs_try_lock h i fs = Some fs' \<longleftrightarrow> lf_held fs i = None \<and> fs' = fs\<lparr>lf_held := (lf_held fs)(i := Some h)\<rparr>"
  by (auto simp: fs_try_lock_def)

lemma lock_invI:
  assumes "lock_fs_ok (ly_fs s)"
    and "\<And>h i. lf_held (ly_fs s) i = Some h \<longleftrightarrow> locked_inode (ly_phase s h) = Some i"
    and "\<And>h path i. ly_phase s h = HasOpened path i \<Longrightarrow> i < lf_next (ly_fs s)"
  shows "lock_inv s"
  using assms unfolding lock_inv_def by blast

lemma lock_invD:
  assumes "lock_inv s"
  shows "lock_fs_ok (ly_fs s)"
    "lf_held (ly_fs s) i = Some h \<longleftrightarrow> locked_inode (ly_phase s h) = Some i"
    "ly_phase s h = HasOpened path i \<Longrightarrow> i < lf_next (ly_fs s)"
  using assms unfolding lock_inv_def by blast+

lemma lock_inv_open:
  assumes "lock_inv s" and "ly_phase s h = NoFile" and "fs_open path (ly_fs s) = (i, fs)"
  shows "lock_inv (lock_go h (HasOpened path i) fs s)"
  using lock_invD [OF assms(1)] fs_open_ok [OF lock_invD(1) [OF assms(1)] assms(3)] assms(2)
  by (intro lock_invI) (auto split: if_splits, meson less_le_trans)

lemma lock_inv_take:
  assumes "lock_inv s" and "ly_phase s h = HasOpened path i" and "fs_try_lock h i (ly_fs s) = Some fs"
  shows "lock_inv (lock_go h (HasLocked \<lparr>ul_file = i, ul_path = path, ul_handle = h\<rparr>) fs s)"
proof (rule lock_invI)
  note inv = lock_invD [OF assms(1)]
  have fs: "fs = (ly_fs s)\<lparr>lf_held := (lf_held (ly_fs s))(i := Some h)\<rparr>" "lf_held (ly_fs s) i = None"
    using assms(3) by (simp_all add: fs_try_lock_Some)
  show "lock_fs_ok (ly_fs (lock_go h (HasLocked \<lparr>ul_file = i, ul_path = path, ul_handle = h\<rparr>) fs s))"
    using inv(1) inv(3) [OF assms(2)] unfolding fs lock_fs_ok_def by (auto simp: not_le)
  show "lf_held (ly_fs (lock_go h (HasLocked \<lparr>ul_file = i, ul_path = path, ul_handle = h\<rparr>) fs s)) j = Some k \<longleftrightarrow>
      locked_inode (ly_phase (lock_go h (HasLocked \<lparr>ul_file = i, ul_path = path, ul_handle = h\<rparr>) fs s) k) = Some j"
    for j k
    using inv(2) [of j k] inv(2) [of i k] assms(2) fs by auto
qed (use lock_invD(3) [OF assms(1)] assms(3) in \<open>auto simp: fs_try_lock_Some split: if_splits\<close>)

lemma lock_inv_close:
  assumes "lock_inv s" and "ly_phase s h = HasOpened path i \<and> lf_held (ly_fs s) i \<noteq> None \<or> locked_inode (ly_phase s h) = Some i"
  shows "lock_inv (lock_go h NoFile (fs_close h i (ly_fs s)) s)"
proof (rule lock_invI)
  show "lf_held (ly_fs (lock_go h NoFile (fs_close h i (ly_fs s)) s)) j = Some k \<longleftrightarrow>
      locked_inode (ly_phase (lock_go h NoFile (fs_close h i (ly_fs s)) s) k) = Some j" for j k
    using lock_invD(2) [OF assms(1), of j k] lock_invD(2) [OF assms(1), of i h] assms(2)
    by (auto simp: fs_close_held)
qed (use lock_invD(1,3) [OF assms(1)] in \<open>auto split: if_splits\<close>)

lemma lock_inv_step:
  assumes "lock_step s t" and "lock_inv s"
  shows "lock_inv t"
  using assms
proof induction
  case (lock_busy s h path i)
  then show ?case by (intro lock_inv_close) (auto simp: fs_try_lock_def split: if_splits)
next
  case (write_owner s h l t)
  then show ?case
    using lock_invD [OF write_owner(2)] by (intro lock_invI) (auto split: if_splits)
next
  case (unlink_file s h l)
  then show ?case
    using lock_invD [OF unlink_file(2)] by (intro lock_invI) (auto split: if_splits)
qed (auto intro: lock_inv_open lock_inv_take lock_inv_close)

text \<open>An inode is locked by one handle at a time.\<close>

lemma lock_inv_inode:
  "lock_inv s \<Longrightarrow> locked_inode (ly_phase s h) = Some i \<Longrightarrow> locked_inode (ly_phase s k) = Some i \<Longrightarrow> h = k"
  using lock_invD(2) [of s i h] lock_invD(2) [of s i k] by simp

text \<open>
  Runs in which every handle that takes the lock still finds its file under the path: then a
  path has one holder. \<open>acquire\<close> does not look.
\<close>

definition takes_linked :: "lock_sys \<Rightarrow> lock_sys \<Rightarrow> bool" where
  "takes_linked s t \<longleftrightarrow>
     (\<forall>h path i l. ly_phase s h = HasOpened path i \<longrightarrow> ly_phase t h = HasLocked l \<longrightarrow>
        lf_dir (ly_fs s) path = Some i)"

definition holders_linked :: "lock_sys \<Rightarrow> bool" where
  "holders_linked s \<longleftrightarrow>
     (\<forall>h l. ly_phase s h = HasLocked l \<longrightarrow> lf_dir (ly_fs s) (ul_path l) = Some (ul_file l))"

lemma holders_linkedD:
  "holders_linked s \<Longrightarrow> ly_phase s h = HasLocked l \<Longrightarrow> lf_dir (ly_fs s) (ul_path l) = Some (ul_file l)"
  by (simp add: holders_linked_def)

lemma one_holder:
  assumes "lock_inv s" and "holders_linked s"
    and "ly_phase s h = HasLocked l" and "ly_phase s k = HasLocked m" and "ul_path l = ul_path m"
  shows "h = k"
proof (rule lock_inv_inode [OF assms(1)])
  show "locked_inode (ly_phase s h) = Some (ul_file l)" using assms(3) by simp
  show "locked_inode (ly_phase s k) = Some (ul_file l)"
    using holders_linkedD [OF assms(2,3)] holders_linkedD [OF assms(2,4)] assms(4,5) by simp
qed

lemma holders_linked_step:
  assumes "lock_step s t" and "takes_linked s t" and "lock_inv s" and "holders_linked s"
  shows "holders_linked t"
  using assms
proof induction
  case (open_file s h path i fs)
  then show ?case
    using fs_open_ok(6) [OF lock_invD(1) [OF open_file(4)] open_file(2)]
    by (auto simp: holders_linked_def split: if_splits)
next
  case (take_lock s h path i fs)
  then show ?case
    by (auto simp: holders_linked_def takes_linked_def fs_try_lock_Some)
next
  case (unlink_file s h l)
  have "ul_path m \<noteq> ul_path l" if "k \<noteq> h" "ly_phase s k = HasLocked m" for k m
    using one_holder [OF unlink_file(3,4) that(2) unlink_file(1)] that(1) by blast
  then show ?case using unlink_file(4) by (auto simp: holders_linked_def fs_unlink_def split: if_splits)
qed (auto simp: holders_linked_def split: if_splits)

lemma linked_run:
  assumes "(\<lambda>s t. lock_step s t \<and> takes_linked s t)\<^sup>*\<^sup>* s t" and "lock_start s"
  shows "lock_inv t \<and> holders_linked t"
  using assms(1)
proof induction
  case base
  then show ?case using assms(2) lock_inv_start by (simp add: holders_linked_def lock_start_def)
next
  case (step t u)
  then show ?case using lock_inv_step holders_linked_step by blast
qed

end
