(* ===== verification/Image_Install.thy ===== *)
theory Image_Install
  imports Image_Plan Image_Inspect Update_Lock
begin

text \<open>
  Installing and removing images (\<open>crates/ota-update/src/image/install.rs\<close>, \<open>cli.rs\<close>): the state
  of the machine is read, a plan is made from it, and the plan is run under the update lock.
\<close>

section \<open>Running under the lock\<close>

text \<open>
  The machine: lock files, what was printed, and everything the commands of a plan change,
  which \<open>sh\<close> (the shell) acts on.
\<close>

record 's machine =
  mc_locks :: lock_fs
  mc_out :: "string list"
  mc_sys :: 's

record lock_env =
  le_io :: "lock_io \<Rightarrow> bool"
  le_hostname :: "string option"
  le_pid :: nat
  le_handle :: nat

definition println :: "string \<Rightarrow> ('s machine, unit) sresult" where
  "println s = smodify (\<lambda>m. m\<lparr>mc_out := mc_out m @ [s]\<rparr>)"

definition machine_acquire :: "lock_env \<Rightarrow> string \<Rightarrow> string \<Rightarrow> ('s machine, update_lock) sresult" where
  "machine_acquire e path purpose m =
     (case acquire (le_io e) (le_hostname e) (le_pid e) (le_handle e) path purpose (mc_locks m) of
        (r, fs) \<Rightarrow> (r, m\<lparr>mc_locks := fs\<rparr>))"

text \<open>A lock lives to the end of its scope, whatever way the scope is left.\<close>

definition with_lock ::
  "lock_env \<Rightarrow> string \<Rightarrow> string \<Rightarrow> ('s machine, 'a) sresult \<Rightarrow> ('s machine, 'a) sresult" where
  "with_lock e path purpose body =
     sbind (machine_acquire e path purpose) (\<lambda>l m.
       case body m of (r, m') \<Rightarrow> (r, m'\<lparr>mc_locks := drop_lock l (mc_locks m')\<rparr>))"

definition run_dry :: "(string \<Rightarrow> string) \<Rightarrow> pipeline \<Rightarrow> ('s machine, unit) sresult" where
  "run_dry escape p m =
     (case dry_run_pipeline escape p (mc_out m) of (r, out) \<Rightarrow> (r, m\<lparr>mc_out := out\<rparr>))"

definition run_shell ::
  "(string \<Rightarrow> string) \<Rightarrow> (string \<Rightarrow> 's \<Rightarrow> int option \<times> 's) \<Rightarrow> pipeline \<Rightarrow> ('s machine, unit) sresult" where
  "run_shell escape sh p m =
     (case shell_run_pipeline escape sh p (mc_sys m) of (r, s) \<Rightarrow> (r, m\<lparr>mc_sys := s\<rparr>))"

definition execute_plan ::
  "(string \<Rightarrow> string) \<Rightarrow> (string \<Rightarrow> 's \<Rightarrow> int option \<times> 's) \<Rightarrow> lock_env \<Rightarrow> pipeline list \<Rightarrow> bool \<Rightarrow>
   ('s machine, unit) sresult" where
  "execute_plan escape sh e steps dry_run =
     (if steps = [] then println ''Nothing to do.''
      else with_lock e ''/run/ota-update.lock'' ''image-install''
             (if dry_run then run_plan (run_dry escape) steps else run_plan (run_shell escape sh) steps))"

section \<open>Commands\<close>

text \<open>
  What the updater reads of the machine: the kernel's command line, the boot entries, the
  volumes, and manifests with the files they name. \<open>load\<close> is \<open>Manifest::from_file\<close>, which
  hands the file to \<open>serde_json\<close>.
\<close>

record image_env =
  ie_cmdline :: "string result"
  ie_bootctl :: "bootctl_item list result"
  ie_lvs :: "volume list result"
  ie_load :: "string \<Rightarrow> manifest result"
  ie_files :: file_env
  ie_escape :: "string \<Rightarrow> string"

definition populate_runtime :: "image_env \<Rightarrow> runtime result" where
  "populate_runtime env =
     rbind (with_context ''while reading /proc/cmdline'' (ie_cmdline env)) (\<lambda>cmdline.
     rbind (ie_bootctl env) (\<lambda>bootctl.
     rbind (with_context ''while invoking lvs'' (ie_lvs env)) (\<lambda>lvs.
       runtime_new lvs cmdline bootctl)))"

definition validate_manifest_path :: "image_env \<Rightarrow> string \<Rightarrow> unit result" where
  "validate_manifest_path env manifest_path =
     rbind (ok_or (path_parent manifest_path) (Msg ''manifest path has no parent directory'')) (\<lambda>source_dir.
     rbind (ie_load env manifest_path) (\<lambda>m.
       with_context ''while validating manifest content'' (manifest_validate (ie_files env) source_dir True m)))"

definition install_plan :: "image_env \<Rightarrow> string \<Rightarrow> bool \<Rightarrow> pipeline list result" where
  "install_plan env manifest_path validate =
     rbind (populate_runtime env) (\<lambda>rt.
     rbind (ok_or (path_parent manifest_path) (Msg ''manifest path has no parent directory'')) (\<lambda>source_dir.
     rbind (ie_load env manifest_path) (\<lambda>m.
     rbind (with_context ''while validating manifest content'' (manifest_validate (ie_files env) source_dir validate m)) (\<lambda>_.
       plan_install rt m source_dir))))"

definition install_from_manifest_path ::
  "image_env \<Rightarrow> (string \<Rightarrow> 's \<Rightarrow> int option \<times> 's) \<Rightarrow> lock_env \<Rightarrow> string \<Rightarrow> bool \<Rightarrow> bool \<Rightarrow>
   ('s machine, unit) sresult" where
  "install_from_manifest_path env sh e manifest_path validate dry_run =
     sbind (sread (\<lambda>_. install_plan env manifest_path validate)) (\<lambda>steps.
       execute_plan (ie_escape env) sh e steps dry_run)"

datatype image_action =
    InstallImage string bool bool
  | ValidateImage string
  | RemoveImage string "string option"
  | StatusImage

definition image_update_handle ::
  "image_env \<Rightarrow> (string \<Rightarrow> 's \<Rightarrow> int option \<times> 's) \<Rightarrow> lock_env \<Rightarrow> bool \<Rightarrow> image_action \<Rightarrow>
   ('s machine, unit) sresult" where
  "image_update_handle env sh e dry_run action =
     (case action of
        InstallImage manifest_path validate no_validate \<Rightarrow>
          install_from_manifest_path env sh e manifest_path (validate \<and> \<not> no_validate) dry_run
      | ValidateImage manifest_path \<Rightarrow>
          sbind (sread (\<lambda>_. validate_manifest_path env manifest_path)) (\<lambda>_.
            println ''Manifest validation successful.'')
      | RemoveImage version hash \<Rightarrow>
          sbind (sread (\<lambda>_. rbind (populate_runtime env) (\<lambda>rt. plan_remove rt (mk_version version hash)))) (\<lambda>steps.
            execute_plan (ie_escape env) sh e steps dry_run)
      | StatusImage \<Rightarrow>
          sbind (sread (\<lambda>_. populate_runtime env)) (\<lambda>rt. println (inspect rt)))"

end
