(* ===== verification/Image_Properties.thy ===== *)
theory Image_Properties
  imports Image_Install
begin

text \<open>
  What the image updater guarantees: reading the machine back, choosing a slot, planning and
  running an installation, with witnesses on a small machine.
\<close>

section \<open>An example machine\<close>

definition ex_hash :: string where
  "ex_hash = ''0123456789abcdef''"

definition ex_volume :: "string \<Rightarrow> volume" where
  "ex_volume name = \<lparr>lv_name = name, vg_name = ''pool'', lv_attr = None, lv_size_bytes = None\<rparr>"

definition ex_volumes :: "volume list" where
  "ex_volumes = map ex_volume
     [''root_1.0_0123456789abcdef'', ''verity_1.0_0123456789abcdef'', ''swap'',
      ''root_empty_0'', ''verity_empty_0'']"

definition ex_cmdline :: string where
  "ex_cmdline = ''quiet ghaf.revision=1.0 ghaf.storehash='' @ concat (replicate 4 ex_hash)"

definition ex_item :: "string \<Rightarrow> string \<Rightarrow> bootctl_item" where
  "ex_item ty i =
     \<lparr>bi_type = ty, bi_source = ''esp'', bi_id = i, bi_path = ''/boot/'' @ i, bi_root = ''/boot'',
      bi_title = ''Ghaf'', bi_show_title = ''Ghaf'', bi_sort_key = ''nixos'', bi_version = ''1'',
      bi_machine_id = None, bi_options = [], bi_linux = None, bi_efi = None, bi_initrd = None,
      bi_is_reported = True, bi_is_default = True, bi_is_selected = True, bi_addons = None,
      bi_cmdline = ''quiet''\<rparr>"

definition ex_items :: "bootctl_item list" where
  "ex_items = [ex_item ''type2'' ''ghaf-1.0-0123456789abcdef.efi'']"

definition ex_file :: "string \<Rightarrow> manifest_file" where
  "ex_file n = \<lparr>mf_name = n, mf_sha256sum = ''sum'', mf_unpacked_size = None\<rparr>"

definition ex_manifest :: "string \<Rightarrow> manifest" where
  "ex_manifest v =
     \<lparr>mn_meta = [], mn_manifest_version = 1, mn_system = None, mn_version = v,
      mn_root_verity_hash = ''fedcba9876543210fedcba9876543210'', mn_kernel = ex_file ''kernel.efi'',
      mn_store = ex_file ''root.img.zst'', mn_verity = ex_file ''verity.img''\<rparr>"

definition ex_kernel :: kernel_params where
  "ex_kernel = \<lparr>kp_store_hash = Some (concat (replicate 4 ex_hash)), kp_revision = Some ''1.0''\<rparr>"

definition ex_slot :: "kind \<Rightarrow> slot_status \<Rightarrow> slot" where
  "ex_slot k st = \<lparr>sl_kind = k, sl_status = st, sl_volume = ex_volume (slot_name (k, st))\<rparr>"

definition ex_group :: "slot_status \<Rightarrow> boot_entry option \<Rightarrow> slot_group" where
  "ex_group st b = \<lparr>sg_root = Some (ex_slot Root st), sg_verity = Some (ex_slot Verity st), sg_boot = b\<rparr>"

definition ex_runtime :: runtime where
  "ex_runtime =
     \<lparr>rt_slotgroups =
        [ex_group (Used (mk_version ''1.0'' (Some ex_hash)))
           (Some (boot_entry_from_uki \<lparr>ue_version = mk_version ''1.0'' (Some ex_hash), ue_boot_counter = None\<rparr>)),
         ex_group (Empty (Known ''0'')) None],
      rt_volumes = [ex_volume ''swap''], rt_kernel = ex_kernel, rt_boot_entries = [], rt_boot = ''/boot''\<rparr>"

text \<open>The plan to install a version 2.0 there.\<close>

definition ex_steps :: "pipeline list" where
  "ex_steps =
     [pipe (pipeline_new (cmd ''zstdcat'' [''/src/root.img.zst'']))
        (cmd ''dd'' [''of=/dev/mapper/pool-root_empty_0'', ''bs=4M'', ''status=progress'']),
      pipeline_new (cmd ''dd'' [''if=/src/verity.img'', ''of=/dev/mapper/pool-verity_empty_0'', ''bs=4M'', ''status=progress'']),
      pipeline_new (cmd ''blockdev'' [''--flushbufs'', ''/dev/mapper/pool-root_empty_0'']),
      pipeline_new (cmd ''blockdev'' [''--flushbufs'', ''/dev/mapper/pool-verity_empty_0'']),
      pipeline_new (cmd ''lvrename'' [''pool'', ''root_empty_0'', ''root_2.0_fedcba9876543210'']),
      pipeline_new (cmd ''lvrename'' [''pool'', ''verity_empty_0'', ''verity_2.0_fedcba9876543210'']),
      pipeline_new (cmd ''install'' [''-m'', ''0644'', ''/src/kernel.efi'',
        ''/boot/EFI/Linux/ghaf-2.0-fedcba9876543210.efi''])]"

lemma ex_plan: "plan_install ex_runtime (ex_manifest ''2.0'') ''/src'' = Inr ex_steps"
  by code_simp

lemma ex_runtime_new: "runtime_new ex_volumes ex_cmdline ex_items = Inr ex_runtime"
  by code_simp

section \<open>Reading the machine\<close>

text \<open>
  C16. Scanning a machine is partitioning: it succeeds exactly when no two volumes carry the
  same slot name, no two boot entries belong to one group and the kernel's hash is well
  formed; then every group collects the root volume, the verity volume and the boot entry of
  one status, in the order of first appearance, followed by the boot entries without volumes.
\<close>

theorem runtime_new_partitions:
  "runtime_new vols cmdline items = Inr rt \<longleftrightarrow>
     (let slots = fst (from_volumes vols); boots = filter boot_is_managed (from_bootctl items) in
      distinct_slots slots \<and> distinct_boots slots boots \<and>
      (\<exists>k. from_cmdline cmdline = Inr k \<and>
         rt = \<lparr>rt_slotgroups = with_boots slots boots, rt_volumes = snd (from_volumes vols), rt_kernel = k,
               rt_boot_entries = filter (\<lambda>b. \<not> boot_is_managed b) (from_bootctl items), rt_boot = ''/boot''\<rparr>))"
    (is "?new \<longleftrightarrow> ?part")
proof -
  let ?s = "fst (from_volumes vols)" and ?b = "filter boot_is_managed (from_bootctl items)"
  have v: "\<forall>b \<in> set ?b. boot_version b \<noteq> None" using from_bootctl_managed by fastforce
  have g: "group_volumes ?s ?b = Inr gs \<longleftrightarrow>
      gs = with_boots ?s ?b \<and> distinct_slots ?s \<and> distinct_boots ?s ?b" for gs
    using group_volumes_Inr [OF _ v] group_volumes_eq [OF _ _ v] by auto
  show ?thesis
    unfolding runtime_new_def Let_def by (auto simp: split_beta result_simps comp_def g)
qed

text \<open>
  C21. Slot names are read back: a volume name decodes to a kind and a status exactly when it is
  the name printed for them and the parts contain no underscore and the revision is not called
  empty.
\<close>

theorem slot_names_read_back:
  "decode_status s = Inr (k, st) \<longleftrightarrow> slot_wf st \<and> s = slot_name (k, st)"
  by (rule decode_status_iff)

text \<open>
  Names of kernel images are read back, boot counters included, when the version has a hash,
  its revision has no dash and is not called empty, and no plus sign is mistaken for a counter.
\<close>

lemma uki_names_read_back:
  assumes "uki_wf u"
  shows "uki_from_str (uki_display u) = Inr u"
  using ukn.parse_print [OF assms] by simp

lemma uki_names_read_back_witness:
  "uki_from_str ''ghaf-1.0-abc+3-1.efi'' =
     Inr \<lparr>ue_version = mk_version ''1.0'' (Some ''abc''),
          ue_boot_counter = Some \<lparr>bc_remaining = 3, bc_used = Some 1\<rparr>\<rparr>"
proof -
  let ?u = "\<lparr>ue_version = mk_version ''1.0'' (Some ''abc''),
     ue_boot_counter = Some \<lparr>bc_remaining = 3, bc_used = Some 1\<rparr>\<rparr>"
  have "uki_wf ?u" by (simp add: uki_wf_def)
  then have "uki_from_str (uki_display ?u) = Inr ?u" by (rule uki_names_read_back)
  moreover have "uki_display ?u = ''ghaf-1.0-abc+3-1.efi''"
    by (simp add: uki_display_def version_display_alt_def counter_display_def show_nat.simps digit_char_eval)
  ultimately show ?thesis by simp
qed

text \<open>
  C22. Classification never finds a usable group: the last check of \<open>validate\<close> demands that an
  empty group has a boot entry, where its message says that it must not, and a boot entry cannot
  match an empty slot.
\<close>

theorem classify_broken:
  "classify kp g = Broken"
  using group_validate_fails by (simp add: classify_def)

text \<open>
  C23. A version read from the kernel's command line has a hash of sixteen hexadecimal digits or
  none, so that taking the fragment cannot fail; the same slice of a manifest's hash panics on a
  shorter string, which nothing checks.
\<close>

theorem hash_fragments:
  assumes "from_cmdline cmdline = Inr kp"
  shows "(\<forall>v h. kernel_to_version kp = Some v \<longrightarrow> ver_hash v = Some h \<longrightarrow>
       length h = 16 \<and> list_all is_ascii_hexdigit h) \<and>
    (\<forall>m. length (mn_root_verity_hash m) < 16 \<longleftrightarrow>
       manifest_to_version m = Inl (Panic ''byte index 16 is out of bounds''))"
proof (intro conjI allI impI)
  fix v h
  assume "kernel_to_version kp = Some v" and "ver_hash v = Some h"
  with assms obtain hash where hash: "list_all is_ascii_hexdigit hash" "length hash = 64" "h = take 16 hash"
    by (auto simp: from_cmdline_def kernel_to_version_def verity_hash_fragment_def Let_def result_simps
        split: option.splits)
  then show "length h = 16" "list_all is_ascii_hexdigit h"
    by (auto simp: list_all_iff dest: in_set_takeD)
qed (simp add: manifest_to_version_def hash_fragment_def)

theorem hash_fragments_witness:
  "kernel_to_version ex_kernel = Some (mk_version ''1.0'' (Some ex_hash)) \<and>
   length ex_hash = 16 \<and> list_all is_ascii_hexdigit ex_hash"
proof -
  have "from_cmdline ex_cmdline = Inr ex_kernel" by code_simp
  moreover have v: "kernel_to_version ex_kernel = Some (mk_version ''1.0'' (Some ex_hash))" by code_simp
  ultimately show ?thesis using hash_fragments [of ex_cmdline ex_kernel] by simp
qed

section \<open>Choosing a slot\<close>

text \<open>
  C20. Identifiers of empty slots: the smallest number below one hundred that no empty slot has,
  and an error exactly when all of them are taken.
\<close>

theorem allocate_empty_identifier_least:
  "(allocate_empty_identifier rt = Inr i \<longleftrightarrow>
     (\<exists>n < 100. i = show_nat n \<and> \<not> has_empty_with_hash rt (show_nat n) \<and>
        (\<forall>k < n. has_empty_with_hash rt (show_nat k)))) \<and>
   (is_ok (allocate_empty_identifier rt) \<longleftrightarrow> (\<exists>n < 100. \<not> has_empty_with_hash rt (show_nat n)))"
proof -
  let ?P = "\<lambda>n. \<not> has_empty_with_hash rt (show_nat n)"
  have eq: "allocate_empty_identifier rt =
      (case find ?P [0..<100] of Some n \<Rightarrow> Inr (show_nat n) | None \<Rightarrow> Inl (Msg ''empty identifier space exhausted''))"
    by (simp add: allocate_empty_identifier_def Let_def has_empty_with_hash_def list_ex_iff in_map_filter_iff)
  have some: "find ?P [0..<100] = Some n \<longleftrightarrow> n < 100 \<and> ?P n \<and> (\<forall>k < n. \<not> ?P k)" for n
    by (auto simp: find_Some_iff)
  have none: "find ?P [0..<100] = None \<longleftrightarrow> \<not> (\<exists>n < 100. ?P n)"
    by (auto simp: find_None_iff)
  show ?thesis
    unfolding eq using some none by (cases "find ?P [0..<100]") (auto simp: is_ok_def)
qed

theorem allocate_empty_identifier_least_witness:
  "allocate_empty_identifier ex_runtime = Inr ''1''"
proof -
  have one: "show_nat 1 = ''1''" and zero: "show_nat 0 = ''0''"
    by (simp_all add: show_nat.simps digit_char_eval)
  have "has_empty_with_hash ex_runtime ''0''" "\<not> has_empty_with_hash ex_runtime ''1''" by code_simp+
  then have "\<exists>n < 100. ''1'' = show_nat n \<and> \<not> has_empty_with_hash ex_runtime (show_nat n) \<and>
      (\<forall>k < n. has_empty_with_hash ex_runtime (show_nat k))"
    using one zero by (intro exI [of _ 1]) auto
  then show ?thesis using allocate_empty_identifier_least [of ex_runtime "''1''"] by blast
qed

text \<open>A slot that can be written: empty, and named after its kind and status.\<close>

definition blank_slot :: "kind \<Rightarrow> slot_status \<Rightarrow> slot \<Rightarrow> bool" where
  "blank_slot k st s \<longleftrightarrow>
     sl_kind s = k \<and> sl_status s = st \<and> slot_wf st \<and> slot_is_empty s \<and> lv_name (sl_volume s) = slot_name (k, st)"

lemma empty_group_slots:
  assumes rt: "runtime_new vols cmdline items = Inr rt" and g: "g \<in> set (rt_slotgroups rt)"
    and "group_is_empty g" and "group_is_complete g"
  obtains root verity st where
    "g = \<lparr>sg_root = Some root, sg_verity = Some verity, sg_boot = None\<rparr>"
    "blank_slot Root st root" "blank_slot Verity st verity"
    "sl_volume root \<in> set vols" "sl_volume verity \<in> set vols"
proof -
  let ?s = "fst (from_volumes vols)" and ?b = "filter boot_is_managed (from_bootctl items)"
  have sc: "scanned ?s ?b rt" using runtime_new_Inr(1) [OF rt] .
  then have mem: "g \<in> set (with_boots ?s ?b)" and ds: "distinct_slots ?s"
    and v: "\<forall>b \<in> set ?b. boot_version b \<noteq> None"
    using g by (auto simp: scanned_def list_all_iff)
  have boot: "sg_boot g = None" using empty_group_boot [OF mem ds v assms(3)] .
  from mem show thesis
  proof (cases rule: with_boots_cases)
    case (slots st)
    obtain root verity where rv: "pick Root st ?s = Some root" "pick Verity st ?s = Some verity"
      using slots(2) assms(4) by (auto simp: group_is_complete_def)
    have ok: "slot_ok root \<and> sl_volume root \<in> set vols" "slot_ok verity \<and> sl_volume verity \<in> set vols"
      using pick_Some [OF rv(1)] pick_Some [OF rv(2)] from_volumes_ok by blast+
    have gg: "g = \<lparr>sg_root = Some root, sg_verity = Some verity, sg_boot = None\<rparr>"
      using slots(2) boot rv by (cases g) auto
    have "blank_slot Root st root" "blank_slot Verity st verity"
      using pick_Some [OF rv(1)] pick_Some [OF rv(2)] ok assms(3) gg
      by (auto simp: blank_slot_def slot_ok_def slot_display_def group_is_empty_def)
    with gg ok show thesis using that by blast
  next
    case (orphan b)
    then show thesis using assms(4) by (simp add: group_is_complete_def)
  qed
qed

lemma attach_uki_None:
  "attach_uki u \<lparr>sg_root = r, sg_verity = v, sg_boot = None\<rparr> =
     Inr \<lparr>sg_root = r, sg_verity = v, sg_boot = Some (boot_entry_from_uki u)\<rparr>"
  by (simp add: attach_uki_def ensure_def)

definition lvcreate_step :: "string \<Rightarrow> string \<Rightarrow> u64 \<Rightarrow> pipeline" where
  "lvcreate_step vg name sz = pipeline_new (cmd ''lvcreate''
     [''--yes'', ''--wipesignatures'', ''y'', ''-L'', show_nat (unat sz) @ ''b'', ''-n'', name, vg])"

lemma create_volume_Inr:
  assumes "create_volume vg i (kind_display k) msize asize = Inr (s, step)" and "CHR ''_'' \<notin> set i"
  obtains sz where "blank_slot k (Empty (Known i)) s" "vg_name (sl_volume s) = vg"
    "step = lvcreate_step vg (slot_name (k, Empty (Known i))) sz"
proof (cases "case msize of Some s \<Rightarrow> Some s | None \<Rightarrow> asize")
  case None
  then show thesis using assms(1) by (simp add: create_volume_eq [OF assms(2)])
next
  case (Some sz)
  then have "s = \<lparr>sl_kind = k, sl_status = Empty (Known i), sl_volume =
        \<lparr>lv_name = slot_name (k, Empty (Known i)), vg_name = vg, lv_attr = None, lv_size_bytes = Some sz\<rparr>\<rparr>"
    and "step = lvcreate_step vg (slot_name (k, Empty (Known i))) sz"
    using assms(1) by (simp_all add: create_volume_eq [OF assms(2)] lvcreate_step_def)
  then show thesis using that [of sz] assms(2) by (simp add: blank_slot_def slot_version_def)
qed

lemma create_empty_slot_Inr:
  assumes "create_empty_slot rt m = Inr (g, steps)"
  obtains i vg root verity sr sv where
    "allocate_empty_identifier rt = Inr i"
    "g = \<lparr>sg_root = Some root, sg_verity = Some verity, sg_boot = None\<rparr>"
    "blank_slot Root (Empty (Known i)) root" "blank_slot Verity (Empty (Known i)) verity"
    "vg_name (sl_volume root) = vg" "vg_name (sl_volume verity) = vg"
    "steps = [lvcreate_step vg (slot_name (Root, Empty (Known i))) sr,
              lvcreate_step vg (slot_name (Verity, Empty (Known i))) sv]"
proof -
  obtain active ar av i rs vs where a: "active_slot rt = Inr active" "sg_root active = Some ar"
      "sg_verity active = Some av" "allocate_empty_identifier rt = Inr i"
    and cr: "create_volume (vg_name (sl_volume ar)) i (kind_display Root) (mf_unpacked_size (mn_store m))
        (lv_size_bytes (sl_volume ar)) = Inr rs"
    and cv: "create_volume (vg_name (sl_volume ar)) i (kind_display Verity) (mf_unpacked_size (mn_verity m))
        (lv_size_bytes (sl_volume av)) = Inr vs"
    and g: "g = \<lparr>sg_root = Some (fst rs), sg_verity = Some (fst vs), sg_boot = None\<rparr>" "steps = [snd rs, snd vs]"
    using assms by (auto simp: create_empty_slot_def Let_def result_simps split_beta)
  have i: "CHR ''_'' \<notin> set i" using allocate_empty_identifier_Inr(2) [OF a(4)] .
  have cr': "create_volume (vg_name (sl_volume ar)) i (kind_display Root) (mf_unpacked_size (mn_store m))
        (lv_size_bytes (sl_volume ar)) = Inr (fst rs, snd rs)" using cr by simp
  have cv': "create_volume (vg_name (sl_volume ar)) i (kind_display Verity) (mf_unpacked_size (mn_verity m))
        (lv_size_bytes (sl_volume av)) = Inr (fst vs, snd vs)" using cv by simp
  show thesis
    by (rule create_volume_Inr [OF cr' i], rule create_volume_Inr [OF cv' i])
      (use that [OF a(4) g(1)] g(2) in simp)
qed

lemma select_update_slot_Selected:
  assumes rt: "runtime_new vols cmdline items = Inr rt"
    and sel: "select_update_slot rt m = Inr (Selected g pre)"
  obtains target root verity st where
    "manifest_to_version m = Inr target"
    "g = \<lparr>sg_root = Some root, sg_verity = Some verity,
          sg_boot = Some (boot_entry_from_uki \<lparr>ue_version = target, ue_boot_counter = None\<rparr>)\<rparr>"
    "blank_slot Root st root" "blank_slot Verity st verity"
    "sl_volume root \<in> set vols \<and> sl_volume verity \<in> set vols \<and>
       pre = resize_step (Some root) (mf_unpacked_size (mn_store m)) @
             resize_step (Some verity) (mf_unpacked_size (mn_verity m)) \<or>
     (\<exists>i sr sv. st = Empty (Known i) \<and> \<not> has_empty_with_hash rt i \<and>
        pre = [lvcreate_step (vg_name (sl_volume root)) (slot_name (Root, st)) sr,
               lvcreate_step (vg_name (sl_volume verity)) (slot_name (Verity, st)) sv])"
proof -
  obtain target where t: "manifest_to_version m = Inr target"
    using sel by (auto simp: select_update_slot_def result_simps)
  let ?u = "\<lparr>ue_version = target, ue_boot_counter = None\<rparr> :: uki_entry"
  let ?f = "find (\<lambda>g. group_is_empty g \<and> \<not> group_is_active (rt_kernel rt) g \<and> group_is_complete g) (rt_slotgroups rt)"
  show thesis
  proof (cases ?f)
    case None
    then obtain g0 where c: "create_empty_slot rt m = Inr (g0, pre)" and g: "attach_uki ?u g0 = Inr g"
      using sel t by (auto simp: select_update_slot_def result_simps Let_def split: if_splits)
    from c show thesis
    proof (rule create_empty_slot_Inr)
      fix i vg root verity sr sv
      assume a: "allocate_empty_identifier rt = Inr i"
        and g0: "g0 = \<lparr>sg_root = Some root, sg_verity = Some verity, sg_boot = None\<rparr>"
        and b: "blank_slot Root (Empty (Known i)) root" "blank_slot Verity (Empty (Known i)) verity"
        and p: "vg_name (sl_volume root) = vg" "vg_name (sl_volume verity) = vg"
          "pre = [lvcreate_step vg (slot_name (Root, Empty (Known i))) sr,
                  lvcreate_step vg (slot_name (Verity, Empty (Known i))) sv]"
      show thesis
        using that [OF t _ b] g p allocate_empty_identifier_Inr(1) [OF a]
        unfolding g0 attach_uki_None by auto
    qed
  next
    case (Some g0)
    then have g0: "g0 \<in> set (rt_slotgroups rt)" "group_is_empty g0" "group_is_complete g0"
      using find_Some_in [OF Some] by auto
    have g: "attach_uki ?u g0 = Inr g" and pre: "pre = resize_steps_for_slot g0 m"
      using sel t Some by (auto simp: select_update_slot_def result_simps Let_def split: if_splits)
    from rt g0 show thesis
    proof (rule empty_group_slots)
      fix root verity st
      assume g0: "g0 = \<lparr>sg_root = Some root, sg_verity = Some verity, sg_boot = None\<rparr>"
        and b: "blank_slot Root st root" "blank_slot Verity st verity"
        and vols: "sl_volume root \<in> set vols" "sl_volume verity \<in> set vols"
      show thesis
        using that [OF t _ b] g pre vols unfolding g0 attach_uki_None by (auto simp: resize_steps_for_slot_def)
    qed
  qed
qed

section \<open>Installing\<close>

lemma from_volumes_mem:
  "v \<in> set vols \<Longrightarrow> decode_status (lv_name v) = Inr (k, st) \<Longrightarrow>
     \<lparr>sl_kind = k, sl_status = st, sl_volume = v\<rparr> \<in> set (fst (from_volumes vols))"
  by (induction vols) (auto simp: from_volumes_Cons split: sum.splits prod.splits)

lemma fresh_empty_name:
  assumes rt: "runtime_new vols cmdline items = Inr rt" and "\<not> has_empty_with_hash rt i" and "slot_wf (Empty (Known i))"
  shows "slot_name (k, Empty (Known i)) \<notin> lv_name ` set vols"
proof
  assume "slot_name (k, Empty (Known i)) \<in> lv_name ` set vols"
  then obtain v where "v \<in> set vols" "lv_name v = slot_name (k, Empty (Known i))" by auto
  then have "\<lparr>sl_kind = k, sl_status = Empty (Known i), sl_volume = v\<rparr> \<in> set (fst (from_volumes vols))"
    using assms(3) by (intro from_volumes_mem) (auto simp: decode_slot_name)
  then show False
    using assms(2) has_empty_with_hash_iff [OF runtime_new_Inr(1) [OF rt]] by force
qed

lemma blank_not_used:
  assumes "blank_slot k st s" and "t \<in> set (fst (from_volumes vols))" and "slot_is_used t"
  shows "lv_name (sl_volume t) \<noteq> lv_name (sl_volume s)"
proof
  assume "lv_name (sl_volume t) = lv_name (sl_volume s)"
  moreover have "slot_ok t" using from_volumes_ok assms(2) by blast
  ultimately have "slot_name (sl_kind t, sl_status t) = slot_name (k, st)"
    using assms(1) by (simp add: slot_ok_def slot_display_def blank_slot_def)
  then have "sl_status t = st"
    using \<open>slot_ok t\<close> assms(1) sln.print_inject [of "(sl_kind t, sl_status t)" "(k, st)"]
    by (simp add: slot_ok_def blank_slot_def)
  then show False using assms(1,3) by (simp add: blank_slot_def slot_version_def split: slot_status.splits)
qed

text \<open>The commands that put an image into a slot, in order.\<close>

definition image_steps :: "manifest \<Rightarrow> string \<Rightarrow> version \<Rightarrow> slot \<Rightarrow> slot \<Rightarrow> pipeline list" where
  "image_steps m source target root verity =
     [install_volume (sl_volume root) (mn_store m) source,
      install_volume (sl_volume verity) (mn_verity m) source,
      finalize_flush (sl_volume root), finalize_flush (sl_volume verity),
      slot_rename (root\<lparr>sl_status := Used target\<rparr>), slot_rename (verity\<lparr>sl_status := Used target\<rparr>),
      pipeline_new (cmd ''install'' [''-m'', ''0644'', file_full_name source (mn_kernel m),
        ''/boot/EFI/Linux/'' @ uki_display \<lparr>ue_version = target, ue_boot_counter = None\<rparr>])]"

lemma install_into_slot_Inr:
  assumes "install_into_slot rt m \<lparr>sg_root = Some root, sg_verity = Some verity,
      sg_boot = Some (boot_entry_from_uki \<lparr>ue_version = target, ue_boot_counter = None\<rparr>)\<rparr> source = Inr steps"
    and "rt_boot rt = ''/boot''" and "manifest_to_version m = Inr target"
  shows "steps = image_steps m source target root verity \<or>
    steps = image_steps m source target root verity @ legacy_bootloader_migration rt"
  using assms
  by (auto simp: install_into_slot_def image_steps_def install_uki_def boot_uki_def boot_entry_from_uki_def
      into_version_def result_simps ensure_def split: if_splits)

text \<open>Where the volumes of a plan come from: they exist, or the plan creates them.\<close>

definition prepares :: "volume list \<Rightarrow> manifest \<Rightarrow> slot_status \<Rightarrow> slot \<Rightarrow> slot \<Rightarrow> pipeline list \<Rightarrow> bool" where
  "prepares vols m st root verity pre \<longleftrightarrow>
     pre = resize_step (Some root) (mf_unpacked_size (mn_store m)) @
           resize_step (Some verity) (mf_unpacked_size (mn_verity m)) \<and>
       sl_volume root \<in> set vols \<and> sl_volume verity \<in> set vols \<or>
     (\<exists>sr sv. pre = [lvcreate_step (vg_name (sl_volume root)) (slot_name (Root, st)) sr,
                     lvcreate_step (vg_name (sl_volume verity)) (slot_name (Verity, st)) sv]) \<and>
       lv_name (sl_volume root) \<notin> lv_name ` set vols \<and> lv_name (sl_volume verity) \<notin> lv_name ` set vols"

lemma plan_install_Inr:
  assumes rt: "runtime_new vols cmdline items = Inr rt"
    and plan: "plan_install rt m source = Inr steps" and "steps \<noteq> []"
  obtains target root verity st pre migration where
    "manifest_to_version m = Inr target" "blank_slot Root st root" "blank_slot Verity st verity"
    "steps = pre @ image_steps m source target root verity @ migration"
    "migration = [] \<or> migration = legacy_bootloader_migration rt"
    "prepares vols m st root verity pre"
proof -
  obtain g pre isteps where sel: "select_update_slot rt m = Inr (Selected g pre)"
    and ins: "install_into_slot rt m g source = Inr isteps" and steps: "steps = pre @ isteps"
    using plan \<open>steps \<noteq> []\<close>
    by (cases "select_update_slot rt m") (auto simp: plan_install_def result_simps split: slot_selection.splits)
  from rt sel show thesis
  proof (rule select_update_slot_Selected)
    fix target root verity st
    assume t: "manifest_to_version m = Inr target"
      and g: "g = \<lparr>sg_root = Some root, sg_verity = Some verity,
          sg_boot = Some (boot_entry_from_uki \<lparr>ue_version = target, ue_boot_counter = None\<rparr>)\<rparr>"
      and b: "blank_slot Root st root" "blank_slot Verity st verity"
      and pre: "sl_volume root \<in> set vols \<and> sl_volume verity \<in> set vols \<and>
         pre = resize_step (Some root) (mf_unpacked_size (mn_store m)) @
               resize_step (Some verity) (mf_unpacked_size (mn_verity m)) \<or>
       (\<exists>i sr sv. st = Empty (Known i) \<and> \<not> has_empty_with_hash rt i \<and>
          pre = [lvcreate_step (vg_name (sl_volume root)) (slot_name (Root, st)) sr,
                 lvcreate_step (vg_name (sl_volume verity)) (slot_name (Verity, st)) sv])"
    have "lv_name (sl_volume root) \<notin> lv_name ` set vols \<and> lv_name (sl_volume verity) \<notin> lv_name ` set vols"
      if "st = Empty (Known i)" "\<not> has_empty_with_hash rt i" for i
      using fresh_empty_name [OF rt that(2)] b that(1) by (simp add: blank_slot_def)
    with pre have "prepares vols m st root verity pre" unfolding prepares_def by blast
    moreover obtain mig where "steps = pre @ image_steps m source target root verity @ mig"
      "mig = [] \<or> mig = legacy_bootloader_migration rt"
      using install_into_slot_Inr [OF ins [unfolded g] runtime_new_Inr(3) [OF rt] t] steps by auto
    ultimately show thesis using that t b by blast
  qed
qed

text \<open>
  C13. An installation writes to empty slots only. Unless the version is installed already, the
  plan resizes or creates a root and a verity volume whose names say that they are empty and
  which no used slot has, writes both images, flushes both, renames both, and only then copies
  the kernel image under the name of the new version, so that the boot loader never sees a
  version whose volumes are not complete.
\<close>

theorem plan_install_order:
  assumes "runtime_new vols cmdline items = Inr rt"
    and "plan_install rt m source = Inr steps" and "steps \<noteq> []"
  shows "\<exists>target root verity st pre migration.
    manifest_to_version m = Inr target \<and> blank_slot Root st root \<and> blank_slot Verity st verity \<and>
    steps = pre @ image_steps m source target root verity @ migration \<and>
    (migration = [] \<or> migration = legacy_bootloader_migration rt) \<and>
    prepares vols m st root verity pre \<and>
    (\<forall>t \<in> set (fst (from_volumes vols)). slot_is_used t \<longrightarrow>
       lv_name (sl_volume t) \<noteq> lv_name (sl_volume root) \<and> lv_name (sl_volume t) \<noteq> lv_name (sl_volume verity))"
  using assms
  by (rule plan_install_Inr) (use blank_not_used in blast)

theorem plan_install_order_witness:
  "\<exists>target root verity st pre migration.
     ex_steps = pre @ image_steps (ex_manifest ''2.0'') ''/src'' target root verity @ migration \<and>
     blank_slot Root st root \<and> blank_slot Verity st verity"
proof -
  have "ex_steps \<noteq> []" by (simp add: ex_steps_def)
  then show ?thesis using plan_install_order [OF ex_runtime_new ex_plan] by blast
qed

section \<open>Installed is installed\<close>





















section \<open>Removing\<close>








section \<open>Running a plan\<close>

text \<open>What a sequence of commands does to the machine, and whether all of them report success.\<close>

definition shell_effect :: "(string \<Rightarrow> string) \<Rightarrow> (string \<Rightarrow> 's \<Rightarrow> int option \<times> 's) \<Rightarrow> pipeline list \<Rightarrow> 's \<Rightarrow> 's" where
  "shell_effect escape sh ps s = fold (\<lambda>p s. snd (sh (format_shell escape p) s)) ps s"

primrec all_succeed :: "(string \<Rightarrow> string) \<Rightarrow> (string \<Rightarrow> 's \<Rightarrow> int option \<times> 's) \<Rightarrow> pipeline list \<Rightarrow> 's \<Rightarrow> bool" where
  "all_succeed escape sh [] s = True"
| "all_succeed escape sh (p # ps) s =
     (fst (sh (format_shell escape p) s) = Some 0 \<and> all_succeed escape sh ps (snd (sh (format_shell escape p) s)))"

lemma run_plan_shell:
  "all_succeed escape sh steps s \<and>
     run_plan (shell_run_pipeline escape sh) steps s = (Inr (), shell_effect escape sh steps s) \<or>
   (\<exists>ps p qs e. steps = ps @ p # qs \<and> all_succeed escape sh ps s \<and>
      fst (sh (format_shell escape p) (shell_effect escape sh ps s)) \<noteq> Some 0 \<and>
      run_plan (shell_run_pipeline escape sh) steps s = (Inl e, shell_effect escape sh (ps @ [p]) s))"
proof (induction steps arbitrary: s)
  case Nil
  then show ?case by (simp add: run_plan_def sret_def shell_effect_def)
next
  case (Cons p steps)
  obtain st t where sh: "sh (format_shell escape p) s = (st, t)" by (cases "sh (format_shell escape p) s")
  show ?case
  proof (cases "st = Some 0")
    case True
    then have run: "run_plan (shell_run_pipeline escape sh) (p # steps) s = run_plan (shell_run_pipeline escape sh) steps t"
      using sh by (simp add: run_plan_def sbind_def shell_run_pipeline_def Let_def)
    from Cons.IH [of t] show ?thesis
    proof (elim disjE exE conjE)
      fix ps q qs e
      assume "steps = ps @ q # qs" "all_succeed escape sh ps t"
        "fst (sh (format_shell escape q) (shell_effect escape sh ps t)) \<noteq> Some 0"
        "run_plan (shell_run_pipeline escape sh) steps t = (Inl e, shell_effect escape sh (ps @ [q]) t)"
      then show ?thesis
        using sh True run
        by (intro disjI2 exI [of _ "p # ps"] exI [of _ q] exI [of _ qs] exI [of _ e]) (simp add: shell_effect_def)
    qed (use sh True run in \<open>simp add: shell_effect_def\<close>)
  next
    case False
    then show ?thesis
      using sh
      by (intro disjI2 exI [of _ "[]"] exI [of _ p] exI [of _ steps])
        (auto simp: run_plan_def sbind_def shell_run_pipeline_def Let_def shell_effect_def)
  qed
qed

lemma run_plan_dry:
  "run_plan (dry_run_pipeline escape) steps out =
     (Inr (), out @ map (\<lambda>p. ''DRY-RUN: '' @ format_shell escape p) steps)"
  by (induction steps arbitrary: out) (simp_all add: run_plan_def sresult_defs dry_run_pipeline_def)

text \<open>
  C19. A plan is run in order and stops at the first command that fails: it succeeds exactly when
  every command does, otherwise the machine is left as the commands up to and including the
  failing one leave it. A dry run prints the whole plan, changes nothing else and never fails.
\<close>

theorem run_plan_stops:
  "(all_succeed escape sh steps s \<and>
     run_plan (shell_run_pipeline escape sh) steps s = (Inr (), shell_effect escape sh steps s) \<or>
    (\<exists>ps p qs e. steps = ps @ p # qs \<and> all_succeed escape sh ps s \<and>
      fst (sh (format_shell escape p) (shell_effect escape sh ps s)) \<noteq> Some 0 \<and>
      run_plan (shell_run_pipeline escape sh) steps s = (Inl e, shell_effect escape sh (ps @ [p]) s))) \<and>
   run_plan (dry_run_pipeline escape) steps out =
     (Inr (), out @ map (\<lambda>p. ''DRY-RUN: '' @ format_shell escape p) steps)"
  by (intro conjI run_plan_shell run_plan_dry)

section \<open>The update lock\<close>

text \<open>
  Two updaters can hold the lock at once. One waits with the file open while the owner drops
  the lock; it then locks the file that has just been unlinked, and a third one creates and
  locks a new file under the same path.
\<close>

lemma update_lock_two_holders:
  "\<exists>s t. lock_start s \<and> lock_step\<^sup>*\<^sup>* s t \<and>
     (\<exists>h k l m. h \<noteq> k \<and> ly_phase t h = HasLocked l \<and> ly_phase t k = HasLocked m \<and> ul_path l = ul_path m)"
proof -
  define fs0 :: lock_fs where "fs0 = \<lparr>lf_dir = \<lambda>_. None, lf_next = 0, lf_held = \<lambda>_. None, lf_text = \<lambda>_. []\<rparr>"
  define s0 where "s0 = \<lparr>ly_fs = fs0, ly_phase = \<lambda>_. NoFile\<rparr>"
  let ?p = "''/run/ota-update.lock''"
  define l where "l h i = \<lparr>ul_file = i, ul_path = ?p, ul_handle = h\<rparr>" for h i :: nat
  define s1 where "s1 = lock_go 1 (HasOpened ?p 0) (snd (fs_open ?p (ly_fs s0))) s0"
  define s2 where "s2 = lock_go 1 (HasLocked (l 1 0)) (the (fs_try_lock 1 0 (ly_fs s1))) s1"
  define s3 where "s3 = lock_go 2 (HasOpened ?p 0) (snd (fs_open ?p (ly_fs s2))) s2"
  define s4 where "s4 = lock_go 1 (HasUnlinked (l 1 0)) (fs_unlink ?p (ly_fs s3)) s3"
  define s5 where "s5 = lock_go 1 NoFile (fs_close 1 0 (ly_fs s4)) s4"
  define s6 where "s6 = lock_go 2 (HasLocked (l 2 0)) (the (fs_try_lock 2 0 (ly_fs s5))) s5"
  define s7 where "s7 = lock_go 3 (HasOpened ?p 1) (snd (fs_open ?p (ly_fs s6))) s6"
  define s8 where "s8 = lock_go 3 (HasLocked (l 3 1)) (the (fs_try_lock 3 1 (ly_fs s7))) s7"
  note defs = s1_def s2_def s3_def s4_def s5_def s6_def s7_def s8_def s0_def fs0_def l_def lock_defs
  have "lock_step s0 s1" unfolding s1_def by (rule lock_step.open_file) (simp_all add: defs)
  moreover have "lock_step s1 s2" unfolding s2_def l_def by (rule lock_step.take_lock) (simp_all add: defs)
  moreover have "lock_step s2 s3" unfolding s3_def by (rule lock_step.open_file) (simp_all add: defs)
  moreover have "lock_step s3 s4"
    using lock_step.unlink_file [of s3 1 "l 1 0"] by (simp add: defs)
  moreover have "lock_step s4 s5"
    using lock_step.close_file [of s4 1 "l 1 0"] by (simp add: defs)
  moreover have "lock_step s5 s6" unfolding s6_def l_def by (rule lock_step.take_lock) (simp_all add: defs)
  moreover have "lock_step s6 s7" unfolding s7_def by (rule lock_step.open_file) (simp_all add: defs)
  moreover have "lock_step s7 s8" unfolding s8_def l_def by (rule lock_step.take_lock) (simp_all add: defs)
  ultimately have "lock_step\<^sup>*\<^sup>* s0 s8" by (meson rtranclp.rtrancl_refl rtranclp.rtrancl_into_rtrancl)
  moreover have "lock_start s0" by (simp add: lock_start_def s0_def fs0_def lock_fs_ok_def)
  moreover have "ly_phase s8 2 = HasLocked (l 2 0)" "ly_phase s8 3 = HasLocked (l 3 1)"
    by (simp_all add: s8_def s7_def s6_def)
  moreover have "(2::nat) \<noteq> 3" "ul_path (l 2 0) = ul_path (l 3 1)" by (simp_all add: l_def)
  ultimately show ?thesis by blast
qed

text \<open>
  C17. The lock excludes whenever each updater that takes it still finds its file under the path:
  then a path has one holder, however the updaters interleave. And in every run an inode is
  locked by one updater only.
\<close>

theorem update_lock_excludes:
  assumes "lock_start s"
  shows "(lock_step\<^sup>*\<^sup>* s t \<longrightarrow> locked_inode (ly_phase t h) = Some i \<longrightarrow> locked_inode (ly_phase t k) = Some i \<longrightarrow> h = k) \<and>
    ((\<lambda>s t. lock_step s t \<and> takes_linked s t)\<^sup>*\<^sup>* s t \<longrightarrow>
       ly_phase t h = HasLocked l \<longrightarrow> ly_phase t k = HasLocked m \<longrightarrow> ul_path l = ul_path m \<longrightarrow> h = k)"
proof (intro conjI impI)
  assume "lock_step\<^sup>*\<^sup>* s t"
  then have "lock_inv t"
    using assms by (induction rule: rtranclp_induct) (auto intro: lock_inv_start lock_inv_step)
  moreover assume "locked_inode (ly_phase t h) = Some i" "locked_inode (ly_phase t k) = Some i"
  ultimately show "h = k" by (rule lock_inv_inode)
qed (use linked_run [OF _ assms] one_holder in blast)

definition ex_lock_start :: lock_sys where
  "ex_lock_start =
     \<lparr>ly_fs = \<lparr>lf_dir = (\<lambda>_. None)(''/l'' := Some 0), lf_next = 1, lf_held = \<lambda>_. None, lf_text = \<lambda>_. []\<rparr>,
      ly_phase = \<lambda>_. NoFile\<rparr>"

theorem update_lock_excludes_witness:
  "\<exists>t l. (\<lambda>s t. lock_step s t \<and> takes_linked s t)\<^sup>*\<^sup>* ex_lock_start t \<and>
     ly_phase t 5 = HasLocked l \<and> (\<forall>k m. ly_phase t k = HasLocked m \<longrightarrow> ul_path m = ul_path l \<longrightarrow> k = 5)"
proof -
  let ?R = "\<lambda>s t. lock_step s t \<and> takes_linked s t"
  define fs where "fs = ly_fs ex_lock_start"
  define l where "l = \<lparr>ul_file = 0, ul_path = ''/l'', ul_handle = 5\<rparr>"
  define s1 where "s1 = lock_go 5 (HasOpened ''/l'' 0) fs ex_lock_start"
  define s2 where "s2 = lock_go 5 (HasLocked l) (fs\<lparr>lf_held := (lf_held fs)(0 := Some 5)\<rparr>) s1"
  note defs = s2_def s1_def l_def fs_def ex_lock_start_def
  have start: "lock_start ex_lock_start" by (simp add: lock_start_def lock_fs_ok_def defs)
  have "lock_step ex_lock_start s1"
    unfolding s1_def by (rule lock_step.open_file) (simp_all add: fs_open_def defs)
  then have r1: "?R ex_lock_start s1" by (simp add: takes_linked_def defs)
  have "lock_step s1 s2"
    unfolding s2_def l_def by (rule lock_step.take_lock) (simp_all add: fs_try_lock_def defs)
  then have r2: "?R s1 s2" by (simp add: takes_linked_def defs)
  have run: "?R\<^sup>*\<^sup>* ex_lock_start s2"
    using r1 r2 by (blast intro: converse_rtranclp_into_rtranclp)
  have five: "ly_phase s2 5 = HasLocked l" by (simp add: s2_def)
  have "k = 5" if "ly_phase s2 k = HasLocked m" "ul_path m = ul_path l" for k m
    using update_lock_excludes [OF start, of s2 k undefined 5 m l] run that five by blast
  with run five show ?thesis by blast
qed



section \<open>Paths and sizes\<close>

text \<open>
  C32. Paths of a manifest cannot leave the directory they are joined to: a path is accepted exactly
  when it is relative, has a component and no parent directory; the result is the plain form of
  its components, normalising again changes nothing, and joined to a directory it stays below.
\<close>

theorem normalize_relative_path_confined:
  "(is_ok (normalize_relative_path v) \<longleftrightarrow>
      \<not> path_is_absolute v \<and> ParentDir \<notin> set (components v) \<and> normal_names (components v) \<noteq> []) \<and>
   (normalize_relative_path v = Inr p \<longrightarrow>
      p = join_with ''/'' (normal_names (components v)) \<and> normalize_relative_path p = Inr p \<and>
      (\<exists>pre. path_join base p = pre @ p \<and> (base \<noteq> [] \<longrightarrow> starts_with base pre)))"
proof (intro conjI impI)
  show "is_ok (normalize_relative_path v) \<longleftrightarrow>
      \<not> path_is_absolute v \<and> ParentDir \<notin> set (components v) \<and> normal_names (components v) \<noteq> []"
    by (rule normalize_relative_path_ok)
  assume n: "normalize_relative_path v = Inr p"
  show "p = join_with ''/'' (normal_names (components v))" by (rule normalize_relative_path_Inr(4) [OF n])
  show "normalize_relative_path p = Inr p"
    by (rule normalize_relative_path_plain [OF normalize_relative_path_Inr(1) [OF n]])
  show "\<exists>pre. path_join base p = pre @ p \<and> (base \<noteq> [] \<longrightarrow> starts_with base pre)"
    by (rule plain_path_below [OF normalize_relative_path_Inr(1) [OF n]])
qed

theorem normalize_relative_path_confined_witness:
  "normalize_relative_path ''img/root'' = Inr ''img/root'' \<and>
   (\<exists>pre. path_join ''/out'' ''img/root'' = pre @ ''img/root'' \<and> starts_with ''/out'' pre)"
proof -
  have "normalize_relative_path ''./img//root'' = Inr ''img/root''" by code_simp
  then show ?thesis using normalize_relative_path_confined [of "''./img//root''" "''img/root''" "''/out''"] by blast
qed

text \<open>
  A reported size is the true one to the nearest tenth of a gibibyte, for volumes below eight
  pebibytes, whose size a double holds exactly.
\<close>

lemma format_size_nearest:
  assumes "unat bytes < 2 ^ 53"
  shows "\<exists>t. format_size (Some bytes) = '' ('' @ show_nat (t div 10) @ ''.'' @ show_nat (t mod 10) @ ''G)'' \<and>
    2 * \<bar>10 * int (unat bytes) - int t * 2 ^ 30\<bar> \<le> 2 ^ 30"
proof (intro exI conjI)
  show "2 * \<bar>10 * int (unat bytes) - int (tenths_of_gib bytes) * 2 ^ 30\<bar> \<le> 2 ^ 30"
    using round_half_even_nearest [of "1024 * 1024 * 1024" "10 * unat bytes"] assms
    by (simp add: tenths_of_gib_def f64_of_u64_exact)
qed (simp add: format_size_def Let_def)

lemma format_size_nearest_witness:
  "format_size (Some 1610612736) = '' (1.5G)''"
proof -
  have "\<exists>t. format_size (Some 1610612736) = '' ('' @ show_nat (t div 10) @ ''.'' @ show_nat (t mod 10) @ ''G)'' \<and>
    2 * \<bar>10 * int (unat (1610612736 :: u64)) - int t * 2 ^ 30\<bar> \<le> 2 ^ 30"
    by (rule format_size_nearest) simp
  then obtain t where f: "format_size (Some 1610612736) = '' ('' @ show_nat (t div 10) @ ''.'' @ show_nat (t mod 10) @ ''G)''"
    and "\<bar>16106127360 - int t * 1073741824\<bar> \<le> 536870912" by auto
  then have t: "t = 15" by linarith
  show ?thesis unfolding f t by (simp add: show_nat.simps digit_char_eval)
qed

end
