(* ===== verification/Oci_Types.thy ===== *)
theory Oci_Types
  imports Codec Paths
begin

text \<open>
  Vocabulary of the update registry (\<open>crates/ota-update/src/registry/\<close>): media types
  (\<open>media_type.rs\<close>), progress events (\<open>progress.rs\<close>), references (\<open>types.rs\<close> and the helpers of
  \<open>oras.rs\<close>), and the reporter that decides when progress is announced (\<open>oras.rs\<close>).
\<close>

section \<open>Media types and events\<close>

datatype media_type = MediaManifest | MediaUki | MediaRoot | MediaVerity | MediaChangelog

fun media_type_str :: "media_type \<Rightarrow> string" where
  "media_type_str MediaManifest = ''application/vnd.ghaf.ota.manifest.v1+json''"
| "media_type_str MediaUki = ''application/vnd.ghaf.ota.uki.v1+efi''"
| "media_type_str MediaRoot = ''application/vnd.ghaf.ota.root.v1+raw''"
| "media_type_str MediaVerity = ''application/vnd.ghaf.ota.verity.v1+raw''"
| "media_type_str MediaChangelog = ''application/vnd.ghaf.ota.changelog.v1+plain''"

definition media_type_from_str :: "string \<Rightarrow> media_type option" where
  "media_type_from_str s =
     find (\<lambda>m. media_type_str m = s) [MediaManifest, MediaUki, MediaRoot, MediaVerity, MediaChangelog]"

lemma media_type_str_inject [simp]: "media_type_str m = media_type_str n \<longleftrightarrow> m = n"
  by (cases m; cases n) simp_all

interpretation mdt: codec media_type_str media_type_from_str "\<lambda>_. True"
proof unfold_locales
  show "media_type_from_str (media_type_str m) = Some m" for m
    by (cases m) (simp_all add: media_type_from_str_def)
  show "media_type_from_str s = Some m \<Longrightarrow> True \<and> media_type_str m = s" for s m
    by (auto simp: media_type_from_str_def split: if_splits)
qed

datatype registry_event =
    DiscoverStarted string nat
  | TagDiscovered string string nat nat
  | ManifestFetched string string nat nat
  | PullStarted string string
  | BlobDownloading string nat "nat option"
  | BlobVerified string
  | ManifestWritten string
  | ChangelogFetched nat
  | InstallStarted string
  | PushStarted string nat
  | LayerUploading media_type nat "nat option"
  | LayerUploaded media_type string
  | ManifestPushed string string string
  | EvCancelled string
  | EvDone

section \<open>References\<close>

text \<open>
  An OCI reference is a value of the crate \<open>oci_client\<close>, known by its parser, its accessors and
  its text.
\<close>

record 'r ref_api =
  ra_parse :: "string \<Rightarrow> 'r result"
  ra_registry :: "'r \<Rightarrow> string"
  ra_repository :: "'r \<Rightarrow> string"
  ra_tag :: "'r \<Rightarrow> string option"
  ra_digest :: "'r \<Rightarrow> string option"
  ra_show :: "'r \<Rightarrow> string"

datatype 'r untagged_reference = Untagged 'r
datatype 'r tagged_reference = Tagged 'r

definition untagged_from_str :: "'r ref_api \<Rightarrow> string \<Rightarrow> 'r untagged_reference result" where
  "untagged_from_str api input =
     rbind (with_context (''invalid OCI reference: '' @ input) (ra_parse api input)) (\<lambda>r.
     rbind (ensure (ra_tag api r = None \<or> ra_tag api r = Some ''latest'')
              (''reference for discover must not include tag: '' @ input)) (\<lambda>_.
     rbind (ensure (ra_digest api r = None)
              (''reference for discover must not include digest: '' @ input)) (\<lambda>_.
       Inr (Untagged r))))"

definition tagged_from_str :: "'r ref_api \<Rightarrow> string \<Rightarrow> 'r tagged_reference result" where
  "tagged_from_str api input =
     rbind (with_context (''invalid OCI reference: '' @ input) (ra_parse api input)) (\<lambda>r.
     rbind (ensure (ra_tag api r \<noteq> None \<or> ra_digest api r \<noteq> None)
              (''reference must include tag or digest: '' @ input)) (\<lambda>_.
       Inr (Tagged r)))"

definition repository_path :: "'r ref_api \<Rightarrow> 'r \<Rightarrow> string" where
  "repository_path api r = ra_registry api r @ ''/'' @ ra_repository api r"

fun for_tag :: "'r ref_api \<Rightarrow> 'r untagged_reference \<Rightarrow> string \<Rightarrow> 'r tagged_reference result" where
  "for_tag api (Untagged r) tag =
     with_context (''invalid tag reference generated from '' @ tag)
       (tagged_from_str api (repository_path api r @ '':'' @ tag))"

definition option_or :: "'a option \<Rightarrow> 'a option \<Rightarrow> 'a option" where
  "option_or a b = (case a of Some x \<Rightarrow> Some x | None \<Rightarrow> b)"

fun tag_or_digest :: "'r ref_api \<Rightarrow> 'r tagged_reference \<Rightarrow> string result" where
  "tag_or_digest api (Tagged r) =
     ok_or (option_or (ra_tag api r) (ra_digest api r)) (Panic ''internal error: entered unreachable code'')"

datatype ref_tag_policy = ForbidTag | RequireTag

definition parse_reference :: "'r ref_api \<Rightarrow> string \<Rightarrow> ref_tag_policy \<Rightarrow> 'r result" where
  "parse_reference api input tag_policy =
     rbind (with_context (''invalid OCI reference: '' @ input) (ra_parse api input)) (\<lambda>r.
     rbind (case tag_policy of
              ForbidTag \<Rightarrow> ensure (ra_tag api r = None \<and> ra_digest api r = None)
                (''reference for discover must not include tag or digest: '' @ input)
            | RequireTag \<Rightarrow> ensure (ra_tag api r \<noteq> None \<or> ra_digest api r \<noteq> None)
                (''reference must include tag or digest: '' @ input)) (\<lambda>_.
       Inr r))"

definition reference_for_tag :: "'r ref_api \<Rightarrow> 'r \<Rightarrow> string \<Rightarrow> 'r result" where
  "reference_for_tag api base tag =
     with_context (''invalid tag reference generated from '' @ tag)
       (ra_parse api (repository_path api base @ '':'' @ tag))"

text \<open>A reference that was parsed as tagged has a tag or a digest.\<close>

lemma tag_or_digest_parsed:
  "tagged_from_str api input = Inr r \<Longrightarrow> \<exists>t. tag_or_digest api r = Inr t"
  by (auto simp: tagged_from_str_def result_simps ensure_def option_or_def ok_or_def
      split: if_splits option.splits)

section \<open>Progress\<close>

record progress_reporter =
  pr_next_report_at :: nat
  pr_step :: nat

definition progress_reporter_new :: "nat \<Rightarrow> progress_reporter" where
  "progress_reporter_new st = \<lparr>pr_next_report_at = st, pr_step = st\<rparr>"

text \<open>Arithmetic on \<open>u64\<close>: a sum that does not fit is an overflow.\<close>

definition u64_max :: nat where
  "u64_max = 18446744073709551615"

definition u64_add :: "nat \<Rightarrow> nat \<Rightarrow> nat result" where
  "u64_add a b = (if a + b \<le> u64_max then Inr (a + b) else Inl (Panic ''attempt to add with overflow''))"

definition next_multiple_of :: "nat \<Rightarrow> nat \<Rightarrow> nat result" where
  "next_multiple_of n st =
     (if st = 0 then Inl (Panic ''attempt to calculate the remainder with a divisor of zero'')
      else if n mod st = 0 then Inr n else u64_add n (st - n mod st))"

definition progress :: "nat \<Rightarrow> progress_reporter \<Rightarrow> (nat option \<times> progress_reporter) result" where
  "progress current r =
     (if pr_next_report_at r \<le> current then
        rbind (u64_add current 1) (\<lambda>c.
        rbind (next_multiple_of c (pr_step r)) (\<lambda>n.
          Inr (Some (n - pr_step r), r\<lparr>pr_next_report_at := n\<rparr>)))
      else Inr (None, r))"

text \<open>The loop of \<open>emit_due\<close>: the values it emits and the reporter it leaves.\<close>

partial_function (option) emit_due :: "nat \<Rightarrow> progress_reporter \<Rightarrow> (nat list \<times> progress_reporter) option" where
  "emit_due current r =
     (if pr_next_report_at r \<le> current then
        Option.bind (emit_due current (r\<lparr>pr_next_report_at := min u64_max (pr_next_report_at r + pr_step r)\<rparr>))
          (\<lambda>(es, r'). Some (pr_next_report_at r # es, r'))
      else Some ([], r))"

text \<open>A reporter in use: it has a step, and its next report is due at a positive multiple of it.\<close>

definition reporter_ok :: "progress_reporter \<Rightarrow> bool" where
  "reporter_ok r \<longleftrightarrow> 0 < pr_step r \<and> pr_step r dvd pr_next_report_at r \<and> 0 < pr_next_report_at r"

lemma reporter_ok_new [simp]: "reporter_ok (progress_reporter_new st) \<longleftrightarrow> 0 < st"
  by (simp add: reporter_ok_def progress_reporter_new_def)

lemma next_multiple_of_Suc:
  assumes "0 < st" and "next_multiple_of (Suc c) st = Inr n"
  shows "n = c div st * st + st"
proof -
  define q where "q = c div st * st"
  define k where "k = c mod st"
  have c: "c = q + k" by (simp add: q_def k_def)
  have k: "k < st" using assms(1) by (simp add: k_def)
  have m: "Suc c mod st = (if Suc k = st then 0 else Suc k)" unfolding k_def by (rule mod_Suc)
  have "n = Suc c + (if Suc k = st then 0 else st - Suc k)"
    using assms m by (auto simp: next_multiple_of_def u64_add_def split: if_splits)
  then have "n = q + st" using c k by (auto split: if_splits)
  then show ?thesis by (simp only: q_def)
qed

lemma progress_Some:
  assumes "reporter_ok r" and "progress current r = Inr (Some v, r')"
  shows "v = current div pr_step r * pr_step r" "pr_next_report_at r \<le> v" "v \<le> current"
    "r' = r\<lparr>pr_next_report_at := v + pr_step r\<rparr>" "reporter_ok r'"
proof -
  obtain n where n: "next_multiple_of (Suc current) (pr_step r) = Inr n" "v = n - pr_step r"
      "r' = r\<lparr>pr_next_report_at := n\<rparr>" and due: "pr_next_report_at r \<le> current"
    using assms(2) by (auto simp: progress_def u64_add_def result_simps split: if_splits)
  have pos: "0 < pr_step r" using assms(1) by (simp add: reporter_ok_def)
  have n': "n = current div pr_step r * pr_step r + pr_step r" by (rule next_multiple_of_Suc [OF pos n(1)])
  then show v: "v = current div pr_step r * pr_step r" using n(2) by simp
  then show "v \<le> current" by simp
  show "r' = r\<lparr>pr_next_report_at := v + pr_step r\<rparr>" using n(3) n' v by simp
  then show "reporter_ok r'" using v pos by (simp add: reporter_ok_def)
  obtain k where k: "pr_next_report_at r = pr_step r * k" using assms(1) by (auto simp: reporter_ok_def dvd_def)
  then have "k \<le> current div pr_step r" using due pos by (simp add: less_eq_div_iff_mult_less_eq mult.commute)
  then show "pr_next_report_at r \<le> v" using k v by simp
qed

lemma progress_None: "progress current r = Inr (None, r') \<Longrightarrow> r' = r \<and> current < pr_next_report_at r"
  by (auto simp: progress_def result_simps split: if_splits)

lemma progress_total:
  assumes "reporter_ok r" and "current + pr_step r \<le> u64_max"
  shows "\<exists>v r'. progress current r = Inr (v, r')"
proof -
  have "next_multiple_of (Suc current) (pr_step r) = Inr n \<or> (\<exists>m. next_multiple_of (Suc current) (pr_step r) = Inr m)" for n
  proof (cases "Suc current mod pr_step r = 0")
    case False
    have "Suc current mod pr_step r < pr_step r" using assms(1) by (simp add: reporter_ok_def)
    then have "Suc current + (pr_step r - Suc current mod pr_step r) \<le> current + pr_step r"
      using False by linarith
    then show ?thesis using assms False by (auto simp: next_multiple_of_def u64_add_def reporter_ok_def)
  qed (use assms(1) in \<open>simp add: next_multiple_of_def reporter_ok_def\<close>)
  then obtain m where "next_multiple_of (Suc current) (pr_step r) = Inr m" by blast
  moreover have "Suc current \<le> u64_max" using assms by (simp add: reporter_ok_def)
  ultimately show ?thesis by (auto simp: progress_def u64_add_def)
qed

text \<open>\<open>emit_due\<close> ends unless the counter is saturated.\<close>

lemma emit_due_returns:
  assumes "0 < pr_step r" and "current < u64_max"
  shows "\<exists>es r'. emit_due current r = Some (es, r')"
  using assms(1)
proof (induction "Suc current - pr_next_report_at r" arbitrary: r rule: less_induct)
  case less
  show ?case
  proof (cases "pr_next_report_at r \<le> current")
    case True
    let ?r = "r\<lparr>pr_next_report_at := min u64_max (pr_next_report_at r + pr_step r)\<rparr>"
    have "Suc current - pr_next_report_at ?r < Suc current - pr_next_report_at r" "0 < pr_step ?r"
      using True less.prems assms(2) by auto
    then obtain es r' where "emit_due current ?r = Some (es, r')" using less.hyps by blast
    then show ?thesis using True by (subst emit_due.simps) simp
  qed (subst emit_due.simps; simp)
qed

lemma emit_due_stuck:
  assumes "emit_due current r = Some z"
  shows "\<not> (pr_next_report_at r \<le> current \<and> pr_next_report_at r \<le> u64_max \<and> (pr_step r = 0 \<or> u64_max \<le> current))"
proof (rule emit_due.raw_induct [OF _ assms])
  fix f c q w
  let ?q = "q\<lparr>pr_next_report_at := min u64_max (pr_next_report_at q + pr_step q)\<rparr>"
  let ?stuck = "\<lambda>c q. pr_next_report_at q \<le> c \<and> pr_next_report_at q \<le> u64_max \<and> (pr_step q = 0 \<or> u64_max \<le> c)"
  assume ih: "\<And>c q w. f c q = Some w \<Longrightarrow> \<not> ?stuck c q"
    and step: "(if pr_next_report_at q \<le> c
      then Option.bind (f c ?q) (\<lambda>(es, q'). Some (pr_next_report_at q # es, q'))
      else Some ([], q)) = Some w"
  show "\<not> ?stuck c q"
    using step ih [of c ?q] by (auto simp: bind_eq_Some_conv min_def split: if_splits)
qed

end
