(* ===== verification/Disk.thy ===== *)
theory Disk
  imports Paths State_Result
begin

text \<open>
  A file system as far as the updater uses it (\<open>std::fs\<close> and \<open>tokio::fs\<close>): directories and
  files by the names that lead to them, without links, and the times directories were last changed.
  The entries stand in the order in which their directory lists them. A call can fail for
  reasons of its own, which \<open>disk_faults\<close> gives. The end of the theory shows which entries a
  call may change.
\<close>

type_synonym fs_path = "string list"

datatype node = DirNode | FileNode string

record disk =
  dk_cwd :: fs_path
  dk_nodes :: "(fs_path \<times> node) list"
  dk_mtime :: "fs_path \<Rightarrow> nat option"
  dk_now :: "nat option"

datatype disk_op =
    MakeDir | CreateFile | WriteFile | FlushFile | RenameFile | RemoveFile | RemoveDirAll | ReadDir
  | Metadata | OpenFile | ReadFile

text \<open>Which calls fail, and what a removal that fails has removed by then.\<close>

record disk_faults =
  df_error :: "disk_op \<Rightarrow> fs_path \<Rightarrow> error option"
  df_removed :: "fs_path \<Rightarrow> fs_path \<Rightarrow> bool"

section \<open>Looking up\<close>

fun locate_step :: "path_component \<Rightarrow> fs_path \<Rightarrow> fs_path" where
  "locate_step RootDir k = []"
| "locate_step CurDir k = k"
| "locate_step ParentDir k = butlast k"
| "locate_step (Normal n) k = k @ [n]"

definition locate :: "disk \<Rightarrow> string \<Rightarrow> fs_path" where
  "locate d p = fold locate_step (components p) (dk_cwd d)"

definition lookup_node :: "disk \<Rightarrow> fs_path \<Rightarrow> node option" where
  "lookup_node d k = map_of (dk_nodes d) k"

definition below :: "fs_path \<Rightarrow> fs_path \<Rightarrow> bool" where
  "below k q = (take (length k) q = k)"

definition children :: "disk \<Rightarrow> fs_path \<Rightarrow> string list" where
  "children d k =
     map (List.last \<circ> fst) (filter (\<lambda>(q, _). q \<noteq> [] \<and> butlast q = k) (dk_nodes d))"

definition disk_fault :: "disk_faults \<Rightarrow> disk_op \<Rightarrow> fs_path \<Rightarrow> unit result" where
  "disk_fault f op k = (case df_error f op k of None \<Rightarrow> Inr () | Some e \<Rightarrow> Inl e)"

section \<open>Changing\<close>

definition set_node :: "fs_path \<Rightarrow> node \<Rightarrow> disk \<Rightarrow> disk" where
  "set_node k n d =
     (if lookup_node d k = None then d\<lparr>dk_nodes := dk_nodes d @ [(k, n)]\<rparr>
      else d\<lparr>dk_nodes := map (\<lambda>(q, m). if q = k then (q, n) else (q, m)) (dk_nodes d)\<rparr>)"

definition remove_nodes :: "(fs_path \<Rightarrow> bool) \<Rightarrow> disk \<Rightarrow> disk" where
  "remove_nodes P d = d\<lparr>dk_nodes := filter (\<lambda>(q, _). \<not> P q) (dk_nodes d)\<rparr>"

definition touch :: "fs_path \<Rightarrow> disk \<Rightarrow> disk" where
  "touch k d = d\<lparr>dk_mtime := (dk_mtime d)(k := dk_now d)\<rparr>"

definition make_dir :: "disk_faults \<Rightarrow> fs_path \<Rightarrow> (disk, unit) sresult" where
  "make_dir f k d =
     (case lookup_node d k of
        Some DirNode \<Rightarrow> (Inr (), d)
      | Some (FileNode _) \<Rightarrow> (Inl (Msg ''Not a directory''), d)
      | None \<Rightarrow>
          (case disk_fault f MakeDir k of
             Inl e \<Rightarrow> (Inl e, d)
           | Inr _ \<Rightarrow> (Inr (), touch k (touch (butlast k) (set_node k DirNode d)))))"

definition ancestors :: "fs_path \<Rightarrow> fs_path list" where
  "ancestors k = map (\<lambda>n. take n k) [0..<Suc (length k)]"

definition create_dir_all :: "disk_faults \<Rightarrow> string \<Rightarrow> (disk, unit) sresult" where
  "create_dir_all f p = (\<lambda>d. sforeach (ancestors (locate d p)) (make_dir f) d)"

text \<open>\<open>File::create\<close>, which empties a file that exists.\<close>

definition create_file :: "disk_faults \<Rightarrow> string \<Rightarrow> (disk, unit) sresult" where
  "create_file f p d =
     (let k = locate d p in
      if k = [] \<or> lookup_node d (butlast k) \<noteq> Some DirNode \<or> lookup_node d k = Some DirNode
      then (Inl (Msg ''cannot create file''), d)
      else case disk_fault f CreateFile k of
             Inl e \<Rightarrow> (Inl e, d)
           | Inr _ \<Rightarrow> (Inr (), (if lookup_node d k = None then touch (butlast k) else (\<lambda>d. d)) (set_node k (FileNode []) d)))"

text \<open>Writing at the end of a file that is open, and flushing it.\<close>

definition append_file :: "disk_faults \<Rightarrow> string \<Rightarrow> string \<Rightarrow> (disk, unit) sresult" where
  "append_file f p bytes d =
     (let k = locate d p in
      case disk_fault f WriteFile k of
        Inl e \<Rightarrow> (Inl e, d)
      | Inr _ \<Rightarrow>
          (case lookup_node d k of
             Some (FileNode c) \<Rightarrow> (Inr (), set_node k (FileNode (c @ bytes)) d)
           | _ \<Rightarrow> (Inr (), d)))"

definition flush_file :: "disk_faults \<Rightarrow> string \<Rightarrow> (disk, unit) sresult" where
  "flush_file f p = sread (\<lambda>d. disk_fault f FlushFile (locate d p))"

definition write_file :: "disk_faults \<Rightarrow> string \<Rightarrow> string \<Rightarrow> (disk, unit) sresult" where
  "write_file f p bytes = sbind (create_file f p) (\<lambda>_. append_file f p bytes)"

definition rename_file :: "disk_faults \<Rightarrow> string \<Rightarrow> string \<Rightarrow> (disk, unit) sresult" where
  "rename_file f p q d =
     (let k = locate d p; l = locate d q in
      case lookup_node d k of
        Some (FileNode c) \<Rightarrow>
          (if l = [] \<or> lookup_node d (butlast l) \<noteq> Some DirNode \<or> lookup_node d l = Some DirNode
           then (Inl (Msg ''cannot rename file''), d)
           else case disk_fault f RenameFile k of
                  Inl e \<Rightarrow> (Inl e, d)
                | Inr _ \<Rightarrow> (Inr (), touch (butlast l) (touch (butlast k)
                    (set_node l (FileNode c) (remove_nodes (\<lambda>x. x = k) d)))))
      | _ \<Rightarrow> (Inl (Msg ''cannot rename file''), d))"

definition remove_file :: "disk_faults \<Rightarrow> string \<Rightarrow> (disk, unit) sresult" where
  "remove_file f p d =
     (let k = locate d p in
      case lookup_node d k of
        Some (FileNode _) \<Rightarrow>
          (case disk_fault f RemoveFile k of
             Inl e \<Rightarrow> (Inl e, d)
           | Inr _ \<Rightarrow> (Inr (), touch (butlast k) (remove_nodes (\<lambda>q. q = k) d)))
      | _ \<Rightarrow> (Inl (Msg ''cannot remove file''), d))"

definition remove_dir_all :: "disk_faults \<Rightarrow> string \<Rightarrow> (disk, unit) sresult" where
  "remove_dir_all f p d =
     (let k = locate d p in
      if lookup_node d k \<noteq> Some DirNode then (Inl (Msg ''cannot remove directory''), d)
      else case disk_fault f RemoveDirAll k of
             Inl e \<Rightarrow> (Inl e, remove_nodes (\<lambda>q. below k q \<and> df_removed f k q) d)
           | Inr _ \<Rightarrow> (Inr (), touch (butlast k) (remove_nodes (below k) d)))"

section \<open>Reading\<close>

definition path_exists :: "disk_faults \<Rightarrow> string \<Rightarrow> disk \<Rightarrow> bool result" where
  "path_exists f p d =
     rbind (disk_fault f Metadata (locate d p)) (\<lambda>_. Inr (lookup_node d (locate d p) \<noteq> None))"

definition path_is_file :: "disk_faults \<Rightarrow> string \<Rightarrow> disk \<Rightarrow> bool result" where
  "path_is_file f p d =
     rbind (disk_fault f Metadata (locate d p)) (\<lambda>_.
       case lookup_node d (locate d p) of
         None \<Rightarrow> Inl (Msg ''No such file or directory'')
       | Some DirNode \<Rightarrow> Inr False
       | Some (FileNode _) \<Rightarrow> Inr True)"

definition open_file :: "disk_faults \<Rightarrow> string \<Rightarrow> disk \<Rightarrow> unit result" where
  "open_file f p d =
     rbind (disk_fault f OpenFile (locate d p)) (\<lambda>_.
       if lookup_node d (locate d p) = None then Inl (Msg ''No such file or directory'') else Inr ())"

definition read_file :: "disk_faults \<Rightarrow> string \<Rightarrow> disk \<Rightarrow> string result" where
  "read_file f p d =
     rbind (disk_fault f ReadFile (locate d p)) (\<lambda>_.
       case lookup_node d (locate d p) of
         Some (FileNode c) \<Rightarrow> Inr c
       | _ \<Rightarrow> Inl (Msg ''cannot read file''))"

text \<open>
  \<open>fs::copy\<close>: the target is emptied before the source is read, also when both are one file.
\<close>

definition copy_file :: "disk_faults \<Rightarrow> string \<Rightarrow> string \<Rightarrow> (disk, unit) sresult" where
  "copy_file f p q =
     sbind (sread (read_file f p)) (\<lambda>_.
     sbind (create_file f q) (\<lambda>_.
     sbind (sread (read_file f p)) (\<lambda>bytes. append_file f q bytes)))"

text \<open>The entries of a directory, each with its path.\<close>

definition read_dir :: "disk_faults \<Rightarrow> string \<Rightarrow> disk \<Rightarrow> string list result" where
  "read_dir f p d =
     (if lookup_node d (locate d p) \<noteq> Some DirNode then Inl (Msg ''cannot read directory'')
      else rbind (disk_fault f ReadDir (locate d p)) (\<lambda>_. Inr (map (path_join p) (children d (locate d p)))))"

section \<open>Lookups after changes\<close>

lemma below_iff: "below k q \<longleftrightarrow> (\<exists>r. q = k @ r)"
  by (auto simp: below_def) (metis append_take_drop_id)

lemma below_refl [simp]: "below k k"
  by (simp add: below_iff)

lemma below_trans: "below a b \<Longrightarrow> below b c \<Longrightarrow> below a c"
  by (auto simp: below_iff)

lemma below_append [simp]: "below k (k @ r)"
  by (auto simp: below_iff)

lemma below_linear: "below a q \<Longrightarrow> below b q \<Longrightarrow> below a b \<or> below b a"
  by (auto simp: below_iff append_eq_append_conv2)

lemma below_take: "below (take n q) q"
  by (auto simp: below_iff) (metis append_take_drop_id)

lemma lookup_set_node [simp]: "lookup_node (set_node k n d) q = (if q = k then Some n else lookup_node d q)"
proof -
  have "map_of (map (\<lambda>(q, m). if q = k then (q, n) else (q, m)) xs) q =
      (if q = k \<and> map_of xs k \<noteq> None then Some n else map_of xs q)" for xs
    by (induction xs) auto
  moreover have "map_of (xs @ [(k, n)]) q = (if q = k then Some n else map_of xs q)" if "map_of xs k = None" for xs
    using that by (auto simp: map_add_def split: option.splits)
  ultimately show ?thesis by (auto simp: lookup_node_def set_node_def)
qed

lemma lookup_remove_nodes [simp]:
  "lookup_node (remove_nodes P d) q = (if P q then None else lookup_node d q)"
proof -
  have "map_of (filter (\<lambda>(q, _). \<not> P q) xs) q = (if P q then None else map_of xs q)" for xs :: "(fs_path \<times> node) list"
    by (induction xs) auto
  then show ?thesis by (simp add: lookup_node_def remove_nodes_def)
qed

lemma lookup_touch [simp]: "lookup_node (touch k d) q = lookup_node d q"
  by (simp add: lookup_node_def touch_def)

lemma cwd_kept [simp]:
  "dk_cwd (set_node k n d) = dk_cwd d" "dk_cwd (remove_nodes P d) = dk_cwd d" "dk_cwd (touch k d) = dk_cwd d"
  by (simp_all add: set_node_def remove_nodes_def touch_def)

lemma locate_kept [simp]:
  "locate (set_node k n d) p = locate d p" "locate (remove_nodes P d) p = locate d p" "locate (touch k d) p = locate d p"
  by (simp_all add: locate_def)

lemma mtime_kept [simp]:
  "dk_mtime (set_node k n d) = dk_mtime d" "dk_mtime (remove_nodes P d) = dk_mtime d"
  by (simp_all add: set_node_def remove_nodes_def)

section \<open>Where joined paths lead\<close>

lemma split_on_append_sep: "split_on c (a @ c # b) = split_on c a @ split_on c b"
proof (induction a)
  case (Cons x a)
  then show ?case
    by (cases "split_on c a") auto
qed simp

lemma fold_Normal: "fold locate_step (map Normal ns) k = k @ ns"
  by (induction ns arbitrary: k) simp_all

lemma components_path_join:
  assumes "plain_path p"
  shows "components (path_join b p) = components b @ components p"
proof -
  obtain ns where ns: "ns \<noteq> []" "list_all plain_name ns" "components p = map Normal ns" "p = join_with ''/'' ns"
    using assms by (auto simp: plain_path_def)
  have sp: "split_on CHR ''/'' p = ns"
    unfolding ns(4) using ns(1,2) by (intro split_on_join) (auto simp: plain_name_def list_all_iff)
  have rel: "\<not> path_is_absolute p" using join_with_relative [OF ns(2,1)] ns(4) by simp
  have keep: "filter (\<lambda>s. s \<noteq> [] \<and> s \<noteq> ''.'') ns = ns" "map component_of ns = map Normal ns"
    using ns(2) by (auto simp: filter_id_conv plain_name_def list_all_iff component_of_def)
  have main: "components (c @ CHR ''/'' # p) = components c @ map Normal ns" if "c \<noteq> []" for c
  proof -
    have "path_is_absolute (c @ CHR ''/'' # p) = path_is_absolute c"
      using that by (cases c) (auto simp: path_is_absolute_def starts_with_iff)
    then show ?thesis using keep by (simp add: components_def split_on_append_sep sp Let_def)
  qed
  show ?thesis
  proof (cases "b = []")
    case True
    then show ?thesis by (simp add: path_join_def components_def path_is_absolute_def starts_with_iff)
  next
    case False
    show ?thesis
    proof (cases "List.last b = CHR ''/''")
      case True
      then obtain c where c: "b = c @ ''/''" using False by (metis append_butlast_last_id)
      show ?thesis
      proof (cases "c = []")
        case True
        have "components (CHR ''/'' # p) = RootDir # map Normal ns"
          using keep split_on_append_sep [of "CHR ''/''" "[]" p]
          by (simp add: components_def Let_def sp path_is_absolute_def starts_with_iff)
        moreover have "components ''/'' = [RootDir]" by code_simp
        ultimately show ?thesis using True c rel ns(3) by (simp add: path_join_def)
      next
        case cne: False
        have "path_is_absolute (c @ ''/'') = path_is_absolute c"
          using cne by (cases c) (auto simp: path_is_absolute_def starts_with_iff)
        then have "components (c @ ''/'') = components c"
          using split_on_append_sep [of "CHR ''/''" c "[]"] by (simp add: components_def Let_def)
        then show ?thesis using main [OF cne] True c rel ns(3) by (simp add: path_join_def)
      qed
    next
      case False
      then show ?thesis using main [OF \<open>b \<noteq> []\<close>] rel \<open>b \<noteq> []\<close> ns(3) by (simp add: path_join_def)
    qed
  qed
qed

definition names_of :: "string \<Rightarrow> fs_path" where
  "names_of p = split_on CHR ''/'' p"

lemma plain_components:
  assumes "plain_path p"
  shows "components p = map Normal (names_of p)" "names_of p \<noteq> []" "list_all plain_name (names_of p)"
proof -
  obtain ns where ns: "ns \<noteq> []" "list_all plain_name ns" "components p = map Normal ns" "p = join_with ''/'' ns"
    using assms by (auto simp: plain_path_def)
  have "names_of p = ns"
    unfolding names_of_def ns(4) using ns(1,2) by (intro split_on_join) (auto simp: plain_name_def list_all_iff)
  then show "components p = map Normal (names_of p)" "names_of p \<noteq> []" "list_all plain_name (names_of p)"
    using ns by simp_all
qed

lemma locate_join: "plain_path p \<Longrightarrow> locate d (path_join b p) = locate d b @ names_of p"
  by (simp add: locate_def components_path_join plain_components(1) fold_Normal)

lemma plain_name_path: "plain_name n \<Longrightarrow> plain_path n"
  using plain_pathI [of "[n]"] by simp

lemma names_of_plain_name [simp]: "plain_name n \<Longrightarrow> names_of n = [n]"
  by (simp add: names_of_def plain_name_def split_on_notin)

section \<open>What a call may change\<close>

text \<open>
  \<open>kept_outside k d\<close> are the disks that differ from \<open>d\<close> only below \<open>k\<close>, and in directories
  on the way to \<open>k\<close> that were missing.
\<close>

definition kept_outside :: "fs_path \<Rightarrow> disk \<Rightarrow> disk \<Rightarrow> bool" where
  "kept_outside k d d' \<longleftrightarrow> dk_cwd d' = dk_cwd d \<and>
     (\<forall>q. \<not> below k q \<longrightarrow> lookup_node d' q = lookup_node d q \<or>
        below q k \<and> lookup_node d q = None \<and> lookup_node d' q = Some DirNode)"

lemma kept_outside_refl [simp]: "kept_outside k d d"
  by (simp add: kept_outside_def)

lemma kept_outside_locate: "kept_outside k d d' \<Longrightarrow> locate d' p = locate d p"
  by (simp add: kept_outside_def locate_def)

lemma kept_outside_set:
  "below k l \<Longrightarrow> kept_outside k d d' \<Longrightarrow> kept_outside k d (set_node l n d')"
  by (auto simp: kept_outside_def)

lemma kept_outside_remove:
  "(\<And>q. P q \<Longrightarrow> below k q) \<Longrightarrow> kept_outside k d d' \<Longrightarrow> kept_outside k d (remove_nodes P d')"
  by (auto simp: kept_outside_def)

lemma kept_outside_touch [simp]: "kept_outside k d (touch l d') = kept_outside k d d'"
  by (simp add: kept_outside_def)

lemmas kept_rules = kept_outside_set kept_outside_remove

lemma make_dir_kept:
  "below k l \<or> below l k \<Longrightarrow> preserves (kept_outside k d) (make_dir f l)"
  by (auto simp: preserves_def make_dir_def kept_outside_def disk_fault_def split: option.splits node.splits)

lemma create_dir_all_kept:
  assumes "below k (locate d p) \<or> below (locate d p) k"
  shows "preserves (kept_outside k d) (create_dir_all f p)"
proof -
  have "below k l \<or> below l k" if "l \<in> set (ancestors (locate d p))" for l
    using assms that below_take below_trans below_linear unfolding ancestors_def by fastforce
  then have "preserves (kept_outside k d) (sforeach (ancestors (locate d p)) (make_dir f))"
    by (intro preserves_sforeach make_dir_kept)
  then show ?thesis by (auto simp: preserves_def create_dir_all_def kept_outside_locate)
qed

lemma create_file_kept: "below k (locate d p) \<Longrightarrow> preserves (kept_outside k d) (create_file f p)"
  by (auto simp: preserves_def create_file_def Let_def kept_outside_locate kept_outside_set disk_fault_def
      split: option.splits)

lemma append_file_kept: "below k (locate d p) \<Longrightarrow> preserves (kept_outside k d) (append_file f p b)"
  by (auto simp: preserves_def append_file_def Let_def kept_outside_locate kept_outside_set disk_fault_def
      split: option.splits node.splits)

lemma flush_file_kept: "preserves P (flush_file f p)"
  by (simp add: flush_file_def preserves_rules)

lemma write_file_kept: "below k (locate d p) \<Longrightarrow> preserves (kept_outside k d) (write_file f p b)"
  unfolding write_file_def by (intro preserves_rules create_file_kept append_file_kept)

lemma rename_file_kept:
  "below k (locate d p) \<Longrightarrow> below k (locate d q) \<Longrightarrow> preserves (kept_outside k d) (rename_file f p q)"
  by (auto simp: preserves_def rename_file_def Let_def kept_outside_locate disk_fault_def
      intro!: kept_rules split: option.splits node.splits)

lemma remove_dir_all_kept: "below k (locate d p) \<Longrightarrow> preserves (kept_outside k d) (remove_dir_all f p)"
  by (auto simp: preserves_def remove_dir_all_def Let_def kept_outside_locate disk_fault_def
      intro!: kept_rules intro: below_trans split: option.splits)

lemmas disk_kept = create_dir_all_kept create_file_kept append_file_kept flush_file_kept write_file_kept
  rename_file_kept remove_dir_all_kept

text \<open>What is at a path after a call that succeeded.\<close>

lemma create_dir_all_Inr:
  assumes "create_dir_all f p d = (Inr u, d')"
  shows "lookup_node d' (locate d p) = Some DirNode" "dk_cwd d' = dk_cwd d"
    "\<And>q c. lookup_node d q = Some c \<Longrightarrow> lookup_node d' q = Some c"
    "\<And>q. lookup_node d' q \<noteq> lookup_node d q \<Longrightarrow> lookup_node d' q = Some DirNode"
proof -
  have step: "make_dir f l e = (Inr v, e') \<Longrightarrow> lookup_node e' l = Some DirNode \<and> dk_cwd e' = dk_cwd e \<and>
      (\<forall>q. lookup_node e' q = lookup_node e q \<or> lookup_node e q = None \<and> lookup_node e' q = Some DirNode)" for l e e' v
    by (auto simp: make_dir_def split: option.splits node.splits sum.splits if_splits)
  have loop: "sforeach ls (make_dir f) e = (Inr v, e') \<Longrightarrow> (\<forall>l \<in> set ls. lookup_node e' l = Some DirNode) \<and> dk_cwd e' = dk_cwd e \<and>
      (\<forall>q. lookup_node e' q = lookup_node e q \<or> lookup_node e q = None \<and> lookup_node e' q = Some DirNode)" for ls e e' v
  proof (induction ls arbitrary: e)
    case (Cons l ls)
    then obtain e1 where 1: "make_dir f l e = (Inr (), e1)" and 2: "sforeach ls (make_dir f) e1 = (Inr v, e')"
      by (auto simp: sbind_Inr)
    from step [OF 1] Cons.IH [OF 2] show ?case by (metis list.set_cases option.distinct(1) set_ConsD)
  qed (simp add: sret_def)
  have l: "sforeach (ancestors (locate d p)) (make_dir f) d = (Inr u, d')"
    using assms by (simp add: create_dir_all_def)
  have "locate d p \<in> set (ancestors (locate d p))"
    by (auto simp: ancestors_def intro!: image_eqI [of _ _ "length (locate d p)"])
  then show "lookup_node d' (locate d p) = Some DirNode" using loop [OF l] by blast
  show "dk_cwd d' = dk_cwd d" using loop [OF l] by blast
  show "\<And>q c. lookup_node d q = Some c \<Longrightarrow> lookup_node d' q = Some c"
    "\<And>q. lookup_node d' q \<noteq> lookup_node d q \<Longrightarrow> lookup_node d' q = Some DirNode"
    using loop [OF l] by (metis option.distinct(1))+
qed

lemma create_file_Inr:
  "create_file f p d = (Inr u, d') \<Longrightarrow> dk_cwd d' = dk_cwd d \<and>
     (\<forall>q. lookup_node d' q = (if q = locate d p then Some (FileNode []) else lookup_node d q))"
  by (auto simp: create_file_def Let_def split: if_splits sum.splits)

lemma append_file_Inr:
  "append_file f p b d = (Inr u, d') \<Longrightarrow> lookup_node d (locate d p) = Some (FileNode c) \<Longrightarrow>
     dk_cwd d' = dk_cwd d \<and>
     (\<forall>q. lookup_node d' q = (if q = locate d p then Some (FileNode (c @ b)) else lookup_node d q))"
  by (auto simp: append_file_def Let_def split: sum.splits)

lemma write_file_Inr:
  assumes "write_file f p b d = (Inr u, d')"
  shows "dk_cwd d' = dk_cwd d"
    "lookup_node d' q = (if q = locate d p then Some (FileNode b) else lookup_node d q)"
proof -
  obtain e where 1: "create_file f p d = (Inr (), e)" and 2: "append_file f p b e = (Inr u, d')"
    using assms by (auto simp: write_file_def sbind_Inr)
  have "locate e p = locate d p" using create_file_Inr [OF 1] by (simp add: locate_def)
  then have "lookup_node e (locate e p) = Some (FileNode [])" using create_file_Inr [OF 1] by simp
  from append_file_Inr [OF 2 this] create_file_Inr [OF 1] \<open>locate e p = locate d p\<close>
  show "dk_cwd d' = dk_cwd d" "lookup_node d' q = (if q = locate d p then Some (FileNode b) else lookup_node d q)"
    by simp_all
qed

lemma rename_file_Inr:
  "rename_file f p q d = (Inr u, d') \<Longrightarrow> lookup_node d (locate d p) = Some (FileNode c) \<Longrightarrow>
     dk_cwd d' = dk_cwd d \<and>
     (\<forall>r. lookup_node d' r = (if r = locate d q then Some (FileNode c) else if r = locate d p then None else lookup_node d r))"
  by (auto simp: rename_file_def Let_def split: if_splits sum.splits)

end
