(* ===== verification/Oci_Client.thy ===== *)
theory Oci_Client
  imports Oci_Types Disk
begin

text \<open>
  The registry client (\<open>crates/ota-update/src/registry/oras.rs\<close>), around the crate \<open>oci_client\<close>:
  listing tags, fetching a manifest, downloading a blob chunk by chunk into a file, and
  uploading layers. The crate and the registry behind it are a parameter that acts on a state
  of its own.
\<close>

section \<open>State\<close>

record ('n, 's) oci_state =
  os_disk :: disk
  os_events :: "registry_event list"
  os_net :: 'n
  os_sys :: 's

text \<open>A feedback channel takes an event or not, depending on what it already holds.\<close>

type_synonym feedback = "(registry_event list \<Rightarrow> bool) option"

definition notify :: "feedback \<Rightarrow> registry_event \<Rightarrow> (('n, 's) oci_state, unit) sresult" where
  "notify feedback event =
     smodify (\<lambda>s. case feedback of
       Some accepts \<Rightarrow> if accepts (os_events s) then s\<lparr>os_events := os_events s @ [event]\<rparr> else s
     | None \<Rightarrow> s)"

definition on_disk :: "(disk, 'a) sresult \<Rightarrow> (('n, 's) oci_state, 'a) sresult" where
  "on_disk m s = (case m (os_disk s) of (r, d) \<Rightarrow> (r, s\<lparr>os_disk := d\<rparr>))"

section \<open>Data\<close>

datatype registry_credentials = Anonymous | Basic string string | Bearer string

datatype registry_auth = AuthAnonymous | AuthBasic string string | AuthBearer string

fun to_registry_auth :: "registry_credentials \<Rightarrow> registry_auth" where
  "to_registry_auth Anonymous = AuthAnonymous"
| "to_registry_auth (Basic username password) = AuthBasic username password"
| "to_registry_auth (Bearer token) = AuthBearer token"

record oci_descriptor =
  od_media_type :: string
  od_digest :: string
  od_size :: int
  od_annotations :: "(string \<Rightarrow> string option) option"

record blob_descriptor =
  bd_digest :: string
  bd_media_type :: string
  bd_size :: int
  bd_annotations :: "(string \<Rightarrow> string option) option"

definition blob_from_descriptor :: "oci_descriptor \<Rightarrow> blob_descriptor" where
  "blob_from_descriptor d =
     \<lparr>bd_digest = od_digest d, bd_media_type = od_media_type d, bd_size = od_size d, bd_annotations = od_annotations d\<rparr>"

definition descriptor_of_blob :: "blob_descriptor \<Rightarrow> oci_descriptor" where
  "descriptor_of_blob b =
     \<lparr>od_media_type = bd_media_type b, od_digest = bd_digest b, od_size = bd_size b, od_annotations = bd_annotations b\<rparr>"

record oci_image_manifest =
  om_schema_version :: nat
  om_media_type :: "string option"
  om_config :: oci_descriptor
  om_layers :: "oci_descriptor list"

record remote_image =
  ri_repository :: string
  ri_tag :: string
  ri_manifest_digest :: string
  ri_config_json :: string
  ri_config :: blob_descriptor
  ri_layers :: "blob_descriptor list"

record layer_input =
  li_path :: string
  li_media_type :: media_type
  li_annotations :: "(string \<Rightarrow> string option) option"

section \<open>The crate \<open>oci_client\<close>\<close>

text \<open>
  A call that is awaited: whether the cancellation token fires while it is pending, and its
  answer. Under a timeout the answer may come too late (\<open>None\<close>). A blob is a stream of
  chunks, which may stall, break, or be interrupted by the token, when a part of the next
  chunk may already be in the file. An upload says how many chunks it consumed.
\<close>

type_synonym 'a call = "bool \<times> 'a result"

datatype stream_item = Chunk string | ChunkError error | ChunkTimeout | TokenFired string

datatype registry_operation = Pull | Push

record ('r, 'n) oci_client =
  oc_list_tags :: "'r \<Rightarrow> registry_auth \<Rightarrow> 'n \<Rightarrow> string list call option \<times> 'n"
  oc_pull_manifest_and_config :: "'r \<Rightarrow> registry_auth \<Rightarrow> 'n \<Rightarrow> (oci_image_manifest \<times> string \<times> string) call option \<times> 'n"
  oc_auth :: "'r \<Rightarrow> registry_auth \<Rightarrow> registry_operation \<Rightarrow> 'n \<Rightarrow> unit call \<times> 'n"
  oc_pull_blob_stream :: "'r \<Rightarrow> oci_descriptor \<Rightarrow> 'n \<Rightarrow> (nat option \<times> stream_item list) call \<times> 'n"
  oc_push_blob_stream :: "'r \<Rightarrow> string list \<Rightarrow> string \<Rightarrow> nat \<Rightarrow> 'n \<Rightarrow> (nat \<times> string result) \<times> 'n"
  oc_push_blob :: "'r \<Rightarrow> string \<Rightarrow> string \<Rightarrow> 'n \<Rightarrow> string result \<times> 'n"
  oc_push_manifest :: "'r \<Rightarrow> oci_image_manifest \<Rightarrow> 'n \<Rightarrow> string result \<times> 'n"

text \<open>\<open>cancelable\<close>: without a token the answer is waited for.\<close>

definition cancelable :: "bool \<Rightarrow> 'a call \<Rightarrow> 'a result" where
  "cancelable ct c = (if ct \<and> fst c then Inl CancellationError else snd c)"

definition net_call :: "bool \<Rightarrow> string \<Rightarrow> ('n \<Rightarrow> 'a call \<times> 'n) \<Rightarrow> (('n, 's) oci_state, 'a) sresult" where
  "net_call ct reason op s =
     (case op (os_net s) of ((fired, r), n) \<Rightarrow> (cancelable ct (fired, with_context reason r), s\<lparr>os_net := n\<rparr>))"

text \<open>A call under a deadline: \<open>None\<close> when it passes.\<close>

definition timed_call ::
  "bool \<Rightarrow> string \<Rightarrow> ('n \<Rightarrow> 'a call option \<times> 'n) \<Rightarrow> (('n, 's) oci_state, 'a result option) sresult" where
  "timed_call ct reason op s =
     (case op (os_net s) of (a, n) \<Rightarrow>
        (Inr (map_option (\<lambda>(fired, r). cancelable ct (fired, with_context reason r)) a), s\<lparr>os_net := n\<rparr>))"

text \<open>\<open>timeout(..).await.context(..)?\<close> and a second \<open>?\<close> for the answer itself.\<close>

definition in_time :: "string \<Rightarrow> 'a option \<Rightarrow> 'a result" where
  "in_time reason a = ok_or a (Ctx reason (Msg ''deadline has elapsed''))"

definition in_time_ok :: "string \<Rightarrow> 'a result option \<Rightarrow> 'a result" where
  "in_time_ok reason a = rbind (in_time reason a) (\<lambda>r. r)"

section \<open>Listing and fetching\<close>

definition list_tags ::
  "('r, 'n) oci_client \<Rightarrow> 'r \<Rightarrow> registry_credentials \<Rightarrow> bool \<Rightarrow> (('n, 's) oci_state, string list result option) sresult" where
  "list_tags client reference credentials ct =
     timed_call ct ''while listing repository tags'' (oc_list_tags client reference (to_registry_auth credentials))"

definition remote_image_of ::
  "'r ref_api \<Rightarrow> 'r \<Rightarrow> oci_image_manifest \<times> string \<times> string \<Rightarrow> remote_image" where
  "remote_image_of api reference = (\<lambda>(m, manifest_digest, config_json).
     \<lparr>ri_repository = repository_path api reference,
      ri_tag = (case option_or (ra_tag api reference) (ra_digest api reference) of Some t \<Rightarrow> t | None \<Rightarrow> ''latest''),
      ri_manifest_digest = manifest_digest, ri_config_json = config_json,
      ri_config = blob_from_descriptor (om_config m), ri_layers = map blob_from_descriptor (om_layers m)\<rparr>)"

definition fetch_manifest_and_config ::
  "('r, 'n) oci_client \<Rightarrow> 'r ref_api \<Rightarrow> 'r \<Rightarrow> registry_credentials \<Rightarrow> bool \<Rightarrow>
   (('n, 's) oci_state, remote_image result option) sresult" where
  "fetch_manifest_and_config client api reference credentials ct =
     sbind (timed_call ct ''while fetching manifest and config''
              (oc_pull_manifest_and_config client reference (to_registry_auth credentials))) (\<lambda>a.
       sret (map_option (map_sum id (remote_image_of api reference)) a))"

section \<open>Downloading\<close>

definition progress_event_step :: nat where
  "progress_event_step = 10 * 1024 * 1024"

text \<open>The loop over the chunks of a blob.\<close>

fun download_chunks ::
  "bool \<Rightarrow> disk_faults \<Rightarrow> string \<Rightarrow> (nat \<Rightarrow> (('n, 's) oci_state, unit) sresult) \<Rightarrow> stream_item list \<Rightarrow>
   nat \<Rightarrow> progress_reporter \<Rightarrow> (('n, 's) oci_state, unit) sresult" where
  "download_chunks ct f out on_progress [] downloaded reporter = sret ()"
| "download_chunks ct f out on_progress (Chunk chunk # items) downloaded reporter =
     sbind (scontext ''while writing blob chunk'' (on_disk (append_file f out chunk))) (\<lambda>_.
     sbind (sread (\<lambda>_. u64_add downloaded (length chunk))) (\<lambda>downloaded'.
     sbind (sread (\<lambda>_. progress downloaded' reporter)) (\<lambda>(reported, reporter').
     sbind (case reported of Some v \<Rightarrow> on_progress v | None \<Rightarrow> sret ()) (\<lambda>_.
       download_chunks ct f out on_progress items downloaded' reporter'))))"
| "download_chunks ct f out on_progress (ChunkError e # items) downloaded reporter =
     scontext ''while reading blob stream'' (sfail e)"
| "download_chunks ct f out on_progress (ChunkTimeout # items) downloaded reporter =
     scontext ''timed out waiting for next blob chunk'' (sfail (Msg ''deadline has elapsed''))"
| "download_chunks ct f out on_progress (TokenFired part # items) downloaded reporter =
     (if ct then sbind (on_disk (append_file f out part)) (\<lambda>_. sfail CancellationError)
      else download_chunks ct f out on_progress items downloaded reporter)"

definition download_blob_to_file ::
  "('r, 'n) oci_client \<Rightarrow> disk_faults \<Rightarrow> 'r \<Rightarrow> blob_descriptor \<Rightarrow> registry_credentials \<Rightarrow> string \<Rightarrow>
   (nat \<Rightarrow> nat option \<Rightarrow> (('n, 's) oci_state, unit) sresult) \<Rightarrow> bool \<Rightarrow> (('n, 's) oci_state, unit) sresult" where
  "download_blob_to_file client f reference descriptor credentials out on_progress ct =
     sbind (net_call ct ''while authenticating for blob download''
              (oc_auth client reference (to_registry_auth credentials) Pull)) (\<lambda>_.
     sbind (net_call ct ''while opening blob stream''
              (oc_pull_blob_stream client reference (descriptor_of_blob descriptor))) (\<lambda>(total, items).
     sbind (download_chunks ct f out (\<lambda>v. on_progress v total) items 0 (progress_reporter_new progress_event_step)) (\<lambda>_.
       scontext ''while flushing blob file'' (on_disk (flush_file f out)))))"

fun collect_chunks :: "bool \<Rightarrow> stream_item list \<Rightarrow> string \<Rightarrow> string result" where
  "collect_chunks ct [] out = Inr out"
| "collect_chunks ct (Chunk chunk # items) out = collect_chunks ct items (out @ chunk)"
| "collect_chunks ct (ChunkError e # items) out = with_context ''while reading blob stream'' (Inl e)"
| "collect_chunks ct (ChunkTimeout # items) out =
     with_context ''timed out waiting for next blob chunk'' (Inl (Msg ''deadline has elapsed''))"
| "collect_chunks ct (TokenFired part # items) out =
     (if ct then Inl CancellationError else collect_chunks ct items out)"

definition download_blob_to_vec ::
  "('r, 'n) oci_client \<Rightarrow> 'r \<Rightarrow> blob_descriptor \<Rightarrow> registry_credentials \<Rightarrow> bool \<Rightarrow> (('n, 's) oci_state, string) sresult" where
  "download_blob_to_vec client reference descriptor credentials ct =
     sbind (net_call ct ''while authenticating for blob download''
              (oc_auth client reference (to_registry_auth credentials) Pull)) (\<lambda>_.
     sbind (net_call ct ''while opening blob stream''
              (oc_pull_blob_stream client reference (descriptor_of_blob descriptor))) (\<lambda>(total, items).
       sread (\<lambda>_. collect_chunks ct items [])))"

section \<open>Uploading\<close>

text \<open>SHA-256 (crate \<open>sha2\<close>) and the hexadecimal form of bytes (crate \<open>hex\<close>).\<close>

record crypto =
  cr_sha256 :: "string \<Rightarrow> string"
  cr_hex :: "string \<Rightarrow> string"

text \<open>A file read by a buffer of a given size.\<close>

function pieces :: "nat \<Rightarrow> string \<Rightarrow> string list" where
  "pieces n xs = (if n = 0 \<or> xs = [] then [] else take n xs # pieces n (drop n xs))"
  by pat_completeness auto
termination by (relation "measure (\<lambda>(n, xs). length xs)") auto

declare pieces.simps [simp del]

text \<open>The loop of \<open>digest_and_size\<close>: the bytes given to the hasher and their number.\<close>

fun hash_pieces :: "string list \<Rightarrow> string \<Rightarrow> nat \<Rightarrow> (string \<times> nat) result" where
  "hash_pieces [] hashed n = Inr (hashed, n)"
| "hash_pieces (b # bs) hashed n =
     rbind (u64_add n (length b)) (\<lambda>n'. hash_pieces bs (hashed @ b) n')"

definition digest_of :: "crypto \<Rightarrow> string \<Rightarrow> string" where
  "digest_of cr bytes = ''sha256:'' @ cr_hex cr (cr_sha256 cr bytes)"

definition digest_and_size :: "crypto \<Rightarrow> disk_faults \<Rightarrow> string \<Rightarrow> disk \<Rightarrow> (string \<times> nat) result" where
  "digest_and_size cr f path d =
     rbind (with_context (''opening file '' @ path) (open_file f path d)) (\<lambda>_.
     rbind (with_context (''reading file '' @ path) (read_file f path d)) (\<lambda>c.
     rbind (hash_pieces (pieces (64 * 1024) c) [] 0) (\<lambda>(hashed, n).
       Inr (digest_of cr hashed, n))))"

definition io_chunk_capacity :: nat where
  "io_chunk_capacity = 4 * 1024 * 1024"

text \<open>\<open>file_stream_with_progress\<close>: what is announced while the chunks are consumed.\<close>

fun upload_progress ::
  "feedback \<Rightarrow> media_type \<Rightarrow> nat \<Rightarrow> string list \<Rightarrow> nat \<Rightarrow> progress_reporter \<Rightarrow> (('n, 's) oci_state, unit) sresult" where
  "upload_progress feedback kind total_bytes [] uploaded reporter = sret ()"
| "upload_progress feedback kind total_bytes (chunk # chunks) uploaded reporter =
     sbind (sread (\<lambda>_. u64_add uploaded (length chunk))) (\<lambda>uploaded'.
     sbind (sread (\<lambda>_. progress uploaded' reporter)) (\<lambda>(reported, reporter').
     sbind (case reported of
              Some v \<Rightarrow> notify feedback (LayerUploading kind v (Some total_bytes))
            | None \<Rightarrow> sret ()) (\<lambda>_.
       upload_progress feedback kind total_bytes chunks uploaded' reporter')))"

definition file_bytes :: "string \<Rightarrow> disk \<Rightarrow> string" where
  "file_bytes p d = (case lookup_node d (locate d p) of Some (FileNode c) \<Rightarrow> c | _ \<Rightarrow> [])"

definition push_stream ::
  "('r, 'n) oci_client \<Rightarrow> feedback \<Rightarrow> 'r \<Rightarrow> layer_input \<Rightarrow> string \<Rightarrow> nat \<Rightarrow> (('n, 's) oci_state, string) sresult" where
  "push_stream client feedback reference input digest total_bytes = (\<lambda>s.
     let chunks = pieces io_chunk_capacity (file_bytes (li_path input) (os_disk s)) in
     case oc_push_blob_stream client reference chunks digest total_bytes (os_net s) of ((consumed, r), n) \<Rightarrow>
       sbind (upload_progress feedback (li_media_type input) total_bytes (take consumed chunks) 0
                (progress_reporter_new progress_event_step)) (\<lambda>_.
         sread (\<lambda>_. with_context (''while pushing blob '' @ li_path input) r)) (s\<lparr>os_net := n\<rparr>))"

text \<open>Conversion of a size from \<open>u64\<close> to \<open>i64\<close>.\<close>

definition to_i64 :: "nat \<Rightarrow> int result" where
  "to_i64 n =
     (if n < 2 ^ 63 then Inr (int n)
      else Inl (Ctx ''Payload too large'' (Msg ''out of range integral type conversion attempted'')))"

definition push_layer ::
  "('r, 'n) oci_client \<Rightarrow> crypto \<Rightarrow> disk_faults \<Rightarrow> feedback \<Rightarrow> 'r \<Rightarrow> layer_input \<Rightarrow> (('n, 's) oci_state, oci_descriptor) sresult" where
  "push_layer client cr f feedback reference input =
     sbind (scontext (''digesting layer file '' @ li_path input)
              (sread (\<lambda>s. digest_and_size cr f (li_path input) (os_disk s)))) (\<lambda>(digest, total_bytes).
     sbind (notify feedback (LayerUploading (li_media_type input) 0 (Some total_bytes))) (\<lambda>_.
     sbind (scontext (''opening layer file '' @ li_path input)
              (sread (\<lambda>s. open_file f (li_path input) (os_disk s)))) (\<lambda>_.
     sbind (push_stream client feedback reference input digest total_bytes) (\<lambda>_.
     sbind (notify feedback (LayerUploaded (li_media_type input) digest)) (\<lambda>_.
     sbind (sread (\<lambda>_. to_i64 total_bytes)) (\<lambda>sz.
       sret \<lparr>od_media_type = media_type_str (li_media_type input), od_digest = digest, od_size = sz,
             od_annotations = li_annotations input\<rparr>))))))"

primrec push_layers ::
  "('r, 'n) oci_client \<Rightarrow> crypto \<Rightarrow> disk_faults \<Rightarrow> feedback \<Rightarrow> 'r \<Rightarrow> layer_input list \<Rightarrow>
   (('n, 's) oci_state, oci_descriptor list) sresult" where
  "push_layers client cr f feedback reference [] = sret []"
| "push_layers client cr f feedback reference (input # inputs) =
     sbind (push_layer client cr f feedback reference input) (\<lambda>d.
     sbind (push_layers client cr f feedback reference inputs) (\<lambda>ds. sret (d # ds)))"

definition push_call :: "string \<Rightarrow> ('n \<Rightarrow> 'a result \<times> 'n) \<Rightarrow> (('n, 's) oci_state, 'a) sresult" where
  "push_call reason op s = (case op (os_net s) of (r, n) \<Rightarrow> (with_context reason r, s\<lparr>os_net := n\<rparr>))"

definition push_layers_and_config ::
  "('r, 'n) oci_client \<Rightarrow> 'r ref_api \<Rightarrow> crypto \<Rightarrow> disk_faults \<Rightarrow> 'r \<Rightarrow> registry_credentials \<Rightarrow> layer_input list \<Rightarrow> string \<Rightarrow>
   media_type \<Rightarrow> feedback \<Rightarrow> (('n, 's) oci_state, string) sresult" where
  "push_layers_and_config client api cr f reference credentials layer_inputs config_bytes config_media_type feedback =
     sbind (net_call False ''while authenticating for push''
              (oc_auth client reference (to_registry_auth credentials) Push)) (\<lambda>_.
     sbind (notify feedback (PushStarted (ra_show api reference) (length layer_inputs))) (\<lambda>_.
     sbind (push_layers client cr f feedback reference layer_inputs) (\<lambda>layer_descriptors.
     sbind (sread (\<lambda>_. to_i64 (length config_bytes))) (\<lambda>config_size.
     (let config_descriptor =
            \<lparr>od_media_type = media_type_str config_media_type, od_digest = digest_of cr config_bytes,
             od_size = config_size, od_annotations = None\<rparr> in
      sbind (push_call ''while pushing config blob''
               (oc_push_blob client reference config_bytes (od_digest config_descriptor))) (\<lambda>_.
        push_call ''while pushing image manifest''
          (oc_push_manifest client reference
             \<lparr>om_schema_version = 2, om_media_type = Some ''application/vnd.oci.image.manifest.v1+json'',
              om_config = config_descriptor, om_layers = layer_descriptors\<rparr>)))))))"

section \<open>Which calls touch the disk\<close>

abbreviation (input) disk_pred :: "(disk \<Rightarrow> bool) \<Rightarrow> ('n, 's) oci_state \<Rightarrow> bool" where
  "disk_pred P s \<equiv> P (os_disk s)"

lemma on_disk_preserves: "preserves P m \<Longrightarrow> preserves (disk_pred P) (on_disk m)"
  by (auto simp: preserves_def on_disk_def split: prod.splits)

lemma notify_disk [simp]: "os_disk (snd (notify fb ev s)) = os_disk s"
  by (simp add: notify_def smodify_def split: option.splits)

lemma notify_preserves [preserves_rules]: "preserves (disk_pred P) (notify fb ev)"
  by (simp add: preserves_def)

lemma net_call_preserves [preserves_rules]: "preserves (disk_pred P) (net_call ct c op)"
  by (simp add: preserves_def net_call_def split: prod.splits)

lemma timed_call_preserves [preserves_rules]: "preserves (disk_pred P) (timed_call ct c op)"
  by (simp add: preserves_def timed_call_def split: prod.splits)

lemma fetch_preserves [preserves_rules]: "preserves (disk_pred P) (fetch_manifest_and_config client api r cs ct)"
  unfolding fetch_manifest_and_config_def by (intro preserves_rules)

lemma download_chunks_preserves:
  assumes "\<And>b. preserves P (append_file f out b)" and "\<And>v. preserves (disk_pred P) (on_progress v)"
  shows "preserves (disk_pred P) (download_chunks ct f out on_progress items n rep)"
proof (induction items arbitrary: n rep)
  case (Cons item items)
  show ?case
  proof (cases item)
    case (Chunk chunk)
    show ?thesis
      unfolding Chunk download_chunks.simps
      by (intro preserves_rules on_disk_preserves assms Cons.IH)
  qed (use Cons.IH assms in \<open>auto intro!: preserves_rules on_disk_preserves\<close>)
qed (simp add: preserves_rules)

lemma download_blob_preserves:
  assumes "\<And>b. preserves P (append_file f out b)" and "\<And>v t. preserves (disk_pred P) (on_progress v t)"
  shows "preserves (disk_pred P) (download_blob_to_file client f r b cs out on_progress ct)"
  unfolding download_blob_to_file_def
  by (intro preserves_rules on_disk_preserves download_chunks_preserves assms flush_file_kept)

section \<open>What a download writes\<close>

definition chunk_bytes :: "stream_item list \<Rightarrow> string" where
  "chunk_bytes items = concat (List.map_filter (\<lambda>i. case i of Chunk c \<Rightarrow> Some c | _ \<Rightarrow> None) items)"

lemma chunk_bytes_simps [simp]:
  "chunk_bytes [] = []" "chunk_bytes (Chunk c # items) = c @ chunk_bytes items"
  "chunk_bytes (ChunkError e # items) = chunk_bytes items" "chunk_bytes (ChunkTimeout # items) = chunk_bytes items"
  "chunk_bytes (TokenFired p # items) = chunk_bytes items"
  by (simp_all add: chunk_bytes_def List.map_filter_def)

text \<open>The disk \<open>d'\<close> is \<open>d\<close> with the file \<open>k\<close> set to \<open>c\<close>.\<close>

definition file_set :: "fs_path \<Rightarrow> string \<Rightarrow> disk \<Rightarrow> disk \<Rightarrow> bool" where
  "file_set k c d d' \<longleftrightarrow> dk_cwd d' = dk_cwd d \<and>
     (\<forall>q. lookup_node d' q = (if q = k then Some (FileNode c) else lookup_node d q))"

lemma file_set_trans: "file_set k c d d' \<Longrightarrow> file_set k c' d' d'' \<Longrightarrow> file_set k c' d d''"
  by (simp add: file_set_def)

lemma append_file_set:
  "append_file f p b d = (Inr u, d') \<Longrightarrow> lookup_node d (locate d p) = Some (FileNode c) \<Longrightarrow>
     file_set (locate d p) (c @ b) d d'"
  using append_file_Inr by (simp add: file_set_def)

lemma download_chunks_writes:
  assumes "download_chunks ct f out on_progress items n rep s = (Inr u, s')"
    and "lookup_node (os_disk s) (locate (os_disk s) out) = Some (FileNode c)"
    and quiet: "\<And>v s. os_disk (snd (on_progress v s)) = os_disk s"
  shows "file_set (locate (os_disk s) out) (c @ chunk_bytes items) (os_disk s) (os_disk s')"
  using assms(1,2)
proof (induction items arbitrary: n rep s c)
  case Nil
  then show ?case by (auto simp: file_set_def sret_def)
next
  case (Cons item items)
  show ?case
  proof (cases item)
    case (Chunk chunk)
    obtain s1 n' rp rep' s2 where 0: "on_disk (append_file f out chunk) s = (Inr (), s1)"
      and 2: "(case rp of Some v \<Rightarrow> on_progress v | None \<Rightarrow> sret ()) s1 = (Inr (), s2)"
      and 3: "download_chunks ct f out on_progress items n' rep' s2 = (Inr u, s')"
      using Cons.prems(1) unfolding Chunk
      by (auto simp: sbind_Inr)
    have 1: "append_file f out chunk (os_disk s) = (Inr (), os_disk s1)"
      using 0 by (auto simp: on_disk_def split: prod.splits)
    have d2: "os_disk s2 = os_disk s1"
      using 2 quiet by (cases rp) (auto simp: sret_def dest: arg_cong [of _ _ snd], metis snd_conv)
    note set1 = append_file_set [OF 1 Cons.prems(2)]
    then have l: "locate (os_disk s2) out = locate (os_disk s) out" by (simp add: d2 file_set_def locate_def)
    have "lookup_node (os_disk s2) (locate (os_disk s2) out) = Some (FileNode (c @ chunk))"
      using set1 by (simp add: l) (simp add: d2 file_set_def)
    from Cons.IH [OF 3 this]
    have "file_set (locate (os_disk s) out) ((c @ chunk) @ chunk_bytes items) (os_disk s2) (os_disk s')"
      by (simp add: l)
    then show ?thesis using file_set_trans [OF set1] Chunk by (simp add: d2)
  next
    case (TokenFired part)
    then show ?thesis using Cons by (auto simp: sbind_Inr split: if_splits)
  qed (use Cons.prems in simp_all)
qed

text \<open>A blob that was downloaded is in its file, from the first chunk to the last.\<close>

lemma download_blob_writes:
  assumes "download_blob_to_file client f r b cs out on_progress ct s = (Inr u, s')"
    and "lookup_node (os_disk s) (locate (os_disk s) out) = Some (FileNode [])"
    and quiet: "\<And>v t s. os_disk (snd (on_progress v t s)) = os_disk s"
  shows "\<exists>items n. (\<exists>fired t n'. oc_pull_blob_stream client r (descriptor_of_blob b) n = ((fired, Inr (t, items)), n')) \<and>
    file_set (locate (os_disk s) out) (chunk_bytes items) (os_disk s) (os_disk s')"
proof -
  obtain t items s1 s2 s3 where 1: "net_call ct ''while authenticating for blob download'' (oc_auth client r (to_registry_auth cs) Pull) s = (Inr (), s1)"
    and 2: "net_call ct ''while opening blob stream'' (oc_pull_blob_stream client r (descriptor_of_blob b)) s1 = (Inr (t, items), s2)"
    and 3: "download_chunks ct f out (\<lambda>v. on_progress v t) items 0 (progress_reporter_new progress_event_step) s2 = (Inr (), s3)"
    and 4: "on_disk (flush_file f out) s3 = (Inr u, s')"
    using assms(1) by (fastforce simp: download_blob_to_file_def sbind_Inr)
  have d: "os_disk s2 = os_disk s" using 1 2 by (auto simp: net_call_def split: prod.splits)
  have d': "os_disk s' = os_disk s3" using 4 by (auto simp: on_disk_def flush_file_def sread_def)
  have "\<exists>fired n'. oc_pull_blob_stream client r (descriptor_of_blob b) (os_net s1) = ((fired, Inr (t, items)), n')"
    using 2 by (auto simp: net_call_def cancelable_def split: prod.splits if_splits)
  then show ?thesis using download_chunks_writes [OF 3, of "[]"] assms(2) quiet d d' by auto blast
qed

section \<open>What is reported\<close>

text \<open>A reporter that has seen \<open>n\<close> bytes.\<close>

definition reporter_at :: "nat \<Rightarrow> nat \<Rightarrow> progress_reporter \<Rightarrow> bool" where
  "reporter_at st n r \<longleftrightarrow> 0 < st \<and> pr_step r = st \<and> pr_next_report_at r = n div st * st + st"

text \<open>The values reported on the way from \<open>n\<close> to \<open>n'\<close> bytes.\<close>

definition reports :: "nat \<Rightarrow> nat \<Rightarrow> nat \<Rightarrow> nat list \<Rightarrow> bool" where
  "reports st n n' vs \<longleftrightarrow> sorted_wrt (<) vs \<and> (\<forall>v \<in> set vs. st dvd v \<and> n < v \<and> v \<le> n') \<and>
     List.last (n div st * st # vs) = n' div st * st"

lemma reports_refl: "reports st n n []"
  by (simp add: reports_def)

lemma reports_trans:
  assumes "reports st a b us" "reports st b c vs" "a \<le> b" "b \<le> c"
  shows "reports st a c (us @ vs)"
  using assms by (auto simp: reports_def sorted_wrt_append intro: order.strict_trans1 order.trans split: if_splits)

lemma reporter_at_new [simp]: "reporter_at st 0 (progress_reporter_new st) \<longleftrightarrow> 0 < st"
  by (auto simp: reporter_at_def progress_reporter_new_def)

lemma reporter_at_ok: "reporter_at st n r \<Longrightarrow> reporter_ok r"
  by (simp add: reporter_at_def reporter_ok_def)

lemma progress_reports:
  assumes "reporter_at st n r" "n \<le> n'" "progress n' r = Inr (rp, r')"
  shows "reporter_at st n' r'" "reports st n n' (case rp of Some v \<Rightarrow> [v] | None \<Rightarrow> [])"
proof -
  have st: "0 < st" "pr_step r = st" "pr_next_report_at r = n div st * st + st"
    using assms(1) by (auto simp: reporter_at_def)
  have n: "n < n div st * st + st" using div_mult_mod_eq [of n st] mod_less_divisor [OF st(1), of n] by linarith
  show "reporter_at st n' r'" "reports st n n' (case rp of Some v \<Rightarrow> [v] | None \<Rightarrow> [])"
  proof (atomize (full), cases rp)
    case None
    then have r: "r' = r" "n' < n div st * st + st" using progress_None [of n' r r'] assms(3) st by auto
    have "n' div st * st \<le> n'" by simp
    also have "n' < Suc (n div st) * st" using r(2) by (simp add: add.commute)
    finally have "n' div st * st < Suc (n div st) * st" .
    then have "n' div st \<le> n div st" by (simp only: mult_less_cancel2 less_Suc_eq_le)
    then have "n' div st = n div st" using div_le_mono [OF assms(2), of st] by simp
    then show "reporter_at st n' r' \<and> reports st n n' (case rp of Some v \<Rightarrow> [v] | None \<Rightarrow> [])"
      using None st r by (simp add: reporter_at_def reports_def)
  next
    case (Some v)
    note P = progress_Some [OF reporter_at_ok [OF assms(1)] assms(3) [unfolded Some]]
    show "reporter_at st n' r' \<and> reports st n n' (case rp of Some v \<Rightarrow> [v] | None \<Rightarrow> [])"
      using P n st Some by (auto simp: reporter_at_def reports_def)
  qed
qed

text \<open>An unbounded channel that nobody has closed.\<close>

abbreviation (input) open_channel :: feedback where
  "open_channel \<equiv> Some (\<lambda>_. True)"

lemma notify_open: "notify open_channel ev s = (Inr (), s\<lparr>os_events := os_events s @ [ev]\<rparr>)"
  by (simp add: notify_def smodify_def)

lemma download_chunks_reports:
  assumes "download_chunks ct f out (\<lambda>v. notify open_channel (ev v)) items n rep s = (Inr u, s')"
    and "reporter_at st n rep"
  shows "\<exists>vs. os_events s' = os_events s @ map ev vs \<and> reports st n (n + length (chunk_bytes items)) vs"
  using assms
proof (induction items arbitrary: n rep s)
  case Nil
  then show ?case by (auto simp: sret_def reports_refl)
next
  case (Cons item items)
  show ?case
  proof (cases item)
    case (Chunk chunk)
    obtain s1 n' rp rep' s2 where 0: "on_disk (append_file f out chunk) s = (Inr (), s1)"
      and n': "u64_add n (length chunk) = Inr n'" and p: "progress n' rep = Inr (rp, rep')"
      and 2: "(case rp of Some v \<Rightarrow> notify open_channel (ev v) | None \<Rightarrow> sret ()) s1 = (Inr (), s2)"
      and 3: "download_chunks ct f out (\<lambda>v. notify open_channel (ev v)) items n' rep' s2 = (Inr u, s')"
      using Cons.prems(1) unfolding Chunk by (auto simp: sbind_Inr)
    let ?us = "case rp of Some v \<Rightarrow> [v] | None \<Rightarrow> []"
    have n'': "n' = n + length chunk" using n' by (auto simp: u64_add_def split: if_splits)
    have "os_events s1 = os_events s" using 0 by (auto simp: on_disk_def split: prod.splits)
    then have e2: "os_events s2 = os_events s @ map ev ?us" using 2 by (auto simp: sret_def notify_open split: option.splits)
    have R: "reporter_at st n' rep'" "reports st n n' ?us"
      using progress_reports [OF Cons.prems(2) _ p] n'' by auto
    obtain vs where vs: "os_events s' = os_events s2 @ map ev vs" "reports st n' (n' + length (chunk_bytes items)) vs"
      using Cons.IH [OF 3 R(1)] by blast
    have "reports st n (n + length (chunk_bytes (item # items))) (?us @ vs)"
      using reports_trans [OF R(2) vs(2)] n'' Chunk by (simp add: add.assoc)
    then show ?thesis using vs(1) e2 by (metis append.assoc map_append)
  next
    case (TokenFired part)
    then show ?thesis using Cons by (auto simp: sbind_Inr split: if_splits)
  qed (use Cons.prems in simp_all)
qed

section \<open>Digests of files\<close>

lemma concat_pieces: "0 < n \<Longrightarrow> concat (pieces n xs) = xs"
  by (induction n xs rule: pieces.induct) (subst pieces.simps, simp)

lemma pieces_bounded: "p \<in> set (pieces n xs) \<Longrightarrow> p \<noteq> [] \<and> length p \<le> n"
proof (induction n xs rule: pieces.induct)
  case (1 n xs)
  then show ?case by (subst (asm) (2) pieces.simps) (auto split: if_splits)
qed

lemma hash_pieces_Inr:
  "n + length (concat bs) \<le> u64_max \<Longrightarrow> hash_pieces bs h n = Inr (h @ concat bs, n + length (concat bs))"
  by (induction bs arbitrary: h n) (simp_all add: u64_add_def add.assoc)

lemma digest_and_size_Inr:
  assumes "length c \<le> u64_max" "lookup_node d (locate d p) = Some (FileNode c)"
    and "df_error f OpenFile (locate d p) = None" "df_error f ReadFile (locate d p) = None"
  shows "digest_and_size cr f p d = Inr (digest_of cr c, length c)"
  using assms hash_pieces_Inr [of 0 "pieces (64 * 1024) c" "[]"]
  by (simp add: digest_and_size_def open_file_def read_file_def disk_fault_def concat_pieces)

end
