(* ===== verification/Oci_Registry.thy ===== *)
theory Oci_Registry
  imports Oci_Client Image_Install
begin

text \<open>
  Updates in a registry (\<open>crates/ota-update/src/registry/mod.rs\<close>): discovering the updates of a
  repository, pulling one into a directory under the update lock, fetching a changelog and
  pushing an update. The state is the machine of the image commands, whose system part is the
  disk, the events sent so far, the registry and the rest of the system.
\<close>

section \<open>Environment\<close>

datatype client_protocol = Http | Https

text \<open>
  The code the commands call: the crate \<open>oci_client\<close>, hashing, \<open>serde_json\<close>, the shell, and what is
  read of the running system. \<open>oe_late\<close> says that the deadline of a changelog download passes.
\<close>

record ('r, 'n, 's) oci_env =
  oe_ref :: "'r ref_api"
  oe_client :: "client_protocol \<Rightarrow> ('r, 'n) oci_client"
  oe_crypto :: crypto
  oe_faults :: disk_faults
  oe_parse :: "string \<Rightarrow> manifest result"
  oe_json :: "manifest \<Rightarrow> string result"
  oe_utf8 :: "string \<Rightarrow> bool"
  oe_late :: "'n \<Rightarrow> bool"
  oe_lock :: lock_env
  oe_cmdline :: "'s \<Rightarrow> string result"
  oe_bootctl :: "'s \<Rightarrow> bootctl_item list result"
  oe_lvs :: "'s \<Rightarrow> volume list result"
  oe_escape :: "string \<Rightarrow> string"
  oe_shell :: "string \<Rightarrow> ('n, 's) oci_state \<Rightarrow> int option \<times> ('n, 's) oci_state"

type_synonym ('n, 's) oci_machine = "('n, 's) oci_state machine"

definition on_sys :: "('s, 'a) sresult \<Rightarrow> ('s machine, 'a) sresult" where
  "on_sys m s = (case m (mc_sys s) of (r, t) \<Rightarrow> (r, s\<lparr>mc_sys := t\<rparr>))"

definition disk_step :: "(disk, 'a) sresult \<Rightarrow> (('n, 's) oci_machine, 'a) sresult" where
  "disk_step m = on_sys (on_disk m)"

definition emit :: "feedback \<Rightarrow> registry_event \<Rightarrow> (('n, 's) oci_machine, unit) sresult" where
  "emit feedback event = on_sys (notify feedback event)"

text \<open>\<open>err.is::<CancellationError>()\<close> looks below the context.\<close>

fun is_cancellation :: "error \<Rightarrow> bool" where
  "is_cancellation CancellationError = True"
| "is_cancellation (Ctx c e) = is_cancellation e"
| "is_cancellation e = False"

section \<open>Manifests on the disk\<close>

definition manifest_from_slice :: "('r, 'n, 's) oci_env \<Rightarrow> string \<Rightarrow> manifest result" where
  "manifest_from_slice env content = with_context ''Deserializing manifest'' (oe_parse env content)"

definition manifest_from_file :: "('r, 'n, 's) oci_env \<Rightarrow> disk \<Rightarrow> string \<Rightarrow> manifest result" where
  "manifest_from_file env d filename =
     rbind (with_context ''Read manifest'' (read_file (oe_faults env) filename d)) (manifest_from_slice env)"

definition manifest_write_to_file :: "('r, 'n, 's) oci_env \<Rightarrow> string \<Rightarrow> manifest \<Rightarrow> (disk, unit) sresult" where
  "manifest_write_to_file env filename m =
     sbind (sread (\<lambda>_. with_context ''Serializing manifest'' (oe_json env m))) (\<lambda>content.
       scontext (''writing manifest to '' @ filename) (write_file (oe_faults env) filename content))"

text \<open>\<open>checksum.rs\<close>: the file is mapped and hashed in chunks of 64 MiB.\<close>

definition read_sha256 :: "crypto \<Rightarrow> disk_faults \<Rightarrow> string \<Rightarrow> disk \<Rightarrow> string result" where
  "read_sha256 cr f path d =
     rbind (with_context (''opening '' @ path) (open_file f path d)) (\<lambda>_.
     rbind (with_context (''mmap '' @ path) (read_file f path d)) (\<lambda>mapped.
       Inr (cr_sha256 cr (fold (\<lambda>chunk hashed. hashed @ chunk) (pieces (64 * 1024 * 1024) mapped) []))))"

definition disk_files :: "('r, 'n, 's) oci_env \<Rightarrow> disk \<Rightarrow> file_env" where
  "disk_files env d =
     \<lparr>fe_exists = (\<lambda>p. path_exists (oe_faults env) p d), fe_is_file = (\<lambda>p. path_is_file (oe_faults env) p d),
      fe_sha256 = (\<lambda>p. read_sha256 (oe_crypto env) (oe_faults env) p d), fe_hex = cr_hex (oe_crypto env)\<rparr>"

definition image_env_of :: "('r, 'n, 's) oci_env \<Rightarrow> ('n, 's) oci_state \<Rightarrow> image_env" where
  "image_env_of env s =
     \<lparr>ie_cmdline = oe_cmdline env (os_sys s), ie_bootctl = oe_bootctl env (os_sys s), ie_lvs = oe_lvs env (os_sys s),
      ie_load = manifest_from_file env (os_disk s), ie_files = disk_files env (os_disk s), ie_escape = oe_escape env\<rparr>"

section \<open>File names\<close>

definition sanitize_path_component :: "string \<Rightarrow> string" where
  "sanitize_path_component value = map (\<lambda>c. if c = CHR '':'' then CHR ''_'' else c) value"

fun sanitize_components :: "string \<Rightarrow> path_component list \<Rightarrow> string \<Rightarrow> string result" where
  "sanitize_components value [] out = Inr out"
| "sanitize_components value (Normal part # cs) out = sanitize_components value cs (path_join out part)"
| "sanitize_components value (CurDir # cs) out = sanitize_components value cs out"
| "sanitize_components value (ParentDir # cs) out = Inl (Msg (''parent dir is not allowed: '' @ value))"
| "sanitize_components value (RootDir # cs) out = Inl (Msg (''non-relative path is not allowed: '' @ value))"

definition sanitize_relative_file_path :: "string \<Rightarrow> string result" where
  "sanitize_relative_file_path value =
     (if path_is_absolute value then Inl (Msg (''absolute path is not allowed: '' @ value))
      else rbind (sanitize_components value (components value) []) (\<lambda>out.
        if out = [] then Inl (Msg ''empty path is not allowed'') else Inr out))"

section \<open>Layers\<close>

definition image_title :: string where
  "image_title = ''org.opencontainers.image.title''"

definition changelog_local_name :: "blob_descriptor \<Rightarrow> string" where
  "changelog_local_name layer =
     (case bd_annotations layer of
        None \<Rightarrow> ''changelog.txt''
      | Some annotations \<Rightarrow>
          (case annotations image_title of
             None \<Rightarrow> ''changelog.txt''
           | Some title \<Rightarrow>
               (case sanitize_relative_file_path title of Inr path \<Rightarrow> path | Inl _ \<Rightarrow> ''changelog.txt'')))"

record artifact_binding =
  ab_kind :: media_type
  ab_blob :: blob_descriptor
  ab_digest :: string
  ab_local_name :: string

definition make_binding :: "blob_descriptor \<Rightarrow> media_type \<Rightarrow> string \<Rightarrow> artifact_binding" where
  "make_binding layer kind local_name =
     \<lparr>ab_kind = kind, ab_blob = layer, ab_digest = bd_digest layer, ab_local_name = local_name\<rparr>"

definition find_layer_by_media_type :: "blob_descriptor list \<Rightarrow> media_type \<Rightarrow> blob_descriptor option" where
  "find_layer_by_media_type layers mt = find (\<lambda>layer. bd_media_type layer = media_type_str mt) layers"

definition required_binding :: "blob_descriptor list \<Rightarrow> media_type \<Rightarrow> string \<Rightarrow> artifact_binding result" where
  "required_binding layers mt local_name =
     rbind (ok_or (find_layer_by_media_type layers mt)
              (Msg (''missing required artifact layer media_type='' @ media_type_str mt))) (\<lambda>layer.
       Inr (make_binding layer mt local_name))"

definition select_artifact_bindings :: "manifest \<Rightarrow> blob_descriptor list \<Rightarrow> artifact_binding list result" where
  "select_artifact_bindings m layers =
     rbind (required_binding layers MediaUki (mf_name (mn_kernel m))) (\<lambda>uki.
     rbind (required_binding layers MediaRoot (mf_name (mn_store m))) (\<lambda>root.
     rbind (required_binding layers MediaVerity (mf_name (mn_verity m))) (\<lambda>verity.
       Inr ([uki, root, verity] @
         (case find_layer_by_media_type layers MediaChangelog of
            Some layer \<Rightarrow> [make_binding layer MediaChangelog (changelog_local_name layer)]
          | None \<Rightarrow> [])))))"

definition layer_input_with_title :: "string \<Rightarrow> media_type \<Rightarrow> layer_input result" where
  "layer_input_with_title path mt =
     rbind (ok_or (path_file_name path) (Msg ''layer path has invalid filename'')) (\<lambda>title.
     rbind (sanitize_relative_file_path title) (\<lambda>t.
       Inr \<lparr>li_path = path, li_media_type = mt, li_annotations = Some [image_title \<mapsto> t]\<rparr>))"

section \<open>Discovering\<close>

record available_update =
  au_repository :: string
  au_tag :: string
  au_version :: string
  au_hash :: string

record 'r discover_options =
  do_reference :: "'r untagged_reference"
  do_credentials :: registry_credentials
  do_client_protocol :: client_protocol

fun untagged_inner :: "'r untagged_reference \<Rightarrow> 'r" where
  "untagged_inner (Untagged r) = r"

fun tagged_inner :: "'r tagged_reference \<Rightarrow> 'r" where
  "tagged_inner (Tagged r) = r"

text \<open>The body of the loop: one tag.\<close>

definition discover_tag ::
  "('r, 'n, 's) oci_env \<Rightarrow> 'r discover_options \<Rightarrow> feedback \<Rightarrow> bool \<Rightarrow> nat \<Rightarrow> nat \<Rightarrow> string \<Rightarrow>
   (('n, 's) oci_state, available_update option) sresult" where
  "discover_tag env options feedback ct tag_count current tag =
     sbind (sread (\<lambda>_. for_tag (oe_ref env) (do_reference options) tag)) (\<lambda>tag_ref.
     sbind (notify feedback (TagDiscovered (repository_path (oe_ref env) (tagged_inner tag_ref)) tag current tag_count)) (\<lambda>_.
     sbind (fetch_manifest_and_config (oe_client env (do_client_protocol options)) (oe_ref env) (tagged_inner tag_ref)
              (do_credentials options) ct) (\<lambda>remote.
       case remote of
         None \<Rightarrow> sret None
       | Some (Inl err) \<Rightarrow>
           (if is_cancellation err then
              sbind (notify feedback (EvCancelled ''discover-manifest'')) (\<lambda>_. sfail (Msg ''discover cancelled''))
            else sret None)
       | Some (Inr remote) \<Rightarrow>
           (case manifest_from_slice env (ri_config_json remote) of
              Inl _ \<Rightarrow> sret None
            | Inr m \<Rightarrow>
                sbind (notify feedback (ManifestFetched (ri_repository remote) (ri_tag remote) current tag_count)) (\<lambda>_.
                  sret (Some \<lparr>au_repository = ri_repository remote, au_tag = ri_tag remote,
                              au_version = mn_version m, au_hash = mn_root_verity_hash m\<rparr>))))))"

fun discover_loop ::
  "('r, 'n, 's) oci_env \<Rightarrow> 'r discover_options \<Rightarrow> feedback \<Rightarrow> bool \<Rightarrow> nat \<Rightarrow> nat \<Rightarrow> string list \<Rightarrow>
   available_update list \<Rightarrow> (('n, 's) oci_state, available_update list) sresult" where
  "discover_loop env options feedback ct tag_count idx [] updates = sret updates"
| "discover_loop env options feedback ct tag_count idx (tag # tags) updates =
     sbind (discover_tag env options feedback ct tag_count (idx + 1) tag) (\<lambda>u.
       discover_loop env options feedback ct tag_count (idx + 1) tags
         (case u of Some v \<Rightarrow> updates @ [v] | None \<Rightarrow> updates))"

definition discover_updates ::
  "('r, 'n, 's) oci_env \<Rightarrow> 'r discover_options \<Rightarrow> feedback \<Rightarrow> bool \<Rightarrow> (('n, 's) oci_state, available_update list) sresult" where
  "discover_updates env options feedback ct =
     sbind (list_tags (oe_client env (do_client_protocol options)) (untagged_inner (do_reference options))
              (do_credentials options) ct) (\<lambda>answer.
     sbind (sread (\<lambda>_. in_time_ok ''discover timeout while listing tags'' answer)) (\<lambda>tags.
     sbind (notify feedback (DiscoverStarted (ra_show (oe_ref env) (untagged_inner (do_reference options))) (length tags))) (\<lambda>_.
     sbind (discover_loop env options feedback ct (length tags) 0 tags []) (\<lambda>updates.
     sbind (notify feedback EvDone) (\<lambda>_.
       sret updates)))))"

section \<open>Pulling\<close>

record 'r pull_options =
  po_reference :: "'r tagged_reference"
  po_destination_root :: string
  po_credentials :: registry_credentials
  po_client_protocol :: client_protocol
  po_install :: bool
  po_validate :: bool

record pull_result =
  pu_output_dir :: string
  pu_manifest_path :: string

definition pull_output_dir :: "('r, 'n, 's) oci_env \<Rightarrow> 'r pull_options \<Rightarrow> string \<Rightarrow> string" where
  "pull_output_dir env options tag =
     path_join (path_join (po_destination_root options) (ra_repository (oe_ref env) (tagged_inner (po_reference options))))
       (sanitize_path_component tag)"

text \<open>\<open>let _ = remove_dir_all(..)\<close>.\<close>

definition remove_output :: "('r, 'n, 's) oci_env \<Rightarrow> string \<Rightarrow> (('n, 's) oci_machine, unit) sresult" where
  "remove_output env output_dir =
     sbind (scatch (disk_step (remove_dir_all (oe_faults env) output_dir))) (\<lambda>_. sret ())"

definition create_parent :: "('r, 'n, 's) oci_env \<Rightarrow> string \<Rightarrow> (('n, 's) oci_machine, unit) sresult" where
  "create_parent env local =
     (case path_parent local of
        Some parent \<Rightarrow> scontext (''creating parent dir '' @ parent) (disk_step (create_dir_all (oe_faults env) parent))
      | None \<Rightarrow> sret ())"

text \<open>What follows on how a download ended.\<close>

definition download_outcome ::
  "('r, 'n, 's) oci_env \<Rightarrow> feedback \<Rightarrow> string \<Rightarrow> artifact_binding \<Rightarrow> unit result \<Rightarrow> (('n, 's) oci_machine, unit) sresult" where
  "download_outcome env feedback output_dir binding download =
     (case download of
        Inr _ \<Rightarrow> sret ()
      | Inl err \<Rightarrow>
          if is_cancellation err then
            sbind (emit feedback (EvCancelled (''blob-download:'' @ ab_digest binding))) (\<lambda>_.
            sbind (remove_output env output_dir) (\<lambda>_.
              sfail (Msg ''pull cancelled'')))
          else
            sbind (remove_output env output_dir) (\<lambda>_.
              sread (\<lambda>_. with_context (''downloading blob '' @ ab_digest binding) (Inl err))))"

text \<open>The body of the loop over the artifacts.\<close>

definition pull_artifact ::
  "('r, 'n, 's) oci_env \<Rightarrow> 'r pull_options \<Rightarrow> feedback \<Rightarrow> bool \<Rightarrow> string \<Rightarrow> artifact_binding \<Rightarrow>
   (('n, 's) oci_machine, unit) sresult" where
  "pull_artifact env options feedback ct output_dir binding =
     (let local = path_join output_dir (ab_local_name binding);
          part = path_add_extension local ''part'' in
      sbind (create_parent env local) (\<lambda>_.
      sbind (scontext (''creating temp blob file '' @ part) (disk_step (create_file (oe_faults env) part))) (\<lambda>_.
      sbind (scatch (on_sys (download_blob_to_file (oe_client env (po_client_protocol options)) (oe_faults env)
               (tagged_inner (po_reference options)) (ab_blob binding) (po_credentials options) part
               (\<lambda>downloaded t. notify feedback (BlobDownloading (ab_digest binding) downloaded t)) ct))) (\<lambda>download.
      sbind (download_outcome env feedback output_dir binding download) (\<lambda>_.
      sbind (scontext (''renaming '' @ part @ '' to '' @ local) (disk_step (rename_file (oe_faults env) part local))) (\<lambda>_.
      sbind (emit feedback (BlobVerified (ab_digest binding))) (\<lambda>_.
        println (''artifact '' @ media_type_str (ab_kind binding) @ '': remote media_type='' @ media_type_str (ab_kind binding) @
          '' digest='' @ ab_digest binding @ '' -> local '' @ local))))))))"

definition remote_outcome ::
  "('r, 'n, 's) oci_env \<Rightarrow> feedback \<Rightarrow> string \<Rightarrow> remote_image result \<Rightarrow> (('n, 's) oci_machine, remote_image) sresult" where
  "remote_outcome env feedback output_dir remote =
     (case remote of
        Inr remote \<Rightarrow> sret remote
      | Inl err \<Rightarrow>
          if is_cancellation err then
            sbind (emit feedback (EvCancelled ''fetch-manifest'')) (\<lambda>_.
            sbind (remove_output env output_dir) (\<lambda>_.
              sfail (Msg ''pull cancelled'')))
          else
            sbind (remove_output env output_dir) (\<lambda>_.
              sread (\<lambda>_. with_context ''pull manifest fetch failed'' (Inl err))))"

definition pull_remote ::
  "('r, 'n, 's) oci_env \<Rightarrow> 'r pull_options \<Rightarrow> feedback \<Rightarrow> bool \<Rightarrow> string \<Rightarrow> (('n, 's) oci_machine, remote_image) sresult" where
  "pull_remote env options feedback ct output_dir =
     sbind (on_sys (fetch_manifest_and_config (oe_client env (po_client_protocol options)) (oe_ref env)
              (tagged_inner (po_reference options)) (po_credentials options) ct)) (\<lambda>answer.
     sbind (sread (\<lambda>_. in_time ''pull timeout while fetching manifest'' answer)) (\<lambda>remote.
       remote_outcome env feedback output_dir remote))"

definition pull_install ::
  "('r, 'n, 's) oci_env \<Rightarrow> 'r pull_options \<Rightarrow> feedback \<Rightarrow> string \<Rightarrow> (('n, 's) oci_machine, unit) sresult" where
  "pull_install env options feedback manifest_path =
     (if po_install options then
        sbind (emit feedback (InstallStarted manifest_path)) (\<lambda>_.
          scontext ''while installing pulled manifest'' (\<lambda>s.
            install_from_manifest_path (image_env_of env (mc_sys s)) (oe_shell env) (oe_lock env)
              manifest_path (po_validate options) False s))
      else sret ())"

text \<open>What runs under the lock.\<close>

definition pull_into ::
  "('r, 'n, 's) oci_env \<Rightarrow> 'r pull_options \<Rightarrow> feedback \<Rightarrow> bool \<Rightarrow> string \<Rightarrow> (('n, 's) oci_machine, pull_result) sresult" where
  "pull_into env options feedback ct output_dir =
     (let manifest_path = path_join output_dir ''manifest.json'' in
      sbind (scontext (''creating output dir '' @ output_dir) (disk_step (create_dir_all (oe_faults env) output_dir))) (\<lambda>_.
      sbind (emit feedback (PullStarted (ra_show (oe_ref env) (tagged_inner (po_reference options))) output_dir)) (\<lambda>_.
      sbind (println (''pull layout: '' @ output_dir)) (\<lambda>_.
      sbind (pull_remote env options feedback ct output_dir) (\<lambda>remote.
      sbind (sread (\<lambda>_. rbind (manifest_from_slice env (ri_config_json remote)) normalize_paths)) (\<lambda>m.
      sbind (sread (\<lambda>_. select_artifact_bindings m (ri_layers remote))) (\<lambda>bindings.
      sbind (sforeach bindings (pull_artifact env options feedback ct output_dir)) (\<lambda>_.
      sbind (scontext (''writing manifest file '' @ manifest_path) (disk_step (manifest_write_to_file env manifest_path m))) (\<lambda>_.
      sbind (emit feedback (ManifestWritten manifest_path)) (\<lambda>_.
      sbind (if po_validate options then
               scontext ''while validating pulled artifacts''
                 (sread (\<lambda>s. manifest_validate (disk_files env (os_disk (mc_sys s))) output_dir True m))
             else sret ()) (\<lambda>_.
      sbind (pull_install env options feedback manifest_path) (\<lambda>_.
      sbind (println (''manifest path: '' @ manifest_path)) (\<lambda>_.
      sbind (emit feedback EvDone) (\<lambda>_.
        sret \<lparr>pu_output_dir = output_dir, pu_manifest_path = manifest_path\<rparr>))))))))))))))"

definition pull_locked ::
  "('r, 'n, 's) oci_env \<Rightarrow> 'r pull_options \<Rightarrow> feedback \<Rightarrow> bool \<Rightarrow> (('n, 's) oci_machine, pull_result) sresult" where
  "pull_locked env options feedback ct =
     sbind (sread (\<lambda>_. tag_or_digest (oe_ref env) (po_reference options))) (\<lambda>tag.
       pull_into env options feedback ct (pull_output_dir env options tag))"

definition pull_update ::
  "('r, 'n, 's) oci_env \<Rightarrow> 'r pull_options \<Rightarrow> feedback \<Rightarrow> bool \<Rightarrow> (('n, 's) oci_machine, pull_result) sresult" where
  "pull_update env options feedback ct =
     sbind (scontext (''creating destination root '' @ po_destination_root options)
              (disk_step (create_dir_all (oe_faults env) (po_destination_root options)))) (\<lambda>_.
       with_lock (oe_lock env) (path_join (po_destination_root options) ''.ota-update.lock'') ''registry-pull''
         (pull_locked env options feedback ct))"

section \<open>Changelogs\<close>

definition fetch_changelog ::
  "('r, 'n, 's) oci_env \<Rightarrow> 'r tagged_reference \<Rightarrow> registry_credentials \<Rightarrow> client_protocol \<Rightarrow> feedback \<Rightarrow> bool \<Rightarrow>
   (('n, 's) oci_state, string) sresult" where
  "fetch_changelog env reference credentials protocol feedback ct =
     sbind (fetch_manifest_and_config (oe_client env protocol) (oe_ref env) (tagged_inner reference) credentials ct) (\<lambda>answer.
     sbind (sread (\<lambda>_. in_time_ok ''changelog timeout while fetching manifest'' answer)) (\<lambda>remote.
     sbind (sread (\<lambda>_. ok_or (find_layer_by_media_type (ri_layers remote) MediaChangelog)
              (Msg ''no changelog layer found for reference''))) (\<lambda>changelog.
     sbind (sread (\<lambda>s. in_time ''changelog timeout while downloading blob'' (if oe_late env (os_net s) then None else Some ()))) (\<lambda>_.
     sbind (download_blob_to_vec (oe_client env protocol) (tagged_inner reference) changelog credentials ct) (\<lambda>bytes.
     sbind (notify feedback (ChangelogFetched (length bytes))) (\<lambda>_.
       sread (\<lambda>_. if oe_utf8 env bytes then Inr bytes
                  else Inl (Ctx ''changelog blob is not valid UTF-8'' (Msg ''invalid utf-8 sequence'')))))))))"

section \<open>Pushing\<close>

record 'r push_options =
  pq_reference :: "'r tagged_reference"
  pq_manifest_path :: string
  pq_changelog_path :: "string option"
  pq_credentials :: registry_credentials
  pq_client_protocol :: client_protocol

record push_result =
  ps_reference :: string
  ps_manifest_url :: string
  ps_digest :: string

definition changelog_layer :: "string \<Rightarrow> layer_input result" where
  "changelog_layer changelog_path =
     rbind (ok_or (path_file_name changelog_path) (Msg ''changelog path has invalid filename'')) (\<lambda>title.
     rbind (sanitize_relative_file_path title) (\<lambda>t.
       Inr \<lparr>li_path = changelog_path, li_media_type = MediaChangelog, li_annotations = Some [image_title \<mapsto> t]\<rparr>))"

definition push_inputs :: "string \<Rightarrow> manifest \<Rightarrow> string option \<Rightarrow> layer_input list result" where
  "push_inputs base_dir m changelog_path =
     rbind (layer_input_with_title (file_full_name base_dir (mn_kernel m)) MediaUki) (\<lambda>uki.
     rbind (layer_input_with_title (file_full_name base_dir (mn_store m)) MediaRoot) (\<lambda>root.
     rbind (layer_input_with_title (file_full_name base_dir (mn_verity m)) MediaVerity) (\<lambda>verity.
     rbind (case changelog_path of
              Some p \<Rightarrow> rbind (changelog_layer p) (\<lambda>l. Inr [l])
            | None \<Rightarrow> Inr []) (\<lambda>changelog.
       Inr ([uki, root, verity] @ changelog)))))"

definition push_update_with_feedback ::
  "('r, 'n, 's) oci_env \<Rightarrow> 'r push_options \<Rightarrow> feedback \<Rightarrow> (('n, 's) oci_state, push_result) sresult" where
  "push_update_with_feedback env options feedback =
     (let client = oe_client env (pq_client_protocol options);
          reference = tagged_inner (pq_reference options);
          shown = ra_show (oe_ref env) reference in
      sbind (scontext (''reading manifest file '' @ pq_manifest_path options)
               (sread (\<lambda>s. read_file (oe_faults env) (pq_manifest_path options) (os_disk s)))) (\<lambda>config_bytes.
      sbind (sread (\<lambda>_. manifest_from_slice env config_bytes)) (\<lambda>m.
      sbind (sread (\<lambda>_. ok_or (path_parent (pq_manifest_path options)) (Msg ''manifest path has no parent directory''))) (\<lambda>base_dir.
      sbind (scontext ''while validating manifest content''
               (sread (\<lambda>s. manifest_validate (disk_files env (os_disk s)) base_dir True m))) (\<lambda>_.
      sbind (sread (\<lambda>_. push_inputs base_dir m (pq_changelog_path options))) (\<lambda>layers.
      sbind (push_layers_and_config client (oe_ref env) (oe_crypto env) (oe_faults env) reference (pq_credentials options)
               layers config_bytes MediaManifest feedback) (\<lambda>pushed.
      sbind (fetch_manifest_and_config client (oe_ref env) reference (pq_credentials options) False) (\<lambda>answer.
      sbind (sread (\<lambda>_. in_time_ok ''push timeout while verifying manifest digest'' answer)) (\<lambda>remote.
      sbind (notify feedback (ManifestPushed shown pushed (ri_manifest_digest remote))) (\<lambda>_.
        sret \<lparr>ps_reference = shown, ps_manifest_url = pushed, ps_digest = ri_manifest_digest remote\<rparr>))))))))))"

definition push_update :: "('r, 'n, 's) oci_env \<Rightarrow> 'r push_options \<Rightarrow> (('n, 's) oci_state, push_result) sresult" where
  "push_update env options = push_update_with_feedback env options None"

end
