(* ===== verification/Oci_Prune.thy ===== *)
theory Oci_Prune
  imports Oci_Registry "HOL-Library.Option_ord"
begin

text \<open>
  Pruning downloaded updates (\<open>prune_downloaded_updates\<close> in
  \<open>crates/ota-update/src/registry/mod.rs\<close>): a walk over the directories below the destination with an
  explicit stack. A directory that holds downloads, that is subdirectories with a
  \<open>manifest.json\<close>, loses all but the two that were changed last; any other directory is searched.
  The theory shows that the walk ends and removes what a definition without a stack says.
\<close>

section \<open>The walk\<close>

definition keep_per_repository :: nat where
  "keep_per_repository = 2"

fun dirs_of :: "disk_faults \<Rightarrow> disk \<Rightarrow> string list \<Rightarrow> string list result" where
  "dirs_of f d [] = Inr []"
| "dirs_of f d (p # ps) =
     rbind (disk_fault f Metadata (locate d p)) (\<lambda>_.
     rbind (dirs_of f d ps) (\<lambda>dirs.
       Inr (if lookup_node d (locate d p) = Some DirNode then p # dirs else dirs)))"

fun tags_of :: "disk_faults \<Rightarrow> disk \<Rightarrow> string list \<Rightarrow> (string \<times> nat option) list result" where
  "tags_of f d [] = Inr []"
| "tags_of f d (p # ps) =
     rbind (path_exists f (path_join p ''manifest.json'') d) (\<lambda>has_manifest.
     rbind (if has_manifest then disk_fault f Metadata (locate d p) else Inr ()) (\<lambda>_.
     rbind (tags_of f d ps) (\<lambda>tags.
       Inr (if has_manifest then (p, dk_mtime d (locate d p)) # tags else tags))))"

text \<open>\<open>tags.sort_by(|a, b| b.1.cmp(&a.1))\<close>, a stable sort.\<close>

definition newest_first :: "('a \<times> nat option) list \<Rightarrow> ('a \<times> nat option) list" where
  "newest_first tags = rev (sort_key snd (rev tags))"

text \<open>One directory: the directories to search next.\<close>

definition prune_dir :: "disk_faults \<Rightarrow> string \<Rightarrow> (disk, string list) sresult" where
  "prune_dir f current =
     sbind (scontext (''reading directory '' @ current) (sread (read_dir f current))) (\<lambda>entries.
     sbind (sread (\<lambda>d. dirs_of f d entries)) (\<lambda>subdirs.
     sbind (sread (\<lambda>d. tags_of f d subdirs)) (\<lambda>tags.
       if tags \<noteq> [] then
         sbind (sforeach (drop keep_per_repository (newest_first tags)) (\<lambda>(path, _).
                  scontext (''removing stale update dir '' @ path) (remove_dir_all f path))) (\<lambda>_.
           sret [])
       else sret subdirs)))"

partial_function (option) prune_loop :: "disk_faults \<Rightarrow> string list \<Rightarrow> disk \<Rightarrow> (unit result \<times> disk) option" where
  "prune_loop f stack d =
     (if stack = [] then Some (Inr (), d)
      else case prune_dir f (List.last stack) d of
             (Inl e, d') \<Rightarrow> Some (Inl e, d')
           | (Inr subdirs, d') \<Rightarrow> prune_loop f (butlast stack @ subdirs) d')"

definition prune_downloaded_updates ::
  "('r, 'n, 's) oci_env \<Rightarrow> string \<Rightarrow> ('n, 's) oci_machine \<Rightarrow> (unit result \<times> ('n, 's) oci_machine) option" where
  "prune_downloaded_updates env destination_root m =
     (case path_exists (oe_faults env) destination_root (os_disk (mc_sys m)) of
        Inl e \<Rightarrow> Some (Inl e, m)
      | Inr exists \<Rightarrow>
          (if \<not> exists then Some (Inr (), m)
           else
             (case machine_acquire (oe_lock env) (path_join destination_root ''.ota-update.lock'') ''registry-prune'' m of
                (Inl e, m1) \<Rightarrow> Some (Inl e, m1)
              | (Inr l, m1) \<Rightarrow>
                  map_option (\<lambda>(r, d).
                    (r, m1\<lparr>mc_sys := (mc_sys m1)\<lparr>os_disk := d\<rparr>, mc_locks := drop_lock l (mc_locks m1)\<rparr>))
                    (prune_loop (oe_faults env) [destination_root] (os_disk (mc_sys m1))))))"

section \<open>What is to be removed\<close>

definition child_dirs :: "disk \<Rightarrow> fs_path \<Rightarrow> fs_path list" where
  "child_dirs d k =
     filter (\<lambda>q. lookup_node d q = Some DirNode) (map (\<lambda>n. k @ [n]) (children d k))"

definition tag_dirs :: "disk \<Rightarrow> fs_path \<Rightarrow> fs_path list" where
  "tag_dirs d k = filter (\<lambda>q. lookup_node d (q @ [''manifest.json'']) \<noteq> None) (child_dirs d k)"

definition by_age :: "disk \<Rightarrow> fs_path \<Rightarrow> fs_path list" where
  "by_age d k = rev (sort_key (dk_mtime d) (rev (tag_dirs d k)))"

definition stale_dirs :: "disk \<Rightarrow> fs_path \<Rightarrow> fs_path list" where
  "stale_dirs d k = drop keep_per_repository (by_age d k)"

text \<open>Directories are searched below others that hold no downloads.\<close>

inductive visited :: "disk \<Rightarrow> fs_path \<Rightarrow> fs_path \<Rightarrow> bool" for d :: disk where
  visited_self: "visited d k k"
| visited_child: "tag_dirs d k = [] \<Longrightarrow> c \<in> set (child_dirs d k) \<Longrightarrow> visited d c q \<Longrightarrow> visited d k q"

definition outdated :: "disk \<Rightarrow> fs_path \<Rightarrow> fs_path \<Rightarrow> bool" where
  "outdated d k q \<longleftrightarrow> (\<exists>r t. visited d k r \<and> t \<in> set (stale_dirs d r) \<and> below t q)"

text \<open>A disk has one entry for each path, and the names of entries are plain.\<close>

definition disk_ok :: "disk \<Rightarrow> bool" where
  "disk_ok d \<longleftrightarrow> distinct (map fst (dk_nodes d)) \<and> (\<forall>k \<in> fst ` set (dk_nodes d). list_all plain_name k)"

inductive_cases visited_cases: "visited d k q"

section \<open>Reading a directory\<close>

lemma children_plain: "disk_ok d \<Longrightarrow> n \<in> set (children d k) \<Longrightarrow> plain_name n"
proof -
  assume ok: "disk_ok d" and "n \<in> set (children d k)"
  then obtain q m where q: "(q, m) \<in> set (dk_nodes d)" "q \<noteq> []" "n = List.last q"
    by (auto simp: children_def)
  then have "list_all plain_name q" using ok by (force simp: disk_ok_def)
  then show "plain_name n" using q(2,3) by (auto simp: list_all_iff)
qed

lemma locate_child: "plain_name n \<Longrightarrow> locate d (path_join p n) = locate d p @ [n]"
  by (simp add: locate_join plain_name_path)

lemma manifest_json_plain [simp]: "plain_name ''manifest.json''"
  by (simp add: plain_name_def)

lemma dirs_of_Inr: "dirs_of f d ps = Inr qs \<Longrightarrow> qs = filter (\<lambda>p. lookup_node d (locate d p) = Some DirNode) ps"
  by (induction ps arbitrary: qs) (auto simp: result_simps)

lemma tags_of_Inr:
  "tags_of f d ps = Inr ts \<Longrightarrow>
     ts = map (\<lambda>p. (p, dk_mtime d (locate d p))) (filter (\<lambda>p. lookup_node d (locate d p @ [''manifest.json'']) \<noteq> None) ps)"
  by (induction ps arbitrary: ts) (auto simp: result_simps path_exists_def locate_child split: if_splits)

lemma map_insort_key: "map h (insort_key (g \<circ> h) x xs) = insort_key g (h x) (map h xs)"
  by (induction xs) auto

lemma map_sort_key: "map h (sort_key (g \<circ> h) xs) = sort_key g (map h xs)"
  by (induction xs) (simp_all add: map_insort_key [unfolded comp_def] comp_def)

lemma sort_key_agree:
  assumes "\<And>x. x \<in> set xs \<Longrightarrow> g x = h x"
  shows "sort_key g xs = sort_key h xs"
proof -
  have i: "insort_key g x ys = insort_key h x ys" if "\<And>y. y \<in> set (x # ys) \<Longrightarrow> g y = h y" for x ys
    using that by (induction ys) auto
  show ?thesis using assms
  proof (induction xs)
    case (Cons x xs)
    then show ?case using i [of x "sort_key h xs"] by simp
  qed simp
qed

lemma newest_first_keys:
  "map (locate d \<circ> fst) (newest_first (map (\<lambda>p. (p, dk_mtime d (locate d p))) ps)) =
     rev (sort_key (dk_mtime d) (rev (map (locate d) ps)))"
proof -
  let ?h = "\<lambda>p. (p, dk_mtime d (locate d p))"
  have "newest_first (map ?h ps) = rev (map ?h (sort_key (snd \<circ> ?h) (rev ps)))"
    by (simp add: newest_first_def map_sort_key rev_map)
  also have "snd \<circ> ?h = dk_mtime d \<circ> locate d" by auto
  finally show ?thesis by (simp add: rev_map map_sort_key [symmetric] comp_def)
qed


section \<open>Removing the stale ones\<close>

text \<open>\<open>d1\<close> is \<open>d\<close> without what lies below the directories \<open>ts\<close>, children of \<open>k\<close>.\<close>

definition without :: "fs_path set \<Rightarrow> fs_path \<Rightarrow> disk \<Rightarrow> disk \<Rightarrow> bool" where
  "without ts k d d1 \<longleftrightarrow>
     dk_nodes d1 = filter (\<lambda>(q, _). \<not> (\<exists>t \<in> ts. below t q)) (dk_nodes d) \<and> dk_cwd d1 = dk_cwd d \<and>
     (\<forall>q. q \<noteq> k \<longrightarrow> dk_mtime d1 q = dk_mtime d q)"

lemma without_lookup: "without ts k d d1 \<Longrightarrow> lookup_node d1 q = (if \<exists>t \<in> ts. below t q then None else lookup_node d q)"
proof -
  assume w: "without ts k d d1"
  then have "dk_nodes d1 = dk_nodes (remove_nodes (\<lambda>q. \<exists>t \<in> ts. below t q) d)"
    by (simp add: without_def remove_nodes_def)
  then have "lookup_node d1 q = lookup_node (remove_nodes (\<lambda>q. \<exists>t \<in> ts. below t q) d) q"
    by (simp add: lookup_node_def)
  then show ?thesis by simp
qed

lemma without_ok: "without ts k d d1 \<Longrightarrow> disk_ok d \<Longrightarrow> disk_ok d1"
  by (auto simp: without_def disk_ok_def distinct_map_filter)

lemma remove_all_without:
  assumes "sforeach ps (\<lambda>(p, _). scontext (c p) (remove_dir_all f p)) d = (Inr u, d1)"
    and "\<And>p x. (p, x) \<in> set ps \<Longrightarrow> butlast (locate d p) = k"
  shows "without ((locate d \<circ> fst) ` set ps) k d d1"
  using assms
proof (induction ps arbitrary: d)
  case Nil
  then show ?case by (auto simp: sret_def without_def)
next
  case (Cons px ps)
  obtain p x where px: "px = (p, x)" by fastforce
  obtain d2 where 1: "remove_dir_all f p d = (Inr (), d2)"
    and 2: "sforeach ps (\<lambda>(p, _). scontext (c p) (remove_dir_all f p)) d2 = (Inr u, d1)"
    using Cons.prems(1) by (auto simp: sbind_Inr px)
  have d2: "d2 = touch k (remove_nodes (below (locate d p)) d)"
    using 1 Cons.prems(2) [of p x] by (auto simp: remove_dir_all_def Let_def px split: if_splits sum.splits)
  have l: "locate d2 = locate d" by (rule ext) (simp add: d2)
  have w: "without ((locate d \<circ> fst) ` set ps) k d2 d1"
  proof -
    have "butlast (locate d2 q) = k" if "(q, y) \<in> set ps" for q y
      unfolding l using Cons.prems(2) [of q y] that by simp
    from Cons.IH [OF 2 this] show ?thesis by (simp only: l)
  qed
  have n2: "dk_nodes d2 = filter (\<lambda>(q, _). \<not> below (locate d p) q) (dk_nodes d)"
    by (simp add: d2 remove_nodes_def touch_def)
  show ?case
    using w unfolding without_def n2
    by (auto simp: px d2 touch_def conj_commute intro!: filter_cong)
qed

definition disk_part :: "fs_path \<Rightarrow> disk \<Rightarrow> (fs_path \<times> node) list" where
  "disk_part k d = filter (\<lambda>(q, _). below k q) (dk_nodes d)"

text \<open>Two disks that look the same from \<open>k\<close> on.\<close>

definition same_below :: "fs_path \<Rightarrow> disk \<Rightarrow> disk \<Rightarrow> bool" where
  "same_below k d d1 \<longleftrightarrow> disk_part k d1 = disk_part k d \<and> (\<forall>q. below k q \<longrightarrow> dk_mtime d1 q = dk_mtime d q)"

lemma lookup_disk_part: "below k q \<Longrightarrow> lookup_node d q = map_of (disk_part k d) q"
proof -
  assume b: "below k q"
  have "map_of (filter (\<lambda>(q, _). below k q) xs) q = map_of xs q" for xs :: "(fs_path \<times> node) list"
    using b by (induction xs) auto
  then show ?thesis by (simp add: lookup_node_def disk_part_def)
qed

lemma below_butlast: "q \<noteq> [] \<Longrightarrow> butlast q = r \<Longrightarrow> below k r \<Longrightarrow> below k q"
  by (metis append_butlast_last_id below_append below_trans)

lemma children_disk_part:
  "below k r \<Longrightarrow> children d r = map (List.last \<circ> fst) (filter (\<lambda>(q, _). q \<noteq> [] \<and> butlast q = r) (disk_part k d))"
  unfolding children_def disk_part_def filter_filter
  by (rule arg_cong [where f = "map (List.last \<circ> fst)"]) (auto intro!: filter_cong dest: below_butlast)

lemma same_below_lookup: "same_below k d d1 \<Longrightarrow> below k q \<Longrightarrow> lookup_node d1 q = lookup_node d q"
  by (simp add: same_below_def lookup_disk_part)

lemma same_below_dirs:
  assumes "same_below k d d1" "below k r"
  shows "child_dirs d1 r = child_dirs d r" "tag_dirs d1 r = tag_dirs d r" "stale_dirs d1 r = stale_dirs d r"
proof -
  have "children d1 r = children d r"
    using assms by (simp add: children_disk_part same_below_def)
  moreover have b: "below k (r @ q)" for q using assms(2) below_append below_trans by blast
  ultimately show c: "child_dirs d1 r = child_dirs d r"
    unfolding child_dirs_def using same_below_lookup [OF assms(1)] by (auto intro!: filter_cong)
  have bc: "below k q" if "q \<in> set (child_dirs d r)" for q
    using that b by (auto simp: child_dirs_def)
  have bm: "below k (q @ x)" if "q \<in> set (child_dirs d r)" for q x
    using bc [OF that] below_append below_trans by blast
  show t: "tag_dirs d1 r = tag_dirs d r"
    unfolding tag_dirs_def c using same_below_lookup [OF assms(1) bm] by (auto intro!: filter_cong)
  have "sort_key (dk_mtime d1) (rev (tag_dirs d r)) = sort_key (dk_mtime d) (rev (tag_dirs d r))"
    using assms(1) bc by (intro sort_key_agree) (auto simp: same_below_def tag_dirs_def)
  then show "stale_dirs d1 r = stale_dirs d r" by (simp add: stale_dirs_def by_age_def t)
qed

lemma child_dirs_below: "c \<in> set (child_dirs d r) \<Longrightarrow> below r c"
  by (auto simp: child_dirs_def)

lemma visited_below: "visited d k q \<Longrightarrow> below k q"
  by (induction rule: visited.induct) (auto dest: child_dirs_below intro: below_trans)

lemma visited_same:
  assumes "visited d r q" "below k r" "same_below k d d1"
  shows "visited d1 r q"
  using assms
proof (induction rule: visited.induct)
  case (visited_child r c q)
  have "below k c" using visited_child child_dirs_below below_trans by blast
  then show ?case using visited_child same_below_dirs by (metis visited.visited_child)
qed (rule visited_self)

lemma same_below_sym: "same_below k d d1 \<Longrightarrow> same_below k d1 d"
  by (simp add: same_below_def)

lemma outdated_same:
  assumes "same_below k d d1"
  shows "outdated d1 k q = outdated d k q"
proof -
  have v: "visited d1 k r \<longleftrightarrow> visited d k r" for r
    using visited_same [OF _ below_refl assms] visited_same [OF _ below_refl same_below_sym [OF assms]] by blast
  have "stale_dirs d1 r = stale_dirs d r" if "visited d k r" for r
    using same_below_dirs(3) [OF assms] visited_below that by blast
  then show ?thesis unfolding outdated_def v by (metis (no_types, lifting))
qed

section \<open>One directory\<close>

lemma stale_in: "t \<in> set (stale_dirs d k) \<Longrightarrow> t \<in> set (tag_dirs d k)"
  by (auto simp: stale_dirs_def by_age_def dest: in_set_dropD)

lemma tag_in: "t \<in> set (tag_dirs d k) \<Longrightarrow> t \<in> set (child_dirs d k)"
  by (simp add: tag_dirs_def)

lemma child_in: "c \<in> set (child_dirs d k) \<Longrightarrow> (\<exists>n. c = k @ [n]) \<and> lookup_node d c = Some DirNode"
  by (auto simp: child_dirs_def)

lemma distinct_child_dirs:
  assumes "disk_ok d"
  shows "distinct (child_dirs d k)"
proof -
  let ?qs = "filter (\<lambda>q. q \<noteq> [] \<and> butlast q = k) (map fst (dk_nodes d))"
  have "distinct ?qs" using assms by (simp add: disk_ok_def)
  moreover have "map (\<lambda>n. k @ [n]) (children d k) = ?qs"
    unfolding children_def filter_map map_map
    by (auto simp: comp_def intro!: map_cong filter_cong)
  ultimately show ?thesis by (metis child_dirs_def distinct_filter)
qed

lemma subdir_keys:
  assumes "disk_ok d" and "dirs_of f d (map (path_join p) (children d (locate d p))) = Inr subdirs"
  shows "map (locate d) subdirs = child_dirs d (locate d p)"
proof -
  let ?k = "locate d p"
  have l: "locate d (path_join p n) = ?k @ [n]" if "n \<in> set (children d ?k)" for n
    using locate_child [OF children_plain [OF assms(1) that]] .
  have "map (locate d) subdirs = filter (\<lambda>q. lookup_node d q = Some DirNode) (map (locate d) (map (path_join p) (children d ?k)))"
    using dirs_of_Inr [OF assms(2)] by (simp add: filter_map comp_def)
  also have "map (locate d) (map (path_join p) (children d ?k)) = map (\<lambda>n. ?k @ [n]) (children d ?k)"
    using l by simp
  finally show ?thesis by (simp add: child_dirs_def)
qed

lemma tag_keys:
  assumes "map (locate d) subdirs = child_dirs d k" and "tags_of f d subdirs = Inr tags"
  shows "map (locate d \<circ> fst) tags = tag_dirs d k" "map (locate d \<circ> fst) (newest_first tags) = by_age d k"
proof -
  let ?ps = "filter (\<lambda>p. lookup_node d (locate d p @ [''manifest.json'']) \<noteq> None) subdirs"
  have t: "tags = map (\<lambda>p. (p, dk_mtime d (locate d p))) ?ps" using tags_of_Inr [OF assms(2)] .
  have k: "map (locate d) ?ps = tag_dirs d k"
    unfolding tag_dirs_def assms(1) [symmetric] by (simp add: filter_map comp_def)
  show "map (locate d \<circ> fst) tags = tag_dirs d k" using k by (simp add: t comp_def)
  show "map (locate d \<circ> fst) (newest_first tags) = by_age d k"
    unfolding t newest_first_keys k by (simp add: by_age_def)
qed

lemma prune_dir_Inr:
  assumes "disk_ok d" and "prune_dir f p d = (Inr subs, d1)"
  shows "lookup_node d (locate d p) = Some DirNode \<and>
    (tag_dirs d (locate d p) \<noteq> [] \<and> subs = [] \<and> without (set (stale_dirs d (locate d p))) (locate d p) d d1 \<or>
     tag_dirs d (locate d p) = [] \<and> d1 = d \<and> map (locate d) subs = child_dirs d (locate d p))"
proof -
  let ?k = "locate d p"
  obtain entries subdirs tags where e: "read_dir f p d = Inr entries" and sd: "dirs_of f d entries = Inr subdirs"
    and tg: "tags_of f d subdirs = Inr tags"
    and rest: "(if tags \<noteq> [] then sbind (sforeach (drop keep_per_repository (newest_first tags)) (\<lambda>(path, _).
                  scontext (''removing stale update dir '' @ path) (remove_dir_all f path))) (\<lambda>_. sret [])
       else sret subdirs) d = (Inr subs, d1)"
    using assms(2) by (auto simp: prune_dir_def sbind_Inr)
  have dir: "lookup_node d ?k = Some DirNode" and en: "entries = map (path_join p) (children d ?k)"
    using e by (auto simp: read_dir_def result_simps split: if_splits)
  have sk: "map (locate d) subdirs = child_dirs d ?k" using subdir_keys [OF assms(1)] sd en by simp
  note tk = tag_keys [OF sk tg]
  show ?thesis
  proof (cases "tags = []")
    case True
    then show ?thesis using rest tk(1) sk dir by (auto simp: sret_def)
  next
    case False
    let ?stale = "drop keep_per_repository (newest_first tags)"
    have r: "sforeach ?stale (\<lambda>(path, _). scontext (''removing stale update dir '' @ path) (remove_dir_all f path)) d = (Inr (), d1)"
      and m: "subs = []" using rest False by (auto simp: sbind_Inr)
    have st: "map (locate d \<circ> fst) ?stale = stale_dirs d ?k"
      using tk(2) by (simp add: stale_dirs_def drop_map [symmetric])
    have "butlast (locate d q) = ?k" if "(q, x) \<in> set ?stale" for q x
    proof -
      have "locate d q \<in> set (map (locate d \<circ> fst) ?stale)" using that by force
      then have "locate d q \<in> set (child_dirs d ?k)" unfolding st by (rule tag_in [OF stale_in])
      then show ?thesis using child_in by fastforce
    qed
    then have "without ((locate d \<circ> fst) ` set ?stale) ?k d d1" by (rule remove_all_without [OF r])
    moreover have "(locate d \<circ> fst) ` set ?stale = set (stale_dirs d ?k)" using st by (metis set_map)
    ultimately show ?thesis using False tk(1) dir m by auto
  qed
qed

text \<open>Without faults a directory is pruned.\<close>

lemma remove_all_ok:
  assumes "\<And>op k. df_error f op k = None"
    and "\<And>p x. (p, x) \<in> set ps \<Longrightarrow> lookup_node d (locate d p) = Some DirNode \<and> (\<exists>n. locate d p = k @ [n])"
    and "distinct (map (locate d \<circ> fst) ps)"
  shows "\<exists>d1. sforeach ps (\<lambda>(p, _). scontext (c p) (remove_dir_all f p)) d = (Inr (), d1)"
  using assms(2,3)
proof (induction ps arbitrary: d)
  case (Cons px ps)
  obtain p x where px: "px = (p, x)" by fastforce
  let ?d = "touch (butlast (locate d p)) (remove_nodes (below (locate d p)) d)"
  have 1: "remove_dir_all f p d = (Inr (), ?d)"
    using Cons.prems(1) [of p x] assms(1) by (auto simp: remove_dir_all_def disk_fault_def px)
  have l: "locate ?d = locate d" by (rule ext) simp
  have "\<exists>d1. sforeach ps (\<lambda>(p, _). scontext (c p) (remove_dir_all f p)) ?d = (Inr (), d1)"
  proof (rule Cons.IH)
    show "distinct (map (locate ?d \<circ> fst) ps)" using Cons.prems(2) by (simp add: l comp_def)
    fix q y assume q: "(q, y) \<in> set ps"
    have "locate d q \<noteq> locate d p" using Cons.prems(2) q by (force simp: px)
    then have "\<not> below (locate d p) (locate d q)"
      using Cons.prems(1) [of p x] Cons.prems(1) [of q y] q by (auto simp: px below_iff)
    then show "lookup_node ?d (locate ?d q) = Some DirNode \<and> (\<exists>n. locate ?d q = k @ [n])"
      using Cons.prems(1) [of q y] q by simp
  qed
  then show ?case using 1 by (auto simp: px sbind_Inr)
qed (simp add: sret_def)

lemma reads_ok:
  assumes "\<And>op k. df_error f op k = None"
  shows "\<exists>qs. dirs_of f d ps = Inr qs" "\<exists>ts. tags_of f d ps = Inr ts"
  using assms by (induction ps) (auto simp: disk_fault_def path_exists_def)

lemma prune_dir_ok:
  assumes ok: "disk_ok d" and nf: "\<And>op k. df_error f op k = None" and dir: "lookup_node d (locate d p) = Some DirNode"
  shows "\<exists>subs d1. prune_dir f p d = (Inr subs, d1)"
proof -
  let ?k = "locate d p"
  let ?entries = "map (path_join p) (children d ?k)"
  have e: "read_dir f p d = Inr ?entries" using dir nf by (simp add: read_dir_def disk_fault_def)
  obtain subdirs where sd: "dirs_of f d ?entries = Inr subdirs" using reads_ok(1) [OF nf] by blast
  obtain tags where tg: "tags_of f d subdirs = Inr tags" using reads_ok(2) [OF nf] by blast
  note sk = subdir_keys [OF ok sd]
  note tk = tag_keys [OF sk tg]
  let ?stale = "drop keep_per_repository (newest_first tags)"
  have st: "map (locate d \<circ> fst) ?stale = stale_dirs d ?k"
    using tk(2) by (simp add: stale_dirs_def drop_map [symmetric])
  have d: "distinct (map (locate d \<circ> fst) ?stale)"
    unfolding st using distinct_child_dirs [OF ok, of ?k] by (simp add: stale_dirs_def by_age_def tag_dirs_def)
  have "lookup_node d (locate d q) = Some DirNode \<and> (\<exists>n. locate d q = ?k @ [n])" if "(q, x) \<in> set ?stale" for q x
  proof -
    have "locate d q \<in> set (map (locate d \<circ> fst) ?stale)" using that by force
    then have "locate d q \<in> set (child_dirs d ?k)" unfolding st by (rule tag_in [OF stale_in])
    then show ?thesis using child_in by fastforce
  qed
  then obtain d1 where "sforeach ?stale (\<lambda>(path, _). scontext (''removing stale update dir '' @ path) (remove_dir_all f path)) d = (Inr (), d1)"
    using remove_all_ok [OF nf _ d] by blast
  then show ?thesis using e sd tg by (cases "tags = []") (auto simp: prune_dir_def sbind_Inr)
qed

section \<open>The whole walk\<close>

definition weight :: "disk \<Rightarrow> fs_path \<Rightarrow> nat" where
  "weight d k = length (disk_part k d)"

lemma sum_filter_le:
  assumes "distinct cs" and "\<And>c c' x. c \<in> set cs \<Longrightarrow> c' \<in> set cs \<Longrightarrow> P c x \<Longrightarrow> P c' x \<Longrightarrow> c = c'"
    and "\<And>c x. c \<in> set cs \<Longrightarrow> P c x \<Longrightarrow> Q x"
  shows "(\<Sum>c\<leftarrow>cs. length (filter (P c) xs)) \<le> length (filter Q xs)"
proof (induction xs)
  case (Cons x xs)
  have "(\<Sum>c\<leftarrow>cs. length (filter (P c) (x # xs))) =
      (\<Sum>c\<leftarrow>cs. of_bool (P c x)) + (\<Sum>c\<leftarrow>cs. length (filter (P c) xs))"
    by (simp add: sum_list_addf [symmetric] if_distrib cong: if_cong)
       (rule arg_cong [where f = sum_list], auto)
  moreover have "(\<Sum>c\<leftarrow>cs. of_bool (P c x)) \<le> (of_bool (Q x) :: nat)"
  proof -
    have "(\<Sum>c\<leftarrow>cs. of_bool (P c x)) = length (filter (\<lambda>c. P c x) cs)" by (induction cs) auto
    also have "\<dots> = card (set (filter (\<lambda>c. P c x) cs))"
      using assms(1) by (metis distinct_card distinct_filter)
    also have "\<dots> \<le> of_bool (Q x)"
    proof (cases "\<exists>c \<in> set cs. P c x")
      case True
      then obtain c where c: "c \<in> set cs" "P c x" by blast
      then have "set (filter (\<lambda>c. P c x) cs) \<subseteq> {c}" using assms(2) by auto
      then have "card (set (filter (\<lambda>c. P c x) cs)) \<le> card {c}" by (intro card_mono) simp_all
      then show ?thesis using assms(3) [OF c] by simp
    next
      case False
      then have "set (filter (\<lambda>c. P c x) cs) = {}" by auto
      then show ?thesis by simp
    qed
    finally show ?thesis .
  qed
  ultimately have "(\<Sum>c\<leftarrow>cs. length (filter (P c) (x # xs))) \<le> of_bool (Q x) + length (filter Q xs)"
    using Cons.IH by linarith
  then show ?case by (cases "Q x") auto
qed simp

lemma children_weight:
  assumes "disk_ok d" and "lookup_node d k \<noteq> None"
  shows "(\<Sum>c\<leftarrow>child_dirs d k. weight d c) < weight d k"
proof -
  let ?Q = "\<lambda>(q, _ :: node). below k q \<and> q \<noteq> k"
  have "(\<Sum>c\<leftarrow>child_dirs d k. weight d c) \<le> length (filter ?Q (dk_nodes d))"
    unfolding weight_def disk_part_def
  proof (rule sum_filter_le [OF distinct_child_dirs [OF assms(1)]])
    fix c c' and x :: "fs_path \<times> node"
    assume c: "c \<in> set (child_dirs d k)"
    then obtain n where n: "c = k @ [n]" using child_in by blast
    {
      assume "c' \<in> set (child_dirs d k)" "case x of (q, _) \<Rightarrow> below c q" "case x of (q, _) \<Rightarrow> below c' q"
      then show "c = c'" using child_in [of c' d k] n by (auto simp: below_iff)
    next
      assume "case x of (q, _) \<Rightarrow> below c q"
      then show "?Q x" using n by (auto simp: below_iff)
    }
  qed
  also have "\<dots> < length (filter (\<lambda>(q, _). below k q) (dk_nodes d))"
  proof -
    obtain m where "(k, m) \<in> set (dk_nodes d)" using assms(2) by (auto simp: lookup_node_def dest: map_of_SomeD)
    then have "(k, m) \<in> set (filter (\<lambda>(q, _). below k q) (dk_nodes d))" by simp
    then have "length (filter (\<lambda>(q, _). q \<noteq> k) (filter (\<lambda>(q, _). below k q) (dk_nodes d))) <
        length (filter (\<lambda>(q, _). below k q) (dk_nodes d))"
      by (rule length_filter_less) simp
    moreover have "filter (\<lambda>(q, _). q \<noteq> k) (filter (\<lambda>(q, _). below k q) (dk_nodes d)) = filter ?Q (dk_nodes d)"
      by (auto intro!: filter_cong)
    ultimately show ?thesis by simp
  qed
  finally show ?thesis by (simp add: weight_def disk_part_def)
qed

definition apart :: "fs_path list \<Rightarrow> bool" where
  "apart ks = sorted_wrt (\<lambda>a b. \<not> below a b \<and> \<not> below b a) ks"

lemma apart_children:
  assumes "disk_ok d" "apart (ks @ [k])"
  shows "apart (ks @ child_dirs d k)"
proof -
  have 1: "\<not> below k' (k @ [n])" "\<not> below (k @ [n]) k'" if "\<not> below k' k" "\<not> below k k'" for k' n
    using that by (auto simp: below_iff append_eq_append_conv2 Cons_eq_append_conv append_eq_Cons_conv)
  have "sorted_wrt (\<lambda>a b. \<not> below a b \<and> \<not> below b a) (child_dirs d k)"
    unfolding sorted_wrt_iff_nth_less
  proof (intro allI impI)
    fix i j assume ij: "i < j" "j < length (child_dirs d k)"
    then have "child_dirs d k ! i \<noteq> child_dirs d k ! j"
      using distinct_child_dirs [OF assms(1), of k] by (simp add: nth_eq_iff_index_eq)
    moreover have "child_dirs d k ! i \<in> set (child_dirs d k)" "child_dirs d k ! j \<in> set (child_dirs d k)"
      using ij by simp_all
    moreover from this obtain m n where "child_dirs d k ! i = k @ [m]" "child_dirs d k ! j = k @ [n]"
      using child_in by metis
    ultimately show "\<not> below (child_dirs d k ! i) (child_dirs d k ! j) \<and> \<not> below (child_dirs d k ! j) (child_dirs d k ! i)"
      by (simp add: below_def)
  qed
  then show ?thesis
    using assms(2) 1 child_in unfolding apart_def sorted_wrt_append by fastforce
qed

lemma without_same_below:
  assumes w: "without ts k d d1" and ts: "\<And>t. t \<in> ts \<Longrightarrow> \<exists>n. t = k @ [n]" and ap: "\<not> below k' k" "\<not> below k k'"
  shows "same_below k' d d1"
proof -
  have no: "\<not> below t q" if "t \<in> ts" "below k' q" for t q
  proof
    assume "below t q"
    then have "below t k' \<or> below k' t" using below_linear that(2) by blast
    then show False using ts [OF that(1)] ap
      by (auto simp: below_iff append_eq_append_conv2 Cons_eq_append_conv append_eq_Cons_conv)
  qed
  have "disk_part k' d1 = disk_part k' d"
    using w no unfolding disk_part_def without_def by (auto intro!: filter_cong)
  moreover have "q \<noteq> k" if "below k' q" for q using that ap by auto
  ultimately show ?thesis using w by (simp add: same_below_def without_def)
qed

lemma outdated_tags: "tag_dirs d k \<noteq> [] \<Longrightarrow> outdated d k q \<longleftrightarrow> (\<exists>t \<in> set (stale_dirs d k). below t q)"
  unfolding outdated_def by (auto elim: visited_cases intro: visited_self)

lemma outdated_children: "tag_dirs d k = [] \<Longrightarrow> outdated d k q \<longleftrightarrow> (\<exists>c \<in> set (child_dirs d k). outdated d c q)"
proof -
  assume e: "tag_dirs d k = []"
  then have "stale_dirs d k = []" by (simp add: stale_dirs_def by_age_def)
  then show ?thesis unfolding outdated_def using e
    by (auto elim: visited_cases intro: visited_child) (metis empty_iff empty_set visited_cases)
qed

text \<open>
  What the walk achieves from a stack of directories: it removes what is outdated below them,
  and without faults it succeeds.
\<close>

definition prunes :: "disk_faults \<Rightarrow> fs_path list \<Rightarrow> disk \<Rightarrow> unit result \<times> disk \<Rightarrow> bool" where
  "prunes f ks d = (\<lambda>(r, d').
     (r = Inr () \<longrightarrow> (\<forall>q. lookup_node d' q = (if \<exists>k \<in> set ks. outdated d k q then None else lookup_node d q))) \<and>
     ((\<forall>op k. df_error f op k = None) \<and> (\<forall>k \<in> set ks. lookup_node d k = Some DirNode) \<longrightarrow> r = Inr ()))"

lemma prunes_tags:
  assumes "apart (ks @ [k])" "tag_dirs d k \<noteq> []" "without (set (stale_dirs d k)) k d d1" "prunes f ks d1 z"
  shows "prunes f (ks @ [k]) d z"
proof -
  have same: "same_below k' d d1" if "k' \<in> set ks" for k'
    using without_same_below [OF assms(3)] assms(1) that child_in [OF tag_in [OF stale_in]]
    by (auto simp: apart_def sorted_wrt_append)
  then have o: "outdated d1 k' q = outdated d k' q" if "k' \<in> set ks" for k' q
    using outdated_same that by blast
  have l: "lookup_node d1 k' = lookup_node d k'" if "k' \<in> set ks" for k'
    using same_below_lookup [OF same [OF that]] by simp
  have l': "(\<forall>k' \<in> set ks. lookup_node d1 k' = Some DirNode) \<longleftrightarrow> (\<forall>k' \<in> set ks. lookup_node d k' = Some DirNode)"
    using l by simp
  have o': "(\<exists>k' \<in> set ks. outdated d1 k' q) \<longleftrightarrow> (\<exists>k' \<in> set ks. outdated d k' q)" for q
    using o by simp
  have "prunes f ks d1 z = (case z of (r, d') \<Rightarrow>
      (r = Inr () \<longrightarrow> (\<forall>q. lookup_node d' q = (if \<exists>k' \<in> set ks. outdated d k' q then None
         else if \<exists>t \<in> set (stale_dirs d k). below t q then None else lookup_node d q))) \<and>
      ((\<forall>op k. df_error f op k = None) \<and> (\<forall>k' \<in> set ks. lookup_node d k' = Some DirNode) \<longrightarrow> r = Inr ()))"
    unfolding prunes_def l' o' unfolding without_lookup [OF assms(3)] ..
  from iffD1 [OF this assms(4)] show ?thesis
    by (auto simp: prunes_def outdated_tags [OF assms(2)])
qed

lemma prunes_children:
  assumes "tag_dirs d k = []" "prunes f (ks @ child_dirs d k) d z"
  shows "prunes f (ks @ [k]) d z"
  using assms(2) child_in [of _ d k] unfolding prunes_def by (auto simp: outdated_children [OF assms(1)])

lemma prune_loop_prunes:
  assumes "disk_ok d" "apart (map (locate d) stack)"
  shows "\<exists>z. prune_loop f stack d = Some z \<and> prunes f (map (locate d) stack) d z"
  using assms
proof (induction "\<Sum>p\<leftarrow>stack. weight d (locate d p)" arbitrary: stack d rule: less_induct)
  case less
  show ?case
  proof (cases "stack = []")
    case True
    then show ?thesis by (subst prune_loop.simps) (simp add: prunes_def)
  next
    case False
    define st p where "st = butlast stack" and "p = List.last stack"
    have stack: "stack = st @ [p]" using False by (simp add: st_def p_def)
    let ?k = "locate d p"
    obtain r d1 where pd: "prune_dir f p d = (r, d1)" by fastforce
    have loop: "prune_loop f stack d = (case (r, d1) of (Inl e, d') \<Rightarrow> Some (Inl e, d')
        | (Inr subs, d') \<Rightarrow> prune_loop f (st @ subs) d')"
      by (subst prune_loop.simps) (simp add: st_def [symmetric] p_def [symmetric] False pd split: sum.split)
    show ?thesis
    proof (cases r)
      case (Inl e)
      then have "prunes f (map (locate d) stack) d (Inl e, d1)"
        using prune_dir_ok [OF less.prems(1)] pd by (fastforce simp: prunes_def stack)
      then show ?thesis using loop Inl by simp
    next
      case (Inr subs)
      note step = prune_dir_Inr [OF less.prems(1) pd [unfolded Inr]]
      have w: "0 < weight d ?k" using children_weight [OF less.prems(1), of ?k] step by (simp add: not_less_zero)
      show ?thesis
      proof (cases "tag_dirs d ?k = []")
        case True
        then have d1: "d1 = d" and ks: "map (locate d) subs = child_dirs d ?k" using step by auto
        have "(\<Sum>p\<leftarrow>subs. weight d (locate d p)) < weight d ?k"
          using children_weight [OF less.prems(1), of ?k] step
          unfolding ks [symmetric] by (simp add: comp_def)
        then have less': "(\<Sum>p\<leftarrow>st @ subs. weight d (locate d p)) < (\<Sum>p\<leftarrow>stack. weight d (locate d p))"
          by (simp add: stack)
        have "apart (map (locate d) (st @ subs))"
          using apart_children [OF less.prems(1)] less.prems(2) by (simp add: stack ks)
        from less.hyps [OF less' less.prems(1) this]
        obtain z where z: "prune_loop f (st @ subs) d = Some z" "prunes f (map (locate d) (st @ subs)) d z"
          by blast
        then show ?thesis using loop prunes_children [OF True] by (auto simp: Inr d1 stack ks)
      next
        case False
        then have subs: "subs = []" and wo: "without (set (stale_dirs d ?k)) ?k d d1" using step by auto
        have l: "locate d1 = locate d" using wo by (auto simp: locate_def without_def)
        have ap: "apart (map (locate d) st)" using less.prems(2) by (simp add: stack apart_def sorted_wrt_append)
        have same: "same_below (locate d p') d d1" if "p' \<in> set st" for p'
          using without_same_below [OF wo] less.prems(2) that child_in [OF tag_in [OF stale_in]]
          by (auto simp: stack apart_def sorted_wrt_append)
        then have "(\<Sum>p\<leftarrow>st. weight d1 (locate d1 p)) = (\<Sum>p\<leftarrow>st. weight d (locate d p))"
          by (intro arg_cong [where f = sum_list] map_cong) (auto simp: weight_def same_below_def l)
        then have less': "(\<Sum>p\<leftarrow>st. weight d1 (locate d1 p)) < (\<Sum>p\<leftarrow>stack. weight d (locate d p))"
          using w by (simp add: stack)
        from less.hyps [OF less' without_ok [OF wo less.prems(1)]] ap
        obtain z where z: "prune_loop f st d1 = Some z" "prunes f (map (locate d) st) d1 z"
          by (auto simp: l)
        then show ?thesis
          using loop prunes_tags [OF _ False wo z(2)] less.prems(2) by (simp add: Inr subs stack)
      qed
    qed
  qed
qed

text \<open>The two downloads of a directory that are kept are the ones changed last.\<close>

lemma by_age_sorted: "sorted_wrt (\<lambda>a b. dk_mtime d b \<le> dk_mtime d a) (by_age d k)"
  unfolding by_age_def sorted_wrt_rev
  using sorted_sort_key [of "dk_mtime d" "rev (tag_dirs d k)"] by (simp add: sorted_map)

lemma set_by_age [simp]: "set (by_age d k) = set (tag_dirs d k)" "length (by_age d k) = length (tag_dirs d k)"
  by (simp_all add: by_age_def)

lemma kept_newer:
  assumes "t \<in> set (stale_dirs d k)" "s \<in> set (take keep_per_repository (by_age d k))"
  shows "dk_mtime d t \<le> dk_mtime d s"
proof -
  have "sorted_wrt (\<lambda>a b. dk_mtime d b \<le> dk_mtime d a)
      (take keep_per_repository (by_age d k) @ drop keep_per_repository (by_age d k))"
    using by_age_sorted [of d k] by simp
  then show ?thesis using assms unfolding sorted_wrt_append stale_dirs_def by blast
qed

lemma kept_by_age:
  assumes "disk_ok d"
  shows "set (tag_dirs d k) - set (stale_dirs d k) = set (take keep_per_repository (by_age d k))"
proof -
  have "distinct (by_age d k)" using distinct_child_dirs [OF assms, of k] by (simp add: by_age_def tag_dirs_def)
  then have "set (take keep_per_repository (by_age d k)) \<inter> set (drop keep_per_repository (by_age d k)) = {}"
    by (rule set_take_disj_set_drop_if_distinct) simp
  moreover have "set (tag_dirs d k) = set (take keep_per_repository (by_age d k)) \<union> set (drop keep_per_repository (by_age d k))"
    by (metis append_take_drop_id set_append set_by_age(1))
  ultimately show ?thesis unfolding stale_dirs_def by blast
qed

lemma card_kept:
  assumes "disk_ok d"
  shows "card (set (take keep_per_repository (by_age d k))) = min 2 (length (tag_dirs d k))"
proof -
  have "distinct (by_age d k)" using distinct_child_dirs [OF assms, of k] by (simp add: by_age_def tag_dirs_def)
  then have "card (set (take keep_per_repository (by_age d k))) = length (take keep_per_repository (by_age d k))"
    by (intro distinct_card distinct_take)
  then show ?thesis by (simp add: keep_per_repository_def min.commute)
qed

end
