(* ===== verification/Oci_Pull.thy ===== *)
theory Oci_Pull
  imports Oci_Prune
begin

text \<open>
  Facts on pulling updates: where the files of an artifact lie, what a pull may change on the
  disk, and what it leaves behind when it succeeds and when it is cancelled.
\<close>

section \<open>Parents and extensions of joined paths\<close>

lemma split_on_snoc: "split_on c (s @ [c]) = split_on c s @ [[]]"
  using split_on_append_sep [of c s "[]"] by simp

lemma components_slash:
  assumes "s \<noteq> []"
  shows "components (s @ ''/'') = components s"
proof -
  have "path_is_absolute (s @ ''/'') = path_is_absolute s"
    using assms by (cases s) (auto simp: path_is_absolute_def starts_with_iff)
  then show ?thesis by (simp add: components_def Let_def split_on_snoc)
qed

lemma components_dot: "components (s @ ''/.'') = components (s @ ''/'')"
proof -
  have "path_is_absolute (s @ ''/.'') = path_is_absolute (s @ ''/'')"
    by (cases s) (auto simp: path_is_absolute_def starts_with_iff)
  moreover have "split_on CHR ''/'' (s @ ''/.'') = split_on CHR ''/'' s @ [''.'']"
    using split_on_append_sep [of "CHR ''/''" s "''.''"] by (simp add: split_on_notin)
  ultimately show ?thesis by (simp add: components_def Let_def split_on_snoc)
qed

lemma components_trim: "components (rev (trim_back r)) = components (rev r)"
proof (induction r rule: trim_back.induct)
  case (1 c d r)
  show ?case
  proof (cases "c = CHR ''/'' \<or> c = CHR ''.'' \<and> d = CHR ''/''")
    case True
    then have "components (rev (c # d # r)) = components (rev (d # r))"
      using components_slash [of "rev (d # r)"] components_dot [of "rev r"] by auto
    then show ?thesis using 1 True by simp
  qed auto
qed simp_all

text \<open>A path that ends in a plain name.\<close>

lemma trim_plain:
  assumes "plain_name l" "x = [] \<or> List.last x = CHR ''/''"
  shows "trim_back (rev (x @ l)) = rev (x @ l)" "dropWhile (\<lambda>c. c \<noteq> CHR ''/'') (rev (x @ l)) = rev x"
proof -
  have l: "l \<noteq> []" "l \<noteq> ''.''" "CHR ''/'' \<notin> set l" using assms(1) by (auto simp: plain_name_def)
  obtain y c where yc: "l = y @ [c]" using l(1) by (metis append_butlast_last_id)
  have c: "c \<noteq> CHR ''/''" using l(3) yc by auto
  show "trim_back (rev (x @ l)) = rev (x @ l)"
  proof (cases "rev (x @ y)")
    case (Cons d r)
    have "\<not> (c = CHR ''.'' \<and> d = CHR ''/'')"
    proof
      assume a: "c = CHR ''.'' \<and> d = CHR ''/''"
      have "y = []"
      proof (rule ccontr)
        assume "y \<noteq> []"
        then obtain y' d' where "y = y' @ [d']" by (metis append_butlast_last_id)
        then have "d' = d" using Cons by simp
        then show False using a l(3) yc \<open>y = y' @ [d']\<close> by auto
      qed
      then show False using a l(2) yc by simp
    qed
    then show ?thesis using Cons c by (auto simp: yc)
  qed (simp add: yc)
  have "dropWhile (\<lambda>c. c \<noteq> CHR ''/'') (rev l @ rev x) = dropWhile (\<lambda>c. c \<noteq> CHR ''/'') (rev x)"
    using l(3) by (subst dropWhile_append2) auto
  also have "\<dots> = rev x" using assms(2) by (cases x rule: rev_cases) auto
  finally show "dropWhile (\<lambda>c. c \<noteq> CHR ''/'') (rev (x @ l)) = rev x" by simp
qed

lemma path_join_last:
  assumes "plain_path n"
  shows "\<exists>x. path_join b n = x @ List.last (names_of n) \<and> (x = [] \<or> List.last x = CHR ''/'') \<and>
     (\<forall>d. locate d x = locate d b @ butlast (names_of n))"
proof -
  obtain ns where ns: "ns \<noteq> []" "list_all plain_name ns" "n = join_with ''/'' ns"
    using assms by (auto simp: plain_path_def)
  have nn: "names_of n = ns"
    unfolding names_of_def ns(3) using ns(1,2) by (intro split_on_join) (auto simp: plain_name_def list_all_iff)
  obtain ms l where ml: "ns = ms @ [l]" using ns(1) by (metis append_butlast_last_id)
  have rel: "\<not> path_is_absolute n" using join_with_relative [OF ns(2,1)] ns(3) by simp
  show ?thesis
  proof (cases "ms = []")
    case True
    then have n: "n = l" "names_of l = [l]" using ns(3) ml nn by simp_all
    show ?thesis
    proof (cases "b = [] \<or> List.last b = CHR ''/''")
      case True
      then show ?thesis using rel by (intro exI [of _ b]) (auto simp: path_join_def n nn ml \<open>ms = []\<close>)
    next
      case False
      then have "locate d (b @ ''/'') = locate d b" for d by (simp add: locate_def components_slash)
      then show ?thesis
        using False rel by (intro exI [of _ "b @ ''/''"]) (auto simp: path_join_def n nn ml \<open>ms = []\<close>)
    qed
  next
    case False
    have ms: "list_all plain_name ms" using ns(2) ml by simp
    let ?m = "join_with ''/'' ms"
    have pm: "plain_path ?m" using plain_pathI [OF ms False] .
    have nm: "names_of ?m = ms"
      unfolding names_of_def using ms False by (intro split_on_join) (auto simp: plain_name_def list_all_iff)
    have eq: "path_join b n = path_join b ?m @ ''/'' @ l"
      using rel join_with_relative [OF ms False] by (simp add: ns(3) ml join_with_snoc False path_join_def)
    have ne: "path_join b ?m \<noteq> []" using join_with_ends [OF ms False] by (auto simp: path_join_def)
    have "locate d (path_join b ?m @ ''/'') = locate d b @ ms" for d
      using locate_join [OF pm, of d b] by (simp add: locate_def components_slash [OF ne] nm)
    then show ?thesis
      by (intro exI [of _ "path_join b ?m @ ''/''"]) (simp add: eq nn ml)
  qed
qed

lemma locate_trim: "locate d (rev (trim_back (rev x))) = locate d x"
  using components_trim [of "rev x"] by (simp add: locate_def)

lemma path_parent_join:
  assumes "plain_path n"
  shows "\<exists>q. path_parent (path_join b n) = Some q \<and> (\<forall>d. locate d q = locate d b @ butlast (names_of n))"
proof -
  obtain x where x: "path_join b n = x @ List.last (names_of n)" "x = [] \<or> List.last x = CHR ''/''"
      "\<And>d. locate d x = locate d b @ butlast (names_of n)"
    using path_join_last [OF assms] by metis
  have l: "plain_name (List.last (names_of n))"
    using plain_components(2,3) [OF assms] by (auto simp: list_all_iff)
  have "rev (x @ List.last (names_of n)) \<noteq> []" "rev (x @ List.last (names_of n)) \<noteq> ''/''"
    using l by (auto simp: plain_name_def append_eq_Cons_conv)
  then have "path_parent (path_join b n) = Some (rev (trim_back (rev x)))"
    unfolding path_parent_def x(1) by (simp only: Let_def trim_plain [OF l x(2)] if_False simp_thms)
  then show ?thesis using x(3) by (auto simp: locate_trim)
qed

lemma plain_path_extend:
  assumes "plain_path n" "CHR ''/'' \<notin> set s" "s \<noteq> []" "s \<noteq> ''.''"
  shows "plain_path (n @ s)" "names_of (n @ s) = butlast (names_of n) @ [List.last (names_of n) @ s]"
proof -
  obtain ns where ns: "ns \<noteq> []" "list_all plain_name ns" "n = join_with ''/'' ns"
    using assms by (auto simp: plain_path_def)
  have nn: "names_of n = ns"
    unfolding names_of_def ns(3) using ns(1,2) by (intro split_on_join) (auto simp: plain_name_def list_all_iff)
  obtain ms l where ml: "ns = ms @ [l]" using ns(1) by (metis append_butlast_last_id)
  have l: "plain_name l" using ns(2) ml by simp
  have "l @ s \<noteq> ''..''" "l @ s \<noteq> ''.''"
    using l assms(3,4) by (auto simp: plain_name_def append_eq_Cons_conv Cons_eq_append_conv)
  then have ls: "plain_name (l @ s)" using l assms(2) by (auto simp: plain_name_def)
  have all: "list_all plain_name (ms @ [l @ s])" using ns(2) ml ls by simp
  have eq: "n @ s = join_with ''/'' (ms @ [l @ s])"
    unfolding ns(3) ml by (cases "ms = []") (simp_all add: join_with_snoc)
  show "plain_path (n @ s)" unfolding eq by (rule plain_pathI [OF all]) simp
  show "names_of (n @ s) = butlast (names_of n) @ [List.last (names_of n) @ s]"
    unfolding names_of_def eq using all
    by (subst split_on_join) (auto simp: plain_name_def list_all_iff nn [unfolded names_of_def] ml)
qed

lemma path_add_extension_join:
  assumes "plain_path n"
  shows "path_add_extension (path_join b n) ext = path_join b (n @ ''.'' @ ext)"
proof -
  obtain x where x: "path_join b n = x @ List.last (names_of n)" "x = [] \<or> List.last x = CHR ''/''"
    using path_join_last [OF assms] by metis
  have l: "plain_name (List.last (names_of n))"
    using plain_components(2,3) [OF assms] by (auto simp: list_all_iff)
  have f: "path_file_name (path_join b n) \<noteq> None"
    using plain_components(1,2) [OF assms]
    by (cases "names_of n" rule: rev_cases) (simp_all add: path_file_name_def components_path_join [OF assms])
  have n: "n \<noteq> []" "\<not> path_is_absolute n"
    using assms join_with_ends join_with_relative by (auto simp: plain_path_def)
  then have "path_is_absolute (n @ s) = False" for s
    by (cases n) (auto simp: path_is_absolute_def starts_with_iff)
  then have "path_join b (n @ s) = path_join b n @ s" for s using n by (simp add: path_join_def)
  moreover have "rev (trim_back (rev (path_join b n))) = path_join b n"
    unfolding x(1) by (simp add: trim_plain(1) [OF l x(2), unfolded rev_append])
  ultimately show ?thesis using f by (auto simp: path_add_extension_def)
qed

section \<open>Names of artifacts\<close>

text \<open>The registry accepts the titles that manifests accept as file names.\<close>

lemma sanitize_components_Inr:
  "sanitize_components v cs out = Inr p \<longleftrightarrow>
     ParentDir \<notin> set cs \<and> RootDir \<notin> set cs \<and> p = foldl path_join out (normal_names cs)"
  by (induction v cs out rule: sanitize_components.induct) (auto simp: normal_names_def)

lemma sanitize_normalize: "sanitize_relative_file_path v = Inr p \<longleftrightarrow> normalize_relative_path v = Inr p"
proof -
  have "sanitize_components v cs out = Inr q \<longleftrightarrow> push_components v cs out = Inr q" for cs out q
    by (simp add: sanitize_components_Inr push_components_Inr)
  then show ?thesis
    by (auto simp: sanitize_relative_file_path_def normalize_relative_path_def result_simps)
qed

lemma changelog_local_name_plain: "plain_path (changelog_local_name layer)"
proof -
  have "plain_path ''changelog.txt''" by (rule plain_name_path) (simp add: plain_name_def)
  then show ?thesis
    unfolding changelog_local_name_def
    by (auto simp: sanitize_normalize dest: normalize_relative_path_Inr(1) split: option.splits sum.splits)
qed

lemma normalize_paths_plain:
  assumes "normalize_paths m = Inr m'"
  shows "plain_path (mf_name (mn_kernel m'))" "plain_path (mf_name (mn_store m'))" "plain_path (mf_name (mn_verity m'))"
  using assms normalize_relative_path_Inr(1)
  by (auto simp: normalize_paths_def normalize_path_def result_simps)

lemma select_bindings_Inr:
  "select_artifact_bindings m layers = Inr bs \<longleftrightarrow>
     (\<exists>u r v. find_layer_by_media_type layers MediaUki = Some u \<and> find_layer_by_media_type layers MediaRoot = Some r \<and>
        find_layer_by_media_type layers MediaVerity = Some v \<and>
        bs = [make_binding u MediaUki (mf_name (mn_kernel m)), make_binding r MediaRoot (mf_name (mn_store m)),
              make_binding v MediaVerity (mf_name (mn_verity m))] @
          (case find_layer_by_media_type layers MediaChangelog of
             Some l \<Rightarrow> [make_binding l MediaChangelog (changelog_local_name l)] | None \<Rightarrow> []))"
  by (auto simp: select_artifact_bindings_def required_binding_def result_simps)

lemma bindings_plain:
  assumes "normalize_paths m0 = Inr m" "select_artifact_bindings m layers = Inr bs" "b \<in> set bs"
  shows "plain_path (ab_local_name b)"
  using assms(2,3) normalize_paths_plain [OF assms(1)] changelog_local_name_plain
  by (auto simp: select_bindings_Inr make_binding_def split: option.splits)

section \<open>The disk during a pull\<close>

abbreviation (input) mdisk :: "('n, 's) oci_machine \<Rightarrow> disk" where
  "mdisk m \<equiv> os_disk (mc_sys m)"

lemma on_sys_preserves: "preserves P m \<Longrightarrow> preserves (\<lambda>s. P (mc_sys s)) (on_sys m)"
  by (auto simp: preserves_def on_sys_def split: prod.splits)

lemma disk_step_preserves: "preserves P m \<Longrightarrow> preserves (\<lambda>s. P (mdisk s)) (disk_step m)"
  unfolding disk_step_def by (intro on_sys_preserves on_disk_preserves)

lemma emit_preserves [preserves_rules]: "preserves (\<lambda>s. P (mdisk s)) (emit fb ev)"
  unfolding emit_def by (rule on_sys_preserves [of "disk_pred P"]) (rule notify_preserves)

lemma println_preserves [preserves_rules]: "preserves (\<lambda>s. P (mdisk s)) (println t)"
  unfolding println_def by (rule preserves_smodify) simp

lemma with_lock_preserves:
  assumes "preserves (\<lambda>s. P (mdisk s)) body"
  shows "preserves (\<lambda>s. P (mdisk s)) (with_lock e path purpose body)"
proof -
  have "preserves (\<lambda>s. P (mdisk s)) (machine_acquire e path purpose)"
    by (auto simp: preserves_def machine_acquire_def split: prod.splits)
  moreover have "preserves (\<lambda>s. P (mdisk s)) (\<lambda>m. case body m of (r, m') \<Rightarrow> (r, m'\<lparr>mc_locks := drop_lock l (mc_locks m')\<rparr>))" for l
    using assms by (auto simp: preserves_def split: prod.splits)
  ultimately show ?thesis unfolding with_lock_def by (intro preserves_sbind)
qed

text \<open>
  An artifact lives below the output directory: a predicate that survives file operations there
  survives the pull of an artifact.
\<close>

lemma locate_local: "plain_path n \<Longrightarrow> locate d (path_join out n) = locate d out @ names_of n"
  by (rule locate_join)

lemma locate_part:
  assumes "plain_path n"
  shows "locate d (path_add_extension (path_join out n) ''part'') =
    locate d out @ butlast (names_of n) @ [List.last (names_of n) @ ''.part'']"
proof -
  have "plain_path (n @ ''.part'')" "names_of (n @ ''.part'') = butlast (names_of n) @ [List.last (names_of n) @ ''.part'']"
    using plain_path_extend [OF assms, of "''.part''"] by simp_all
  then show ?thesis using path_add_extension_join [OF assms, of out "''part''"] by (simp add: locate_join)
qed

lemma remove_output_preserves:
  "preserves P (remove_dir_all (oe_faults env) out) \<Longrightarrow> preserves (\<lambda>s. P (mdisk s)) (remove_output env out)"
  unfolding remove_output_def by (intro preserves_rules disk_step_preserves)

lemma pull_artifact_preserves:
  assumes "\<And>parent. path_parent (path_join out (ab_local_name b)) = Some parent \<Longrightarrow>
      preserves P (create_dir_all (oe_faults env) parent)"
    and "preserves P (create_file (oe_faults env) (path_add_extension (path_join out (ab_local_name b)) ''part''))"
    and "\<And>c. preserves P (append_file (oe_faults env) (path_add_extension (path_join out (ab_local_name b)) ''part'') c)"
    and "preserves P (rename_file (oe_faults env) (path_add_extension (path_join out (ab_local_name b)) ''part'')
      (path_join out (ab_local_name b)))"
    and "preserves P (remove_dir_all (oe_faults env) out)"
  shows "preserves (\<lambda>s. P (mdisk s)) (pull_artifact env options fb ct out b)"
proof -
  let ?local = "path_join out (ab_local_name b)"
  have parent: "preserves (\<lambda>s. P (mdisk s)) (create_parent env ?local)"
    using assms(1) by (auto simp: create_parent_def split: option.splits intro!: preserves_rules disk_step_preserves)
  have outcome: "preserves (\<lambda>s. P (mdisk s)) (download_outcome env fb out b r)" for r
    unfolding download_outcome_def by (intro preserves_rules remove_output_preserves assms)
  have dl: "preserves (\<lambda>s. P (mdisk s)) (on_sys (download_blob_to_file client f r bl cs part (\<lambda>v t. notify fb (ev v t)) ct))"
    if "\<And>c. preserves P (append_file f part c)" for client f r bl cs part ev
    using that by (intro on_sys_preserves [of "disk_pred P"] download_blob_preserves notify_preserves)
  show ?thesis
    unfolding pull_artifact_def Let_def
    by (intro preserves_rules parent outcome disk_step_preserves dl assms)
qed

lemma pull_remote_preserves:
  assumes "preserves P (remove_dir_all (oe_faults env) out)"
  shows "preserves (\<lambda>s. P (mdisk s)) (pull_remote env options fb ct out)"
proof -
  have "preserves (\<lambda>s. P (mdisk s)) (on_sys (fetch_manifest_and_config c api r cs ct))" for c api r cs
    by (intro on_sys_preserves [of "disk_pred P"] fetch_preserves)
  then show ?thesis
    unfolding pull_remote_def remote_outcome_def by (intro preserves_rules remove_output_preserves assms)
qed

text \<open>Without an installation, a predicate that every step keeps survives the pull.\<close>

lemma pull_into_preserves:
  assumes "\<not> po_install options"
    and "preserves P (create_dir_all (oe_faults env) out)" and "preserves P (remove_dir_all (oe_faults env) out)"
    and art: "\<And>b. plain_path (ab_local_name b) \<Longrightarrow> preserves (\<lambda>s. P (mdisk s)) (pull_artifact env options fb ct out b)"
    and mf: "\<And>c. preserves P (write_file (oe_faults env) (path_join out ''manifest.json'') c)"
  shows "preserves (\<lambda>s. P (mdisk s)) (pull_into env options fb ct out)"
proof -
  have w: "preserves P (manifest_write_to_file env (path_join out ''manifest.json'') m)" for m
    unfolding manifest_write_to_file_def by (intro preserves_rules mf)
  have i: "preserves (\<lambda>s. P (mdisk s)) (pull_install env options fb p)" for p
    using assms(1) by (simp add: pull_install_def preserves_rules)
  have a: "preserves (\<lambda>s. P (mdisk s)) (sforeach bs (pull_artifact env options fb ct out))"
    if m: "rbind (manifest_from_slice env j) normalize_paths = Inr m" and sel: "select_artifact_bindings m ls = Inr bs" for j m ls bs
  proof -
    obtain m0 where "normalize_paths m0 = Inr m" using m by (auto simp: result_simps)
    then show ?thesis using bindings_plain [OF _ sel] by (intro preserves_sforeach art) blast
  qed
  show ?thesis
    unfolding pull_into_def Let_def
    by (intro preserves_sread_bind preserves_rules disk_step_preserves pull_remote_preserves w i a assms(2,3))
qed

lemma pull_artifact_kept:
  assumes "plain_path (ab_local_name b)"
  shows "preserves (\<lambda>s. kept_outside (locate d out) d (mdisk s)) (pull_artifact env options fb ct out b)"
proof -
  obtain q where q: "path_parent (path_join out (ab_local_name b)) = Some q"
      "locate d q = locate d out @ butlast (names_of (ab_local_name b))"
    using path_parent_join [OF assms] by blast
  show ?thesis
  proof (rule pull_artifact_preserves)
    fix parent assume "path_parent (path_join out (ab_local_name b)) = Some parent"
    then show "preserves (kept_outside (locate d out) d) (create_dir_all (oe_faults env) parent)"
      using q by (intro disk_kept) simp
  qed (intro disk_kept; simp add: locate_local [OF assms] locate_part [OF assms])+
qed

lemma pull_into_kept:
  assumes "\<not> po_install options"
  shows "preserves (\<lambda>s. kept_outside (locate d out) d (mdisk s)) (pull_into env options fb ct out)"
proof (rule pull_into_preserves [OF assms])
  have "locate d (path_join out ''manifest.json'') = locate d out @ [''manifest.json'']"
    by (rule locate_child) simp
  then show "preserves (kept_outside (locate d out) d) (write_file (oe_faults env) (path_join out ''manifest.json'') c)" for c
    by (intro disk_kept) simp
qed (intro disk_kept pull_artifact_kept; simp)+

text \<open>The output directory of a repository and a tag that are plain names.\<close>

definition plain_reference :: "'r ref_api \<Rightarrow> 'r tagged_reference \<Rightarrow> string \<Rightarrow> bool" where
  "plain_reference api r tag \<longleftrightarrow> tag_or_digest api r = Inr tag \<and> plain_path (ra_repository api (tagged_inner r)) \<and>
     plain_name (sanitize_path_component tag)"

lemma locate_output_dir:
  "plain_reference (oe_ref env) (po_reference options) tag \<Longrightarrow>
     locate d (pull_output_dir env options tag) =
       locate d (po_destination_root options) @ names_of (ra_repository (oe_ref env) (tagged_inner (po_reference options))) @
       [sanitize_path_component tag]"
  by (simp add: plain_reference_def pull_output_dir_def locate_join plain_name_path)

lemma pull_update_kept:
  assumes "\<not> po_install options" "plain_reference (oe_ref env) (po_reference options) tag"
  shows "kept_outside (locate (mdisk m) (pull_output_dir env options tag)) (mdisk m)
    (mdisk (snd (pull_update env options fb ct m)))"
proof -
  let ?d = "mdisk m" and ?out = "pull_output_dir env options tag"
  let ?P = "\<lambda>s. kept_outside (locate ?d ?out) ?d (mdisk s)"
  have root: "preserves (kept_outside (locate ?d ?out) ?d) (create_dir_all (oe_faults env) (po_destination_root options))"
    by (intro disk_kept) (simp add: locate_output_dir [OF assms(2)])
  have tag: "tag_or_digest (oe_ref env) (po_reference options) = Inr tag"
    using assms(2) by (simp add: plain_reference_def)
  have "preserves ?P (pull_locked env options fb ct)"
    unfolding pull_locked_def by (rule preserves_sread_bind) (simp add: tag pull_into_kept [OF assms(1)])
  then have "preserves ?P (pull_update env options fb ct)"
    unfolding pull_update_def by (intro preserves_rules disk_step_preserves with_lock_preserves root)
  then show ?thesis by (rule preservesD) simp
qed

section \<open>What is left on the disk\<close>

text \<open>A stored artifact: the chunks of its blob, from the first to the last.\<close>

lemma names_of_part:
  assumes "plain_path n"
  shows "names_of n \<noteq> butlast (names_of n) @ [List.last (names_of n) @ ''.part'']"
proof
  assume "names_of n = butlast (names_of n) @ [List.last (names_of n) @ ''.part'']"
  then have "List.last (names_of n) = List.last (names_of n) @ ''.part''" by (metis last_snoc)
  then show False by simp
qed

lemma disk_step_Inr: "disk_step a m = (Inr x, m') \<longleftrightarrow>
    (\<exists>d'. a (mdisk m) = (Inr x, d') \<and> m' = m\<lparr>mc_sys := (mc_sys m)\<lparr>os_disk := d'\<rparr>\<rparr>)"
  by (auto simp: disk_step_def on_sys_def on_disk_def split: prod.splits)

lemma emit_Inr: "emit fb ev m = (Inr x, m') \<Longrightarrow> mdisk m' = mdisk m \<and> mc_locks m' = mc_locks m"
  by (auto simp: emit_def on_sys_def notify_def smodify_def split: option.splits if_splits)

lemma println_Inr: "println t m = (Inr x, m') \<Longrightarrow> mdisk m' = mdisk m"
  by (auto simp: println_def)

lemma on_sys_Inr: "on_sys a m = (Inr x, m') \<longleftrightarrow> (\<exists>t. a (mc_sys m) = (Inr x, t) \<and> m' = m\<lparr>mc_sys := t\<rparr>)"
  by (auto simp: on_sys_def split: prod.splits)

lemma scatch_Inr: "scatch a s = (Inr r, t) \<longleftrightarrow> a s = (r, t) \<and> not_panic r"
  by (cases "a s"; cases "fst (a s)"; cases "projl (fst (a s))") (auto simp: scatch_def split: sum.splits error.splits)

text \<open>The steps of a pull that succeeded.\<close>

lemma pull_artifact_Inr:
  fixes out b and m :: "('n, 's) oci_machine"
  defines "local \<equiv> path_join out (ab_local_name b)"
  defines "part \<equiv> path_add_extension local ''part''"
  assumes "pull_artifact env options fb ct out b m = (Inr u, m')"
  obtains d1 d2 and m2 :: "('n, 's) oci_machine" and s3 where
    "path_parent local = None \<and> d1 = mdisk m \<or> (\<exists>q. path_parent local = Some q \<and> create_dir_all (oe_faults env) q (mdisk m) = (Inr (), d1))"
    "create_file (oe_faults env) part d1 = (Inr (), d2)" "mdisk m2 = d2"
    "download_blob_to_file (oe_client env (po_client_protocol options)) (oe_faults env) (tagged_inner (po_reference options))
       (ab_blob b) (po_credentials options) part
       (\<lambda>downloaded t. notify fb (BlobDownloading (ab_digest b) downloaded t)) ct (mc_sys m2) = (Inr (), s3)"
    "rename_file (oe_faults env) part local (os_disk s3) = (Inr (), mdisk m')"
proof -
  obtain m1 m2 m3 dl m4 m5 m6 where
    1: "create_parent env local m = (Inr (), m1)"
    and 2: "disk_step (create_file (oe_faults env) part) m1 = (Inr (), m2)"
    and 3: "scatch (on_sys (download_blob_to_file (oe_client env (po_client_protocol options)) (oe_faults env)
               (tagged_inner (po_reference options)) (ab_blob b) (po_credentials options) part
               (\<lambda>downloaded t. notify fb (BlobDownloading (ab_digest b) downloaded t)) ct)) m2 = (Inr dl, m3)"
    and 4: "download_outcome env fb out b dl m3 = (Inr (), m4)"
    and 5: "disk_step (rename_file (oe_faults env) part local) m4 = (Inr (), m5)"
    and 6: "emit fb (BlobVerified (ab_digest b)) m5 = (Inr (), m6)"
    and 7: "println (''artifact '' @ media_type_str (ab_kind b) @ '': remote media_type='' @ media_type_str (ab_kind b) @
          '' digest='' @ ab_digest b @ '' -> local '' @ local) m6 = (Inr u, m')"
    using assms(3) by (auto simp: pull_artifact_def Let_def sbind_Inr local_def part_def simp del: old.unit.exhaust)
  have dl: "dl = Inr ()" and m4: "m4 = m3"
    using 4 by (cases dl; auto simp: download_outcome_def sbind_Inr sret_def split: if_splits; cases "projl dl"; simp)+
  show thesis
  proof (rule that [of "mdisk m1" "mdisk m2" m2 "mc_sys m3"])
    show "path_parent local = None \<and> mdisk m1 = mdisk m \<or>
        (\<exists>q. path_parent local = Some q \<and> create_dir_all (oe_faults env) q (mdisk m) = (Inr (), mdisk m1))"
      using 1 by (auto simp: create_parent_def disk_step_Inr sret_def split: option.splits)
    show "create_file (oe_faults env) part (mdisk m1) = (Inr (), mdisk m2)" using 2 by (auto simp: disk_step_Inr)
    show "download_blob_to_file (oe_client env (po_client_protocol options)) (oe_faults env) (tagged_inner (po_reference options))
       (ab_blob b) (po_credentials options) part
       (\<lambda>downloaded t. notify fb (BlobDownloading (ab_digest b) downloaded t)) ct (mc_sys m2) = (Inr (), mc_sys m3)"
      using 3 by (auto simp: scatch_Inr dl on_sys_Inr)
    show "rename_file (oe_faults env) part local (mdisk m3) = (Inr (), mdisk m')"
      using 5 emit_Inr [OF 6] println_Inr [OF 7] by (auto simp: disk_step_Inr m4)
  qed simp
qed

lemma pull_artifact_stores:
  fixes m :: "('n, 's) oci_machine"
  assumes pa: "pull_artifact env options fb ct out b m = (Inr u, m')" and n: "plain_path (ab_local_name b)"
  defines "k \<equiv> locate (mdisk m) out @ names_of (ab_local_name b)"
    and "kp \<equiv> locate (mdisk m) out @ butlast (names_of (ab_local_name b)) @ [List.last (names_of (ab_local_name b)) @ ''.part'']"
  shows "\<exists>items net. (\<exists>fired t net'. oc_pull_blob_stream (oe_client env (po_client_protocol options)) (tagged_inner (po_reference options))
      (descriptor_of_blob (ab_blob b)) net = ((fired, Inr (t, items)), net')) \<and>
    lookup_node (mdisk m') k = Some (FileNode (chunk_bytes items)) \<and> lookup_node (mdisk m') kp = None \<and>
    dk_cwd (mdisk m') = dk_cwd (mdisk m) \<and>
    (\<forall>q c. q \<noteq> k \<longrightarrow> q \<noteq> kp \<longrightarrow> lookup_node (mdisk m) q = Some c \<longrightarrow> lookup_node (mdisk m') q = Some c)"
proof -
  let ?local = "path_join out (ab_local_name b)" and ?part = "path_add_extension (path_join out (ab_local_name b)) ''part''"
  from pa obtain d1 d2 and m2 :: "('n, 's) oci_machine" and s3 where
    1: "path_parent ?local = None \<and> d1 = mdisk m \<or> (\<exists>q. path_parent ?local = Some q \<and> create_dir_all (oe_faults env) q (mdisk m) = (Inr (), d1))"
    and 2: "create_file (oe_faults env) ?part d1 = (Inr (), d2)" "mdisk m2 = d2"
    and 3: "download_blob_to_file (oe_client env (po_client_protocol options)) (oe_faults env) (tagged_inner (po_reference options))
       (ab_blob b) (po_credentials options) ?part
       (\<lambda>downloaded t. notify fb (BlobDownloading (ab_digest b) downloaded t)) ct (mc_sys m2) = (Inr (), s3)"
    and 4: "rename_file (oe_faults env) ?part ?local (os_disk s3) = (Inr (), mdisk m')"
    by (rule pull_artifact_Inr)
  have c1: "dk_cwd d1 = dk_cwd (mdisk m)" using 1 create_dir_all_Inr(2) by fastforce
  have keep: "lookup_node (mdisk m) q = Some c \<Longrightarrow> lookup_node d1 q = Some c" for q c
    using 1 create_dir_all_Inr(3) by fastforce
  note c2 = create_file_Inr [OF 2(1)]
  have kp: "locate (mdisk m) ?part = kp" and k: "locate (mdisk m) ?local = k"
    by (simp_all add: kp_def k_def locate_part [OF n] locate_local [OF n])
  have l2: "locate (mdisk m2) ?part = kp" "locate d1 ?part = kp"
    using c1 c2 2(2) kp by (simp_all add: locate_def)
  have "lookup_node (mdisk m2) (locate (mdisk m2) ?part) = Some (FileNode [])" using c2 2(2) l2 by simp
  from download_blob_writes [OF 3 this notify_disk]
  obtain items net where it: "\<exists>fired t net'. oc_pull_blob_stream (oe_client env (po_client_protocol options))
      (tagged_inner (po_reference options)) (descriptor_of_blob (ab_blob b)) net = ((fired, Inr (t, items)), net')"
    and fs: "file_set kp (chunk_bytes items) (mdisk m2) (os_disk s3)"
    unfolding l2 by blast
  have l3: "locate (os_disk s3) ?part = kp" "locate (os_disk s3) ?local = k"
    using fs c1 c2 2(2) k kp by (simp_all add: locate_def file_set_def)
  have "lookup_node (os_disk s3) (locate (os_disk s3) ?part) = Some (FileNode (chunk_bytes items))"
    using fs by (simp add: l3 file_set_def)
  note r = rename_file_Inr [OF 4 this, unfolded l3]
  have "k \<noteq> kp" unfolding k_def kp_def using names_of_part [OF n] by simp
  then have "lookup_node (mdisk m') k = Some (FileNode (chunk_bytes items)) \<and> lookup_node (mdisk m') kp = None \<and>
      dk_cwd (mdisk m') = dk_cwd (mdisk m) \<and>
      (\<forall>q c. q \<noteq> k \<longrightarrow> q \<noteq> kp \<longrightarrow> lookup_node (mdisk m) q = Some c \<longrightarrow> lookup_node (mdisk m') q = Some c)"
    using r fs c1 c2 2(2) l2 by (simp add: file_set_def keep)
  with it show ?thesis by blast
qed

section \<open>A cancelled pull\<close>

lemma sbind_Inl:
  "sbind a g s = (Inl e, u) \<longleftrightarrow> a s = (Inl e, u) \<or> (\<exists>x t. a s = (Inr x, t) \<and> g x t = (Inl e, u))"
  by (auto simp: sbind_def split: sum.splits prod.splits)

lemma with_context_not_Msg [simp]: "with_context c r \<noteq> Inl (Msg s)"
  by (cases r; cases "projl r") auto

lemma scontext_not_Msg [simp]: "scontext c a s \<noteq> (Inl (Msg t), u)"
  by (auto simp: scontext_def split: prod.splits)

lemma never_fails [simp]:
  "emit fb ev m \<noteq> (Inl e, m')" "println t m \<noteq> (Inl e, m')" "sret x s \<noteq> (Inl e, u)"
  by (auto simp: emit_def on_sys_def notify_def smodify_def println_def sret_def split: prod.splits option.splits)

lemma scatch_not_Msg [simp]: "scatch a s \<noteq> (Inl (Msg t), u)"
  by (cases "a s"; cases "fst (a s)"; cases "projl (fst (a s))") (auto simp: scatch_def split: sum.splits error.splits)

lemma machine_acquire_not_Msg [simp]: "machine_acquire e path purpose m \<noteq> (Inl (Msg t), u)"
  by (auto simp: machine_acquire_def acquire_def locked_step_def sresult_defs Let_def
      split: prod.splits option.splits if_splits sum.splits)

definition dir_at :: "fs_path \<Rightarrow> fs_path \<Rightarrow> disk \<Rightarrow> bool" where
  "dir_at w k d \<longleftrightarrow> dk_cwd d = w \<and> lookup_node d k = Some DirNode"

lemma remove_output_cleans:
  assumes "dir_at (dk_cwd d0) (locate d0 out) (mdisk m)" "df_error (oe_faults env) RemoveDirAll (locate d0 out) = None"
    and "remove_output env out m = (Inr u, m')" "below (locate d0 out) q"
  shows "lookup_node (mdisk m') q = None"
proof -
  have "locate (mdisk m) out = locate d0 out" using assms(1) by (simp add: dir_at_def locate_def)
  then show ?thesis using assms
    by (auto simp: remove_output_def sbind_Inr scatch_Inr disk_step_def on_sys_def on_disk_def remove_dir_all_def
        dir_at_def disk_fault_def Let_def)
qed

lemma remove_output_not_Msg [simp]: "remove_output env out m \<noteq> (Inl (Msg t), m')"
  by (simp add: remove_output_def sbind_Inl)

lemma append_part_dir:
  assumes "plain_path n" "locate d0 out = k" "dk_cwd d0 = w"
  shows "preserves (dir_at w k) (append_file f (path_add_extension (path_join out n) ''part'') c)"
proof -
  have "locate d (path_add_extension (path_join out n) ''part'') \<noteq> k" if "dk_cwd d = w" for d
  proof -
    have "locate d out = k" using that assms(2,3) by (simp add: locate_def)
    then show ?thesis using locate_part [OF assms(1), of d out] by simp
  qed
  then show ?thesis
    by (auto simp: preserves_def dir_at_def append_file_def Let_def disk_fault_def split: option.splits node.splits)
qed

lemma pull_artifact_dir:
  assumes "pull_artifact env options fb ct out b m = (Inr u, m')" "plain_path (ab_local_name b)"
    and "dir_at (dk_cwd d0) (locate d0 out) (mdisk m)"
  shows "dir_at (dk_cwd d0) (locate d0 out) (mdisk m')"
proof -
  have l: "locate (mdisk m) out = locate d0 out" using assms(3) by (simp add: dir_at_def locate_def)
  show ?thesis
    using pull_artifact_stores [OF assms(1,2)] assms(3) plain_components(2) [OF assms(2)]
    unfolding l dir_at_def by auto
qed

lemma pull_artifact_cancelled:
  assumes "pull_artifact env options fb ct out b m = (Inl (Msg ''pull cancelled''), m')" "plain_path (ab_local_name b)"
    and dir: "dir_at (dk_cwd d0) (locate d0 out) (mdisk m)"
    and nf: "df_error (oe_faults env) RemoveDirAll (locate d0 out) = None" and q: "below (locate d0 out) q"
  shows "lookup_node (mdisk m') q = None"
proof -
  let ?local = "path_join out (ab_local_name b)" and ?part = "path_add_extension (path_join out (ab_local_name b)) ''part''"
  let ?dl = "on_sys (download_blob_to_file (oe_client env (po_client_protocol options)) (oe_faults env)
               (tagged_inner (po_reference options)) (ab_blob b) (po_credentials options) ?part
               (\<lambda>downloaded t. notify fb (BlobDownloading (ab_digest b) downloaded t)) ct)"
  let ?P = "\<lambda>s. dir_at (dk_cwd d0) (locate d0 out) (mdisk s)"
  have "create_parent env ?local m \<noteq> (Inl (Msg ''pull cancelled''), m')"
    by (auto simp: create_parent_def split: option.splits)
  then obtain m1 m2 r m3 where 1: "create_parent env ?local m = (Inr (), m1)"
    and 2: "disk_step (create_file (oe_faults env) ?part) m1 = (Inr (), m2)"
    and 3: "?dl m2 = (r, m3)" and "download_outcome env fb out b r m3 = (Inl (Msg ''pull cancelled''), m')"
    using assms(1) unfolding pull_artifact_def Let_def by (auto simp: sbind_Inl scatch_Inr)
  then obtain m4 where 4: "emit fb (EvCancelled (''blob-download:'' @ ab_digest b)) m3 = (Inr (), m4)"
    and 5: "remove_output env out m4 = (Inr (), m')"
    by (auto simp: download_outcome_def sbind_Inl sfail_def sread_def split: sum.splits if_splits)
  have l: "locate d ?part \<noteq> locate d0 out" if "dk_cwd d = dk_cwd d0" for d
  proof -
    have "locate d out = locate d0 out" using that by (simp add: locate_def)
    then show ?thesis using locate_part [OF assms(2), of d out] by simp
  qed
  have "?P m1" using 1 dir create_dir_all_Inr(2,3)
    by (fastforce simp: create_parent_def disk_step_Inr dir_at_def sret_def split: option.splits)
  then have "?P m2" using 2 create_file_Inr l by (fastforce simp: disk_step_Inr dir_at_def)
  moreover have "preserves ?P ?dl"
    by (intro on_sys_preserves [of "disk_pred (dir_at (dk_cwd d0) (locate d0 out))"] download_blob_preserves
        notify_preserves append_part_dir [OF assms(2), of d0] refl)
  ultimately have "?P m3" using preservesD [of ?P ?dl m2] 3 by simp
  then have "?P m4" using emit_Inr [OF 4] by simp
  then show ?thesis using remove_output_cleans [OF _ nf 5 q] by simp
qed

lemma pull_artifacts_cancelled:
  assumes "sforeach bs (pull_artifact env options fb ct out) m = (Inl (Msg ''pull cancelled''), m')"
    and "\<forall>b \<in> set bs. plain_path (ab_local_name b)" and "dir_at (dk_cwd d0) (locate d0 out) (mdisk m)"
    and nf: "df_error (oe_faults env) RemoveDirAll (locate d0 out) = None" and q: "below (locate d0 out) q"
  shows "lookup_node (mdisk m') q = None"
  using assms(1-3)
proof (induction bs arbitrary: m)
  case (Cons b bs)
  then show ?case
    using pull_artifact_cancelled [OF _ _ _ nf q, of options fb ct b m m'] pull_artifact_dir [of env options fb ct out b m]
    by (auto simp: sbind_Inl)
qed simp

lemma normalize_paths_not_cancelled: "normalize_paths m \<noteq> Inl (Msg ''pull cancelled'')"
proof -
  have "push_components v cs p \<noteq> Inl (Msg ''pull cancelled'')" for v cs p
    by (induction v cs p rule: push_components.induct) simp_all
  then have "normalize_relative_path v \<noteq> Inl (Msg ''pull cancelled'')" for v
    by (auto simp: normalize_relative_path_def result_simps)
  then show ?thesis by (auto simp: normalize_paths_def normalize_path_def result_simps)
qed

lemma pull_remote_cancelled:
  assumes "pull_remote env options fb ct out m = (Inl (Msg ''pull cancelled''), m')"
    and "dir_at (dk_cwd d0) (locate d0 out) (mdisk m)"
    and nf: "df_error (oe_faults env) RemoveDirAll (locate d0 out) = None" and q: "below (locate d0 out) q"
  shows "lookup_node (mdisk m') q = None"
proof -
  let ?P = "\<lambda>s. dir_at (dk_cwd d0) (locate d0 out) (mdisk s)"
  let ?f = "fetch_manifest_and_config (oe_client env (po_client_protocol options)) (oe_ref env)
              (tagged_inner (po_reference options)) (po_credentials options) ct"
  have "preserves ?P (on_sys ?f)"
    by (intro on_sys_preserves [of "disk_pred (dir_at (dk_cwd d0) (locate d0 out))"] fetch_preserves)
  then have P: "on_sys ?f m = (r, m1) \<Longrightarrow> ?P m1" for r m1
    using preservesD [of ?P "on_sys ?f" m] assms(2) by simp
  have nofail: "on_sys ?f m \<noteq> (Inl e, m1)" for e m1
    by (auto simp: on_sys_def fetch_manifest_and_config_def timed_call_def sbind_def sret_def split: prod.splits)
  obtain a m1 r where 1: "on_sys ?f m = (Inr a, m1)" and "remote_outcome env fb out r m1 = (Inl (Msg ''pull cancelled''), m')"
    using assms(1) nofail by (auto simp: pull_remote_def sbind_Inl sread_def in_time_def)
  then obtain m2 where 2: "emit fb (EvCancelled ''fetch-manifest'') m1 = (Inr (), m2)"
    and 3: "remove_output env out m2 = (Inr (), m')"
    by (cases r) (auto simp: remote_outcome_def sbind_Inl sfail_def sread_def split: if_splits)
  have "?P m2" using P [OF 1] emit_Inr [OF 2] by simp
  then show ?thesis using remove_output_cleans [OF _ nf 3 q] by simp
qed

lemma pull_remote_dir:
  assumes "pull_remote env options fb ct out m = (Inr r, m')"
  shows "mdisk m' = mdisk m"
proof -
  obtain a m1 x where 1: "on_sys (fetch_manifest_and_config (oe_client env (po_client_protocol options)) (oe_ref env)
      (tagged_inner (po_reference options)) (po_credentials options) ct) m = (Inr a, m1)"
    and 2: "remote_outcome env fb out x m1 = (Inr r, m')"
    using assms by (auto simp: pull_remote_def sbind_Inr)
  have "m' = m1"
    using 2 by (cases x; cases "projl x") (auto simp: remote_outcome_def sbind_Inr split: if_splits)
  then show ?thesis
    using 1 by (auto simp: on_sys_Inr fetch_manifest_and_config_def timed_call_def sbind_Inr split: prod.splits)
qed

lemma select_not_cancelled: "select_artifact_bindings x ls \<noteq> Inl (Msg ''pull cancelled'')"
  by (auto simp: select_artifact_bindings_def required_binding_def result_simps)

lemma read_manifest_not_cancelled: "rbind (manifest_from_slice env j) normalize_paths \<noteq> Inl (Msg ''pull cancelled'')"
  using normalize_paths_not_cancelled by (auto simp: result_simps manifest_from_slice_def)

text \<open>A pull that reports its cancellation has removed the output directory.\<close>

lemma pull_into_cancelled:
  assumes "pull_into env options fb ct out m = (Inl (Msg ''pull cancelled''), m')"
    and "\<not> po_install options"
    and nf: "df_error (oe_faults env) RemoveDirAll (locate (mdisk m) out) = None" and q: "below (locate (mdisk m) out) q"
  shows "lookup_node (mdisk m') q = None"
proof -
  let ?P = "\<lambda>s. dir_at (dk_cwd (mdisk m)) (locate (mdisk m) out) (mdisk s)"
  obtain m1 m2 m3 where 1: "disk_step (create_dir_all (oe_faults env) out) m = (Inr (), m1)"
    and 2: "emit fb (PullStarted (ra_show (oe_ref env) (tagged_inner (po_reference options))) out) m1 = (Inr (), m2)"
    and 3: "println (''pull layout: '' @ out) m2 = (Inr (), m3)"
    and cases: "pull_remote env options fb ct out m3 = (Inl (Msg ''pull cancelled''), m') \<or>
      (\<exists>remote m4 x bs. pull_remote env options fb ct out m3 = (Inr remote, m4) \<and>
        rbind (manifest_from_slice env (ri_config_json remote)) normalize_paths = Inr x \<and>
        select_artifact_bindings x (ri_layers remote) = Inr bs \<and>
        sforeach bs (pull_artifact env options fb ct out) m4 = (Inl (Msg ''pull cancelled''), m'))"
    using assms(1,2) select_not_cancelled read_manifest_not_cancelled
    by (auto simp: pull_into_def Let_def sbind_Inl sread_def pull_install_def split: if_splits)
  have P: "?P m3"
    using 1 create_dir_all_Inr(1,2) emit_Inr [OF 2] println_Inr [OF 3] by (fastforce simp: disk_step_Inr dir_at_def)
  from cases show ?thesis
  proof
    assume "pull_remote env options fb ct out m3 = (Inl (Msg ''pull cancelled''), m')"
    then show ?thesis using pull_remote_cancelled P nf q by blast
  next
    assume "\<exists>remote m4 x bs. pull_remote env options fb ct out m3 = (Inr remote, m4) \<and>
        rbind (manifest_from_slice env (ri_config_json remote)) normalize_paths = Inr x \<and>
        select_artifact_bindings x (ri_layers remote) = Inr bs \<and>
        sforeach bs (pull_artifact env options fb ct out) m4 = (Inl (Msg ''pull cancelled''), m')"
    then obtain remote m4 x m0 bs where r: "pull_remote env options fb ct out m3 = (Inr remote, m4)" and "normalize_paths m0 = Inr x"
      and sel: "select_artifact_bindings x (ri_layers remote) = Inr bs"
      and a: "sforeach bs (pull_artifact env options fb ct out) m4 = (Inl (Msg ''pull cancelled''), m')"
      by (auto simp: result_simps)
    then have "\<forall>b \<in> set bs. plain_path (ab_local_name b)" using bindings_plain by blast
    then show ?thesis using pull_artifacts_cancelled [OF a _ _ nf q] P pull_remote_dir [OF r] by simp
  qed
qed

lemma with_lock_Inl:
  assumes "with_lock e path purpose body m = (Inl (Msg t), m')"
  shows "\<exists>m1 m2 l. mc_sys m1 = mc_sys m \<and> body m1 = (Inl (Msg t), m2) \<and> m' = m2\<lparr>mc_locks := drop_lock l (mc_locks m2)\<rparr>"
proof -
  obtain l m1 where 1: "machine_acquire e path purpose m = (Inr l, m1)"
    and 2: "(case body m1 of (r, m') \<Rightarrow> (r, m'\<lparr>mc_locks := drop_lock l (mc_locks m')\<rparr>)) = (Inl (Msg t), m')"
    using assms by (auto simp: with_lock_def sbind_Inl)
  have "mc_sys m1 = mc_sys m" using 1 by (auto simp: machine_acquire_def split: prod.splits)
  then show ?thesis using 2 by (auto split: prod.splits)
qed

lemma with_lock_Inr:
  assumes "with_lock e path purpose body m = (Inr x, m')"
  shows "\<exists>m1 m2 l. mc_sys m1 = mc_sys m \<and> body m1 = (Inr x, m2) \<and> m' = m2\<lparr>mc_locks := drop_lock l (mc_locks m2)\<rparr>"
proof -
  obtain l m1 where 1: "machine_acquire e path purpose m = (Inr l, m1)"
    and 2: "(case body m1 of (r, m') \<Rightarrow> (r, m'\<lparr>mc_locks := drop_lock l (mc_locks m')\<rparr>)) = (Inr x, m')"
    using assms by (auto simp: with_lock_def sbind_Inr)
  have "mc_sys m1 = mc_sys m" using 1 by (auto simp: machine_acquire_def split: prod.splits)
  then show ?thesis using 2 by (auto split: prod.splits)
qed

lemma pull_update_cancelled:
  assumes "pull_update env options fb ct m = (Inl (Msg ''pull cancelled''), m')"
    and "\<not> po_install options" and tag: "tag_or_digest (oe_ref env) (po_reference options) = Inr tag"
    and nf: "df_error (oe_faults env) RemoveDirAll (locate (mdisk m) (pull_output_dir env options tag)) = None"
    and q: "below (locate (mdisk m) (pull_output_dir env options tag)) q"
  shows "lookup_node (mdisk m') q = None"
proof -
  let ?out = "pull_output_dir env options tag"
  obtain m1 where 1: "disk_step (create_dir_all (oe_faults env) (po_destination_root options)) m = (Inr (), m1)"
    and "with_lock (oe_lock env) (path_join (po_destination_root options) ''.ota-update.lock'') ''registry-pull''
         (pull_locked env options fb ct) m1 = (Inl (Msg ''pull cancelled''), m')"
    using assms(1) by (auto simp: pull_update_def sbind_Inl)
  from with_lock_Inl [OF this(2)] obtain m2 m3 where 2: "mc_sys m2 = mc_sys m1"
    and "pull_locked env options fb ct m2 = (Inl (Msg ''pull cancelled''), m3)" and m': "mc_sys m' = mc_sys m3"
    by auto
  then have into: "pull_into env options fb ct ?out m2 = (Inl (Msg ''pull cancelled''), m3)"
    by (auto simp: pull_locked_def sbind_Inl sread_def tag)
  have "locate (mdisk m2) ?out = locate (mdisk m) ?out"
    using 1 2 create_dir_all_Inr(2) by (fastforce simp: disk_step_Inr locate_def)
  then show ?thesis using pull_into_cancelled [OF into assms(2)] nf q m' by simp
qed

section \<open>A validated pull\<close>

lemma fold_pieces: "fold (\<lambda>c h. h @ c) ps acc = acc @ concat ps"
  by (induction ps arbitrary: acc) simp_all

lemma read_sha256_Inr:
  "read_sha256 cr f p d = Inr h \<Longrightarrow> \<exists>c. lookup_node d (locate d p) = Some (FileNode c) \<and> h = cr_sha256 cr c"
  by (auto simp: read_sha256_def read_file_def result_simps fold_pieces concat_pieces
      split: option.splits node.splits)

lemma manifest_validate_disk:
  assumes "manifest_validate (disk_files env d) out True x = Inr ()" "f \<in> {mn_kernel x, mn_store x, mn_verity x}"
  shows "\<exists>c. lookup_node d (locate d (path_join out (mf_name f))) = Some (FileNode c) \<and>
    cr_sha256 (oe_crypto env) c = mf_sha256sum f"
  using assms read_sha256_Inr
  by (fastforce simp: manifest_validate_Inr file_validate_Inr disk_files_def file_full_name_def)

text \<open>
  A pull that validates and succeeds leaves the manifest and three files with the digests the
  manifest states.
\<close>

lemma pull_into_validated:
  assumes "pull_into env options fb ct out m = (Inr r, m')" "po_validate options" "\<not> po_install options"
  shows "\<exists>x j. normalize_paths x = Inr x \<and> oe_json env x = Inr j \<and>
    lookup_node (mdisk m') (locate (mdisk m') out @ [''manifest.json'']) = Some (FileNode j) \<and>
    (\<forall>f \<in> {mn_kernel x, mn_store x, mn_verity x}. \<exists>c.
       lookup_node (mdisk m') (locate (mdisk m') out @ names_of (mf_name f)) = Some (FileNode c) \<and>
       cr_sha256 (oe_crypto env) c = mf_sha256sum f) \<and>
    r = \<lparr>pu_output_dir = out, pu_manifest_path = path_join out ''manifest.json''\<rparr>"
proof -
  let ?mp = "path_join out ''manifest.json''"
  obtain j0 x m5 m6 m7 m8 where m: "rbind (manifest_from_slice env j0) normalize_paths = Inr x"
    and 1: "disk_step (manifest_write_to_file env ?mp x) m5 = (Inr (), m6)"
    and 2: "emit fb (ManifestWritten ?mp) m6 = (Inr (), m7)"
    and v: "manifest_validate (disk_files env (mdisk m7)) out True x = Inr ()"
    and 3: "println (''manifest path: '' @ ?mp) m7 = (Inr (), m8)" and 4: "emit fb EvDone m8 = (Inr (), m')"
    and r: "r = \<lparr>pu_output_dir = out, pu_manifest_path = ?mp\<rparr>"
    using assms by (auto simp: pull_into_def Let_def sbind_Inr pull_install_def)
  obtain m0 where m0: "normalize_paths m0 = Inr x" using m by (auto simp: result_simps)
  have D: "mdisk m' = mdisk m6" "mdisk m7 = mdisk m6"
    using emit_Inr [OF 2] println_Inr [OF 3] emit_Inr [OF 4] by simp_all
  obtain j where j: "oe_json env x = Inr j" and w: "write_file (oe_faults env) ?mp j (mdisk m5) = (Inr (), mdisk m6)"
    using 1 by (auto simp: disk_step_Inr manifest_write_to_file_def sbind_Inr)
  have l: "locate (mdisk m5) ?mp = locate (mdisk m6) ?mp" "locate d ?mp = locate d out @ [''manifest.json'']" for d
    using write_file_Inr(1) [OF w] by (simp_all add: locate_child) (simp add: locate_def)
  have "lookup_node (mdisk m') (locate (mdisk m') out @ [''manifest.json'']) = Some (FileNode j)"
    using write_file_Inr(2) [OF w] l D by (simp add: locate_def)
  moreover have "\<exists>c. lookup_node (mdisk m') (locate (mdisk m') out @ names_of (mf_name f)) = Some (FileNode c) \<and>
       cr_sha256 (oe_crypto env) c = mf_sha256sum f" if f: "f \<in> {mn_kernel x, mn_store x, mn_verity x}" for f
  proof -
    have "plain_path (mf_name f)" using normalize_paths_plain [OF m0] f by auto
    then show ?thesis using manifest_validate_disk [OF v f] locate_join by (simp add: D)
  qed
  moreover have "normalize_paths x = Inr x"
    using normalize_paths_plain [OF m0] by (simp add: normalize_paths_def normalize_path_def normalize_relative_path_plain)
  ultimately show ?thesis using j r by blast
qed

lemma pull_update_validated:
  assumes "pull_update env options fb ct m = (Inr r, m')" "po_validate options" "\<not> po_install options"
  shows "\<exists>x j tag. tag_or_digest (oe_ref env) (po_reference options) = Inr tag \<and>
    pu_output_dir r = pull_output_dir env options tag \<and>
    pu_manifest_path r = path_join (pu_output_dir r) ''manifest.json'' \<and>
    normalize_paths x = Inr x \<and> oe_json env x = Inr j \<and>
    lookup_node (mdisk m') (locate (mdisk m') (pu_manifest_path r)) = Some (FileNode j) \<and>
    (\<forall>f \<in> {mn_kernel x, mn_store x, mn_verity x}. \<exists>c.
       lookup_node (mdisk m') (locate (mdisk m') (file_full_name (pu_output_dir r) f)) = Some (FileNode c) \<and>
       cr_sha256 (oe_crypto env) c = mf_sha256sum f)"
proof -
  obtain m1 where "with_lock (oe_lock env) (path_join (po_destination_root options) ''.ota-update.lock'') ''registry-pull''
         (pull_locked env options fb ct) m1 = (Inr r, m')"
    using assms(1) by (auto simp: pull_update_def sbind_Inr)
  from with_lock_Inr [OF this] obtain m2 m3 where "pull_locked env options fb ct m2 = (Inr r, m3)" and m': "mc_sys m' = mc_sys m3"
    by auto
  then obtain tag where tag: "tag_or_digest (oe_ref env) (po_reference options) = Inr tag"
    and into: "pull_into env options fb ct (pull_output_dir env options tag) m2 = (Inr r, m3)"
    by (auto simp: pull_locked_def sbind_Inr)
  obtain x j where x: "normalize_paths x = Inr x" "oe_json env x = Inr j"
    and mj: "lookup_node (mdisk m3) (locate (mdisk m3) (pull_output_dir env options tag) @ [''manifest.json'']) = Some (FileNode j)"
    and fs: "\<forall>f \<in> {mn_kernel x, mn_store x, mn_verity x}. \<exists>c.
       lookup_node (mdisk m3) (locate (mdisk m3) (pull_output_dir env options tag) @ names_of (mf_name f)) = Some (FileNode c) \<and>
       cr_sha256 (oe_crypto env) c = mf_sha256sum f"
    and r: "r = \<lparr>pu_output_dir = pull_output_dir env options tag, pu_manifest_path = path_join (pull_output_dir env options tag) ''manifest.json''\<rparr>"
    using pull_into_validated [OF into assms(2,3)] by blast
  show ?thesis
    using tag x mj fs r normalize_paths_plain [OF x(1)]
    by (intro exI [of _ x] exI [of _ j] exI [of _ tag]) (auto simp: m' file_full_name_def locate_join locate_child)
qed

end
