(* ===== verification/Oci_Push.thy ===== *)
theory Oci_Push
  imports Oci_Pull
begin

text \<open>
  Facts on pushing and discovering: the descriptors of pushed layers, the artifacts a pull
  selects from them, and the updates a repository is found to have.
\<close>

section \<open>Pushed layers\<close>

lemma hash_pieces_InrD: "hash_pieces bs h n = Inr (h', n') \<Longrightarrow> h' = h @ concat bs \<and> n' = n + length (concat bs)"
proof (induction bs arbitrary: h n)
  case (Cons b bs)
  show ?case using Cons.prems Cons.IH [of "h @ b" "n + length b"] by (auto simp: result_simps u64_add_def split: if_splits)
qed simp

lemma digest_and_size_InrD:
  assumes "digest_and_size cr f p d = Inr (dg, n)"
  shows "\<exists>c. lookup_node d (locate d p) = Some (FileNode c) \<and> dg = digest_of cr c \<and> n = length c"
proof -
  obtain c h where c: "read_file f p d = Inr c" "hash_pieces (pieces (64 * 1024) c) [] 0 = Inr (h, n)" "dg = digest_of cr h"
    using assms by (auto simp: digest_and_size_def result_simps)
  then show ?thesis
    using hash_pieces_InrD [OF c(2)] by (auto simp: concat_pieces read_file_def result_simps split: option.splits node.splits)
qed

lemma upload_progress_preserves [preserves_rules]: "preserves (disk_pred P) (upload_progress fb kind t cs n r)"
  by (induction cs arbitrary: n r) (auto intro!: preserves_rules)

lemma push_stream_disk:
  assumes "push_stream client fb r i dg t s = (Inr u, s')"
  shows "os_disk s' = os_disk s"
proof -
  let ?cs = "pieces io_chunk_capacity (file_bytes (li_path i) (os_disk s))"
  obtain k x n where n: "oc_push_blob_stream client r ?cs dg t (os_net s) = ((k, x), n)" by (metis prod.exhaust)
  let ?m = "sbind (upload_progress fb (li_media_type i) t (take k ?cs) 0 (progress_reporter_new progress_event_step)) (\<lambda>_.
         sread (\<lambda>_. with_context (''while pushing blob '' @ li_path i) x))"
  have "preserves (disk_pred (\<lambda>d. d = os_disk s)) ?m" by (intro preserves_rules)
  from preservesD [OF this, of "s\<lparr>os_net := n\<rparr>"] show ?thesis
    using assms n by (simp add: push_stream_def Let_def)
qed

text \<open>The descriptor of a layer: its media type, and the digest and size of its file.\<close>

definition describes :: "crypto \<Rightarrow> disk \<Rightarrow> layer_input \<Rightarrow> oci_descriptor \<Rightarrow> bool" where
  "describes cr d i od \<longleftrightarrow> (\<exists>c. lookup_node d (locate d (li_path i)) = Some (FileNode c) \<and>
     od = \<lparr>od_media_type = media_type_str (li_media_type i), od_digest = digest_of cr c, od_size = int (length c),
           od_annotations = li_annotations i\<rparr>)"

lemma notify_Inr: "notify fb ev s = (Inr u, s') \<Longrightarrow> os_disk s' = os_disk s"
  using notify_disk [of fb ev s] by simp

lemma push_layer_Inr:
  assumes "push_layer client cr f fb r i s = (Inr od, s')"
  shows "os_disk s' = os_disk s" "describes cr (os_disk s) i od"
proof -
  obtain dg n s1 s2 s3 u sz where d: "digest_and_size cr f (li_path i) (os_disk s) = Inr (dg, n)"
    and 1: "notify fb (LayerUploading (li_media_type i) 0 (Some n)) s = (Inr (), s1)"
    and 2: "push_stream client fb r i dg n s1 = (Inr u, s2)"
    and 3: "notify fb (LayerUploaded (li_media_type i) dg) s2 = (Inr (), s')"
    and sz: "to_i64 n = Inr sz"
    and od: "od = \<lparr>od_media_type = media_type_str (li_media_type i), od_digest = dg, od_size = sz, od_annotations = li_annotations i\<rparr>"
    using assms by (auto simp: push_layer_def sbind_Inr)
  show "os_disk s' = os_disk s"
    using notify_Inr [OF 1] push_stream_disk [OF 2] notify_Inr [OF 3] by simp
  have "sz = int n" using sz by (auto simp: to_i64_def split: if_splits)
  then show "describes cr (os_disk s) i od"
    using digest_and_size_InrD [OF d] od by (auto simp: describes_def)
qed

lemma push_layers_Inr:
  assumes "push_layers client cr f fb r is s = (Inr ods, s')"
  shows "list_all2 (describes cr (os_disk s)) is ods"
  using assms
proof (induction "is" arbitrary: s ods)
  case (Cons i "is")
  then obtain od s1 ods' where 1: "push_layer client cr f fb r i s = (Inr od, s1)"
    and 2: "push_layers client cr f fb r is s1 = (Inr ods', s')" and ods: "ods = od # ods'"
    by (auto simp: sbind_Inr)
  then show ?case using Cons.IH [OF 2] push_layer_Inr [OF 1] by simp
qed simp

lemma push_layers_and_config_Inr:
  assumes "push_layers_and_config client api cr f r cs is config mt fb s = (Inr url, s')"
  shows "\<exists>om n n'. oc_push_manifest client r om n = (Inr url, n') \<and> od_digest (om_config om) = digest_of cr config \<and>
    list_all2 (describes cr (os_disk s)) is (om_layers om)"
proof -
  obtain s1 s2 s3 s4 ods sz u where 1: "net_call False ''while authenticating for push'' (oc_auth client r (to_registry_auth cs) Push) s = (Inr (), s1)"
    and 2: "notify fb (PushStarted (ra_show api r) (length is)) s1 = (Inr (), s2)"
    and 3: "push_layers client cr f fb r is s2 = (Inr ods, s3)"
    and 4: "push_call ''while pushing config blob'' (oc_push_blob client r config (digest_of cr config)) s3 = (Inr u, s4)"
    and 5: "push_call ''while pushing image manifest'' (oc_push_manifest client r
             \<lparr>om_schema_version = 2, om_media_type = Some ''application/vnd.oci.image.manifest.v1+json'',
              om_config = \<lparr>od_media_type = media_type_str mt, od_digest = digest_of cr config, od_size = sz, od_annotations = None\<rparr>,
              om_layers = ods\<rparr>) s4 = (Inr url, s')"
    using assms by (auto simp: push_layers_and_config_def Let_def sbind_Inr)
  have "os_disk s2 = os_disk s" using 1 notify_Inr [OF 2] by (auto simp: net_call_def split: prod.splits)
  then show ?thesis
    using push_layers_Inr [OF 3] 5 by (auto simp: push_call_def split: prod.splits) (metis oci_descriptor.select_convs(2) oci_image_manifest.select_convs(3,4))
qed

section \<open>Selecting what was pushed\<close>

lemma layer_input_Inr:
  "layer_input_with_title p mt = Inr i \<Longrightarrow> li_media_type i = mt \<and> li_path i = p"
  by (auto simp: layer_input_with_title_def result_simps)

lemma path_file_name_plain: "path_file_name p = Some n \<Longrightarrow> plain_name n"
proof -
  assume "path_file_name p = Some n"
  then obtain cs where "rev (components p) = Normal n # cs"
    by (auto simp: path_file_name_def split: list.splits path_component.splits)
  then have "Normal n \<in> set (components p)" by (metis list.set_intros(1) set_rev)
  then show ?thesis by (rule components_Normal)
qed

lemma changelog_layer_Inr:
  assumes "changelog_layer p = Inr i"
  shows "li_media_type i = MediaChangelog \<and> (\<exists>n. path_file_name p = Some n \<and> li_annotations i = Some [image_title \<mapsto> n])"
proof -
  obtain n t where "path_file_name p = Some n" "sanitize_relative_file_path n = Inr t"
    "i = \<lparr>li_path = p, li_media_type = MediaChangelog, li_annotations = Some [image_title \<mapsto> t]\<rparr>"
    using assms by (auto simp: changelog_layer_def result_simps)
  moreover have "sanitize_relative_file_path n = Inr n"
    using path_file_name_plain [OF \<open>path_file_name p = Some n\<close>] normalize_relative_path_plain plain_name_path
    by (simp add: sanitize_normalize)
  ultimately show ?thesis by simp
qed

lemma changelog_local_name_title:
  assumes "path_file_name p = Some n"
  shows "changelog_local_name \<lparr>bd_digest = dg, bd_media_type = mt, bd_size = sz, bd_annotations = Some [image_title \<mapsto> n]\<rparr> = n"
proof -
  have "sanitize_relative_file_path n = Inr n"
    using path_file_name_plain [OF assms] normalize_relative_path_plain plain_name_path by (simp add: sanitize_normalize)
  then show ?thesis by (simp add: changelog_local_name_def)
qed

lemma push_inputs_Inr:
  assumes "push_inputs base m cl = Inr is"
  shows "\<exists>u r v ls. is = [u, r, v] @ ls \<and> li_media_type u = MediaUki \<and> li_media_type r = MediaRoot \<and> li_media_type v = MediaVerity \<and>
    (case cl of None \<Rightarrow> ls = [] | Some p \<Rightarrow> \<exists>l. ls = [l] \<and> changelog_layer p = Inr l)"
  using assms layer_input_Inr by (auto simp: push_inputs_def result_simps split: option.splits)

lemma select_pushed:
  assumes "push_inputs base m cl = Inr is" "list_all2 (describes cr d) is ods"
  shows "\<exists>bs. select_artifact_bindings m (map blob_from_descriptor ods) = Inr bs \<and>
    list_all2 (\<lambda>i b. ab_kind b = li_media_type i \<and>
      (\<exists>c. lookup_node d (locate d (li_path i)) = Some (FileNode c) \<and> ab_digest b = digest_of cr c)) is bs \<and>
    map ab_local_name bs = [mf_name (mn_kernel m), mf_name (mn_store m), mf_name (mn_verity m)] @
      (case cl of None \<Rightarrow> [] | Some p \<Rightarrow> [the (path_file_name p)])"
proof -
  obtain u r v ls where i: "is = [u, r, v] @ ls" "li_media_type u = MediaUki" "li_media_type r = MediaRoot" "li_media_type v = MediaVerity"
    "case cl of None \<Rightarrow> ls = [] | Some p \<Rightarrow> \<exists>l. ls = [l] \<and> changelog_layer p = Inr l"
    using push_inputs_Inr [OF assms(1)] by blast
  show ?thesis
  proof (cases cl)
    case None
    then show ?thesis using i assms(2)
      by (auto simp: list_all2_Cons1 describes_def select_artifact_bindings_def required_binding_def make_binding_def
          find_layer_by_media_type_def blob_from_descriptor_def)
  next
    case (Some p)
    then obtain l where l: "ls = [l]" "changelog_layer p = Inr l" using i by auto
    then obtain n where n: "path_file_name p = Some n" "li_annotations l = Some [image_title \<mapsto> n]" "li_media_type l = MediaChangelog"
      using changelog_layer_Inr by blast
    show ?thesis using i l n assms(2)
      by (auto simp: list_all2_Cons1 describes_def select_artifact_bindings_def required_binding_def make_binding_def
          find_layer_by_media_type_def blob_from_descriptor_def changelog_local_name_title [OF n(1)] Some)
  qed
qed

section \<open>Discovered updates\<close>

text \<open>The manifests a run announced, and how many tags it had seen when it did.\<close>

fun announced :: "registry_event \<Rightarrow> (nat \<times> string \<times> string) option" where
  "announced (ManifestFetched repository tag current n) = Some (current, repository, tag)"
| "announced ev = None"

abbreviation (input) announcements :: "registry_event list \<Rightarrow> (nat \<times> string \<times> string) list" where
  "announcements evs \<equiv> List.map_filter announced evs"

abbreviation (input) update_key :: "available_update \<Rightarrow> string \<times> string" where
  "update_key u \<equiv> (au_repository u, au_tag u)"

lemma announcements_append [simp]: "announcements (xs @ ys) = announcements xs @ announcements ys"
  by (simp add: List.map_filter_def)

lemma fetch_events: "fetch_manifest_and_config client api r cs ct s = (x, s') \<Longrightarrow> os_events s' = os_events s"
  by (auto simp: fetch_manifest_and_config_def timed_call_def sbind_def sret_def split: prod.splits sum.splits)

lemma discover_tag_Inr:
  assumes "discover_tag env options open_channel ct n current tag s = (Inr u, s')"
  shows "announcements (os_events s') = announcements (os_events s) @
    (case u of Some v \<Rightarrow> [(current, update_key v)] | None \<Rightarrow> [])"
proof -
  obtain tr s1 a s2 where 1: "s1 = s\<lparr>os_events := os_events s @ [TagDiscovered (repository_path (oe_ref env) (tagged_inner tr)) tag current n]\<rparr>"
    and 2: "fetch_manifest_and_config (oe_client env (do_client_protocol options)) (oe_ref env) (tagged_inner tr)
        (do_credentials options) ct s1 = (Inr a, s2)"
    and 3: "(case a of None \<Rightarrow> sret None
       | Some (Inl err) \<Rightarrow>
           (if is_cancellation err then
              sbind (notify open_channel (EvCancelled ''discover-manifest'')) (\<lambda>_. sfail (Msg ''discover cancelled''))
            else sret None)
       | Some (Inr remote) \<Rightarrow>
           (case manifest_from_slice env (ri_config_json remote) of
              Inl _ \<Rightarrow> sret None
            | Inr m \<Rightarrow>
                sbind (notify open_channel (ManifestFetched (ri_repository remote) (ri_tag remote) current n)) (\<lambda>_.
                  sret (Some \<lparr>au_repository = ri_repository remote, au_tag = ri_tag remote,
                              au_version = mn_version m, au_hash = mn_root_verity_hash m\<rparr>)))) s2 = (Inr u, s')"
    using assms by (auto simp: discover_tag_def sbind_Inr notify_open)
  have e: "announcements (os_events s2) = announcements (os_events s)"
    using fetch_events [OF 2] 1 by (simp add: List.map_filter_def)
  show ?thesis
    using 3 e
    by (auto simp: sbind_Inr notify_open sret_def List.map_filter_def split: option.splits sum.splits if_splits)
qed

lemma discover_loop_Inr:
  assumes "discover_loop env options open_channel ct n idx tags us s = (Inr us', s')"
  shows "\<exists>vs cs. us' = us @ vs \<and> length cs = length vs \<and> sorted_wrt (<) cs \<and> (\<forall>c \<in> set cs. idx < c \<and> c \<le> idx + length tags) \<and>
    announcements (os_events s') = announcements (os_events s) @ zip cs (map update_key vs)"
  using assms
proof (induction tags arbitrary: idx us s)
  case Nil
  then show ?case by (intro exI [of _ "[]"]) (simp add: sret_def)
next
  case (Cons tag tags)
  then obtain u s1 where 1: "discover_tag env options open_channel ct n (idx + 1) tag s = (Inr u, s1)"
    and 2: "discover_loop env options open_channel ct n (idx + 1) tags (case u of Some v \<Rightarrow> us @ [v] | None \<Rightarrow> us) s1 = (Inr us', s')"
    by (auto simp: sbind_Inr)
  from Cons.IH [OF 2] obtain vs cs where IH: "us' = (case u of Some v \<Rightarrow> us @ [v] | None \<Rightarrow> us) @ vs" "length cs = length vs"
      "sorted_wrt (<) cs" "\<forall>c \<in> set cs. idx + 1 < c \<and> c \<le> idx + 1 + length tags"
      "announcements (os_events s') = announcements (os_events s1) @ zip cs (map update_key vs)"
    by blast
  show ?case
  proof (cases u)
    case None
    then show ?thesis using IH discover_tag_Inr [OF 1]
      by (intro exI [of _ vs] exI [of _ cs]) auto
  next
    case (Some v)
    then show ?thesis using IH discover_tag_Inr [OF 1]
      by (intro exI [of _ "v # vs"] exI [of _ "(idx + 1) # cs"]) auto
  qed
qed

text \<open>Events stay sent.\<close>

lemma discover_tag_events:
  assumes "discover_tag env options open_channel ct n current tag s = (r, s')"
  shows "set (os_events s) \<subseteq> set (os_events s')"
proof -
  have "preserves (\<lambda>t. set (os_events s) \<subseteq> set (os_events t)) (fetch_manifest_and_config client api rf cs ct)" for client api rf cs
    unfolding preserves_def by (metis fetch_events prod.collapse)
  moreover have "preserves (\<lambda>t. set (os_events s) \<subseteq> set (os_events t)) (notify open_channel ev)" for ev
    by (auto simp: preserves_def notify_open)
  ultimately have "preserves (\<lambda>t. set (os_events s) \<subseteq> set (os_events t)) (discover_tag env options open_channel ct n current tag)"
    unfolding discover_tag_def by (intro preserves_rules)
  from preservesD [OF this, of s] show ?thesis using assms by simp
qed

lemma discover_loop_events:
  "discover_loop env options open_channel ct n idx tags us s = (Inr us', s') \<Longrightarrow> set (os_events s) \<subseteq> set (os_events s')"
proof (induction tags arbitrary: idx us s)
  case (Cons tag tags)
  then obtain u s1 where 1: "discover_tag env options open_channel ct n (idx + 1) tag s = (Inr u, s1)"
    and 2: "discover_loop env options open_channel ct n (idx + 1) tags (case u of Some v \<Rightarrow> us @ [v] | None \<Rightarrow> us) s1 = (Inr us', s')"
    by (auto simp: sbind_Inr)
  show ?case using discover_tag_events [OF 1] Cons.IH [OF 2] by (rule subset_trans)
qed (simp add: sret_def)

end
