(* ===== verification/Oci_Cli.thy ===== *)
theory Oci_Cli
  imports Oci_Prune
begin

text \<open>
  The command line of the registry (\<open>crates/ota-update/src/registry/cli.rs\<close>): credentials, the lines
  printed for events, and the dispatch of a command. Parsing the arguments is left to \<open>clap\<close>.
\<close>

datatype output_format = TextOutput | Jsonl

record password_auth =
  pa_username :: string
  pa_password :: string

record registry_command =
  rc_output :: output_format
  rc_auth :: "password_auth option"
  rc_token :: "string option"
  rc_insecure :: bool

datatype 'r registry_action =
    DiscoverAction "'r untagged_reference"
  | PullAction "'r tagged_reference" string bool bool bool
  | ChangelogAction "'r tagged_reference"
  | PruneAction string
  | PushAction string "'r tagged_reference" "string option"

definition credentials :: "registry_command \<Rightarrow> registry_credentials" where
  "credentials c =
     (case rc_token c of
        Some token \<Rightarrow> Bearer token
      | None \<Rightarrow> (case rc_auth c of Some auth \<Rightarrow> Basic (pa_username auth) (pa_password auth) | None \<Rightarrow> Anonymous))"

definition short_hash :: "string \<Rightarrow> string" where
  "short_hash value = (if 16 \<le> length value then take 16 value else value)"

fun print_text_event :: "registry_event \<Rightarrow> string option" where
  "print_text_event (DiscoverStarted reference n) = Some (''discover start: '' @ reference @ '' ('' @ show_nat n @ '' tags)'')"
| "print_text_event (TagDiscovered repository tag current n) =
     Some (''tag ['' @ show_nat current @ ''/'' @ show_nat n @ '']: '' @ repository @ '':'' @ tag)"
| "print_text_event (ManifestFetched repository tag current n) =
     Some (''manifest ['' @ show_nat current @ ''/'' @ show_nat n @ '']: '' @ repository @ '':'' @ tag)"
| "print_text_event EvDone = Some ''done''"
| "print_text_event (PullStarted reference destination) = Some (''pull start: '' @ reference @ '' -> '' @ destination)"
| "print_text_event (PushStarted reference layers) =
     Some (''push start: '' @ reference @ '' ('' @ show_nat layers @ '' layers)'')"
| "print_text_event (LayerUploading kind uploaded t) =
     Some (''upload '' @ media_type_str kind @ '': '' @ show_nat uploaded @ ''/'' @ show_nat (case t of Some n \<Rightarrow> n | None \<Rightarrow> 0))"
| "print_text_event (LayerUploaded kind digest) = Some (''uploaded '' @ media_type_str kind @ '': '' @ digest)"
| "print_text_event (ManifestPushed reference manifest_url digest) =
     Some (''push done: '' @ reference @ '' url='' @ manifest_url @ '' digest='' @ digest)"
| "print_text_event ev = None"

text \<open>The printer task: the lines for the events received. \<open>js\<close> is \<open>serde_json::to_string\<close>.\<close>

definition feedback_printer :: "(registry_event \<Rightarrow> string option) \<Rightarrow> output_format \<Rightarrow> registry_event list \<Rightarrow> string list" where
  "feedback_printer js format events =
     List.map_filter (case format of TextOutput \<Rightarrow> print_text_event | Jsonl \<Rightarrow> js) events"

definition update_line :: "available_update \<Rightarrow> string" where
  "update_line u =
     au_repository u @ ''/'' @ au_tag u @ '' version='' @ au_version u @ '' hash='' @ short_hash (au_hash u)"

text \<open>
  \<open>RegistryCommand::handle\<close>. The channel is unbounded and its receiver lives as long as the
  command. \<open>None\<close> is a prune that does not end.
\<close>

definition registry_handle ::
  "('r, 'n, 's) oci_env \<Rightarrow> (available_update list \<Rightarrow> string result) \<Rightarrow> (pull_result \<Rightarrow> string result) \<Rightarrow>
   registry_command \<Rightarrow> 'r registry_action \<Rightarrow> ('n, 's) oci_machine \<Rightarrow> (unit result \<times> ('n, 's) oci_machine) option" where
  "registry_handle env updates_json pull_json c action m =
     (let protocol = (if rc_insecure c then Http else Https);
          feedback = Some (\<lambda>_. True) in
      case action of
        DiscoverAction reference \<Rightarrow>
          Some (sbind (on_sys (discover_updates env
                  \<lparr>do_reference = reference, do_credentials = credentials c, do_client_protocol = protocol\<rparr> feedback False)) (\<lambda>updates.
                case rc_output c of
                  TextOutput \<Rightarrow> sforeach updates (\<lambda>u. println (update_line u))
                | Jsonl \<Rightarrow> sbind (sread (\<lambda>_. updates_json updates)) println) m)
      | PullAction reference destination validate no_validate install \<Rightarrow>
          Some (sbind (pull_update env
                  \<lparr>po_reference = reference, po_destination_root = destination, po_credentials = credentials c,
                   po_client_protocol = protocol, po_install = install, po_validate = validate \<and> \<not> no_validate\<rparr> feedback False) (\<lambda>result.
                case rc_output c of
                  TextOutput \<Rightarrow>
                    sbind (println (''pulled to: '' @ pu_output_dir result)) (\<lambda>_.
                      println (''manifest: '' @ pu_manifest_path result))
                | Jsonl \<Rightarrow> sbind (sread (\<lambda>_. pull_json result)) println) m)
      | ChangelogAction reference \<Rightarrow>
          Some (sbind (on_sys (fetch_changelog env reference (credentials c) protocol feedback False)) println m)
      | PruneAction destination \<Rightarrow>
          map_option (\<lambda>(r, m').
            case r of
              Inl e \<Rightarrow> (Inl e, m')
            | Inr _ \<Rightarrow> (if rc_output c = TextOutput then println ''prune done'' m' else (Inr (), m')))
            (prune_downloaded_updates env destination m)
      | PushAction manifest_path reference changelog \<Rightarrow>
          Some (sbind (on_sys (push_update_with_feedback env
                  \<lparr>pq_reference = reference, pq_manifest_path = manifest_path, pq_changelog_path = changelog,
                   pq_credentials = credentials c, pq_client_protocol = protocol\<rparr> feedback)) (\<lambda>result.
                println (''pushed: '' @ ps_reference result @ '' manifest_url='' @ ps_manifest_url result @
                  '' digest='' @ ps_digest result)) m))"

end
