(* ===== verification/Oci_Properties.thy ===== *)
theory Oci_Properties
  imports Oci_Push Oci_Cli "HOL-Library.Code_Target_Nat"
begin

text \<open>
  Properties of the update registry: pulling, pruning, pushing and discovering updates, and the
  progress that is reported meanwhile. The examples are a repository with one update, a
  registry that serves it, and a disk with three downloads.
\<close>

section \<open>Examples\<close>

lemma fst_collapse: "fst p = x \<Longrightarrow> p = (x, snd p)"
  by auto

text \<open>References are a repository and a tag.\<close>

definition rx_api :: "(string \<times> string) ref_api" where
  "rx_api =
     \<lparr>ra_parse = (\<lambda>s. ok_or (map_option (\<lambda>(r, t). (snd (the (split_once CHR ''/'' r)), t)) (rsplit_once CHR '':'' s)) (Msg ''invalid'')),
      ra_registry = (\<lambda>_. ''reg''), ra_repository = fst, ra_tag = (\<lambda>(_, t). Some t), ra_digest = (\<lambda>_. None),
      ra_show = (\<lambda>(r, t). ''reg/'' @ r @ '':'' @ t)\<rparr>"

definition rx_file :: "string \<Rightarrow> string \<Rightarrow> manifest_file" where
  "rx_file n h = \<lparr>mf_name = n, mf_sha256sum = h, mf_unpacked_size = None\<rparr>"

definition rx_manifest :: manifest where
  "rx_manifest =
     \<lparr>mn_meta = [], mn_manifest_version = 1, mn_system = None, mn_version = ''2.0'',
      mn_root_verity_hash = ''fedcba9876543210'', mn_kernel = rx_file ''k.efi'' ''KK'',
      mn_store = rx_file ''img/root'' ''RR'', mn_verity = rx_file ''verity'' ''VV''\<rparr>"

definition rx_descriptor :: "media_type \<Rightarrow> string \<Rightarrow> oci_descriptor" where
  "rx_descriptor mt bytes =
     \<lparr>od_media_type = media_type_str mt, od_digest = ''sha256:'' @ bytes, od_size = int (length bytes), od_annotations = None\<rparr>"

definition rx_image :: oci_image_manifest where
  "rx_image =
     \<lparr>om_schema_version = 2, om_media_type = None, om_config = rx_descriptor MediaManifest ''J'',
      om_layers = [rx_descriptor MediaUki ''KK'', rx_descriptor MediaRoot ''RR'', rx_descriptor MediaVerity ''VV'']\<rparr>"

text \<open>A registry whose blobs come in two chunks; \<open>fires\<close> says that the token fires in between.\<close>

definition rx_client :: "bool \<Rightarrow> (string \<times> string, nat) oci_client" where
  "rx_client fires =
     \<lparr>oc_list_tags = (\<lambda>_ _ n. (Some (False, Inr [''v1'', ''v2'']), n + 1)),
      oc_pull_manifest_and_config = (\<lambda>r _ n. (if snd r = ''v1'' then None else Some (False, Inr (rx_image, ''sha256:M'', ''J'')), n + 1)),
      oc_auth = (\<lambda>_ _ _ n. ((False, Inr ()), n + 1)),
      oc_pull_blob_stream = (\<lambda>_ d n.
        ((False, Inr (None, [Chunk (take 1 (drop 7 (od_digest d)))] @ (if fires then [TokenFired []] else []) @
                            [Chunk (drop 8 (od_digest d))])), n + 1)),
      oc_push_blob_stream = (\<lambda>_ cs _ _ n. ((length cs, Inr ''loc''), n + 1)),
      oc_push_blob = (\<lambda>_ _ _ n. (Inr ''loc'', n + 1)), oc_push_manifest = (\<lambda>_ _ n. (Inr ''url'', n + 1))\<rparr>"

definition rx_env :: "bool \<Rightarrow> (string \<times> string, nat, unit) oci_env" where
  "rx_env fires =
     \<lparr>oe_ref = rx_api, oe_client = (\<lambda>_. rx_client fires), oe_crypto = \<lparr>cr_sha256 = (\<lambda>b. b), cr_hex = (\<lambda>b. b)\<rparr>,
      oe_faults = \<lparr>df_error = (\<lambda>_ _. None), df_removed = (\<lambda>_ _. False)\<rparr>,
      oe_parse = (\<lambda>s. if s = ''J'' then Inr rx_manifest else Inl (Msg ''no'')), oe_json = (\<lambda>_. Inr ''J''),
      oe_utf8 = (\<lambda>_. True), oe_late = (\<lambda>_. False),
      oe_lock = \<lparr>le_io = (\<lambda>_. True), le_hostname = None, le_pid = 7, le_handle = 1\<rparr>,
      oe_cmdline = (\<lambda>_. Inr []), oe_bootctl = (\<lambda>_. Inr []), oe_lvs = (\<lambda>_. Inr []), oe_escape = (\<lambda>s. s),
      oe_shell = (\<lambda>_ s. (Some 0, s))\<rparr>"

definition rx_disk :: "(fs_path \<times> node) list \<Rightarrow> (fs_path \<Rightarrow> nat option) \<Rightarrow> disk" where
  "rx_disk ns mt = \<lparr>dk_cwd = [], dk_nodes = ([], DirNode) # ns, dk_mtime = mt, dk_now = None\<rparr>"

definition rx_machine :: "disk \<Rightarrow> (nat, unit) oci_machine" where
  "rx_machine d =
     \<lparr>mc_locks = \<lparr>lf_dir = (\<lambda>_. None), lf_next = 0, lf_held = (\<lambda>_. None), lf_text = (\<lambda>_. [])\<rparr>, mc_out = [],
      mc_sys = \<lparr>os_disk = d, os_events = [], os_net = 0, os_sys = ()\<rparr>\<rparr>"

definition rx_options :: "(string \<times> string) pull_options" where
  "rx_options =
     \<lparr>po_reference = Tagged (''ghaf/img'', ''v2''), po_destination_root = ''/dl'', po_credentials = Anonymous,
      po_client_protocol = Https, po_install = False, po_validate = True\<rparr>"

abbreviation (input) rx_start :: "(nat, unit) oci_machine" where
  "rx_start \<equiv> rx_machine (rx_disk [] (\<lambda>_. None))"

definition rx_pull :: "bool \<Rightarrow> pull_result result \<times> (nat, unit) oci_machine" where
  "rx_pull fires = pull_update (rx_env fires) rx_options (Some (\<lambda>_. True)) True rx_start"

definition rx_result :: pull_result where
  "rx_result = \<lparr>pu_output_dir = ''/dl/ghaf/img/v2'', pu_manifest_path = ''/dl/ghaf/img/v2/manifest.json''\<rparr>"

lemma rx_pulled: "pull_update (rx_env False) rx_options (Some (\<lambda>_. True)) True rx_start = (Inr rx_result, snd (rx_pull False))"
proof -
  have "fst (rx_pull False) = Inr rx_result" by code_simp
  then show ?thesis unfolding rx_pull_def by (rule fst_collapse)
qed

lemma rx_cancelled:
  "pull_update (rx_env True) rx_options (Some (\<lambda>_. True)) True rx_start = (Inl (Msg ''pull cancelled''), snd (rx_pull True))"
proof -
  have "fst (rx_pull True) = Inl (Msg ''pull cancelled'')" by code_simp
  then show ?thesis unfolding rx_pull_def by (rule fst_collapse)
qed

lemma rx_tag: "tag_or_digest (oe_ref (rx_env b)) (po_reference rx_options) = Inr ''v2''"
  by (cases b) code_simp+

lemma rx_reference: "plain_reference (oe_ref (rx_env b)) (po_reference rx_options) ''v2''"
proof -
  have "plain_path ''ghaf/img''"
    using plain_pathI [of "[''ghaf'', ''img'']"] by (simp add: plain_name_def)
  then show ?thesis
    by (simp add: plain_reference_def rx_tag) (simp add: rx_env_def rx_api_def rx_options_def sanitize_path_component_def plain_name_def)
qed

section \<open>Pulling\<close>

text \<open>
  C34. A pull writes only into its output directory. Whatever the registry sends, a pull that does
  not install changes no entry outside the directory of the repository and tag, except that
  missing directories on the way to it are made, and that directory lies below the
  destination.
\<close>

theorem pull_stays_in_output_dir:
  assumes "\<not> po_install options" and "plain_reference (oe_ref env) (po_reference options) tag"
  shows "kept_outside (locate (os_disk (mc_sys m)) (pull_output_dir env options tag)) (os_disk (mc_sys m))
      (os_disk (mc_sys (snd (pull_update env options feedback ct m)))) \<and>
    below (locate (os_disk (mc_sys m)) (po_destination_root options)) (locate (os_disk (mc_sys m)) (pull_output_dir env options tag))"
  using pull_update_kept [OF assms] by (simp add: locate_output_dir [OF assms(2)])

theorem pull_stays_in_output_dir_witness:
  "\<not> po_install rx_options \<and>
   kept_outside [''dl'', ''ghaf'', ''img'', ''v2''] (os_disk (mc_sys rx_start)) (os_disk (mc_sys (snd (rx_pull False)))) \<and>
   lookup_node (os_disk (mc_sys (snd (rx_pull False)))) [''dl'', ''ghaf'', ''img'', ''v2'', ''img'', ''root''] = Some (FileNode ''RR'')"
proof -
  have "\<not> po_install rx_options" by (simp add: rx_options_def)
  moreover have "locate (os_disk (mc_sys rx_start)) (pull_output_dir (rx_env False) rx_options ''v2'') = [''dl'', ''ghaf'', ''img'', ''v2'']"
    by code_simp
  moreover have "lookup_node (os_disk (mc_sys (snd (rx_pull False)))) [''dl'', ''ghaf'', ''img'', ''v2'', ''img'', ''root''] = Some (FileNode ''RR'')"
    by code_simp
  ultimately show ?thesis
    using pull_stays_in_output_dir [OF _ rx_reference [of False], where feedback = "Some (\<lambda>_. True)" and ct = True and m = rx_start]
    by (simp add: rx_pull_def)
qed

text \<open>
  C35. A validated pull leaves what its manifest describes: the manifest, with normalised names, in
  \<open>manifest.json\<close>, and below the output directory the three files it names, with the digests it
  states, whatever chunks they came in and however the names of the layers overlap.
\<close>

theorem pull_validated_files:
  assumes "pull_update env options feedback ct m = (Inr r, m')" and "po_validate options" and "\<not> po_install options"
  shows "\<exists>x j tag. tag_or_digest (oe_ref env) (po_reference options) = Inr tag \<and>
    pu_output_dir r = pull_output_dir env options tag \<and>
    pu_manifest_path r = path_join (pu_output_dir r) ''manifest.json'' \<and>
    normalize_paths x = Inr x \<and> oe_json env x = Inr j \<and>
    lookup_node (os_disk (mc_sys m')) (locate (os_disk (mc_sys m')) (pu_manifest_path r)) = Some (FileNode j) \<and>
    (\<forall>f \<in> {mn_kernel x, mn_store x, mn_verity x}. \<exists>c.
       lookup_node (os_disk (mc_sys m')) (locate (os_disk (mc_sys m')) (file_full_name (pu_output_dir r) f)) = Some (FileNode c) \<and>
       cr_sha256 (oe_crypto env) c = mf_sha256sum f)"
  by (rule pull_update_validated [OF assms])

theorem pull_validated_files_witness:
  "\<exists>x j tag. tag_or_digest (oe_ref (rx_env False)) (po_reference rx_options) = Inr tag \<and>
    pu_output_dir rx_result = pull_output_dir (rx_env False) rx_options tag \<and>
    normalize_paths x = Inr x \<and> oe_json (rx_env False) x = Inr j \<and>
    lookup_node (os_disk (mc_sys (snd (rx_pull False))))
      (locate (os_disk (mc_sys (snd (rx_pull False)))) (pu_manifest_path rx_result)) = Some (FileNode j)"
proof -
  have "po_validate rx_options" "\<not> po_install rx_options" by (simp_all add: rx_options_def)
  from pull_validated_files [OF rx_pulled this] show ?thesis by blast
qed

text \<open>
  C36. A pull that reports that it was cancelled has cleaned up: when the removal of the output
  directory does not fail, nothing is left in it, neither files already complete nor the one
  that was being written.
\<close>

theorem pull_cancelled_cleans:
  assumes "pull_update env options feedback ct m = (Inl (Msg ''pull cancelled''), m')"
    and "\<not> po_install options" and "tag_or_digest (oe_ref env) (po_reference options) = Inr tag"
    and "df_error (oe_faults env) RemoveDirAll (locate (os_disk (mc_sys m)) (pull_output_dir env options tag)) = None"
    and "below (locate (os_disk (mc_sys m)) (pull_output_dir env options tag)) q"
  shows "lookup_node (os_disk (mc_sys m')) q = None"
  by (rule pull_update_cancelled [OF assms])

theorem pull_cancelled_cleans_witness:
  "lookup_node (os_disk (mc_sys (snd (rx_pull True)))) [''dl'', ''ghaf'', ''img'', ''v2'', ''k.efi.part''] = None \<and>
   EvCancelled ''blob-download:sha256:KK'' \<in> set (os_events (mc_sys (snd (rx_pull True))))"
proof -
  let ?out = "locate (os_disk (mc_sys rx_start)) (pull_output_dir (rx_env True) rx_options ''v2'')"
  have i: "\<not> po_install rx_options" by (simp add: rx_options_def)
  have f: "df_error (oe_faults (rx_env True)) RemoveDirAll ?out = None" by (simp add: rx_env_def)
  have o: "?out = [''dl'', ''ghaf'', ''img'', ''v2'']" by code_simp
  have "below ?out [''dl'', ''ghaf'', ''img'', ''v2'', ''k.efi.part'']" unfolding o by (simp add: below_def)
  from pull_cancelled_cleans [OF rx_cancelled i rx_tag f this]
  have "lookup_node (os_disk (mc_sys (snd (rx_pull True)))) [''dl'', ''ghaf'', ''img'', ''v2'', ''k.efi.part''] = None" .
  moreover have "list_ex (\<lambda>e. e = EvCancelled ''blob-download:sha256:KK'') (os_events (mc_sys (snd (rx_pull True))))" by code_simp
  ultimately show ?thesis by (auto simp: list_ex_iff)
qed

section \<open>Progress\<close>





text \<open>
  C40. The loop \<open>emit_due\<close> ends exactly when nothing is due, or when the reporter has a step and the
  counter is not at the largest value of its type: from there on the saturating addition
  makes no progress.
\<close>

theorem emit_due_terminates:
  assumes "pr_next_report_at r \<le> u64_max"
  shows "(\<exists>vs r'. emit_due current r = Some (vs, r')) \<longleftrightarrow>
    current < pr_next_report_at r \<or> 0 < pr_step r \<and> current < u64_max"
proof (cases "current < pr_next_report_at r")
  case True
  then show ?thesis by (subst emit_due.simps) simp
next
  case False
  show ?thesis
  proof (cases "0 < pr_step r \<and> current < u64_max")
    case True
    then show ?thesis using emit_due_returns by blast
  next
    case stuck: False
    then have "emit_due current r \<noteq> Some z" for z
      using emit_due_stuck [of current r z] False assms by auto
    then show ?thesis using stuck False by auto
  qed
qed

theorem emit_due_terminates_witness:
  "(\<exists>vs r'. emit_due 25 (progress_reporter_new 10) = Some (vs, r')) \<and>
   \<not> (\<exists>vs r'. emit_due u64_max (progress_reporter_new 10) = Some (vs, r'))"
  using emit_due_terminates [of "progress_reporter_new 10" 25] emit_due_terminates [of "progress_reporter_new 10" u64_max]
  by (simp add: progress_reporter_new_def u64_max_def)

section \<open>Pruning\<close>

text \<open>
  C33. Pruning ends on every disk and removes what it should. When it succeeds, exactly the
  entries below outdated downloads are gone: those beyond the two changed last in a directory
  that holds downloads and is reached through directories that hold none. Without faults, and with the
  lock free, it succeeds and frees the lock again. Of a directory's downloads two remain, or all
  if there are fewer, and none of them is older than one that was removed.
\<close>

theorem prune_keeps_two_newest:
  assumes "disk_ok (os_disk (mc_sys m))" and "lock_fs_ok (mc_locks m)"
  shows "\<exists>r m'. prune_downloaded_updates env root m = Some (r, m') \<and>
    (r = Inr () \<and> lookup_node (os_disk (mc_sys m)) (locate (os_disk (mc_sys m)) root) \<noteq> None \<longrightarrow>
      (\<forall>q. lookup_node (os_disk (mc_sys m')) q =
         (if outdated (os_disk (mc_sys m)) (locate (os_disk (mc_sys m)) root) q then None
          else lookup_node (os_disk (mc_sys m)) q))) \<and>
    ((\<forall>op k. df_error (oe_faults env) op k = None) \<and> (\<forall>op. le_io (oe_lock env) op) \<and>
     lock_free (path_join root ''.ota-update.lock'') (mc_locks m) \<and>
     lookup_node (os_disk (mc_sys m)) (locate (os_disk (mc_sys m)) root) = Some DirNode \<longrightarrow>
      r = Inr () \<and> lock_free (path_join root ''.ota-update.lock'') (mc_locks m')) \<and>
    (\<forall>k. let kept = set (tag_dirs (os_disk (mc_sys m)) k) - set (stale_dirs (os_disk (mc_sys m)) k) in
       card kept = min 2 (length (tag_dirs (os_disk (mc_sys m)) k)) \<and>
       (\<forall>t \<in> set (stale_dirs (os_disk (mc_sys m)) k). \<forall>s \<in> kept.
          dk_mtime (os_disk (mc_sys m)) t \<le> dk_mtime (os_disk (mc_sys m)) s))"
proof -
  let ?d = "os_disk (mc_sys m)" and ?p = "path_join root ''.ota-update.lock''"
  have kept: "let kept = set (tag_dirs ?d k) - set (stale_dirs ?d k) in
      card kept = min 2 (length (tag_dirs ?d k)) \<and> (\<forall>t \<in> set (stale_dirs ?d k). \<forall>s \<in> kept. dk_mtime ?d t \<le> dk_mtime ?d s)" for k
    unfolding Let_def kept_by_age [OF assms(1)] using kept_newer [of _ ?d k] card_kept [OF assms(1), of k] by auto
  obtain r d' where loop: "prune_loop (oe_faults env) [root] ?d = Some (r, d')"
    and pr: "prunes (oe_faults env) [locate ?d root] ?d (r, d')"
    using prune_loop_prunes [OF assms(1), of "[root]" "oe_faults env"] by (auto simp: apart_def)
  consider (fault) e where "path_exists (oe_faults env) root ?d = Inl e" "\<not> (\<forall>op k. df_error (oe_faults env) op k = None)"
    | (none) "path_exists (oe_faults env) root ?d = Inr False" "lookup_node ?d (locate ?d root) = None"
    | (dir) "path_exists (oe_faults env) root ?d = Inr True"
    by (cases "path_exists (oe_faults env) root ?d")
       (auto simp: path_exists_def result_simps disk_fault_def split: option.splits)
  then show ?thesis
  proof cases
    case fault
    then show ?thesis using kept by (intro exI [of _ "Inl e"] exI [of _ m]) (simp add: prune_downloaded_updates_def)
  next
    case none
    then show ?thesis using kept by (intro exI [of _ "Inr ()"] exI [of _ m]) (simp add: prune_downloaded_updates_def)
  next
    case dir
    obtain ra fs where a: "acquire (le_io (oe_lock env)) (le_hostname (oe_lock env)) (le_pid (oe_lock env)) (le_handle (oe_lock env))
        ?p ''registry-prune'' (mc_locks m) = (ra, fs)" by fastforce
    show ?thesis
    proof (cases ra)
      case (Inl e)
      then have "\<not> ((\<forall>op. le_io (oe_lock env) op) \<and> lock_free ?p (mc_locks m))"
        using acquire_Inr [OF assms(2)] a by (metis Pair_inject sum.distinct(1))
      then show ?thesis using kept dir a Inl
        by (intro exI [of _ "Inl e"] exI [of _ "m\<lparr>mc_locks := fs\<rparr>"]) (auto simp: prune_downloaded_updates_def machine_acquire_def)
    next
      case (Inr l)
      have "lock_free ?p (drop_lock l fs)" using drop_lock_free(2) [of l fs] acquire_held(3) a Inr by metis
      then show ?thesis using kept dir a Inr loop pr
        by (intro exI [of _ r] exI [of _ "m\<lparr>mc_sys := (mc_sys m)\<lparr>os_disk := d'\<rparr>, mc_locks := drop_lock l fs\<rparr>"])
           (simp add: prune_downloaded_updates_def machine_acquire_def prunes_def)
    qed
  qed
qed

definition rx_downloads :: "(nat, unit) oci_machine" where
  "rx_downloads =
     rx_machine (rx_disk
       ([([''dl''], DirNode), ([''dl'', ''img''], DirNode)] @
        concat (map (\<lambda>t. [([''dl'', ''img'', t], DirNode), ([''dl'', ''img'', t, ''manifest.json''], FileNode ''J'')]) [''v1'', ''v3'', ''v2'']))
       [[''dl'', ''img'', ''v1''] \<mapsto> 1, [''dl'', ''img'', ''v2''] \<mapsto> 2, [''dl'', ''img'', ''v3''] \<mapsto> 3])"

theorem prune_keeps_two_newest_witness:
  "\<exists>m'. prune_downloaded_updates (rx_env False) ''/dl'' rx_downloads = Some (Inr (), m') \<and>
     lookup_node (os_disk (mc_sys m')) [''dl'', ''img'', ''v1'', ''manifest.json''] = None \<and>
     lock_free ''/dl/.ota-update.lock'' (mc_locks m')"
proof -
  let ?d = "os_disk (mc_sys rx_downloads)"
  have ok: "disk_ok ?d" by code_simp
  have lock: "lock_fs_ok (mc_locks rx_downloads)" "lock_free ''/dl/.ota-update.lock'' (mc_locks rx_downloads)"
    by (simp_all add: rx_downloads_def rx_machine_def lock_fs_ok_def lock_free_def)
  have at: "locate ?d ''/dl'' = [''dl'']" "lookup_node ?d [''dl''] = Some DirNode"
    "path_join ''/dl'' ''.ota-update.lock'' = ''/dl/.ota-update.lock''" by code_simp+
  have env: "df_error (oe_faults (rx_env False)) op k = None" "le_io (oe_lock (rx_env False)) io" for op k io
    by (simp_all add: rx_env_def)
  have "tag_dirs ?d [''dl''] = []" "child_dirs ?d [''dl''] = [[''dl'', ''img'']]" by code_simp+
  then have v: "visited ?d [''dl''] [''dl'', ''img'']" by (intro visited_child [OF _ _ visited_self]) simp_all
  have st: "stale_dirs ?d [''dl'', ''img''] = [[''dl'', ''img'', ''v1'']]" by code_simp
  have "below [''dl'', ''img'', ''v1''] [''dl'', ''img'', ''v1'', ''manifest.json'']" by (simp add: below_def)
  with v have "outdated ?d [''dl''] [''dl'', ''img'', ''v1'', ''manifest.json'']"
    unfolding outdated_def
    by (intro exI [of _ "[''dl'', ''img'']"] exI [of _ "[''dl'', ''img'', ''v1'']"] conjI) (simp_all only: st list.set insertI1)
  note outdated = this
  from prune_keeps_two_newest [OF ok lock(1), of "rx_env False" "''/dl''", unfolded at]
  obtain r m' where run: "prune_downloaded_updates (rx_env False) ''/dl'' rx_downloads = Some (r, m')"
    and spec: "r = Inr () \<and> Some DirNode \<noteq> None \<longrightarrow> (\<forall>q. lookup_node (os_disk (mc_sys m')) q =
         (if outdated ?d [''dl''] q then None else lookup_node ?d q))"
    and ok: "(\<forall>op k. df_error (oe_faults (rx_env False)) op k = None) \<and> (\<forall>op. le_io (oe_lock (rx_env False)) op) \<and>
     lock_free ''/dl/.ota-update.lock'' (mc_locks rx_downloads) \<and> Some DirNode = Some DirNode \<longrightarrow>
      r = Inr () \<and> lock_free ''/dl/.ota-update.lock'' (mc_locks m')"
    by (elim exE conjE) (rule that)
  from ok env lock(2) have "r = Inr ()" "lock_free ''/dl/.ota-update.lock'' (mc_locks m')" by simp_all
  with spec outdated run show ?thesis by (intro exI [of _ m']) simp
qed

section \<open>Pushing\<close>

text \<open>
  C38. What a push uploads, a pull selects. The manifest that a successful push stores describes the
  layers so that a pull of it binds the kernel, the root image, the verity image and the changelog
  to the names of the manifest and of the changelog file, each with the digest of the file that
  was pushed.
\<close>

theorem pushed_layers_are_selected:
  assumes "push_inputs base_dir x changelog = Inr inputs"
    and "push_layers_and_config client api cr f reference creds inputs config MediaManifest feedback s = (Inr url, s')"
  shows "\<exists>om n n' bs. oc_push_manifest client reference om n = (Inr url, n') \<and>
    od_digest (om_config om) = digest_of cr config \<and>
    select_artifact_bindings x (ri_layers (remote_image_of api reference (om, dg, config))) = Inr bs \<and>
    list_all2 (\<lambda>i b. ab_kind b = li_media_type i \<and>
      (\<exists>c. lookup_node (os_disk s) (locate (os_disk s) (li_path i)) = Some (FileNode c) \<and> ab_digest b = digest_of cr c)) inputs bs \<and>
    map ab_local_name bs = [mf_name (mn_kernel x), mf_name (mn_store x), mf_name (mn_verity x)] @
      (case changelog of None \<Rightarrow> [] | Some p \<Rightarrow> [the (path_file_name p)])"
proof -
  obtain om n n' where om: "oc_push_manifest client reference om n = (Inr url, n')" "od_digest (om_config om) = digest_of cr config"
    "list_all2 (describes cr (os_disk s)) inputs (om_layers om)"
    using push_layers_and_config_Inr [OF assms(2)] by blast
  have layers: "ri_layers (remote_image_of api reference (om, dg, config)) = map blob_from_descriptor (om_layers om)"
    by (simp add: remote_image_of_def)
  obtain bs where bs: "select_artifact_bindings x (map blob_from_descriptor (om_layers om)) = Inr bs"
    "list_all2 (\<lambda>i b. ab_kind b = li_media_type i \<and>
      (\<exists>c. lookup_node (os_disk s) (locate (os_disk s) (li_path i)) = Some (FileNode c) \<and> ab_digest b = digest_of cr c)) inputs bs"
    "map ab_local_name bs = [mf_name (mn_kernel x), mf_name (mn_store x), mf_name (mn_verity x)] @
      (case changelog of None \<Rightarrow> [] | Some p \<Rightarrow> [the (path_file_name p)])"
    using select_pushed [OF assms(1) om(3)] by blast
  show ?thesis
    by (rule exI [of _ om], rule exI [of _ n], rule exI [of _ n'], rule exI [of _ bs])
       (intro conjI om(1,2) bs bs(1) [folded layers])
qed

definition rx_push_state :: "(nat, unit) oci_state" where
  "rx_push_state = mc_sys (rx_machine (rx_disk
     [([''s''], DirNode), ([''s'', ''k.efi''], FileNode ''KK''), ([''s'', ''img''], DirNode), ([''s'', ''img'', ''root''], FileNode ''RR''),
      ([''s'', ''verity''], FileNode ''VV''), ([''s'', ''NEWS''], FileNode ''changes'')] (\<lambda>_. None)))"

definition rx_inputs :: "layer_input list" where
  "rx_inputs =
     map (\<lambda>(p, t, mt). \<lparr>li_path = p, li_media_type = mt, li_annotations = Some [image_title \<mapsto> t]\<rparr>)
       [(''/s/k.efi'', ''k.efi'', MediaUki), (''/s/img/root'', ''root'', MediaRoot), (''/s/verity'', ''verity'', MediaVerity),
        (''/s/NEWS'', ''NEWS'', MediaChangelog)]"

lemma rx_inputs_pushed: "push_inputs ''/s'' rx_manifest (Some ''/s/NEWS'') = Inr rx_inputs"
proof -
  have sane: "sanitize_relative_file_path n = Inr n" if "plain_name n" for n
    using that by (simp add: sanitize_normalize normalize_relative_path_plain plain_name_path)
  have s: "sanitize_relative_file_path ''k.efi'' = Inr ''k.efi''" "sanitize_relative_file_path ''root'' = Inr ''root''"
    "sanitize_relative_file_path ''verity'' = Inr ''verity''" "sanitize_relative_file_path ''NEWS'' = Inr ''NEWS''"
    by (rule sane, simp add: plain_name_def)+
  have f1: "path_file_name ''/s/k.efi'' = Some ''k.efi''" by code_simp
  have f2: "path_file_name ''/s/img/root'' = Some ''root''" by code_simp
  have f3: "path_file_name ''/s/verity'' = Some ''verity''" by code_simp
  have f4: "path_file_name ''/s/NEWS'' = Some ''NEWS''" by code_simp
  have n1: "file_full_name ''/s'' (mn_kernel rx_manifest) = ''/s/k.efi''" by code_simp
  have n2: "file_full_name ''/s'' (mn_store rx_manifest) = ''/s/img/root''" by code_simp
  have n3: "file_full_name ''/s'' (mn_verity rx_manifest) = ''/s/verity''" by code_simp
  show ?thesis
    unfolding push_inputs_def n1 n2 n3 layer_input_with_title_def changelog_layer_def f1 f2 f3 f4
    by (simp add: f4 s rx_inputs_def)
qed

theorem pushed_layers_are_selected_witness:
  "\<exists>om n n' bs. oc_push_manifest (rx_client False) (''ghaf/img'', ''v2'') om n = (Inr ''url'', n') \<and>
    od_digest (om_config om) = digest_of (oe_crypto (rx_env False)) ''J'' \<and>
    select_artifact_bindings rx_manifest (ri_layers (remote_image_of rx_api (''ghaf/img'', ''v2'') (om, ''M'', ''J''))) = Inr bs \<and>
    list_all2 (\<lambda>i b. ab_kind b = li_media_type i \<and>
      (\<exists>c. lookup_node (os_disk rx_push_state) (locate (os_disk rx_push_state) (li_path i)) = Some (FileNode c) \<and>
           ab_digest b = digest_of (oe_crypto (rx_env False)) c)) rx_inputs bs \<and>
    map ab_local_name bs = [mf_name (mn_kernel rx_manifest), mf_name (mn_store rx_manifest), mf_name (mn_verity rx_manifest)] @
      (case Some ''/s/NEWS'' of None \<Rightarrow> [] | Some p \<Rightarrow> [the (path_file_name p)])"
proof -
  let ?run = "push_layers_and_config (rx_client False) rx_api (oe_crypto (rx_env False)) (oe_faults (rx_env False)) (''ghaf/img'', ''v2'')
      Anonymous rx_inputs ''J'' MediaManifest (Some (\<lambda>_. True)) rx_push_state"
  have "fst ?run = Inr ''url''" by code_simp
  then have run: "?run = (Inr ''url'', snd ?run)" by (rule fst_collapse)
  show ?thesis by (rule pushed_layers_are_selected [OF rx_inputs_pushed run])
qed

section \<open>Discovering\<close>





end
