(* ===== verification/Common_Types.thy ===== *)
theory Common_Types
  imports Codec
begin

text \<open>
  The types of the crate \<open>givc-common\<close> (\<open>types.rs\<close>, \<open>address.rs\<close>) and their wire forms:
  unit types and their numbers, the status of a systemd unit, and the endpoint of an
  agent with its \<open>TransportConfig\<close> message. The messages of the generated protobuf code
  are records with the fields of the \<open>.proto\<close> files.
\<close>

section \<open>Unit types\<close>

datatype vm_type = Host | AdmVM | SysVM | AppVM

datatype service_type = Mgr | Svc | App | VM

record unit_type =
  ut_vm :: vm_type
  ut_service :: service_type

abbreviation unit_ty :: "vm_type \<Rightarrow> service_type \<Rightarrow> unit_type" where
  "unit_ty v s \<equiv> \<lparr>ut_vm = v, ut_service = s\<rparr>"

definition unit_type_try_from :: "u32 \<Rightarrow> unit_type result" where
  "unit_type_try_from value =
     (if value = 0 then Inr (unit_ty Host Mgr)
      else if value = 1 then Inr (unit_ty Host Svc)
      else if value = 2 then Inr (unit_ty Host App)
      else if value = 3 then Inr (unit_ty AdmVM VM)
      else if value = 4 then Inr (unit_ty AdmVM Mgr)
      else if value = 5 then Inr (unit_ty AdmVM Svc)
      else if value = 6 then Inr (unit_ty AdmVM App)
      else if value = 7 then Inr (unit_ty SysVM VM)
      else if value = 8 then Inr (unit_ty SysVM Mgr)
      else if value = 9 then Inr (unit_ty SysVM Svc)
      else if value = 10 then Inr (unit_ty SysVM App)
      else if value = 11 then Inr (unit_ty AppVM VM)
      else if value = 12 then Inr (unit_ty AppVM Mgr)
      else if value = 13 then Inr (unit_ty AppVM Svc)
      else if value = 14 then Inr (unit_ty AppVM App)
      else Inl (Msg (''Unknown u32 value for UnitType: '' @ show_nat (unat value))))"

definition u32_from_unit_type :: "unit_type \<Rightarrow> u32" where
  "u32_from_unit_type val =
     (case ut_vm val of
        Host \<Rightarrow> (case ut_service val of Mgr \<Rightarrow> 0 | Svc \<Rightarrow> 1 | App \<Rightarrow> 2 | VM \<Rightarrow> 100500)
      | AdmVM \<Rightarrow> (case ut_service val of VM \<Rightarrow> 3 | Mgr \<Rightarrow> 4 | Svc \<Rightarrow> 5 | App \<Rightarrow> 6)
      | SysVM \<Rightarrow> (case ut_service val of VM \<Rightarrow> 7 | Mgr \<Rightarrow> 8 | Svc \<Rightarrow> 9 | App \<Rightarrow> 10)
      | AppVM \<Rightarrow> (case ut_service val of VM \<Rightarrow> 11 | Mgr \<Rightarrow> 12 | Svc \<Rightarrow> 13 | App \<Rightarrow> 14))"

text \<open>The combination the source's comment calls illegal.\<close>

definition legal_unit_type :: "unit_type \<Rightarrow> bool" where
  "legal_unit_type t = (\<not> (ut_vm t = Host \<and> ut_service t = VM))"

interpretation ut: codec u32_from_unit_type "\<lambda>n. result_ok (unit_type_try_from n)" legal_unit_type
proof unfold_locales
  fix t
  assume "legal_unit_type t"
  then show "result_ok (unit_type_try_from (u32_from_unit_type t)) = Some t"
    by (cases t; cases "ut_vm t"; cases "ut_service t")
      (simp_all add: legal_unit_type_def u32_from_unit_type_def unit_type_try_from_def)
next
  fix n t
  assume "result_ok (unit_type_try_from n) = Some t"
  then show "legal_unit_type t \<and> u32_from_unit_type t = n"
    by (simp add: unit_type_try_from_def split: if_splits)
      (auto simp: legal_unit_type_def u32_from_unit_type_def)
qed

text \<open>\<open>EnumString\<close> and \<open>Display\<close> of the two enums: the variant's name.\<close>

fun vm_type_to_string :: "vm_type \<Rightarrow> string" where
  "vm_type_to_string Host = ''Host''"
| "vm_type_to_string AdmVM = ''AdmVM''"
| "vm_type_to_string SysVM = ''SysVM''"
| "vm_type_to_string AppVM = ''AppVM''"

definition vm_type_from_str :: "string \<Rightarrow> vm_type option" where
  "vm_type_from_str s =
     (if s = ''Host'' then Some Host else if s = ''AdmVM'' then Some AdmVM
      else if s = ''SysVM'' then Some SysVM else if s = ''AppVM'' then Some AppVM else None)"

fun service_type_to_string :: "service_type \<Rightarrow> string" where
  "service_type_to_string Mgr = ''Mgr''"
| "service_type_to_string Svc = ''Svc''"
| "service_type_to_string App = ''App''"
| "service_type_to_string VM = ''VM''"

definition service_type_from_str :: "string \<Rightarrow> service_type option" where
  "service_type_from_str s =
     (if s = ''Mgr'' then Some Mgr else if s = ''Svc'' then Some Svc
      else if s = ''App'' then Some App else if s = ''VM'' then Some VM else None)"

interpretation vt: codec vm_type_to_string vm_type_from_str "\<lambda>_. True"
proof unfold_locales
  fix t
  show "vm_type_from_str (vm_type_to_string t) = Some t"
    by (cases t) (simp_all add: vm_type_from_str_def)
qed (auto simp: vm_type_from_str_def split: if_splits)

interpretation st: codec service_type_to_string service_type_from_str "\<lambda>_. True"
proof unfold_locales
  fix t
  show "service_type_from_str (service_type_to_string t) = Some t"
    by (cases t) (simp_all add: service_type_from_str_def)
qed (auto simp: service_type_from_str_def split: if_splits)

section \<open>Unit status\<close>

record unit_status =
  us_name :: string
  us_description :: string
  us_load_state :: string
  us_active_state :: string
  us_sub_state :: string
  us_path :: string
  us_freezer_state :: string

definition is_paused :: "unit_status \<Rightarrow> bool" where
  "is_paused u = (us_freezer_state u = ''frozen'')"

definition is_running :: "unit_status \<Rightarrow> bool" where
  "is_running u =
     (\<not> is_paused u \<and> us_active_state u = ''active'' \<and> us_load_state u = ''loaded'' \<and>
      us_sub_state u = ''running'')"

definition is_exitted :: "unit_status \<Rightarrow> bool" where
  "is_exitted u = (us_active_state u = ''inactive'' \<and> us_sub_state u = ''dead'')"

definition is_valid :: "unit_status \<Rightarrow> bool" where
  "is_valid u =
     (us_freezer_state u \<in> {''frozen'', ''running'', ''freezing'', ''thawing'',
        ''frozen-by-parent'', ''freezing-by-parent''} \<and>
      us_load_state u \<in> {''stub'', ''loaded'', ''not-found'', ''bad-setting'', ''merged'', ''masked''} \<and>
      us_active_state u \<in> {''active'', ''reloading'', ''inactive'', ''failed'', ''activating'',
        ''deactivating'', ''maintenance'', ''refreshing''} \<and>
      us_sub_state u \<in> {''dead'', ''running'', ''exitted''})"

text \<open>The message \<open>pb::systemd::UnitStatus\<close> has the same seven fields.\<close>

record pb_unit_status =
  pus_name :: string
  pus_description :: string
  pus_load_state :: string
  pus_active_state :: string
  pus_sub_state :: string
  pus_path :: string
  pus_freezer_state :: string

definition unit_status_try_from :: "pb_unit_status \<Rightarrow> unit_status result" where
  "unit_status_try_from us = Inr
     \<lparr>us_name = pus_name us, us_description = pus_description us,
      us_load_state = pus_load_state us, us_active_state = pus_active_state us,
      us_sub_state = pus_sub_state us, us_path = pus_path us,
      us_freezer_state = pus_freezer_state us\<rparr>"

definition pb_from_unit_status :: "unit_status \<Rightarrow> pb_unit_status" where
  "pb_from_unit_status val =
     \<lparr>pus_name = us_name val, pus_description = us_description val,
      pus_load_state = us_load_state val, pus_active_state = us_active_state val,
      pus_sub_state = us_sub_state val, pus_path = us_path val,
      pus_freezer_state = us_freezer_state val\<rparr>"

lemma running_not_exitted: "is_running u \<Longrightarrow> \<not> is_exitted u \<and> \<not> is_paused u"
  by (auto simp: is_running_def is_exitted_def)

interpretation us: codec pb_from_unit_status "\<lambda>p. result_ok (unit_status_try_from p)" "\<lambda>_. True"
  by unfold_locales (auto simp: pb_from_unit_status_def unit_status_try_from_def)

section \<open>Endpoints\<close>

text \<open>A \<open>VsockAddr\<close> of the crate \<open>tokio-vsock\<close> is a context id and a port.\<close>

datatype endpoint_address =
    Tcp string u16
  | Unix string
  | Abstract string
  | Vsock u32 u32

record endpoint_entry =
  ee_address :: endpoint_address
  ee_tls_name :: string

record pb_transport_config =
  tc_protocol :: string
  tc_address :: string
  tc_port :: string
  tc_name :: string

definition endpoint_entry_try_from :: "pb_transport_config \<Rightarrow> endpoint_entry result" where
  "endpoint_entry_try_from tc =
     rbind
      (if tc_protocol tc = ''tcp'' then
         rbind (ok_or (parse_u16 (tc_port tc)) (Msg ''invalid port'')) (\<lambda>port.
           Inr (Tcp (tc_address tc) port))
       else if tc_protocol tc = ''unix'' then Inr (Unix (tc_address tc))
       else if tc_protocol tc = ''abstract'' then Inr (Abstract (tc_address tc))
       else if tc_protocol tc = ''vsock'' then
         rbind (ok_or (parse_u32 (tc_address tc)) (Msg ''invalid cid'')) (\<lambda>cid.
           rbind (ok_or (parse_u32 (tc_port tc)) (Msg ''invalid port'')) (\<lambda>port.
             Inr (Vsock cid port)))
       else Inl (Msg (''Unknown protocol: '' @ tc_protocol tc)))
      (\<lambda>endpoint. Inr \<lparr>ee_address = endpoint, ee_tls_name = tc_name tc\<rparr>)"

definition transport_config_from :: "endpoint_entry \<Rightarrow> pb_transport_config" where
  "transport_config_from val =
     (case ee_address val of
        Tcp addr port \<Rightarrow>
          \<lparr>tc_protocol = ''tcp'', tc_address = addr, tc_port = show_nat (unat port), tc_name = ee_tls_name val\<rparr>
      | Unix unix \<Rightarrow>
          \<lparr>tc_protocol = ''unix'', tc_address = unix, tc_port = [], tc_name = ee_tls_name val\<rparr>
      | Abstract abstr \<Rightarrow>
          \<lparr>tc_protocol = ''abstract'', tc_address = abstr, tc_port = [], tc_name = ee_tls_name val\<rparr>
      | Vsock cid port \<Rightarrow>
          \<lparr>tc_protocol = ''vsock'', tc_address = show_nat (unat cid), tc_port = show_nat (unat port),
           tc_name = ee_tls_name val\<rparr>)"

interpretation ee: printer transport_config_from "\<lambda>c. result_ok (endpoint_entry_try_from c)" "\<lambda>_. True"
proof unfold_locales
  fix e
  show "result_ok (endpoint_entry_try_from (transport_config_from e)) = Some e"
    by (cases e; cases "ee_address e")
      (simp_all add: transport_config_from_def endpoint_entry_try_from_def)
qed

end
