(* ===== verification/Query.thy ===== *)
theory Query
  imports Common_Types
begin

text \<open>
  The results of the query and watch API (\<open>crates/common/src/query.rs\<close>): \<open>QueryResult\<close>
  and its message \<open>QueryListItem\<close>, \<open>Event\<close> and its message \<open>WatchItem\<close>. Both pairs of
  conversions are interpretations of the codec interfaces.
\<close>

datatype vm_status = Running | PoweredOff | Paused

datatype trust_level = Secure | Warning | NotSecure

fun vm_status_to_string :: "vm_status \<Rightarrow> string" where
  "vm_status_to_string Running = ''Running''"
| "vm_status_to_string PoweredOff = ''PoweredOff''"
| "vm_status_to_string Paused = ''Paused''"

definition vm_status_from_str :: "string \<Rightarrow> vm_status option" where
  "vm_status_from_str s =
     (if s = ''Running'' then Some Running else if s = ''PoweredOff'' then Some PoweredOff
      else if s = ''Paused'' then Some Paused else None)"

fun trust_level_to_string :: "trust_level \<Rightarrow> string" where
  "trust_level_to_string Secure = ''Secure''"
| "trust_level_to_string Warning = ''Warning''"
| "trust_level_to_string NotSecure = ''NotSecure''"

definition trust_level_from_str :: "string \<Rightarrow> trust_level option" where
  "trust_level_from_str s =
     (if s = ''Secure'' then Some Secure else if s = ''Warning'' then Some Warning
      else if s = ''NotSecure'' then Some NotSecure else None)"

interpretation vs: codec vm_status_to_string vm_status_from_str "\<lambda>_. True"
proof unfold_locales
  fix t
  show "vm_status_from_str (vm_status_to_string t) = Some t"
    by (cases t) (simp_all add: vm_status_from_str_def)
qed (auto simp: vm_status_from_str_def split: if_splits)

interpretation tl: codec trust_level_to_string trust_level_from_str "\<lambda>_. True"
proof unfold_locales
  fix t
  show "trust_level_from_str (trust_level_to_string t) = Some t"
    by (cases t) (simp_all add: trust_level_from_str_def)
qed (auto simp: trust_level_from_str_def split: if_splits)

section \<open>Query results\<close>

record query_result =
  qr_name :: string
  qr_description :: string
  qr_status :: vm_status
  qr_trust_level :: trust_level
  qr_vm_type :: vm_type
  qr_service_type :: service_type
  qr_vm_name :: "string option"
  qr_agent_name :: "string option"

record query_list_item =
  qli_name :: string
  qli_description :: string
  qli_vm_status :: string
  qli_trust_level :: string
  qli_vm_type :: string
  qli_service_type :: string
  qli_vm_name :: "string option"
  qli_agent_name :: "string option"

text \<open>The parse error of \<open>strum\<close>, under the context the conversion adds.\<close>

definition parse_enum :: "(string \<Rightarrow> 'a option) \<Rightarrow> string \<Rightarrow> string \<Rightarrow> 'a result" where
  "parse_enum from_str field s =
     with_context (''While parsing '' @ field @ '' '' @ s)
       (ok_or (from_str s) (Msg ''Matching variant not found''))"

lemma parse_enum_Inr [simp]: "parse_enum f field s = Inr x \<longleftrightarrow> f s = Some x"
  by (auto simp: parse_enum_def)

definition query_result_try_from :: "query_list_item \<Rightarrow> query_result result" where
  "query_result_try_from item =
     rbind (parse_enum vm_status_from_str ''vm_status'' (qli_vm_status item)) (\<lambda>status.
     rbind (parse_enum trust_level_from_str ''trust_level'' (qli_trust_level item)) (\<lambda>trust_level.
     rbind (parse_enum vm_type_from_str ''vm_type'' (qli_vm_type item)) (\<lambda>vm_type.
     rbind (parse_enum service_type_from_str ''service_type'' (qli_service_type item)) (\<lambda>service_type.
       Inr \<lparr>qr_name = qli_name item, qr_description = qli_description item, qr_status = status,
            qr_trust_level = trust_level, qr_vm_type = vm_type, qr_service_type = service_type,
            qr_vm_name = qli_vm_name item, qr_agent_name = qli_agent_name item\<rparr>))))"

definition query_list_item_from :: "query_result \<Rightarrow> query_list_item" where
  "query_list_item_from val =
     \<lparr>qli_name = qr_name val, qli_description = qr_description val,
      qli_vm_status = vm_status_to_string (qr_status val),
      qli_trust_level = trust_level_to_string (qr_trust_level val),
      qli_vm_type = vm_type_to_string (qr_vm_type val),
      qli_service_type = service_type_to_string (qr_service_type val),
      qli_vm_name = qr_vm_name val, qli_agent_name = qr_agent_name val\<rparr>"

lemma query_result_try_from_Inr:
  "query_result_try_from i = Inr q \<longleftrightarrow> query_list_item_from q = i"
  by (cases i; cases q)
    (auto simp: query_result_try_from_def query_list_item_from_def result_simps vs.parse_Some_iff
       tl.parse_Some_iff vt.parse_Some_iff st.parse_Some_iff vs.print_inject tl.print_inject
       vt.print_inject st.print_inject)

interpretation qr: codec query_list_item_from "\<lambda>i. result_ok (query_result_try_from i)" "\<lambda>_. True"
  by unfold_locales (auto simp: query_result_try_from_Inr)

definition parse_list :: "query_list_item list \<Rightarrow> query_result list result" where
  "parse_list items = rmap_list query_result_try_from items"

lemma parse_list_items: "parse_list (map query_list_item_from qs) = Inr qs"
  using rmap_list_cong_Inr [of qs "query_result_try_from \<circ> query_list_item_from" id]
  by (simp add: parse_list_def rmap_list_map query_result_try_from_Inr)

section \<open>Events\<close>

datatype event =
    UnitStatusChanged query_result
  | UnitRegistered query_result
  | UnitShutdown query_result

datatype watch_status =
    Initial "query_list_item list"
  | Added query_list_item
  | Updated query_list_item
  | Removed query_list_item

record watch_item =
  wi_status :: "watch_status option"

definition into_initial :: "query_result list \<Rightarrow> watch_item" where
  "into_initial items = \<lparr>wi_status = Some (Initial (map query_list_item_from items))\<rparr>"

definition event_try_from :: "watch_item \<Rightarrow> event result" where
  "event_try_from item =
     (case wi_status item of
        Some (Initial _) \<Rightarrow> Inl (Msg ''Unexpected repeated Status::Initial'')
      | Some (Added value) \<Rightarrow> rbind (query_result_try_from value) (\<lambda>q. Inr (UnitRegistered q))
      | Some (Updated value) \<Rightarrow> rbind (query_result_try_from value) (\<lambda>q. Inr (UnitStatusChanged q))
      | Some (Removed value) \<Rightarrow> rbind (query_result_try_from value) (\<lambda>q. Inr (UnitShutdown q))
      | None \<Rightarrow> Inl (Msg ''WatchItem missing''))"

fun watch_item_from :: "event \<Rightarrow> watch_item" where
  "watch_item_from (UnitRegistered value) = \<lparr>wi_status = Some (Added (query_list_item_from value))\<rparr>"
| "watch_item_from (UnitStatusChanged value) = \<lparr>wi_status = Some (Updated (query_list_item_from value))\<rparr>"
| "watch_item_from (UnitShutdown value) = \<lparr>wi_status = Some (Removed (query_list_item_from value))\<rparr>"

interpretation ev: codec watch_item_from "\<lambda>i. result_ok (event_try_from i)" "\<lambda>_. True"
proof unfold_locales
  fix e
  show "result_ok (event_try_from (watch_item_from e)) = Some e"
    by (cases e) (simp_all add: event_try_from_def result_simps query_result_try_from_Inr)
next
  fix i e
  assume "result_ok (event_try_from i) = Some e"
  then show "True \<and> watch_item_from e = i"
    by (cases i; cases "wi_status i"; cases "the (wi_status i)")
      (auto simp: event_try_from_def result_simps query_result_try_from_Inr)
qed

end
