(* ===== verification/Naming.thy ===== *)
theory Naming
  imports Common_Types
begin

text \<open>
  Names of systemd units (\<open>crates/admin/src/utils/naming.rs\<close>) and vsock addresses
  (\<open>utils/vsock.rs\<close>). A VM runs as \<open>microvm@<vm>.service\<close>, its agent is registered as
  \<open>givc-<vm>.service\<close>, an application instance is \<open><app>@<number>.service\<close>.
\<close>

datatype vm_name = Vm string | AppVm string

fun vm_name_display :: "vm_name \<Rightarrow> string" where
  "vm_name_display (Vm vm) = vm"
| "vm_name_display (AppVm app) = app @ ''-vm''"

definition agent_service :: "vm_name \<Rightarrow> string" where
  "agent_service v = ''givc-'' @ vm_name_display v @ ''.service''"

definition vm_service :: "vm_name \<Rightarrow> string" where
  "vm_service v = ''microvm@'' @ vm_name_display v @ ''.service''"

definition parse_vm_name :: "string \<Rightarrow> string option" where
  "parse_vm_name name = Option.bind (strip_prefix ''microvm@'' name) (strip_suffix ''.service'')"

definition parse_application_name :: "string \<Rightarrow> (string \<times> int) result" where
  "parse_application_name name =
     (case Option.bind (strip_suffix ''.service'' name) (rsplit_once CHR ''@'') of
        Some (left, right) \<Rightarrow>
          rbind (with_context (''While parsing number part of '' @ name)
                   (ok_or (parse_i32 right) (Msg ''invalid number''))) (\<lambda>num.
            Inr (left, num))
      | None \<Rightarrow> Inl (Msg (''App name '' @ name @ '' not it app@<number>.service format'')))"

text \<open>The name \<open>Registry::create_unique_entry_name\<close> and the application manager give an instance.\<close>

definition application_service :: "string \<times> int \<Rightarrow> string" where
  "application_service a = fst a @ ''@'' @ show_i32 (snd a) @ ''.service''"

definition vsock_cid :: "u32 \<Rightarrow> u32 \<Rightarrow> string \<Rightarrow> u32 result" where
  "vsock_cid cid_local cid_host cid =
     (if cid = ''local'' then Inr cid_local
      else if cid = ''host'' then Inr cid_host
      else ok_or (parse_u32 cid) (Msg ''invalid cid''))"

definition parse_vsock_addr :: "u32 \<Rightarrow> u32 \<Rightarrow> string \<Rightarrow> (u32 \<times> u32) result" where
  "parse_vsock_addr cid_local cid_host addr =
     (case split_once CHR '':'' addr of
        Some (cid, port) \<Rightarrow>
          rbind (vsock_cid cid_local cid_host cid) (\<lambda>cid.
          rbind (ok_or (parse_u32 port) (Msg ''invalid port'')) (\<lambda>port.
            Inr (cid, port)))
      | None \<Rightarrow> Inl (Msg (''Address '' @ addr @ '' should be in CID:PORT format'')))"

section \<open>Round trips\<close>

text \<open>The VM of a VM service is the name the service was made of, and conversely.\<close>

interpretation vmn: codec "\<lambda>vm. vm_service (Vm vm)" parse_vm_name "\<lambda>_. True"
  by unfold_locales
    (auto simp: vm_service_def parse_vm_name_def strip_prefix_Some strip_suffix_Some bind_eq_Some_conv)

definition i32_range :: "int \<Rightarrow> bool" where
  "i32_range n = (- (2 ^ 31) \<le> n \<and> n < 2 ^ 31)"

interpretation appn: printer application_service
    "\<lambda>s. result_ok (parse_application_name s)" "\<lambda>a. i32_range (snd a)"
proof unfold_locales
  fix a :: "string \<times> int"
  assume a: "i32_range (snd a)"
  have "rsplit_once CHR ''@'' (fst a @ CHR ''@'' # show_i32 (snd a)) = Some (fst a, show_i32 (snd a))"
    by (simp add: rsplit_once_notin show_i32_def digit_not_in_show_nat)
  moreover have "strip_suffix ''.service'' (application_service a) = Some (fst a @ CHR ''@'' # show_i32 (snd a))"
    by (simp add: application_service_def strip_suffix_Some)
  moreover have "parse_i32 (show_i32 (snd a)) = Some (snd a)"
    using a by (simp add: i32_range_def parse_i32_show)
  ultimately show "result_ok (parse_application_name (application_service a)) = Some a"
    by (simp add: parse_application_name_def result_simps)
qed

end
