(* ===== verification/Entry.thy ===== *)
theory Entry
  imports Query Naming
begin

text \<open>
  Entries of the admin registry (\<open>crates/admin/src/admin/entry.rs\<close>): where a unit runs,
  which agent and which VM it belongs to, how a registration request becomes an entry
  and how an entry is reported.
\<close>

datatype placement =
    Endpoint endpoint_entry string
  | Managed string string
  | OnHost

text \<open>\<open>Endpoint endpoint vm\<close>, \<open>Managed vm by\<close>, and \<open>Placement::Host\<close>.\<close>

record registry_entry =
  re_name :: string
  re_type :: unit_type
  re_status :: unit_status
  re_placement :: placement
  re_watch :: bool

definition agent_name :: "registry_entry \<Rightarrow> string option" where
  "agent_name e =
     (case re_placement e of
        Endpoint _ _ \<Rightarrow> Some (re_name e)
      | Managed _ by \<Rightarrow> Some by
      | OnHost \<Rightarrow> None)"

definition entry_vm_name :: "registry_entry \<Rightarrow> string option" where
  "entry_vm_name e =
     (if ut_service (re_type e) = VM then parse_vm_name (re_name e)
      else (case re_placement e of
              Endpoint _ vm \<Rightarrow> Some vm
            | Managed vm _ \<Rightarrow> parse_vm_name vm
            | OnHost \<Rightarrow> None))"

definition agent :: "registry_entry \<Rightarrow> endpoint_entry result" where
  "agent e =
     (case re_placement e of
        Endpoint endpoint _ \<Rightarrow> Inr endpoint
      | Managed _ by \<Rightarrow> Inl (Msg (''Agent endpoint '' @ re_name e @ '' is managed by '' @ by @ ''!''))
      | OnHost \<Rightarrow> Inl (Msg ''Its a host!''))"

record registry_request =
  rr_name :: string
  rr_type :: u32
  rr_parent :: string
  rr_transport :: "pb_transport_config option"
  rr_state :: "pb_unit_status option"

definition registry_entry_try_from :: "registry_request \<Rightarrow> registry_entry result" where
  "registry_entry_try_from req =
     rbind (unit_type_try_from (rr_type req)) (\<lambda>ty.
     rbind (rbind (ok_or (rr_state req) (Msg ''status missing'')) unit_status_try_from) (\<lambda>status.
     rbind (rbind (ok_or (rr_transport req) (Msg ''endpoint missing'')) endpoint_entry_try_from) (\<lambda>endpoint.
       let watch = (ut_service ty = Mgr \<or> (ut_vm ty = AppVM \<and> ut_service ty \<noteq> Svc)) in
       Inr \<lparr>re_name = rr_name req, re_type = ty, re_status = status,
            re_placement = Endpoint endpoint (case parse_vm_name (rr_parent req) of Some vm \<Rightarrow> vm | None \<Rightarrow> []),
            re_watch = watch\<rparr>)))"

definition query_result_from :: "registry_entry \<Rightarrow> query_result" where
  "query_result_from val =
     \<lparr>qr_name = re_name val, qr_description = us_description (re_status val),
      qr_status = (if is_running (re_status val) then Running
                   else if is_paused (re_status val) then Paused else PoweredOff),
      qr_trust_level = Warning,
      qr_vm_type = ut_vm (re_type val), qr_service_type = ut_service (re_type val),
      qr_vm_name = entry_vm_name val, qr_agent_name = agent_name val\<rparr>"

text \<open>
  The placements the admin service creates: a registration gives an endpoint, an
  application it starts is managed, and nothing is ever placed on the host.
\<close>

definition placement_ok :: "registry_entry \<Rightarrow> bool" where
  "placement_ok e =
     (case re_placement e of
        Endpoint _ _ \<Rightarrow> True
      | Managed _ _ \<Rightarrow> re_type e = unit_ty AppVM App
      | OnHost \<Rightarrow> False)"

lemma query_result_from_name [simp]: "qr_name (query_result_from e) = re_name e"
  by (simp add: query_result_from_def)

lemma registry_entry_try_from_Inr:
  assumes "registry_entry_try_from req = Inr e"
  shows "re_name e = rr_name req" "rr_type req = u32_from_unit_type (re_type e)"
    "legal_unit_type (re_type e)" "\<exists>ep vm. re_placement e = Endpoint ep vm" "placement_ok e"
  using assms ut.print_parse
  by (auto simp: registry_entry_try_from_def result_simps Let_def placement_ok_def)

lemma placement_ok_mgr:
  "placement_ok e \<Longrightarrow> ut_service (re_type e) = Mgr \<Longrightarrow> \<exists>ep vm. re_placement e = Endpoint ep vm"
  by (auto simp: placement_ok_def split: placement.splits)

lemma placement_ok_agent_name: "placement_ok e \<Longrightarrow> agent_name e \<noteq> None"
  by (auto simp: placement_ok_def agent_name_def split: placement.splits)

end
