(* ===== verification/Hash_Map.thy ===== *)
theory Hash_Map
  imports Prelude "HOL-Library.AList"
begin

text \<open>
  The \<open>HashMap<String, V>\<close> of the source. Its contents are an association list with
  distinct keys whose order stands for the iteration order of the map, which Rust
  leaves unspecified: no property of the development depends on it. The locale
  \<open>hash_map\<close> is the interface the registry and the policy manager rely on, with the
  laws of the operations; the interpretation \<open>hm\<close> discharges them for the lists.
\<close>

section \<open>The operations\<close>

type_synonym 'v hash_map = "(string \<times> 'v) list"

definition hm_empty :: "'v hash_map" where
  "hm_empty = []"

definition hm_get :: "'v hash_map \<Rightarrow> string \<Rightarrow> 'v option" where
  "hm_get m = map_of m"

definition hm_insert :: "string \<Rightarrow> 'v \<Rightarrow> 'v hash_map \<Rightarrow> 'v hash_map" where
  "hm_insert k v m = AList.update k v m"

definition hm_remove :: "string \<Rightarrow> 'v hash_map \<Rightarrow> 'v hash_map" where
  "hm_remove k m = AList.delete k m"

text \<open>\<open>HashMap::extract_if\<close>: the entries taken out, and the map left behind.\<close>

definition hm_extract_if :: "(string \<Rightarrow> 'v \<Rightarrow> bool) \<Rightarrow> 'v hash_map \<Rightarrow> 'v hash_map \<times> 'v hash_map" where
  "hm_extract_if p m = (filter (\<lambda>(k, v). p k v) m, filter (\<lambda>(k, v). \<not> p k v) m)"

definition hm_values :: "'v hash_map \<Rightarrow> 'v list" where
  "hm_values m = map snd m"

definition hm_keys :: "'v hash_map \<Rightarrow> string list" where
  "hm_keys m = map fst m"

definition hm_contains_key :: "'v hash_map \<Rightarrow> string \<Rightarrow> bool" where
  "hm_contains_key m k = (hm_get m k \<noteq> None)"

definition hm_ok :: "'v hash_map \<Rightarrow> bool" where
  "hm_ok m = distinct (map fst m)"

lemmas hm_defs = hm_empty_def hm_get_def hm_insert_def hm_remove_def hm_extract_if_def
  hm_values_def hm_keys_def hm_contains_key_def hm_ok_def

section \<open>The interface\<close>

locale hash_map =
  fixes get :: "'m \<Rightarrow> 'k \<Rightarrow> 'v option"
    and insert :: "'k \<Rightarrow> 'v \<Rightarrow> 'm \<Rightarrow> 'm"
    and remove :: "'k \<Rightarrow> 'm \<Rightarrow> 'm"
    and extract_if :: "('k \<Rightarrow> 'v \<Rightarrow> bool) \<Rightarrow> 'm \<Rightarrow> 'm \<times> 'm"
    and vals :: "'m \<Rightarrow> 'v list"
    and ok :: "'m \<Rightarrow> bool"
  assumes get_insert: "ok m \<Longrightarrow> get (insert k v m) = (get m)(k \<mapsto> v)"
    and get_remove: "ok m \<Longrightarrow> get (remove k m) = (get m)(k := None)"
    and get_taken: "ok m \<Longrightarrow>
      get (fst (extract_if p m)) = (\<lambda>k. case get m k of Some v \<Rightarrow> if p k v then Some v else None | None \<Rightarrow> None)"
    and get_left: "ok m \<Longrightarrow>
      get (snd (extract_if p m)) = (\<lambda>k. case get m k of Some v \<Rightarrow> if p k v then None else Some v | None \<Rightarrow> None)"
    and set_vals: "ok m \<Longrightarrow> set (vals m) = ran (get m)"
    and ok_insert: "ok m \<Longrightarrow> ok (insert k v m)"
    and ok_remove: "ok m \<Longrightarrow> ok (remove k m)"
    and ok_extract: "ok m \<Longrightarrow> ok (fst (extract_if p m)) \<and> ok (snd (extract_if p m))"
begin

lemma dom_insert: "ok m \<Longrightarrow> dom (get (insert k v m)) = Set.insert k (dom (get m))"
  by (simp add: get_insert)

lemma dom_remove: "ok m \<Longrightarrow> dom (get (remove k m)) = dom (get m) - {k}"
  by (simp add: get_remove)

lemma insert_over: "ok m \<Longrightarrow> get (insert k v (insert k w m)) = get (insert k v m)"
  by (simp add: get_insert ok_insert)

lemma insert_commute:
  "ok m \<Longrightarrow> j \<noteq> k \<Longrightarrow> get (insert j v (insert k w m)) = get (insert k w (insert j v m))"
  by (simp add: get_insert ok_insert fun_upd_twist)

text \<open>A property of every value of the map: kept by an insertion of a value that has
  it, and by any removal.\<close>

lemma all_insert:
  "ok m \<Longrightarrow> \<forall>x \<in> ran (get m). P x \<Longrightarrow> P v \<Longrightarrow> \<forall>x \<in> ran (get (insert k v m)). P x"
  by (auto simp: get_insert ran_def split: if_splits)

lemma all_remove:
  "ok m \<Longrightarrow> \<forall>x \<in> ran (get m). P x \<Longrightarrow> \<forall>x \<in> ran (get (remove k m)). P x"
  by (auto simp: get_remove ran_def split: if_splits)

lemma all_left:
  "ok m \<Longrightarrow> \<forall>x \<in> ran (get m). P x \<Longrightarrow> \<forall>x \<in> ran (get (snd (extract_if p m))). P x"
  by (auto simp: get_left ran_def split: if_splits option.splits)

lemma in_vals_iff: "ok m \<Longrightarrow> v \<in> set (vals m) \<longleftrightarrow> (\<exists>k. get m k = Some v)"
  by (simp add: set_vals ran_def)

lemma get_left_None:
  "ok m \<Longrightarrow> get m k = Some v \<Longrightarrow> p k v \<Longrightarrow> get (snd (extract_if p m)) k = None"
  by (simp add: get_left)

lemma get_left_Some:
  "ok m \<Longrightarrow> get (snd (extract_if p m)) k = Some v \<longleftrightarrow> get m k = Some v \<and> \<not> p k v"
  by (auto simp: get_left split: option.splits)

end

section \<open>The association lists implement it\<close>

lemma map_of_filter_distinct:
  "distinct (map fst m) \<Longrightarrow>
     map_of (filter (\<lambda>(k, v). p k v) m) k =
       (case map_of m k of Some v \<Rightarrow> if p k v then Some v else None | None \<Rightarrow> None)"
  by (induction m) (auto split: option.splits simp: map_of_eq_None_iff image_iff)

lemma hm_ok_filter [simp]: "hm_ok m \<Longrightarrow> hm_ok (filter P m)"
  by (simp add: hm_ok_def distinct_map_filter)

lemma hm_ok_empty [simp]: "hm_ok hm_empty"
  by (simp add: hm_defs)

lemma hm_get_empty [simp]: "hm_get hm_empty = Map.empty"
  by (simp add: hm_defs fun_eq_iff)

lemma ran_map_of_distinct: "distinct (map fst m) \<Longrightarrow> ran (map_of m) = snd ` set m"
  by (rule ran_distinct)

interpretation hm: hash_map hm_get hm_insert hm_remove hm_extract_if hm_values hm_ok
proof unfold_locales
  fix m :: "'a hash_map" and k v p
  assume ok: "hm_ok m"
  show "hm_get (hm_insert k v m) = (hm_get m)(k \<mapsto> v)"
    by (simp add: hm_defs fun_eq_iff update_conv')
  show "hm_get (hm_remove k m) = (hm_get m)(k := None)"
    by (simp add: hm_defs fun_eq_iff delete_conv')
  show "hm_get (fst (hm_extract_if p m)) =
      (\<lambda>k. case hm_get m k of Some v \<Rightarrow> if p k v then Some v else None | None \<Rightarrow> None)"
    using ok by (simp add: hm_defs fun_eq_iff map_of_filter_distinct)
  show "hm_get (snd (hm_extract_if p m)) =
      (\<lambda>k. case hm_get m k of Some v \<Rightarrow> if p k v then None else Some v | None \<Rightarrow> None)"
    using ok map_of_filter_distinct [of m "\<lambda>k v. \<not> p k v"]
    by (auto simp: hm_defs fun_eq_iff split: option.splits)
  show "set (hm_values m) = ran (hm_get m)"
    using ok by (simp add: hm_defs ran_map_of_distinct)
  show "hm_ok (hm_insert k v m)"
    using ok by (simp add: hm_defs distinct_update)
  show "hm_ok (hm_remove k m)"
    using ok by (simp add: hm_defs distinct_delete)
  show "hm_ok (fst (hm_extract_if p m)) \<and> hm_ok (snd (hm_extract_if p m))"
    using ok by (simp add: hm_defs distinct_map_filter)
qed

lemma set_hm_keys: "set (hm_keys m) = dom (hm_get m)"
  by (simp add: hm_defs dom_map_of_conv_image_fst)

lemma finite_dom_hm_get [simp]: "finite (dom (hm_get m))"
  by (simp add: hm_get_def finite_dom_map_of)

lemma hm_ok_entries: "hm_ok m \<Longrightarrow> (k, v) \<in> set m \<longleftrightarrow> hm_get m k = Some v"
  by (simp add: hm_defs)

lemma hm_length_remove: "hm_ok m \<Longrightarrow> hm_get m k = Some v \<Longrightarrow> Suc (length (hm_remove k m)) = length m"
proof (induction m)
  case (Cons p m)
  show ?case
  proof (cases "fst p = k")
    case True
    with Cons.prems(1) have "hm_remove k m = m"
      by (auto simp: hm_defs delete_idem image_iff)
    with True show ?thesis by (cases p) (simp add: hm_defs AList.delete_eq)
  next
    case False
    with Cons show ?thesis by (cases p) (auto simp: hm_defs AList.delete_eq split: if_splits)
  qed
qed (simp add: hm_defs)

end
