(* ===== verification/Event_Log.thy ===== *)
theory Event_Log
  imports Prelude
begin

text \<open>
  The contract between a store and its subscribers: every operation appends to a log
  the events that carry its effect. An event sets or removes the value of one key, so
  replaying a log that overlaps a snapshot is harmless. The registry of the admin
  service is the interpretation.
\<close>

definition replay :: "('e \<Rightarrow> 'k) \<Rightarrow> ('e \<Rightarrow> 'v option) \<Rightarrow> 'e list \<Rightarrow> ('k \<Rightarrow> 'v option) \<Rightarrow> ('k \<Rightarrow> 'v option)" where
  "replay key val es m = fold (\<lambda>e m. m(key e := val e)) es m"

lemma replay_simps [simp]:
  "replay key val [] m = m"
  "replay key val (e # es) m = replay key val es (m(key e := val e))"
  "replay key val (es @ fs) m = replay key val fs (replay key val es m)"
  by (simp_all add: replay_def)

text \<open>Only the starting values of untouched keys matter.\<close>

lemma replay_untouched: "k \<notin> key ` set es \<Longrightarrow> replay key val es m k = m k"
  by (induction es arbitrary: m) auto

lemma replay_cong: "(k \<in> key ` set es \<or> m k = n k) \<Longrightarrow> replay key val es m k = replay key val es n k"
proof (induction es arbitrary: m n)
  case (Cons e es)
  have "k \<in> key ` set es \<or> (m(key e := val e)) k = (n(key e := val e)) k"
    using Cons.prems by auto
  then show ?case
    by (simp only: replay_simps) (rule Cons.IH)
qed simp

lemma replay_idem: "replay key val es (replay key val es m) = replay key val es m"
proof
  fix k
  show "replay key val es (replay key val es m) k = replay key val es m k"
    by (rule replay_cong, cases "k \<in> key ` set es") (simp_all add: replay_untouched)
qed

locale event_log =
  fixes view :: "'s \<Rightarrow> 'k \<Rightarrow> 'v option"
    and log :: "'s \<Rightarrow> 'e list"
    and step :: "'op \<Rightarrow> 's \<Rightarrow> 's"
    and ok :: "'s \<Rightarrow> bool"
    and key :: "'e \<Rightarrow> 'k"
    and val :: "'e \<Rightarrow> 'v option"
  assumes step_ok: "ok s \<Longrightarrow> ok (step op s)"
    and step_log: "ok s \<Longrightarrow>
      \<exists>es. log (step op s) = log s @ es \<and> view (step op s) = replay key val es (view s)"
begin

lemma fold_ok: "ok s \<Longrightarrow> ok (fold step ops s)"
  by (induction ops arbitrary: s) (auto simp: step_ok)

lemma fold_log:
  "ok s \<Longrightarrow> \<exists>es. log (fold step ops s) = log s @ es \<and>
     view (fold step ops s) = replay key val es (view s)"
proof (induction ops arbitrary: s)
  case (Cons op ops)
  obtain es where es: "log (step op s) = log s @ es" "view (step op s) = replay key val es (view s)"
    using step_log [OF Cons.prems] by blast
  obtain fs where "log (fold step ops (step op s)) = log (step op s) @ fs"
    "view (fold step ops (step op s)) = replay key val fs (view (step op s))"
    using Cons.IH step_ok [OF Cons.prems] by blast
  with es show ?case by (auto intro!: exI [of _ "es @ fs"])
qed simp

text \<open>
  A subscription takes its place in the log at \<open>s\<close>, the snapshot is taken at the later
  state \<open>t\<close>: the events from the place in the log, replayed over the snapshot, give the
  store's contents at every later state.
\<close>

lemma subscription_converges:
  assumes "ok s" and t: "t = fold step ops s" and u: "u = fold step ops' t"
  shows "replay key val (drop (length (log s)) (log u)) (view t) = view u"
proof -
  obtain es where es: "log t = log s @ es" "view t = replay key val es (view s)"
    using fold_log [OF \<open>ok s\<close>] t by blast
  have "ok t" using \<open>ok s\<close> t by (simp add: fold_ok)
  then obtain fs where fs: "log u = log t @ fs" "view u = replay key val fs (view t)"
    using fold_log u by blast
  show ?thesis using es fs by (simp add: replay_idem)
qed

end

end
