(* ===== verification/Registry.thy ===== *)
theory Registry
  imports Entry Hash_Map Event_Log
begin

text \<open>
  The registry of the admin service (\<open>crates/admin/src/admin/registry.rs\<close>): the map from
  names to entries behind a mutex, and the broadcast channel of its changes. Every
  operation takes the lock for its whole body, so it is one atomic step on the record
  below. The channel is the list of the events sent so far; a receiver is a position in
  it. The flag \<open>rg_locked\<close> is the mutex as seen by the closures that \<open>find_map\<close> and
  \<open>filter_map\<close> run while they hold it: \<open>std::sync::Mutex\<close> is not reentrant, so a second
  \<open>lock\<close> in the same thread deadlocks or panics.
\<close>

record registry =
  rg_map :: "registry_entry hash_map"
  rg_log :: "event list"
  rg_locked :: bool

definition registry_new :: registry where
  "registry_new = \<lparr>rg_map = hm_empty, rg_log = [], rg_locked = False\<rparr>"

section \<open>Operations\<close>

definition send_event :: "event \<Rightarrow> registry \<Rightarrow> registry" where
  "send_event ev r = r\<lparr>rg_log := rg_log r @ [ev]\<rparr>"

definition register :: "registry_entry \<Rightarrow> registry \<Rightarrow> registry" where
  "register entry r =
     (let ev = UnitRegistered (query_result_from entry);
          old = hm_get (rg_map r) (re_name entry);
          r = r\<lparr>rg_map := hm_insert (re_name entry) entry (rg_map r)\<rparr>;
          r = (case old of Some old \<Rightarrow> send_event (UnitShutdown (query_result_from old)) r | None \<Rightarrow> r)
      in send_event ev r)"

text \<open>The entries that go with \<open>name\<close>: those of the agent, and those of the VM.\<close>

definition depends_on :: "string \<Rightarrow> registry_entry \<Rightarrow> bool" where
  "depends_on name re =
     (agent_name re = Some name \<or>
      (case (entry_vm_name re, parse_vm_name name) of (Some a, Some b) \<Rightarrow> a = b | _ \<Rightarrow> False))"

definition deregister :: "string \<Rightarrow> registry \<Rightarrow> unit result \<times> registry" where
  "deregister name r =
     (case hm_get (rg_map r) name of
        Some entry \<Rightarrow>
          let (taken, left) = hm_extract_if (\<lambda>_ re. depends_on name re) (hm_remove name (rg_map r));
              r = fold (\<lambda>e. send_event (UnitShutdown (query_result_from e))) (hm_values taken)
                    (r\<lparr>rg_map := left\<rparr>)
          in (Inr (), send_event (UnitShutdown (query_result_from entry)) r)
      | None \<Rightarrow> (Inl (Msg (''Can't deregister entry '' @ name @ '', it not registered'')), r))"

definition by_name :: "string \<Rightarrow> registry \<Rightarrow> registry_entry result" where
  "by_name name r =
     (if rg_locked r then Inl (Panic ''mutex already locked by this thread'')
      else ok_or (hm_get (rg_map r) name) (NotRegistered name))"

definition find_names :: "string \<Rightarrow> registry \<Rightarrow> string list result" where
  "find_names name r =
     (let list = filter (starts_with name) (hm_keys (rg_map r)) in
      if list = [] then Inl (Msg (''No entries match string '' @ name)) else Inr list)"

text \<open>
  The closures of the next two run with the mutex held. A closure that panics ends the
  operation; \<open>ok_or_panic\<close> is \<open>Result::ok\<close>, which drops an error but not a panic.
\<close>

fun ok_or_panic :: "'a result \<Rightarrow> 'a option result" where
  "ok_or_panic (Inl (Panic p)) = Inl (Panic p)"
| "ok_or_panic (Inl _) = Inr None"
| "ok_or_panic (Inr x) = Inr (Some x)"

fun find_map_list :: "('a \<Rightarrow> 'b option result) \<Rightarrow> 'a list \<Rightarrow> 'b option result" where
  "find_map_list f [] = Inr None"
| "find_map_list f (x # xs) =
     rbind (f x) (\<lambda>y. case y of Some y \<Rightarrow> Inr (Some y) | None \<Rightarrow> find_map_list f xs)"

definition registry_find_map ::
  "(registry \<Rightarrow> registry_entry \<Rightarrow> 'a option result) \<Rightarrow> registry \<Rightarrow> 'a option result" where
  "registry_find_map f r = find_map_list (f (r\<lparr>rg_locked := True\<rparr>)) (hm_values (rg_map r))"

definition registry_filter_map ::
  "(registry \<Rightarrow> registry_entry \<Rightarrow> 'a option result) \<Rightarrow> registry \<Rightarrow> 'a list result" where
  "registry_filter_map f r =
     rbind (rmap_list (f (r\<lparr>rg_locked := True\<rparr>)) (hm_values (rg_map r))) (\<lambda>ys.
       Inr (List.map_filter id ys))"

definition by_type_many :: "unit_type \<Rightarrow> registry \<Rightarrow> registry_entry list" where
  "by_type_many ty r = filter (\<lambda>x. re_type x = ty) (hm_values (rg_map r))"

definition by_type :: "unit_type \<Rightarrow> registry \<Rightarrow> registry_entry result" where
  "by_type ty r =
     (case by_type_many ty r of
        [] \<Rightarrow> Inl (Msg ''No service registered for'')
      | [e] \<Rightarrow> Inr e
      | _ \<Rightarrow> Inl (Msg ''More than one unique services registered''))"

definition registry_contains :: "string \<Rightarrow> registry \<Rightarrow> bool" where
  "registry_contains name r = hm_contains_key (rg_map r) name"

text \<open>
  \<open>create_unique_entry_name\<close> counts in an \<open>i32\<close>, whose overflow panics; the loop ends
  because the counter is bounded.
\<close>

function unique_name_loop :: "registry_entry hash_map \<Rightarrow> string \<Rightarrow> int \<Rightarrow> string result" where
  "unique_name_loop m name counter =
     (if \<not> hm_contains_key m (application_service (name, counter))
      then Inr (application_service (name, counter))
      else if counter + 1 \<ge> 2 ^ 31 then Inl (Panic ''attempt to add with overflow'')
      else unique_name_loop m name (counter + 1))"
  by pat_completeness auto
termination
  by (relation "measure (\<lambda>(m, name, counter). nat (2 ^ 31 - counter))") auto

declare unique_name_loop.simps [simp del]

definition create_unique_entry_name :: "string \<Rightarrow> registry \<Rightarrow> string result" where
  "create_unique_entry_name name r = unique_name_loop (rg_map r) name 0"

definition watch_list :: "registry \<Rightarrow> registry_entry list" where
  "watch_list r = filter re_watch (hm_values (rg_map r))"

definition update_state :: "string \<Rightarrow> unit_status \<Rightarrow> registry \<Rightarrow> unit result \<times> registry" where
  "update_state name status r =
     (case hm_get (rg_map r) name of
        Some e \<Rightarrow>
          let e = e\<lparr>re_status := status\<rparr> in
          (Inr (), send_event (UnitStatusChanged (query_result_from e))
                     (r\<lparr>rg_map := hm_insert name e (rg_map r)\<rparr>))
      | None \<Rightarrow> (Inl (Msg (''Can't update state for '' @ name @ '', is not registered'')), r))"

definition contents :: "registry \<Rightarrow> registry_entry list" where
  "contents r = hm_values (rg_map r)"

text \<open>
  \<open>subscribe\<close> first takes a receiver, whose place is the end of the channel at \<open>r0\<close>, and
  then the lock; other threads may change the registry in between, so the snapshot is
  taken in a later state \<open>r1\<close>.
\<close>

definition subscribe :: "registry \<Rightarrow> registry \<Rightarrow> query_result list \<times> nat" where
  "subscribe r0 r1 = (map query_result_from (hm_values (rg_map r1)), length (rg_log r0))"

section \<open>The invariant\<close>

definition registry_ok :: "registry \<Rightarrow> bool" where
  "registry_ok r =
     (hm_ok (rg_map r) \<and> (\<forall>(k, e) \<in> set (rg_map r). re_name e = k) \<and> \<not> rg_locked r)"

lemma registry_okD:
  assumes "registry_ok r"
  shows "hm_ok (rg_map r)" "hm_get (rg_map r) k = Some e \<Longrightarrow> re_name e = k" "\<not> rg_locked r"
  using assms by (auto simp: registry_ok_def hm_ok_entries [symmetric])

lemma registry_okI:
  assumes "hm_ok (rg_map r)" "\<And>k e. hm_get (rg_map r) k = Some e \<Longrightarrow> re_name e = k" "\<not> rg_locked r"
  shows "registry_ok r"
  using assms by (auto simp: registry_ok_def hm_ok_entries)

lemma send_event_simps [simp]:
  "rg_map (send_event ev r) = rg_map r"
  "rg_log (send_event ev r) = rg_log r @ [ev]"
  "rg_locked (send_event ev r) = rg_locked r"
  by (simp_all add: send_event_def)

lemma send_events_simps [simp]:
  "rg_map (fold (\<lambda>e. send_event (f e)) es r) = rg_map r"
  "rg_log (fold (\<lambda>e. send_event (f e)) es r) = rg_log r @ map f es"
  "rg_locked (fold (\<lambda>e. send_event (f e)) es r) = rg_locked r"
  by (induction es arbitrary: r) simp_all

lemma registry_new_ok [simp]: "registry_ok registry_new"
  by (simp add: registry_ok_def registry_new_def hm_empty_def hm_ok_def)

section \<open>What the operations do\<close>

lemma register_get:
  "registry_ok r \<Longrightarrow> hm_get (rg_map (register e r)) = (hm_get (rg_map r))(re_name e \<mapsto> e)"
  by (auto simp: register_def Let_def hm.get_insert registry_okD split: option.splits)

lemma register_ok [simp]: "registry_ok r \<Longrightarrow> registry_ok (register e r)"
  by (rule registry_okI)
    (auto simp: registry_okD register_def Let_def hm.ok_insert hm.get_insert
       split: option.splits if_splits)

lemma deregister_get:
  assumes "registry_ok r" and "hm_get (rg_map r) name = Some e"
  shows "hm_get (rg_map (snd (deregister name r))) n = Some d \<longleftrightarrow>
    hm_get (rg_map r) n = Some d \<and> n \<noteq> name \<and> \<not> depends_on name d"
  using assms
  by (auto simp: deregister_def Let_def split_beta hm.get_left_Some hm.get_remove hm.ok_remove
      registry_okD(1) split: if_splits)

lemma deregister_lookup:
  assumes "registry_ok r" and "hm_get (rg_map r) name = Some e"
  shows "hm_get (rg_map (snd (deregister name r))) n =
    (case hm_get (rg_map r) n of
       Some d \<Rightarrow> if n = name \<or> depends_on name d then None else Some d
     | None \<Rightarrow> None)"
  using assms
  by (simp add: deregister_def Let_def split_beta hm.get_left hm.get_remove hm.ok_remove
      registry_okD(1) split: option.split)

lemma deregister_None:
  "hm_get (rg_map r) name = None \<Longrightarrow> snd (deregister name r) = r \<and> \<not> is_ok (fst (deregister name r))"
  by (simp add: deregister_def)

lemma deregister_ok [simp]: "registry_ok r \<Longrightarrow> registry_ok (snd (deregister name r))"
proof (cases "hm_get (rg_map r) name")
  case (Some e)
  assume ok: "registry_ok r"
  show ?thesis
  proof (rule registry_okI)
    show "hm_ok (rg_map (snd (deregister name r)))"
      using ok Some by (simp add: deregister_def Let_def split_beta hm.ok_extract hm.ok_remove registry_okD)
    show "\<not> rg_locked (snd (deregister name r))"
      using ok Some by (simp add: deregister_def Let_def split_beta registry_okD)
  qed (use ok in \<open>auto simp: deregister_get [OF ok Some] registry_okD\<close>)
qed (simp add: deregister_None)

lemma update_state_get:
  "registry_ok r \<Longrightarrow> hm_get (rg_map (snd (update_state name st r))) =
     (case hm_get (rg_map r) name of
        Some e \<Rightarrow> (hm_get (rg_map r))(name \<mapsto> e\<lparr>re_status := st\<rparr>)
      | None \<Rightarrow> hm_get (rg_map r))"
  by (auto simp: update_state_def Let_def hm.get_insert registry_okD split: option.splits)

lemma update_state_ok [simp]: "registry_ok r \<Longrightarrow> registry_ok (snd (update_state name st r))"
  by (rule registry_okI)
    (auto simp: registry_okD update_state_def Let_def hm.ok_insert hm.get_insert
       split: option.splits if_splits)

text \<open>An entry property that does not look at the status is kept by every operation.\<close>

definition all_entries :: "(registry_entry \<Rightarrow> bool) \<Rightarrow> registry \<Rightarrow> bool" where
  "all_entries P r = list_all P (contents r)"

lemma all_entries_iff:
  "registry_ok r \<Longrightarrow> all_entries P r \<longleftrightarrow> (\<forall>n e. hm_get (rg_map r) n = Some e \<longrightarrow> P e)"
  by (auto simp: all_entries_def contents_def list_all_iff hm.in_vals_iff registry_okD)

lemma all_entries_register:
  "registry_ok r \<Longrightarrow> all_entries P r \<Longrightarrow> P e \<Longrightarrow> all_entries P (register e r)"
  by (simp add: all_entries_iff register_get)

lemma all_entries_deregister:
  "registry_ok r \<Longrightarrow> all_entries P r \<Longrightarrow> all_entries P (snd (deregister name r))"
  by (cases "hm_get (rg_map r) name") (auto simp: all_entries_iff deregister_get deregister_None)

lemma all_entries_update_state:
  "registry_ok r \<Longrightarrow> all_entries P r \<Longrightarrow> (\<And>e. P e \<Longrightarrow> P (e\<lparr>re_status := st\<rparr>)) \<Longrightarrow>
     all_entries P (snd (update_state name st r))"
  by (auto simp: all_entries_iff update_state_get split: option.splits if_splits)

section \<open>Subscriptions\<close>

datatype registry_op =
    Register registry_entry
  | Deregister string
  | Update_state string unit_status

fun registry_step :: "registry_op \<Rightarrow> registry \<Rightarrow> registry" where
  "registry_step (Register e) r = register e r"
| "registry_step (Deregister name) r = snd (deregister name r)"
| "registry_step (Update_state name st) r = snd (update_state name st r)"

text \<open>What a subscriber makes of an event, and what it should know of the registry.\<close>

fun event_name :: "event \<Rightarrow> string" where
  "event_name (UnitStatusChanged q) = qr_name q"
| "event_name (UnitRegistered q) = qr_name q"
| "event_name (UnitShutdown q) = qr_name q"

fun event_value :: "event \<Rightarrow> query_result option" where
  "event_value (UnitStatusChanged q) = Some q"
| "event_value (UnitRegistered q) = Some q"
| "event_value (UnitShutdown q) = None"

definition registry_view :: "registry \<Rightarrow> string \<Rightarrow> query_result option" where
  "registry_view r = (\<lambda>n. map_option query_result_from (hm_get (rg_map r) n))"

definition list_view :: "query_result list \<Rightarrow> string \<Rightarrow> query_result option" where
  "list_view qs = map_of (map (\<lambda>q. (qr_name q, q)) qs)"

abbreviation replay_events ::
  "event list \<Rightarrow> (string \<Rightarrow> query_result option) \<Rightarrow> string \<Rightarrow> query_result option" where
  "replay_events \<equiv> replay event_name event_value"

lemma replay_shutdowns:
  "replay_events (map (\<lambda>e. UnitShutdown (query_result_from e)) es) m n =
     (if n \<in> re_name ` set es then None else m n)"
  by (induction es arbitrary: m) auto

lemma register_log:
  "registry_ok r \<Longrightarrow>
     \<exists>es. rg_log (register e r) = rg_log r @ es \<and>
       registry_view (register e r) = replay_events es (registry_view r)"
  using registry_okD(2) [of r "re_name e"]
  by (cases "hm_get (rg_map r) (re_name e)")
    (auto simp: registry_view_def register_get fun_eq_iff, auto simp: register_def Let_def)

lemma update_state_log:
  "registry_ok r \<Longrightarrow>
     \<exists>es. rg_log (snd (update_state name st r)) = rg_log r @ es \<and>
       registry_view (snd (update_state name st r)) = replay_events es (registry_view r)"
proof (cases "hm_get (rg_map r) name")
  case (Some e)
  assume ok: "registry_ok r"
  then have n: "re_name e = name" using Some by (rule registry_okD)
  let ?ev = "UnitStatusChanged (query_result_from (e\<lparr>re_status := st\<rparr>))"
  have "registry_view (snd (update_state name st r)) = replay_events [?ev] (registry_view r)"
    using n Some by (auto simp: registry_view_def update_state_get [OF ok] fun_eq_iff)
  moreover have "rg_log (snd (update_state name st r)) = rg_log r @ [?ev]"
    using Some by (simp add: update_state_def Let_def)
  ultimately show ?thesis by blast
qed (simp add: update_state_def exI [of _ "[]"])

lemma deregister_log:
  assumes ok: "registry_ok r"
  shows "\<exists>es. rg_log (snd (deregister name r)) = rg_log r @ es \<and>
    registry_view (snd (deregister name r)) = replay_events es (registry_view r)"
proof (cases "hm_get (rg_map r) name")
  case (Some e)
  let ?x = "hm_extract_if (\<lambda>_ re. depends_on name re) (hm_remove name (rg_map r))"
  let ?es = "hm_values (fst ?x) @ [e]"
  have log: "rg_log (snd (deregister name r)) =
      rg_log r @ map (\<lambda>e. UnitShutdown (query_result_from e)) ?es"
    using Some by (simp add: deregister_def Let_def split_beta)
  have mok: "hm_ok (hm_remove name (rg_map r))"
    using ok by (simp add: hm.ok_remove registry_okD)
  have "d \<in> set (hm_values (fst ?x)) \<longleftrightarrow>
      (\<exists>n. hm_get (rg_map r) n = Some d \<and> n \<noteq> name \<and> depends_on name d)" for d
    using mok ok
    by (auto simp: hm.in_vals_iff hm.ok_extract hm.get_taken hm.get_remove registry_okD
        split: option.splits if_splits)
  then have names: "n \<in> re_name ` set ?es \<longleftrightarrow>
      n = name \<or> (\<exists>d. hm_get (rg_map r) n = Some d \<and> depends_on name d)" for n
    using registry_okD(2) [OF ok] Some by (auto simp: image_iff)
  have "registry_view (snd (deregister name r)) n =
      replay_events (map (\<lambda>e. UnitShutdown (query_result_from e)) ?es) (registry_view r) n" for n
    unfolding replay_shutdowns names registry_view_def deregister_lookup [OF ok Some]
    by (simp split: option.split)
  with log show ?thesis
    by (intro exI conjI) (assumption, simp only: fun_eq_iff, blast)
qed (simp add: deregister_def exI [of _ "[]"])

interpretation rgl: event_log registry_view rg_log registry_step registry_ok event_name event_value
proof unfold_locales
  fix r op
  assume "registry_ok r"
  then show "registry_ok (registry_step op r)"
    and "\<exists>es. rg_log (registry_step op r) = rg_log r @ es \<and>
      registry_view (registry_step op r) = replay_events es (registry_view r)"
    by (cases op; simp add: register_log deregister_log update_state_log)+
qed

lemma list_view_subscribe: "registry_ok r \<Longrightarrow> list_view (fst (subscribe r0 r)) = registry_view r"
proof
  fix n
  assume ok: "registry_ok r"
  have "map (\<lambda>q. (qr_name q, q)) (map query_result_from (hm_values (rg_map r))) =
      map (\<lambda>(k, e). (k, query_result_from e)) (rg_map r)"
    using ok by (auto simp: hm_values_def registry_ok_def)
  then show "list_view (fst (subscribe r0 r)) n = registry_view r n"
    by (simp add: list_view_def subscribe_def registry_view_def hm_get_def map_of_map)
qed

section \<open>Unique names\<close>

lemma unique_name_loop_Inr:
  "unique_name_loop m name c = Inr s \<Longrightarrow> c < 2 ^ 31 \<Longrightarrow>
     \<not> hm_contains_key m s \<and>
     (\<exists>n. c \<le> n \<and> n < 2 ^ 31 \<and> s = application_service (name, n) \<and>
       (\<forall>i. c \<le> i \<and> i < n \<longrightarrow> hm_contains_key m (application_service (name, i))))"
proof (induction m name c rule: unique_name_loop.induct)
  case (1 m name c)
  show ?case
  proof (cases "hm_contains_key m (application_service (name, c))")
    case True
    with 1 have r: "unique_name_loop m name (c + 1) = Inr s" "c + 1 < 2 ^ 31"
      by (auto simp: unique_name_loop.simps [of m name c] split: if_splits)
    with 1 True obtain n where n: "\<not> hm_contains_key m s" "c + 1 \<le> n" "n < 2 ^ 31"
      "s = application_service (name, n)"
      "\<forall>i. c + 1 \<le> i \<and> i < n \<longrightarrow> hm_contains_key m (application_service (name, i))"
      by auto
    have "hm_contains_key m (application_service (name, i))" if "c \<le> i" "i < n" for i
      using n(5) True that by (cases "i = c") auto
    with n show ?thesis by (intro conjI exI [of _ n]) auto
  next
    case False
    with 1 show ?thesis by (auto simp: unique_name_loop.simps [of m name c] intro: exI [of _ c])
  qed
qed

lemma unique_name_loop_Inl:
  "unique_name_loop m name c = Inl e \<Longrightarrow> c \<le> i \<Longrightarrow> i < 2 ^ 31 \<Longrightarrow>
     hm_contains_key m (application_service (name, i))"
proof (induction m name c rule: unique_name_loop.induct)
  case (1 m name c)
  then show ?case
    by (cases "i = c") (auto simp: unique_name_loop.simps [of m name c] split: if_splits)
qed

lemma unique_name_loop_total:
  assumes "length m < 2 ^ 31"
  shows "\<exists>s. unique_name_loop m name 0 = Inr s"
proof (rule ccontr)
  assume "\<not> ?thesis"
  then obtain e where e: "unique_name_loop m name 0 = Inl e"
    by (cases "unique_name_loop m name 0") auto
  let ?f = "\<lambda>i. application_service (name, i)"
  have "?f ` {0..<2 ^ 31} \<subseteq> fst ` set m"
    using unique_name_loop_Inl [OF e]
    by (auto simp: hm_contains_key_def hm_get_def map_of_eq_None_iff)
  moreover have "inj_on ?f {0..<2 ^ 31}"
    by (rule inj_onI) (use appn.print_inject in \<open>fastforce simp: i32_range_def\<close>)
  ultimately have "card {0..<2 ^ 31 :: int} \<le> card (fst ` set m)"
    by (intro card_inj_on_le [of ?f]) auto
  also have "\<dots> \<le> length m"
    by (metis card_length length_map set_map)
  finally show False using assms by simp
qed

lemma create_unique_entry_name_fresh:
  assumes "length (rg_map r) < 2 ^ 31"
  shows "\<exists>s n. create_unique_entry_name name r = Inr s \<and> \<not> registry_contains s r \<and>
    parse_application_name s = Inr (name, n) \<and>
    (\<forall>i. 0 \<le> i \<and> i < n \<longrightarrow> registry_contains (application_service (name, i)) r)"
proof -
  obtain s where s: "unique_name_loop (rg_map r) name 0 = Inr s"
    using unique_name_loop_total [OF assms] by blast
  obtain n where n: "\<not> hm_contains_key (rg_map r) s" "0 \<le> n" "n < 2 ^ 31"
    "s = application_service (name, n)"
    "\<forall>i. 0 \<le> i \<and> i < n \<longrightarrow> hm_contains_key (rg_map r) (application_service (name, i))"
    using unique_name_loop_Inr [OF s] by auto
  moreover have "parse_application_name s = Inr (name, n)"
    using appn.parse_print [of "(name, n)"] n by (simp add: i32_range_def)
  ultimately show ?thesis
    using s by (auto simp: create_unique_entry_name_def registry_contains_def)
qed

section \<open>Lookups\<close>

lemma by_name_Inr: "registry_ok r \<Longrightarrow> by_name n r = Inr e \<longleftrightarrow> hm_get (rg_map r) n = Some e"
  by (simp add: by_name_def registry_okD)

lemma by_type_Inr:
  assumes ok: "registry_ok r" and t: "by_type ty r = Inr e"
  shows "re_type e = ty" "hm_get (rg_map r) (re_name e) = Some e"
    "hm_get (rg_map r) n = Some d \<Longrightarrow> re_type d = ty \<Longrightarrow> d = e"
proof -
  have fe: "filter (\<lambda>x. re_type x = ty) (hm_values (rg_map r)) = [e]"
    using t by (auto simp: by_type_def by_type_many_def split: list.splits)
  note f = filter_singletonD [OF this]
  show "re_type e = ty" using f by simp
  obtain k where "hm_get (rg_map r) k = Some e"
    using f ok by (auto simp: hm.in_vals_iff registry_okD)
  moreover from this have "re_name e = k" using ok by (rule registry_okD(2) [rotated])
  ultimately show "hm_get (rg_map r) (re_name e) = Some e" by simp
  show "d = e" if d: "hm_get (rg_map r) n = Some d" "re_type d = ty"
  proof -
    have "d \<in> set (filter (\<lambda>x. re_type x = ty) (hm_values (rg_map r)))"
      using d ok by (auto simp: hm.in_vals_iff registry_okD)
    then show ?thesis by (simp only: fe) simp
  qed
qed

lemma find_map_list_find:
  "(\<And>x. x \<in> set xs \<Longrightarrow> f x = Inr (if P x then Some (g x) else None)) \<Longrightarrow>
     find_map_list f xs = Inr (map_option g (find P xs))"
  by (induction xs) auto

lemma registry_filter_map_Inr:
  assumes "\<And>e. e \<in> set (contents r) \<Longrightarrow> f (r\<lparr>rg_locked := True\<rparr>) e = Inr (g e)"
  shows "registry_filter_map f r = Inr (List.map_filter g (contents r))"
proof -
  have "rmap_list (f (r\<lparr>rg_locked := True\<rparr>)) (contents r) = Inr (map g (contents r))"
    using assms by (rule rmap_list_cong_Inr)
  then show ?thesis
    by (simp add: registry_filter_map_def contents_def List.map_filter_def comp_def filter_map)
qed

end
