(* ===== verification/Systemd_Client.thy ===== *)
theory Systemd_Client
  imports Common_Types State_Result
begin

text \<open>
  The client of an agent's unit control service (\<open>crates/admin/src/systemd_api/client.rs\<close>)
  and the configuration of an endpoint (\<open>crates/client/src/endpoint.rs\<close>). Connecting to an
  agent and the exchange of messages is the parameter \<open>call\<close>: it takes the endpoint and the
  request and gives the \<open>unit_status\<close> field of the response, or the error of the connection
  or of the remote side, and may change the state (other tasks run while it is awaited).
\<close>

record tls_config =
  tls_ca_cert_file_path :: string
  tls_cert_file_path :: string
  tls_key_file_path :: string
  tls_tls_name :: "string option"

record endpoint_config =
  ec_transport :: endpoint_entry
  ec_tls :: "tls_config option"

definition transport_config_to_url :: "endpoint_address \<Rightarrow> bool \<Rightarrow> string" where
  "transport_config_to_url ea with_tls =
     (let scheme = (if with_tls then ''https'' else ''http'') in
      case ea of
        Tcp addr port \<Rightarrow> scheme @ ''://'' @ addr @ '':'' @ show_nat (unat port)
      | _ \<Rightarrow> scheme @ ''://[::]:443'')"

datatype unit_rpc =
    GetUnitStatus string
  | StartUnit string
  | StopUnit string
  | KillUnit string
  | FreezeUnit string
  | UnfreezeUnit string
  | StartApplication string "string list"

type_synonym 's agent_call = "endpoint_config \<Rightarrow> unit_rpc \<Rightarrow> ('s, pb_unit_status option) sresult"

definition status_response :: "pb_unit_status option \<Rightarrow> unit_status result" where
  "status_response response =
     rbind (ok_or response (Msg ''missing unit_status field'')) (\<lambda>status.
       Inr \<lparr>us_name = pus_name status, us_description = pus_description status,
            us_load_state = pus_load_state status, us_active_state = pus_active_state status,
            us_sub_state = pus_sub_state status, us_path = pus_path status,
            us_freezer_state = pus_freezer_state status\<rparr>)"

definition unit_call :: "'s agent_call \<Rightarrow> endpoint_config \<Rightarrow> unit_rpc \<Rightarrow> ('s, unit_status) sresult" where
  "unit_call call ec req = sbind (call ec req) (\<lambda>response. sread (\<lambda>_. status_response response))"

definition get_remote_status :: "'s agent_call \<Rightarrow> endpoint_config \<Rightarrow> string \<Rightarrow> ('s, unit_status) sresult" where
  "get_remote_status call ec unit = unit_call call ec (GetUnitStatus unit)"

definition start_remote :: "'s agent_call \<Rightarrow> endpoint_config \<Rightarrow> string \<Rightarrow> ('s, unit_status) sresult" where
  "start_remote call ec unit = unit_call call ec (StartUnit unit)"

definition stop_remote :: "'s agent_call \<Rightarrow> endpoint_config \<Rightarrow> string \<Rightarrow> ('s, unit_status) sresult" where
  "stop_remote call ec unit = unit_call call ec (StopUnit unit)"

definition kill_remote :: "'s agent_call \<Rightarrow> endpoint_config \<Rightarrow> string \<Rightarrow> ('s, unit_status) sresult" where
  "kill_remote call ec unit = unit_call call ec (KillUnit unit)"

definition pause_remote :: "'s agent_call \<Rightarrow> endpoint_config \<Rightarrow> string \<Rightarrow> ('s, unit_status) sresult" where
  "pause_remote call ec unit = unit_call call ec (FreezeUnit unit)"

definition resume_remote :: "'s agent_call \<Rightarrow> endpoint_config \<Rightarrow> string \<Rightarrow> ('s, unit_status) sresult" where
  "resume_remote call ec unit = unit_call call ec (UnfreezeUnit unit)"

definition start_application_remote ::
  "'s agent_call \<Rightarrow> endpoint_config \<Rightarrow> string \<Rightarrow> string list \<Rightarrow> ('s, unit_status) sresult" where
  "start_application_remote call ec unit args = unit_call call ec (StartApplication unit args)"

lemmas unit_call_defs = get_remote_status_def start_remote_def stop_remote_def kill_remote_def
  pause_remote_def resume_remote_def start_application_remote_def

text \<open>Reading a response is the conversion of the status message.\<close>

lemma status_response_Some: "status_response (Some p) = unit_status_try_from p"
  by (simp add: status_response_def unit_status_try_from_def)

lemma preserves_unit_call [preserves_rules]:
  "(\<And>ec req. preserves P (call ec req)) \<Longrightarrow> preserves P (unit_call call ec req)"
  unfolding unit_call_def by (intro preserves_rules)

lemma preserves_unit_calls [preserves_rules]:
  assumes "\<And>ec req. preserves P (call ec req)"
  shows "preserves P (get_remote_status call ec u)" "preserves P (start_remote call ec u)"
    "preserves P (stop_remote call ec u)" "preserves P (kill_remote call ec u)"
    "preserves P (pause_remote call ec u)" "preserves P (resume_remote call ec u)"
    "preserves P (start_application_remote call ec u as)"
  unfolding unit_call_defs by (intro preserves_rules assms)+

end
