(* ===== verification/Regex.thy ===== *)
theory Regex
  imports Prelude
begin

text \<open>
  The regular expressions the source anchors with \<open>^\<close> and \<open>$\<close> (locale and time zone
  names, Nix store paths): their language, and a matcher by derivatives that decides it.
\<close>

datatype regex =
    Void
  | Eps
  | Class "char \<Rightarrow> bool"
  | Alt regex regex
  | Seq regex regex
  | Star regex

definition chr :: "char \<Rightarrow> regex" where
  "chr c = Class (\<lambda>x. x = c)"

definition opt :: "regex \<Rightarrow> regex" where
  "opt r = Alt r Eps"

definition plus1 :: "regex \<Rightarrow> regex" where
  "plus1 r = Seq r (Star r)"

fun times :: "nat \<Rightarrow> regex \<Rightarrow> regex" where
  "times 0 r = Eps"
| "times (Suc n) r = Seq r (times n r)"

fun lit :: "string \<Rightarrow> regex" where
  "lit [] = Eps"
| "lit (c # s) = Seq (chr c) (lit s)"

section \<open>Language\<close>

inductive star_of :: "string set \<Rightarrow> string \<Rightarrow> bool" for L where
  star_nil: "star_of L []"
| star_app: "u \<in> L \<Longrightarrow> star_of L v \<Longrightarrow> star_of L (u @ v)"

fun lang :: "regex \<Rightarrow> string set" where
  "lang Void = {}"
| "lang Eps = {[]}"
| "lang (Class p) = {[c] | c. p c}"
| "lang (Alt r s) = lang r \<union> lang s"
| "lang (Seq r s) = {u @ v | u v. u \<in> lang r \<and> v \<in> lang s}"
| "lang (Star r) = {w. star_of (lang r) w}"

section \<open>Matcher\<close>

fun nullable :: "regex \<Rightarrow> bool" where
  "nullable Void = False"
| "nullable Eps = True"
| "nullable (Class p) = False"
| "nullable (Alt r s) = (nullable r \<or> nullable s)"
| "nullable (Seq r s) = (nullable r \<and> nullable s)"
| "nullable (Star r) = True"

fun deriv :: "char \<Rightarrow> regex \<Rightarrow> regex" where
  "deriv c Void = Void"
| "deriv c Eps = Void"
| "deriv c (Class p) = (if p c then Eps else Void)"
| "deriv c (Alt r s) = Alt (deriv c r) (deriv c s)"
| "deriv c (Seq r s) =
     (if nullable r then Alt (Seq (deriv c r) s) (deriv c s) else Seq (deriv c r) s)"
| "deriv c (Star r) = Seq (deriv c r) (Star r)"

definition re_match :: "regex \<Rightarrow> string \<Rightarrow> bool" where
  "re_match r s = nullable (fold deriv s r)"

lemma nullable_iff: "nullable r \<longleftrightarrow> [] \<in> lang r"
  by (induction r) (auto intro: star_nil)

lemma star_of_Cons:
  "star_of L w \<Longrightarrow> w = c # s \<Longrightarrow> \<exists>u v. c # u \<in> L \<and> star_of L v \<and> s = u @ v"
proof (induction arbitrary: s rule: star_of.induct)
  case (star_app u v)
  then show ?case by (cases u) auto
qed simp

lemma lang_deriv: "lang (deriv c r) = {s. c # s \<in> lang r}"
proof (induction r)
  case (Seq r s)
  have "c # w \<in> lang (Seq r s) \<longleftrightarrow>
      (\<exists>u v. w = u @ v \<and> c # u \<in> lang r \<and> v \<in> lang s) \<or> ([] \<in> lang r \<and> c # w \<in> lang s)" for w
    by (auto simp: Cons_eq_append_conv)
  with Seq show ?case by (auto simp: nullable_iff)
next
  case (Star r)
  have "c # s \<in> lang (Star r) \<longleftrightarrow> s \<in> lang (Seq (deriv c r) (Star r))" for s
    using star_of_Cons [of "lang r" "c # s" c s] Star
    by (auto intro: star_app [of "c # u" for u, simplified])
  then show ?case by auto
qed auto

theorem re_match_iff: "re_match r s \<longleftrightarrow> s \<in> lang r"
  by (induction s arbitrary: r) (simp_all add: re_match_def nullable_iff lang_deriv)

section \<open>Alphabets\<close>

text \<open>Every character of a match is one some class of the expression admits.\<close>

fun admits :: "regex \<Rightarrow> char \<Rightarrow> bool" where
  "admits Void c = False"
| "admits Eps c = False"
| "admits (Class p) c = p c"
| "admits (Alt r s) c = (admits r c \<or> admits s c)"
| "admits (Seq r s) c = (admits r c \<or> admits s c)"
| "admits (Star r) c = admits r c"

lemma star_of_set: "star_of L w \<Longrightarrow> c \<in> set w \<Longrightarrow> \<exists>u \<in> L. c \<in> set u"
  by (induction rule: star_of.induct) auto

lemma lang_admits: "w \<in> lang r \<Longrightarrow> c \<in> set w \<Longrightarrow> admits r c"
proof (induction r arbitrary: w)
  case (Star r)
  then obtain u where "u \<in> lang r" "c \<in> set u"
    using star_of_set [of "lang r" w c] by auto
  then show ?case using Star.IH by simp
next
  case (Seq r s)
  then obtain u v where "u \<in> lang r" "v \<in> lang s" "c \<in> set u \<or> c \<in> set v" by auto
  then show ?case using Seq.IH by auto
qed auto

lemma re_match_admits: "re_match r w \<Longrightarrow> c \<in> set w \<Longrightarrow> admits r c"
  using lang_admits by (simp add: re_match_iff)

lemma re_match_nonempty: "re_match r w \<Longrightarrow> \<not> nullable r \<Longrightarrow> w \<noteq> []"
  by (auto simp: re_match_def)

end
