(* ===== verification/Locale_Config.thy ===== *)
theory Locale_Config
  imports Regex Codec
begin

text \<open>
  The locale and time zone of the system (\<open>crates/admin/src/admin/server.rs\<close>,
  \<open>api/locale/locale.proto\<close>): the validators of \<open>set_locale\<close> and \<open>set_timezone\<close>, and the two
  configuration files the service writes and reads back at its next start.
\<close>

section \<open>Locale keys\<close>

datatype locale_macro_key =
    LANG | LC_ADDRESS | LC_COLLATE | LC_CTYPE | LC_IDENTIFICATION | LC_MONETARY | LC_MESSAGES
  | LC_MEASUREMENT | LC_NAME | LC_NUMERIC | LC_PAPER | LC_TELEPHONE | LC_TIME | LC_ALL

definition locale_keys :: "(locale_macro_key \<times> int \<times> string) list" where
  "locale_keys =
     [(LANG, 0, ''LANG''), (LC_ADDRESS, 1, ''LC_ADDRESS''), (LC_COLLATE, 2, ''LC_COLLATE''),
      (LC_CTYPE, 3, ''LC_CTYPE''), (LC_IDENTIFICATION, 4, ''LC_IDENTIFICATION''),
      (LC_MONETARY, 5, ''LC_MONETARY''), (LC_MESSAGES, 6, ''LC_MESSAGES''),
      (LC_MEASUREMENT, 7, ''LC_MEASUREMENT''), (LC_NAME, 8, ''LC_NAME''),
      (LC_NUMERIC, 9, ''LC_NUMERIC''), (LC_PAPER, 10, ''LC_PAPER''),
      (LC_TELEPHONE, 11, ''LC_TELEPHONE''), (LC_TIME, 12, ''LC_TIME''), (LC_ALL, 13, ''LC_ALL'')]"

definition locale_key_try_from :: "int \<Rightarrow> locale_macro_key option" where
  "locale_key_try_from i = map_option fst (find (\<lambda>(_, n, _). n = i) locale_keys)"

definition locale_key_i32 :: "locale_macro_key \<Rightarrow> int" where
  "locale_key_i32 k = (case find (\<lambda>(k', _, _). k' = k) locale_keys of Some (_, n, _) \<Rightarrow> n | None \<Rightarrow> 0)"

definition as_str_name :: "locale_macro_key \<Rightarrow> string" where
  "as_str_name k = (case find (\<lambda>(k', _, _). k' = k) locale_keys of Some (_, _, s) \<Rightarrow> s | None \<Rightarrow> [])"

definition from_str_name :: "string \<Rightarrow> locale_macro_key option" where
  "from_str_name s = map_option fst (find (\<lambda>(_, _, s'). s' = s) locale_keys)"

record locale_assignment =
  la_key :: int
  la_value :: string

section \<open>Validators\<close>

definition is_alpha :: "char \<Rightarrow> bool" where
  "is_alpha c = (is_lower c \<or> is_upper c)"

definition locale_regex :: regex where
  "locale_regex =
     Seq (Alt (lit ''C'') (Alt (lit ''POSIX'')
           (Seq (times 2 (Class is_lower))
             (Seq (opt (Seq (chr CHR ''_'') (times 2 (Class is_upper))))
                  (opt (Seq (chr CHR ''@'') (plus1 (Class is_alnum))))))))
         (opt (Seq (chr CHR ''.'') (plus1 (Class (\<lambda>c. c = CHR ''-'' \<or> is_alnum c)))))"

definition validate_locale :: "string \<Rightarrow> bool" where
  "validate_locale l = re_match locale_regex l"

definition timezone_regex :: regex where
  "timezone_regex =
     Seq (Class is_upper)
       (Seq (Star (Class (\<lambda>c. c \<in> {CHR ''-'', CHR ''+''} \<or> is_alnum c)))
         (Star (Seq (chr CHR ''/'') (Seq (Class is_upper)
            (Star (Class (\<lambda>c. c \<in> {CHR ''-'', CHR ''+'', CHR ''_''} \<or> is_alnum c)))))))"

definition validate_timezone :: "string \<Rightarrow> bool" where
  "validate_timezone tz = re_match timezone_regex tz"

section \<open>Configuration files\<close>

definition locale_line :: "locale_assignment \<Rightarrow> string result" where
  "locale_line a =
     rbind (ok_or (locale_key_try_from (la_key a)) (Msg ''unknown enumeration value'')) (\<lambda>key.
       Inr (as_str_name key @ ''='' @ la_value a))"

definition locale_content :: "locale_assignment list \<Rightarrow> string result" where
  "locale_content as = rbind (rmap_list locale_line as) (\<lambda>ls. Inr (join_with [CHR 0x0A] ls))"

definition parse_locale_line :: "string \<Rightarrow> locale_assignment option" where
  "parse_locale_line line =
     (case split_once CHR ''='' line of
        None \<Rightarrow> None
      | Some (key, value) \<Rightarrow>
          (case from_str_name key of
             None \<Rightarrow> None
           | Some key_enum \<Rightarrow> Some \<lparr>la_key = locale_key_i32 key_enum, la_value = value\<rparr>))"

text \<open>What \<open>AdminServiceImpl::new\<close> makes of the two files, absent or unreadable ones included.\<close>

definition read_locale_conf :: "string option \<Rightarrow> locale_assignment list" where
  "read_locale_conf file =
     (case file of None \<Rightarrow> [] | Some content \<Rightarrow> List.map_filter parse_locale_line (lines content))"

definition read_timezone_conf :: "string option \<Rightarrow> string" where
  "read_timezone_conf file =
     (case file of None \<Rightarrow> [] | Some content \<Rightarrow> (case lines content of [] \<Rightarrow> [] | l # _ \<Rightarrow> l))"

section \<open>Round trips\<close>

lemma locale_keys_row:
  assumes "(k, n, s) \<in> set locale_keys"
  shows "locale_key_i32 k = n" "as_str_name k = s" "locale_key_try_from n = Some k"
    "from_str_name s = Some k" "c \<in> set s \<Longrightarrow> c = CHR ''_'' \<or> is_upper c"
proof -
  let ?P = "\<lambda>(k, n, s). locale_key_i32 k = n \<and> as_str_name k = s \<and>
      locale_key_try_from n = Some k \<and> from_str_name s = Some k \<and>
      list_all (\<lambda>c. c = CHR ''_'' \<or> is_upper c) s"
  have "list_all ?P locale_keys" by code_simp
  then have "?P (k, n, s)" using assms by (rule list_all_iff [THEN iffD1, THEN bspec])
  then show "locale_key_i32 k = n" "as_str_name k = s" "locale_key_try_from n = Some k"
    "from_str_name s = Some k" "c \<in> set s \<Longrightarrow> c = CHR ''_'' \<or> is_upper c"
    by (simp_all add: list_all_iff)
qed

lemma locale_keys_all: "\<exists>n s. (k, n, s) \<in> set locale_keys"
  by (cases k) (simp_all add: locale_keys_def)

interpretation lki: codec locale_key_i32 locale_key_try_from "\<lambda>_. True"
proof unfold_locales
  fix k
  obtain n s where row: "(k, n, s) \<in> set locale_keys" using locale_keys_all by blast
  show "locale_key_try_from (locale_key_i32 k) = Some k"
    by (simp only: locale_keys_row(1,3) [OF row])
next
  fix i k
  assume "locale_key_try_from i = Some k"
  then show "True \<and> locale_key_i32 k = i"
    by (auto simp: locale_key_try_from_def dest!: find_Some_in locale_keys_row(1))
qed

interpretation lkn: codec as_str_name from_str_name "\<lambda>_. True"
proof unfold_locales
  fix k
  obtain n s where row: "(k, n, s) \<in> set locale_keys" using locale_keys_all by blast
  show "from_str_name (as_str_name k) = Some k"
    by (simp only: locale_keys_row(2,4) [OF row])
next
  fix s k
  assume "from_str_name s = Some k"
  then show "True \<and> as_str_name k = s"
    by (auto simp: from_str_name_def dest!: find_Some_in locale_keys_row(2))
qed

lemma as_str_name_plain: "c \<in> set (as_str_name k) \<Longrightarrow> c = CHR ''_'' \<or> is_upper c"
proof -
  assume c: "c \<in> set (as_str_name k)"
  obtain n s where row: "(k, n, s) \<in> set locale_keys" using locale_keys_all by blast
  with c show ?thesis using locale_keys_row(2,5) [OF row] by simp
qed

lemma plain_chars [simp]:
  "\<not> is_upper CHR ''=''" "\<not> is_upper (CHR 0x0A)" "\<not> is_upper (CHR 0x0D)"
  "\<not> is_alnum (CHR 0x0A)" "\<not> is_alnum (CHR 0x0D)" "\<not> is_alnum CHR ''=''"
  "\<not> is_lower (CHR 0x0A)" "\<not> is_lower (CHR 0x0D)"
  by (simp_all add: is_upper_def is_alnum_def is_lower_def is_digit_def)

lemma locale_line_Inr:
  "locale_line a = Inr l \<longleftrightarrow>
     (\<exists>k. la_key a = locale_key_i32 k \<and> l = as_str_name k @ CHR ''='' # la_value a)"
  by (auto simp: locale_line_def result_simps lki.parse_Some_iff)

lemma as_str_name_no_eq: "CHR ''='' \<notin> set (as_str_name k)"
  using as_str_name_plain by fastforce

lemma parse_locale_line_print:
  assumes "locale_line a = Inr l"
  shows "parse_locale_line l = Some a"
proof -
  obtain k where k: "la_key a = locale_key_i32 k" "l = as_str_name k @ CHR ''='' # la_value a"
    using assms by (auto simp: locale_line_Inr)
  then have "split_once CHR ''='' l = Some (as_str_name k, la_value a)"
    by (simp add: split_once_notin as_str_name_no_eq)
  then show ?thesis
    using k by (simp add: parse_locale_line_def lkn.parse_print)
qed

text \<open>The validators admit no line break, so a valid value is a line of its own.\<close>

lemma validate_locale_chars:
  "validate_locale v \<Longrightarrow> CHR 0x0A \<notin> set v \<and> CHR 0x0D \<notin> set v"
  using re_match_admits [of locale_regex v "CHR 0x0A"] re_match_admits [of locale_regex v "CHR 0x0D"]
  by (auto simp: validate_locale_def locale_regex_def opt_def plus1_def chr_def numeral_2_eq_2)

lemma validate_timezone_chars:
  "validate_timezone v \<Longrightarrow> v \<noteq> [] \<and> CHR 0x0A \<notin> set v \<and> CHR 0x0D \<notin> set v"
  using re_match_admits [of timezone_regex v "CHR 0x0A"] re_match_admits [of timezone_regex v "CHR 0x0D"]
    re_match_nonempty [of timezone_regex v]
  by (auto simp: validate_timezone_def timezone_regex_def chr_def)

lemma locale_conf_roundtrip:
  assumes valid: "\<forall>a \<in> set as. validate_locale (la_value a)" and c: "locale_content as = Inr c"
  shows "read_locale_conf (Some c) = as"
proof -
  obtain ls where ls: "rmap_list locale_line as = Inr ls" "c = join_with [CHR 0x0A] ls"
    using c by (auto simp: locale_content_def result_simps)
  then have all: "list_all2 (\<lambda>a l. locale_line a = Inr l) as ls"
    by (simp add: rmap_list_Inr_iff)
  have "l \<noteq> [] \<and> CHR 0x0A \<notin> set l \<and> CHR 0x0D \<notin> set l" if l: "l \<in> set ls" for l
  proof -
    obtain a where "a \<in> set as" "locale_line a = Inr l"
      using rmap_list_in [OF ls(1) l] by blast
    then obtain k where "l = as_str_name k @ CHR ''='' # la_value a" "validate_locale (la_value a)"
      using valid by (auto simp: locale_line_Inr)
    then show ?thesis
      using validate_locale_chars [of "la_value a"] as_str_name_plain [of "CHR 0x0A" k]
        as_str_name_plain [of "CHR 0x0D" k] by auto
  qed
  then have "lines c = ls" using lines_join ls(2) by blast
  moreover have "List.map_filter parse_locale_line ls = as"
    using all by (induction rule: list_all2_induct) (simp_all add: parse_locale_line_print)
  ultimately show ?thesis by (simp add: read_locale_conf_def)
qed

lemma timezone_conf_roundtrip: "validate_timezone tz \<Longrightarrow> read_timezone_conf (Some tz) = tz"
  using lines_join [of "[tz]"] validate_timezone_chars [of tz]
  by (simp add: read_timezone_conf_def)

end
