(* ===== verification/Admin_Server.thy ===== *)
theory Admin_Server
  imports Registry Systemd_Client Locale_Config
begin

text \<open>
  The admin service (\<open>crates/admin/src/admin/server.rs\<close>): endpoint resolution, starting and
  stopping units, applications and VMs through the agents, the monitor, and the handlers of
  the gRPC interface. The state is the record \<open>admin\<close>; its last field stands for everything
  outside the process (the agents and their machines), which the parameter \<open>call\<close> consults.
  While a call is awaited other tasks run, so \<open>call\<close> may change the whole record; the ten
  seconds \<open>start_vm\<close> sleeps are part of the call that follows them. A task the source spawns
  is recorded with the values it captures.
\<close>

datatype admin_state = Init | InitComplete | HostRegistered | VmsRegistered

datatype task =
    Task_monitor registry_entry
  | Task_init_agent endpoint_config "locale_assignment list" string
  | Task_locale "endpoint_config list" "locale_assignment list"
  | Task_timezone "endpoint_config list" string

record 'w admin =
  ad_registry :: registry
  ad_state :: admin_state
  ad_tls_config :: "tls_config option"
  ad_locale_assigns :: "locale_assignment list"
  ad_timezone :: string
  ad_locale_conf :: "string option"
  ad_timezone_conf :: "string option"
  ad_spawned :: "task list"
  ad_world :: 'w

definition admin_new :: "tls_config option \<Rightarrow> string option \<Rightarrow> string option \<Rightarrow> 'w \<Rightarrow> 'w admin" where
  "admin_new use_tls locale_conf timezone_conf w =
     \<lparr>ad_registry = registry_new, ad_state = Init, ad_tls_config = use_tls,
      ad_locale_assigns = read_locale_conf locale_conf,
      ad_timezone = read_timezone_conf timezone_conf,
      ad_locale_conf = locale_conf, ad_timezone_conf = timezone_conf,
      ad_spawned = [], ad_world = w\<rparr>"

section \<open>Endpoints\<close>

definition endpoint :: "tls_config option \<Rightarrow> registry \<Rightarrow> registry_entry \<Rightarrow> endpoint_config result" where
  "endpoint tls r entry =
     rbind
      (case re_placement entry of
         Managed _ parent \<Rightarrow>
           rbind (by_name parent r) (\<lambda>parent. with_context ''When get_remote_status()'' (agent parent))
       | Endpoint endpoint _ \<Rightarrow> Inr endpoint
       | OnHost \<Rightarrow> Inl (Msg ''endpoint() called for Host''))
      (\<lambda>transport. Inr
         \<lparr>ec_transport = transport,
          ec_tls = map_option (\<lambda>t. t\<lparr>tls_tls_name := Some (ee_tls_name transport)\<rparr>) tls\<rparr>)"

definition host_endpoint :: "'w admin \<Rightarrow> endpoint_config result" where
  "host_endpoint a =
     rbind (by_type (unit_ty Host Mgr) (ad_registry a)) (\<lambda>host_mgr.
       with_context ''Resolving host agent'' (endpoint (ad_tls_config a) (ad_registry a) host_mgr))"

definition agent_endpoint :: "string \<Rightarrow> 'w admin \<Rightarrow> endpoint_config result" where
  "agent_endpoint name a =
     rbind (by_name name (ad_registry a)) (\<lambda>reentry.
       endpoint (ad_tls_config a) (ad_registry a) reentry)"

definition app_entries :: "string \<Rightarrow> 'w admin \<Rightarrow> string list result" where
  "app_entries name a = (if CHR ''@'' \<in> set name then find_names name (ad_registry a) else Inr [name])"

section \<open>Registry operations on the service's state\<close>

definition on_registry :: "(registry \<Rightarrow> 'a result \<times> registry) \<Rightarrow> ('w admin, 'a) sresult" where
  "on_registry f a = (case f (ad_registry a) of (x, r) \<Rightarrow> (x, a\<lparr>ad_registry := r\<rparr>))"

definition admin_register :: "registry_entry \<Rightarrow> ('w admin, unit) sresult" where
  "admin_register entry = on_registry (\<lambda>r. (Inr (), register entry r))"

definition spawn :: "task \<Rightarrow> ('w admin, unit) sresult" where
  "spawn t = smodify (\<lambda>a. a\<lparr>ad_spawned := ad_spawned a @ [t]\<rparr>)"

section \<open>Units and VMs\<close>

definition entry_remote_status ::
  "'w admin agent_call \<Rightarrow> registry_entry \<Rightarrow> ('w admin, unit_status) sresult" where
  "entry_remote_status call entry =
     sbind (sread (\<lambda>a. endpoint (ad_tls_config a) (ad_registry a) entry)) (\<lambda>ec.
       get_remote_status call ec (re_name entry))"

definition send_system_command :: "'w admin agent_call \<Rightarrow> string \<Rightarrow> ('w admin, unit) sresult" where
  "send_system_command call name =
     sbind (sread host_endpoint) (\<lambda>ec. sbind (start_remote call ec name) (\<lambda>_. sret ()))"

definition start_unit_on_vm ::
  "'w admin agent_call \<Rightarrow> string \<Rightarrow> string \<Rightarrow> ('w admin, string) sresult" where
  "start_unit_on_vm call unit vmname =
     (let vmservice = agent_service (Vm vmname) in
      sbind (scontext (vmservice @ '' not registered'') (sread (agent_endpoint vmservice))) (\<lambda>ec.
      sbind (get_remote_status call ec unit) (\<lambda>status.
        if us_load_state status = ''loaded'' then
          (if us_active_state status = ''active'' \<and> us_sub_state status = ''running''
           then sret vmservice
           else sbind (start_remote call ec unit) (\<lambda>_. sret vmservice))
        else sfail (Msg (''Service '' @ unit @ '' is not loaded!'')))))"

definition stop_unit_on_vm ::
  "'w admin agent_call \<Rightarrow> string \<Rightarrow> string \<Rightarrow> ('w admin, unit) sresult" where
  "stop_unit_on_vm call unit vmname =
     (let vmservice = agent_service (Vm vmname) in
      sbind (scontext (vmservice @ '' not registered'') (sread (agent_endpoint vmservice))) (\<lambda>ec.
      sbind (stop_remote call ec unit) (\<lambda>status.
        sread (\<lambda>_. ensure (is_exitted status) (''Failed to stop '' @ unit @ '' on '' @ vmname)))))"

definition start_vm :: "'w admin agent_call \<Rightarrow> string \<Rightarrow> ('w admin, unit) sresult" where
  "start_vm call name =
     sbind (sread host_endpoint) (\<lambda>ec.
     sbind (scontext (''cannot retrieve vm status for '' @ name @ '', host agent failed'')
              (get_remote_status call ec name)) (\<lambda>status.
       if us_load_state status \<noteq> ''loaded'' then sfail (Msg (''vm '' @ name @ '' not loaded''))
       else if us_active_state status \<noteq> ''active'' then
         sbind (scontext (''spawn remote VM service '' @ name) (start_remote call ec name)) (\<lambda>_.
         sbind (scontext (''cannot retrieve vm status for '' @ name)
                  (get_remote_status call ec name)) (\<lambda>new_status.
           if us_active_state new_status \<noteq> ''active'' then sfail (Msg (''Unable to launch VM '' @ name))
           else sret ()))
       else sret ()))"

definition admin_get_unit_status ::
  "'w admin agent_call \<Rightarrow> string \<Rightarrow> string \<Rightarrow> ('w admin, pb_unit_status) sresult" where
  "admin_get_unit_status call vmservice unit_name =
     sbind (scontext (vmservice @ '' not registered'') (sread (agent_endpoint vmservice))) (\<lambda>ec.
     sbind (get_remote_status call ec unit_name) (\<lambda>status. sret (pb_from_unit_status status)))"

section \<open>Monitoring\<close>

definition handle_error :: "'w admin agent_call \<Rightarrow> registry_entry \<Rightarrow> ('w admin, unit) sresult" where
  "handle_error call entry =
     (case (ut_vm (re_type entry), ut_service (re_type entry)) of
        (AppVM, App) \<Rightarrow>
          if is_exitted (re_status entry)
          then on_registry (deregister (re_name entry))
          else sret ()
      | (AppVM, Mgr) \<Rightarrow>
          (case re_placement entry of
             Managed vm_name _ \<Rightarrow>
               scontext (''handing error, by restart VM '' @ re_name entry) (start_vm call vm_name)
           | _ \<Rightarrow> sret ())
      | (SysVM, Mgr) \<Rightarrow>
          (case re_placement entry of
             Managed vm_name _ \<Rightarrow>
               scontext (''handing error, by restart VM '' @ re_name entry) (start_vm call vm_name)
           | _ \<Rightarrow> sret ())
      | _ \<Rightarrow> sret ())"

definition monitor_routine :: "'w admin agent_call \<Rightarrow> registry_entry \<Rightarrow> ('w admin, unit) sresult" where
  "monitor_routine call entry =
     sbind (scatch (entry_remote_status call entry)) (\<lambda>result.
       case result of
         Inl err \<Rightarrow> scontext ''during handle error'' (handle_error call entry)
       | Inr status \<Rightarrow>
           (let invalid = (\<not> is_valid status); inactive = (us_active_state status \<noteq> ''active'') in
            sbind (on_registry (update_state (re_name entry) status)) (\<lambda>_.
              if invalid \<or> inactive
              then scontext ''during handle error'' (handle_error call entry)
              else sret ())))"

text \<open>One turn of the loop of \<open>monitor\<close>: errors of an entry are logged, the next entry follows.\<close>

definition monitor_tick :: "'w admin agent_call \<Rightarrow> ('w admin, unit) sresult" where
  "monitor_tick call =
     sbind (sread (\<lambda>a. Inr (watch_list (ad_registry a)))) (\<lambda>entries.
       sforeach entries (\<lambda>entry. sbind (scatch (monitor_routine call entry)) (\<lambda>_. sret ())))"

section \<open>Applications\<close>

record application_request =
  ar_app_name :: string
  ar_vm_name :: "string option"
  ar_args :: "string list"

definition start_app :: "'w admin agent_call \<Rightarrow> application_request \<Rightarrow> ('w admin, string) sresult" where
  "start_app call req =
     (let name = ar_app_name req;
          vm = (case ar_vm_name req of None \<Rightarrow> AppVm name | Some v \<Rightarrow> Vm v);
          vm_name = vm_service vm;
          systemd_agent_name = agent_service vm
      in
      sbind (sread (\<lambda>a. Inr (is_ok (by_name systemd_agent_name (ad_registry a))))) (\<lambda>registered.
      sbind (if registered then sret ()
             else sbind (scontext (''Starting vm for '' @ name) (start_vm call vm_name)) (\<lambda>_.
                  sbind (scontext ''after starting VM''
                           (sread (\<lambda>a. by_name systemd_agent_name (ad_registry a)))) (\<lambda>_. sret ()))) (\<lambda>_.
      sbind (scontext (''while lookung up '' @ systemd_agent_name @ '' for '' @ vm_name)
               (sread (agent_endpoint systemd_agent_name))) (\<lambda>ec.
      sbind (sread (\<lambda>a. create_unique_entry_name name (ad_registry a))) (\<lambda>app_name.
      sbind (start_application_remote call ec app_name (ar_args req)) (\<lambda>status.
      sbind (if us_active_state status = ''active''
             then admin_register
                    \<lparr>re_name = us_name status, re_type = unit_ty AppVM App, re_status = status,
                     re_placement = Managed vm_name systemd_agent_name, re_watch = True\<rparr>
             else sret ()) (\<lambda>_.
        sret (us_name status))))))))"

text \<open>
  The loop that \<open>pause_application\<close>, \<open>resume_application\<close> and \<open>stop_application\<close> share: the
  agent's call and the test of its answer on every instance of the application.
\<close>

definition app_command ::
  "(endpoint_config \<Rightarrow> string \<Rightarrow> ('w admin, unit_status) sresult) \<Rightarrow> (unit_status \<Rightarrow> bool) \<Rightarrow>
   string \<Rightarrow> application_request \<Rightarrow> ('w admin, unit) sresult" where
  "app_command remote done_ok verb req =
     sbind (sread (agent_endpoint (ar_app_name req))) (\<lambda>ec.
     sbind (sread (app_entries (ar_app_name req))) (\<lambda>entries.
       sforeach entries (\<lambda>name.
         sbind (remote ec name) (\<lambda>status.
           if done_ok status then sret () else sfail (Msg (''Failed to '' @ verb @ '' '' @ name))))))"

definition pause_application :: "'w admin agent_call \<Rightarrow> application_request \<Rightarrow> ('w admin, unit) sresult" where
  "pause_application call req = app_command (pause_remote call) is_paused ''pause'' req"

definition resume_application :: "'w admin agent_call \<Rightarrow> application_request \<Rightarrow> ('w admin, unit) sresult" where
  "resume_application call req = app_command (resume_remote call) is_running ''resume'' req"

definition stop_application :: "'w admin agent_call \<Rightarrow> application_request \<Rightarrow> ('w admin, unit) sresult" where
  "stop_application call req = app_command (stop_remote call) is_exitted ''stop'' req"

section \<open>Handlers\<close>

definition register_service :: "registry_request \<Rightarrow> ('w admin, unit) sresult" where
  "register_service req =
     sbind (sread (\<lambda>_. registry_entry_try_from req)) (\<lambda>entry.
     sbind (admin_register entry) (\<lambda>_.
     sbind (if is_valid (re_status entry) then sret () else spawn (Task_monitor entry)) (\<lambda>_.
       if ut_service (re_type entry) = Mgr
       then sbind (scatch (sread (agent_endpoint (re_name entry)))) (\<lambda>ep.
              case ep of
                Inr ec \<Rightarrow>
                  sbind (sread (\<lambda>a. Inr (ad_locale_assigns a, ad_timezone a))) (\<lambda>(locale_assigns, timezone).
                    spawn (Task_init_agent ec locale_assigns timezone))
              | Inl _ \<Rightarrow> sret ())
       else sret ())))"

definition start_vm_handler :: "'w admin agent_call \<Rightarrow> string \<Rightarrow> ('w admin, string) sresult" where
  "start_vm_handler call vm_name =
     sbind (start_vm call (vm_service (Vm vm_name))) (\<lambda>_. sret (agent_service (Vm vm_name)))"

definition get_unit_status_handler ::
  "'w admin agent_call \<Rightarrow> string \<Rightarrow> string \<Rightarrow> ('w admin, pb_unit_status) sresult" where
  "get_unit_status_handler call unit_name vm_name =
     admin_get_unit_status call (agent_service (Vm vm_name)) unit_name"

definition poweroff :: "'w admin agent_call \<Rightarrow> ('w admin, unit) sresult" where
  "poweroff call = send_system_command call ''poweroff.target''"

definition reboot :: "'w admin agent_call \<Rightarrow> ('w admin, unit) sresult" where
  "reboot call = send_system_command call ''reboot.target''"

definition suspend :: "'w admin agent_call \<Rightarrow> ('w admin, unit) sresult" where
  "suspend call = send_system_command call ''suspend.target''"

definition wakeup :: "('w admin, unit) sresult" where
  "wakeup = sfail (Msg ''Not supported'')"

definition query_list :: "('w admin, query_list_item list) sresult" where
  "query_list = sread (\<lambda>a. Inr
     (map (\<lambda>e. query_list_item_from (query_result_from e)) (contents (ad_registry a))))"

text \<open>The endpoints of all managers, collected while the registry is locked.\<close>

definition managers :: "'w admin \<Rightarrow> endpoint_config list result" where
  "managers a = registry_filter_map
     (\<lambda>r re. if ut_service (re_type re) = Mgr
             then ok_or_panic (endpoint (ad_tls_config a) r re) else Inr None)
     (ad_registry a)"

definition check_assignment :: "locale_assignment \<Rightarrow> unit result" where
  "check_assignment la =
     rbind (ensure (la_value la \<noteq> []) (''Empty locale value for '' @ show_i32 (la_key la))) (\<lambda>_.
       ensure (validate_locale (la_value la)) (''Invalid locale value '' @ la_value la))"

text \<open>\<open>written\<close> is the outcome of the file write, whose error the source ignores.\<close>

definition set_locale :: "bool \<Rightarrow> locale_assignment list \<Rightarrow> ('w admin, unit) sresult" where
  "set_locale written assignments =
     sbind (sread (\<lambda>_. ensure (assignments \<noteq> []) ''No locale assignments provided'')) (\<lambda>_.
     sbind (sread (\<lambda>_. rmap_list check_assignment assignments)) (\<lambda>_.
     sbind (sread (\<lambda>_. locale_content assignments)) (\<lambda>content.
     sbind (smodify (\<lambda>a. if written then a\<lparr>ad_locale_conf := Some content\<rparr> else a)) (\<lambda>_.
     sbind (sread managers) (\<lambda>mgrs.
     sbind (spawn (Task_locale mgrs assignments)) (\<lambda>_.
       smodify (\<lambda>a. a\<lparr>ad_locale_assigns := assignments\<rparr>)))))))"

definition set_timezone :: "bool \<Rightarrow> string \<Rightarrow> ('w admin, unit) sresult" where
  "set_timezone written timezone =
     sbind (sread (\<lambda>_. ensure (validate_timezone timezone) ''Invalid timezone'')) (\<lambda>_.
     sbind (smodify (\<lambda>a. if written then a\<lparr>ad_timezone_conf := Some timezone\<rparr> else a)) (\<lambda>_.
     sbind (sread managers) (\<lambda>mgrs.
     sbind (spawn (Task_timezone mgrs timezone)) (\<lambda>_.
       smodify (\<lambda>a. a\<lparr>ad_timezone := timezone\<rparr>)))))"

text \<open>The endpoint \<open>get_stats\<close> asks; the exchange itself is not part of the model.\<close>

definition stats_endpoint :: "string \<Rightarrow> 'w admin \<Rightarrow> endpoint_config result" where
  "stats_endpoint vm a =
     (let vm_name = agent_service (Vm vm) in
      rbind (registry_find_map
               (\<lambda>r re. if ut_service (re_type re) = Mgr \<and> re_name re = vm_name
                       then (case endpoint (ad_tls_config a) r re of
                               Inl (Panic p) \<Rightarrow> Inl (Panic p) | res \<Rightarrow> Inr (Some res))
                       else Inr None)
               (ad_registry a)) (\<lambda>found.
      rbind (ok_or found (Msg (''VM '' @ vm_name @ '' not found''))) (\<lambda>res. res)))"

text \<open>
  The stream of \<open>watch\<close>: the snapshot, then the events of the channel from the place of the
  receiver on, as long as the channel delivers them; \<open>delivered\<close> is how many it has.
\<close>

definition watch_stream :: "registry \<Rightarrow> registry \<Rightarrow> registry \<Rightarrow> nat \<Rightarrow> watch_item list" where
  "watch_stream r0 r1 r2 delivered =
     (case subscribe r0 r1 of (initial_list, place) \<Rightarrow>
        into_initial initial_list #
        map watch_item_from (take delivered (drop place (rg_log r2))))"

section \<open>The invariant\<close>

definition admin_ok :: "'w admin \<Rightarrow> bool" where
  "admin_ok a = (registry_ok (ad_registry a) \<and> all_entries placement_ok (ad_registry a))"

lemma admin_okD:
  assumes "admin_ok a"
  shows "registry_ok (ad_registry a)" "all_entries placement_ok (ad_registry a)"
    "e \<in> set (contents (ad_registry a)) \<Longrightarrow> placement_ok e"
    "hm_get (rg_map (ad_registry a)) n = Some e \<Longrightarrow> placement_ok e"
  using assms by (auto simp: admin_ok_def all_entries_def list_all_iff contents_def hm.in_vals_iff
      registry_okD)

lemma admin_ok_update [simp]:
  "admin_ok (a\<lparr>ad_spawned := x\<rparr>) = admin_ok a" "admin_ok (a\<lparr>ad_locale_conf := y\<rparr>) = admin_ok a"
  "admin_ok (a\<lparr>ad_timezone_conf := y\<rparr>) = admin_ok a" "admin_ok (a\<lparr>ad_locale_assigns := z\<rparr>) = admin_ok a"
  "admin_ok (a\<lparr>ad_timezone := v\<rparr>) = admin_ok a"
  by (simp_all add: admin_ok_def)

lemma admin_new_ok [simp]: "admin_ok (admin_new tls lc tz w)"
  by (simp add: admin_ok_def admin_new_def)
    (simp add: all_entries_def contents_def registry_new_def hm_values_def hm_empty_def)

lemma placement_ok_status [simp]: "placement_ok (e\<lparr>re_status := st\<rparr>) = placement_ok e"
  by (simp add: placement_ok_def split: placement.splits)

lemma preserves_on_registry:
  "(\<And>r. registry_ok r \<Longrightarrow> all_entries placement_ok r \<Longrightarrow>
      registry_ok (snd (f r)) \<and> all_entries placement_ok (snd (f r))) \<Longrightarrow>
     preserves admin_ok (on_registry f)"
  by (auto simp: preserves_def on_registry_def admin_ok_def split_beta)

lemma preserves_deregister [preserves_rules]: "preserves admin_ok (on_registry (deregister n))"
  by (rule preserves_on_registry) (simp add: all_entries_deregister)

lemma preserves_update_state [preserves_rules]: "preserves admin_ok (on_registry (update_state n st))"
  by (rule preserves_on_registry) (simp add: all_entries_update_state)

lemma preserves_admin_register: "placement_ok e \<Longrightarrow> preserves admin_ok (admin_register e)"
  unfolding admin_register_def
  by (rule preserves_on_registry) (simp add: all_entries_register)

lemma preserves_spawn [preserves_rules]: "preserves admin_ok (spawn t)"
  unfolding spawn_def by (rule preserves_smodify) simp

lemma placement_ok_started [simp]:
  "placement_ok \<lparr>re_name = n, re_type = unit_ty AppVM App, re_status = st,
     re_placement = Managed vm by, re_watch = w\<rparr>"
  by (simp add: placement_ok_def)

text \<open>
  Every operation keeps the invariant, provided whatever runs while a call is awaited does.
\<close>

lemma preserves_start_vm [preserves_rules]:
  assumes [preserves_rules]: "\<And>ec req. preserves admin_ok (call ec req)"
  shows "preserves admin_ok (start_vm call n)"
  unfolding start_vm_def by (intro preserves_rules)

lemma preserves_handle_error [preserves_rules]:
  assumes [preserves_rules]: "\<And>ec req. preserves admin_ok (call ec req)"
  shows "preserves admin_ok (handle_error call e)"
  by (auto simp: handle_error_def split: vm_type.splits service_type.splits placement.splits
      intro!: preserves_rules)

lemma preserves_monitor_routine [preserves_rules]:
  assumes [preserves_rules]: "\<And>ec req. preserves admin_ok (call ec req)"
  shows "preserves admin_ok (monitor_routine call e)"
  unfolding monitor_routine_def entry_remote_status_def Let_def by (intro preserves_rules)

lemma preserves_start_app [preserves_rules]:
  assumes [preserves_rules]: "\<And>ec req. preserves admin_ok (call ec req)"
  shows "preserves admin_ok (start_app call req)"
  unfolding start_app_def Let_def
  by (intro preserves_rules preserves_admin_register placement_ok_started)

lemma preserves_register_service [preserves_rules]: "preserves admin_ok (register_service req)"
  unfolding register_service_def
  by (rule preserves_sread_bind)
    (intro preserves_rules preserves_admin_register registry_entry_try_from_Inr)

lemma preserves_app_command [preserves_rules]:
  "(\<And>ec n. preserves admin_ok (remote ec n)) \<Longrightarrow>
     preserves admin_ok (app_command remote done_ok verb req)"
  unfolding app_command_def by (intro preserves_rules) auto

lemma preserves_set_locale [preserves_rules]: "preserves admin_ok (set_locale written as)"
  unfolding set_locale_def by (intro preserves_rules preserves_smodify) auto

lemma preserves_set_timezone [preserves_rules]: "preserves admin_ok (set_timezone written tz)"
  unfolding set_timezone_def by (intro preserves_rules preserves_smodify) auto

section \<open>The service as a state machine\<close>

text \<open>
  A step is a whole handler, a turn of the monitor, a spawned monitor task, or a change
  outside the process.
\<close>

inductive admin_step :: "'w admin agent_call \<Rightarrow> 'w admin \<Rightarrow> 'w admin \<Rightarrow> bool" for call where
  as_register: "admin_step call a (snd (register_service req a))"
| as_start_app: "admin_step call a (snd (start_app call areq a))"
| as_start_vm: "admin_step call a (snd (start_vm_handler call n a))"
| as_start_service: "admin_step call a (snd (start_unit_on_vm call unit vm a))"
| as_stop_service: "admin_step call a (snd (stop_unit_on_vm call unit vm a))"
| as_pause: "admin_step call a (snd (pause_application call areq a))"
| as_resume: "admin_step call a (snd (resume_application call areq a))"
| as_stop: "admin_step call a (snd (stop_application call areq a))"
| as_system: "admin_step call a (snd (send_system_command call cmd a))"
| as_unit_status: "admin_step call a (snd (get_unit_status_handler call unit vm a))"
| as_set_locale: "admin_step call a (snd (set_locale written assigns a))"
| as_set_timezone: "admin_step call a (snd (set_timezone written tz a))"
| as_monitor: "admin_step call a (snd (monitor_tick call a))"
| as_spawned: "Task_monitor e \<in> set (ad_spawned a) \<Longrightarrow> admin_step call a (snd (monitor_routine call e a))"
| as_world: "admin_step call a (a\<lparr>ad_world := w\<rparr>)"

lemma preserves_handlers:
  assumes [preserves_rules]: "\<And>ec req. preserves admin_ok (call ec req)"
  shows "preserves admin_ok (start_vm_handler call n)"
    "preserves admin_ok (start_unit_on_vm call unit vm)"
    "preserves admin_ok (stop_unit_on_vm call unit vm)"
    "preserves admin_ok (pause_application call areq)"
    "preserves admin_ok (resume_application call areq)"
    "preserves admin_ok (stop_application call areq)"
    "preserves admin_ok (send_system_command call cmd)"
    "preserves admin_ok (get_unit_status_handler call unit vm)"
    "preserves admin_ok (monitor_tick call)"
  unfolding start_vm_handler_def start_unit_on_vm_def stop_unit_on_vm_def pause_application_def
    resume_application_def stop_application_def send_system_command_def get_unit_status_handler_def
    admin_get_unit_status_def monitor_tick_def Let_def
  by (intro preserves_rules)+

lemma admin_step_ok:
  assumes call: "\<And>ec req. preserves admin_ok (call ec req)"
    and "admin_step call a b" and ok: "admin_ok a"
  shows "admin_ok b"
  using assms(2)
proof (cases rule: admin_step.cases)
  case (as_world w)
  then show ?thesis using ok by (simp add: admin_ok_def)
next
  case (as_spawned e)
  then show ?thesis
    using preservesD [OF preserves_monitor_routine ok, OF call] by simp
qed (simp_all only: preservesD [where P = admin_ok, OF _ ok] preserves_handlers [OF call] preserves_start_app [OF call]
    preserves_register_service preserves_set_locale preserves_set_timezone)

lemma admin_reachable_ok:
  assumes "\<And>ec req. preserves admin_ok (call ec req)"
    and "(admin_step call)\<^sup>*\<^sup>* a b" and "admin_ok a"
  shows "admin_ok b"
  using assms(2,3) by (induction rule: rtranclp_induct) (auto intro: admin_step_ok assms(1))

section \<open>Endpoints under the lock\<close>

text \<open>The endpoint of a manager is its own: it needs no second look into the registry.\<close>

lemma endpoint_direct:
  "re_placement e = Endpoint ep vm \<Longrightarrow> endpoint tls r e = Inr
     \<lparr>ec_transport = ep, ec_tls = map_option (\<lambda>t. t\<lparr>tls_tls_name := Some (ee_tls_name ep)\<rparr>) tls\<rparr>"
  by (simp add: endpoint_def)

lemma endpoint_mgr:
  assumes "placement_ok e" "ut_service (re_type e) = Mgr"
  shows "\<exists>ec. \<forall>r. endpoint tls r e = Inr ec"
proof -
  obtain ep vm where "re_placement e = Endpoint ep vm"
    using placement_ok_mgr [OF assms] by blast
  then show ?thesis by (simp add: endpoint_direct)
qed

lemma endpoint_mgr_locked:
  "placement_ok e \<Longrightarrow> ut_service (re_type e) = Mgr \<Longrightarrow>
     endpoint tls r e = endpoint tls r' e \<and> is_ok (endpoint tls r' e)"
  using endpoint_mgr [of e tls] by force

lemma managers_Inr:
  assumes "admin_ok a"
  shows "managers a = Inr (List.map_filter
    (\<lambda>e. if ut_service (re_type e) = Mgr
         then result_ok (endpoint (ad_tls_config a) (ad_registry a) e) else None)
    (contents (ad_registry a)))"
  unfolding managers_def
proof (rule registry_filter_map_Inr)
  fix e
  assume "e \<in> set (contents (ad_registry a))"
  then have "placement_ok e" using assms by (rule admin_okD(3) [rotated])
  then show "(if ut_service (re_type e) = Mgr
      then ok_or_panic (endpoint (ad_tls_config a) (ad_registry a\<lparr>rg_locked := True\<rparr>) e) else Inr None) =
    Inr (if ut_service (re_type e) = Mgr
      then result_ok (endpoint (ad_tls_config a) (ad_registry a) e) else None)"
    using endpoint_mgr [of e "ad_tls_config a"] by auto
qed

lemma stats_endpoint_eq:
  assumes "admin_ok a"
  shows "stats_endpoint vm a =
    (case find (\<lambda>e. ut_service (re_type e) = Mgr \<and> re_name e = agent_service (Vm vm)) (contents (ad_registry a)) of
       Some e \<Rightarrow> endpoint (ad_tls_config a) (ad_registry a) e
     | None \<Rightarrow> Inl (Msg (''VM '' @ agent_service (Vm vm) @ '' not found'')))"
proof -
  let ?P = "\<lambda>e. ut_service (re_type e) = Mgr \<and> re_name e = agent_service (Vm vm)"
  let ?f = "\<lambda>r re. if ?P re
    then (case endpoint (ad_tls_config a) r re of
            Inl (Panic p) \<Rightarrow> Inl (Panic p) | res \<Rightarrow> Inr (Some res))
    else Inr None"
  have "?f r e = Inr (if ?P e then Some (endpoint (ad_tls_config a) (ad_registry a) e) else None)"
    if "e \<in> set (contents (ad_registry a))" for r e
    using endpoint_mgr [of e "ad_tls_config a"] admin_okD(3) [OF assms that] by auto
  then have "registry_find_map ?f (ad_registry a) =
      Inr (map_option (endpoint (ad_tls_config a) (ad_registry a)) (find ?P (contents (ad_registry a))))"
    unfolding registry_find_map_def contents_def [symmetric] by (rule find_map_list_find)
  then show ?thesis
    unfolding stats_endpoint_def Let_def
    by (cases "find ?P (contents (ad_registry a))") simp_all
qed

text \<open>A manager that is not an endpoint would make the service lock its own mutex twice.\<close>

lemma endpoint_managed_locked:
  "re_placement e = Managed vm by \<Longrightarrow> rg_locked r \<Longrightarrow>
     endpoint tls r e = Inl (Panic ''mutex already locked by this thread'')"
  by (simp add: endpoint_def by_name_def)

end
