(* ===== verification/Admin_Client.thy ===== *)
theory Admin_Client
  imports Admin_Server
begin

text \<open>
  The client of the admin service (\<open>crates/client/src/client.rs\<close>): the requests it sends and
  what it makes of the answers. The transport between client and server is not modelled; the
  lemmas compose the client's half of an exchange with the server's.
\<close>

definition admin_client_endpoint ::
  "endpoint_address \<Rightarrow> (string \<times> tls_config) option \<Rightarrow> endpoint_config" where
  "admin_client_endpoint address tls_info =
     (let (tls_name, tls) = (case tls_info of
            Some (name, tls) \<Rightarrow> (name, Some tls) | None \<Rightarrow> (''bogus(no tls)'', None))
      in \<lparr>ec_transport = \<lparr>ee_address = address, ee_tls_name = tls_name\<rparr>, ec_tls = tls\<rparr>)"

definition client_register_request ::
  "string \<Rightarrow> unit_type \<Rightarrow> endpoint_entry \<Rightarrow> unit_status \<Rightarrow> registry_request" where
  "client_register_request name ty ep status =
     \<lparr>rr_name = name, rr_type = u32_from_unit_type ty, rr_parent = [],
      rr_transport = Some (transport_config_from ep), rr_state = Some (pb_from_unit_status status)\<rparr>"

definition client_start_app_request :: "string \<Rightarrow> string \<Rightarrow> string list \<Rightarrow> application_request" where
  "client_start_app_request app_name vm_name args =
     \<lparr>ar_app_name = app_name, ar_vm_name = Some vm_name, ar_args = args\<rparr>"

text \<open>The request of \<open>stop\<close>, \<open>pause\<close> and \<open>resume\<close>.\<close>

definition client_app_request :: "string \<Rightarrow> application_request" where
  "client_app_request app_name = \<lparr>ar_app_name = app_name, ar_vm_name = None, ar_args = []\<rparr>"

definition client_set_locale_request :: "string \<Rightarrow> locale_assignment list" where
  "client_set_locale_request locale = [\<lparr>la_key = locale_key_i32 LANG, la_value = locale\<rparr>]"

definition client_query_list :: "query_list_item list \<Rightarrow> query_result list result" where
  "client_query_list list = rmap_list query_result_try_from list"

text \<open>
  \<open>watch\<close>: the first item is the snapshot; the events that follow are handed on until one
  does not decode or the stream ends.
\<close>

fun client_events :: "watch_item list \<Rightarrow> event list" where
  "client_events [] = []"
| "client_events (item # rest) =
     (case event_try_from item of Inl _ \<Rightarrow> [] | Inr ev \<Rightarrow> ev # client_events rest)"

definition client_watch :: "watch_item list \<Rightarrow> (query_result list \<times> event list) result" where
  "client_watch stream =
     (case stream of
        item # rest \<Rightarrow>
          (case wi_status item of
             Some (Initial init) \<Rightarrow>
               rbind (parse_list init) (\<lambda>list. Inr (list, client_events rest))
           | Some _ \<Rightarrow> Inl (Msg ''Protocol error, first item in stream not Initial'')
           | None \<Rightarrow> Inl (Msg ''Protocol error, initial item missing''))
      | [] \<Rightarrow> Inl (Msg ''Protocol error, status field missing''))"

datatype urgency_level = UrgencyLow | UrgencyNormal | UrgencyCritical

definition urgency_of :: "string \<Rightarrow> urgency_level" where
  "urgency_of urgency =
     (let u = map to_ascii_lower urgency in
      if u = ''low'' then UrgencyLow else if u = ''critical'' then UrgencyCritical else UrgencyNormal)"

section \<open>Client and server\<close>

lemma client_events_sent: "client_events (map watch_item_from evs) = evs"
proof (induction evs)
  case (Cons e evs)
  have "event_try_from (watch_item_from e) = Inr e" using ev.parse_print [of e] by simp
  with Cons show ?case by simp
qed simp

lemma client_watch_stream:
  "client_watch (watch_stream r0 r1 r2 n) =
     Inr (map query_result_from (contents r1), take n (drop (length (rg_log r0)) (rg_log r2)))"
  by (simp add: client_watch_def watch_stream_def subscribe_def into_initial_def parse_list_items
      client_events_sent contents_def del: map_map)

lemma client_register_entry:
  "registry_entry_try_from (client_register_request name ty ep status) =
     (if legal_unit_type ty
      then Inr \<lparr>re_name = name, re_type = ty, re_status = status, re_placement = Endpoint ep [],
                re_watch = (ut_service ty = Mgr \<or> (ut_vm ty = AppVM \<and> ut_service ty \<noteq> Svc))\<rparr>
      else Inl (Msg ''Unknown u32 value for UnitType: 100500''))"
proof (cases "legal_unit_type ty")
  case True
  moreover have "unit_type_try_from (u32_from_unit_type ty) = Inr ty"
    using ut.parse_print [OF True] by simp
  moreover have "unit_status_try_from (pb_from_unit_status status) = Inr status"
    using us.parse_print [of status] by simp
  moreover have "endpoint_entry_try_from (transport_config_from ep) = Inr ep"
    using ee.parse_print [of ep] by simp
  ultimately show ?thesis
    by (simp add: registry_entry_try_from_def client_register_request_def Let_def
        parse_vm_name_def strip_prefix_def)
next
  case False
  then have "u32_from_unit_type ty = 100500"
    by (simp add: legal_unit_type_def u32_from_unit_type_def)
  moreover have "show_nat 100500 = ''100500''" by (simp add: show_nat.simps)
  ultimately show ?thesis using False
    by (simp add: registry_entry_try_from_def client_register_request_def unit_type_try_from_def)
qed

end
