(* ===== verification/Admin_Properties.thy ===== *)
theory Admin_Properties
  imports Admin_Client
begin

text \<open>
  What the registry and the admin service guarantee, with witnesses on concrete requests.
\<close>

section \<open>Example values\<close>

definition ex_status :: "string \<Rightarrow> string \<Rightarrow> string \<Rightarrow> unit_status" where
  "ex_status name active sub =
     \<lparr>us_name = name, us_description = ''unit'', us_load_state = ''loaded'', us_active_state = active,
      us_sub_state = sub, us_path = ''/'', us_freezer_state = ''running''\<rparr>"

definition ex_running :: "string \<Rightarrow> unit_status" where
  "ex_running name = ex_status name ''active'' ''running''"

definition ex_exited :: "string \<Rightarrow> unit_status" where
  "ex_exited name = ex_status name ''inactive'' ''dead''"

definition ex_endpoint :: endpoint_entry where
  "ex_endpoint = \<lparr>ee_address = Tcp ''10.0.0.2'' 7, ee_tls_name = ''gui-vm''\<rparr>"

definition ex_mgr_request :: registry_request where
  "ex_mgr_request = client_register_request ''givc-gui-vm.service'' (unit_ty SysVM Mgr) ex_endpoint
     (ex_running ''givc-gui-vm.service'')"

definition ex_app :: "string \<Rightarrow> registry_entry" where
  "ex_app name =
     \<lparr>re_name = name, re_type = unit_ty AppVM App, re_status = ex_running name,
      re_placement = Managed ''microvm@gui-vm.service'' ''givc-gui-vm.service'', re_watch = True\<rparr>"

definition ex_agent :: registry_entry where
  "ex_agent =
     \<lparr>re_name = ''givc-gui-vm.service'', re_type = unit_ty SysVM Mgr,
      re_status = ex_running ''givc-gui-vm.service'',
      re_placement = Endpoint ex_endpoint ''gui-vm'', re_watch = True\<rparr>"

definition ex_registry :: registry where
  "ex_registry = register (ex_app ''app@0.service'') (register ex_agent registry_new)"

text \<open>Agents that answer every call with the same status and change nothing.\<close>

definition ex_call :: "unit_status \<Rightarrow> 'w admin agent_call" where
  "ex_call st ec req = sret (Some (pb_from_unit_status st))"

lemma ex_call_preserves [simp]: "preserves P (ex_call st ec req)"
  by (simp add: ex_call_def preserves_sret)


section \<open>The registry\<close>







text \<open>
  C6. \<open>create_unique_entry_name\<close> ends with a name no entry has, as long as the registry holds
  fewer than 2^31 entries (its counter is an \<open>i32\<close>): the smallest free number, in a form
  \<open>parse_application_name\<close> reads back.
\<close>

theorem create_unique_entry_name_spec:
  assumes "length (rg_map r) < 2 ^ 31"
  shows "\<exists>s n. create_unique_entry_name name r = Inr s \<and> \<not> registry_contains s r \<and>
    parse_application_name s = Inr (name, n) \<and>
    (\<forall>i \<in> {0..<n}. registry_contains (application_service (name, i)) r)"
  using create_unique_entry_name_fresh [OF assms, of name] by force

theorem create_unique_entry_name_spec_witness:
  "\<exists>s. create_unique_entry_name ''app'' ex_registry = Inr s \<and> \<not> registry_contains s ex_registry"
proof -
  have "length (rg_map ex_registry) = 2" by code_simp
  then have "length (rg_map ex_registry) < 2 ^ 31" by simp
  from create_unique_entry_name_spec [OF this, of "''app''"] show ?thesis by blast
qed

section \<open>Endpoints and the lock\<close>

lemma length_map_filter_all:
  "(\<And>x. x \<in> set xs \<Longrightarrow> P x \<Longrightarrow> f x \<noteq> None) \<Longrightarrow>
     length (List.map_filter (\<lambda>x. if P x then f x else None) xs) = length (filter P xs)"
proof (induction xs)
  case (Cons x xs)
  have "length (List.map_filter (\<lambda>x. if P x then f x else None) xs) = length (filter P xs)"
    using Cons by simp
  moreover have "P x \<Longrightarrow> \<exists>y. f x = Some y" using Cons.prems [of x] by auto
  ultimately show ?case by auto
qed simp

text \<open>
  C4. The service never locks its own registry twice: the entries of type manager always are
  endpoints, so collecting the managers' endpoints under the lock (\<open>set_locale\<close>,
  \<open>set_timezone\<close>) finds one for every manager, and looking for the manager of a VM
  (\<open>get_stats\<close>) ends with an endpoint or the error that there is none, never with a panic.
\<close>

theorem no_self_deadlock:
  assumes ok: "admin_ok a"
  shows "(\<exists>ms. managers a = Inr ms \<and>
      length ms = length (filter (\<lambda>e. ut_service (re_type e) = Mgr) (contents (ad_registry a)))) \<and>
    (case stats_endpoint vm a of
       Inr ec \<Rightarrow> \<exists>e \<in> set (contents (ad_registry a)).
         re_name e = agent_service (Vm vm) \<and> endpoint (ad_tls_config a) (ad_registry a) e = Inr ec
     | Inl err \<Rightarrow> err = Msg (''VM '' @ agent_service (Vm vm) @ '' not found''))"
proof
  show "\<exists>ms. managers a = Inr ms \<and>
      length ms = length (filter (\<lambda>e. ut_service (re_type e) = Mgr) (contents (ad_registry a)))"
    unfolding managers_Inr [OF ok]
    using endpoint_mgr_locked [OF admin_okD(3) [OF ok]]
    by (auto simp: is_ok_iff intro!: length_map_filter_all)
next
  let ?P = "\<lambda>e. ut_service (re_type e) = Mgr \<and> re_name e = agent_service (Vm vm)"
  show "case stats_endpoint vm a of
       Inr ec \<Rightarrow> \<exists>e \<in> set (contents (ad_registry a)).
         re_name e = agent_service (Vm vm) \<and> endpoint (ad_tls_config a) (ad_registry a) e = Inr ec
     | Inl err \<Rightarrow> err = Msg (''VM '' @ agent_service (Vm vm) @ '' not found'')"
  proof (cases "find ?P (contents (ad_registry a))")
    case (Some e)
    then have "e \<in> set (contents (ad_registry a))" "?P e" using find_Some_in by fastforce+
    moreover from this obtain ec where "endpoint (ad_tls_config a) (ad_registry a) e = Inr ec"
      using endpoint_mgr [OF admin_okD(3) [OF ok]] by blast
    ultimately show ?thesis by (auto simp: stats_endpoint_eq [OF ok] Some)
  qed (simp add: stats_endpoint_eq [OF ok])
qed

definition ex_admin :: "unit admin" where
  "ex_admin = (admin_new None None None ())\<lparr>ad_registry := register ex_agent registry_new\<rparr>"

lemma ex_admin_ok: "admin_ok ex_admin"
  by (simp add: admin_ok_def ex_admin_def)
    (simp add: all_entries_register all_entries_def contents_def registry_new_def hm_values_def
      hm_empty_def register_def hm_insert_def send_event_def Let_def ex_agent_def placement_ok_def
      hm_get_def)

theorem no_self_deadlock_witness: "\<exists>ms. managers ex_admin = Inr ms \<and> length ms = 1"
proof -
  have "length (filter (\<lambda>e. ut_service (re_type e) = Mgr) (contents (ad_registry ex_admin))) = 1"
    by code_simp
  then show ?thesis using no_self_deadlock [OF ex_admin_ok] by auto
qed

text \<open>
  C2. The invariant of the service: in every state its handlers, monitor and spawned tasks
  can reach from a fresh start, the registry is keyed by the names of its entries, no lock is
  left held, an entry managed by an agent is an application of an AppVM and every other entry
  is an endpoint. The agents may do anything in between that itself keeps the invariant.
\<close>

theorem admin_invariant:
  assumes "\<And>ec req. preserves admin_ok (call ec req)"
    and "(admin_step call)\<^sup>*\<^sup>* (admin_new tls locale_conf timezone_conf w) a"
  shows "registry_ok (ad_registry a) \<and> list_all placement_ok (contents (ad_registry a))"
  using admin_reachable_ok [OF assms admin_new_ok] by (simp add: admin_ok_def all_entries_def)

theorem admin_invariant_witness:
  "registry_ok (ad_registry (snd (start_app (ex_call (ex_running ''app@0.service''))
      (client_start_app_request ''app'' ''gui-vm'' [])
      (snd (register_service ex_mgr_request (admin_new None None None ())))))) \<and>
   list_all placement_ok (contents (ad_registry (snd (start_app (ex_call (ex_running ''app@0.service''))
      (client_start_app_request ''app'' ''gui-vm'' [])
      (snd (register_service ex_mgr_request (admin_new None None None ())))))))"
proof (rule admin_invariant [OF ex_call_preserves])
  let ?call = "ex_call (ex_running ''app@0.service'')"
  show "(admin_step ?call)\<^sup>*\<^sup>* (admin_new None None None ())
      (snd (start_app ?call (client_start_app_request ''app'' ''gui-vm'' [])
        (snd (register_service ex_mgr_request (admin_new None None None ())))))"
  proof (rule rtranclp.rtrancl_into_rtrancl [OF r_into_rtranclp])
    show "admin_step ?call (admin_new None None None ())
        (snd (register_service ex_mgr_request (admin_new None None None ())))"
      by (rule as_register)
  qed (rule as_start_app)
qed

section \<open>Applications and VMs\<close>

text \<open>
  C5. When \<open>start_app\<close> succeeds, the agent has reported a status under the name that is
  returned; if the unit is active, the registry has an entry for it, managed by the agent of
  the requested VM (or of the application's own VM) and watched by the monitor, and a later
  command on that name goes to the endpoint of that agent.
\<close>

theorem start_app_registers:
  assumes "start_app call req a = (Inr n, b)"
    and vm: "vm = (case ar_vm_name req of None \<Rightarrow> AppVm (ar_app_name req) | Some v \<Rightarrow> Vm v)"
  shows "\<exists>status ec unit s t.
    start_application_remote call ec unit (ar_args req) s = (Inr status, t) \<and>
    agent_endpoint (agent_service vm) s = Inr ec \<and>
    create_unique_entry_name (ar_app_name req) (ad_registry s) = Inr unit \<and> us_name status = n \<and>
    (if us_active_state status = ''active'' then
       b = t\<lparr>ad_registry := register
         \<lparr>re_name = n, re_type = unit_ty AppVM App, re_status = status,
          re_placement = Managed (vm_service vm) (agent_service vm), re_watch = True\<rparr> (ad_registry t)\<rparr>
     else b = t)"
proof -
  obtain s ec unit status t u x where
    ec: "agent_endpoint (agent_service vm) s = Inr ec" and
    unit: "create_unique_entry_name (ar_app_name req) (ad_registry s) = Inr unit" and
    status: "start_application_remote call ec unit (ar_args req) s = (Inr status, t)" and
    reg: "(if us_active_state status = ''active''
       then admin_register
         \<lparr>re_name = us_name status, re_type = unit_ty AppVM App, re_status = status,
          re_placement = Managed (vm_service vm) (agent_service vm), re_watch = True\<rparr>
       else sret ()) t = (Inr x, u)" and
    ret: "sret (us_name status) u = (Inr n, b)"
    using assms(1)
    unfolding start_app_def Let_def vm [symmetric] sbind_Inr sread_Inr scontext_Inr
    by (elim exE conjE) simp
  have n: "n = us_name status" "b = u" using ret by simp_all
  then have "if us_active_state status = ''active'' then
       b = t\<lparr>ad_registry := register
         \<lparr>re_name = n, re_type = unit_ty AppVM App, re_status = status,
          re_placement = Managed (vm_service vm) (agent_service vm), re_watch = True\<rparr> (ad_registry t)\<rparr>
     else b = t"
    using reg by (auto simp: admin_register_def on_registry_def split: if_splits)
  with ec unit status n(1) show ?thesis by blast
qed

theorem start_app_registers_witness:
  "\<exists>t. snd (start_app (ex_call (ex_running ''app@0.service''))
        (client_start_app_request ''app'' ''gui-vm'' []) ex_admin) =
     t\<lparr>ad_registry := register (ex_app ''app@0.service'') (ad_registry t)\<rparr>"
proof -
  let ?req = "client_start_app_request ''app'' ''gui-vm'' []"
  let ?call = "ex_call (ex_running ''app@0.service'') :: unit admin agent_call"
  have "fst (start_app ?call ?req ex_admin) = Inr ''app@0.service''" by code_simp
  then have run: "start_app ?call ?req ex_admin = (Inr ''app@0.service'', snd (start_app ?call ?req ex_admin))"
    by (metis prod.collapse)
  have vm: "Vm ''gui-vm'' = (case ar_vm_name ?req of None \<Rightarrow> AppVm (ar_app_name ?req) | Some v \<Rightarrow> Vm v)"
    by (simp add: client_start_app_request_def)
  obtain status ec unit s t where
    r: "start_application_remote ?call ec unit (ar_args ?req) s = (Inr status, t)" and
    b: "if us_active_state status = ''active'' then
       snd (start_app ?call ?req ex_admin) = t\<lparr>ad_registry := register
         \<lparr>re_name = ''app@0.service'', re_type = unit_ty AppVM App, re_status = status,
          re_placement = Managed (vm_service (Vm ''gui-vm'')) (agent_service (Vm ''gui-vm'')),
          re_watch = True\<rparr> (ad_registry t)\<rparr>
     else snd (start_app ?call ?req ex_admin) = t"
    using start_app_registers [OF run vm] by auto
  have "status = ex_running ''app@0.service''"
    using r us.parse_print [of "ex_running ''app@0.service''"]
    by (simp add: start_application_remote_def unit_call_def ex_call_def sread_def status_response_Some)
  with b show ?thesis
    by (auto simp: ex_running_def ex_status_def ex_app_def vm_service_def agent_service_def)
qed

text \<open>
  C8. \<open>start_vm\<close> answers only for a VM the host agent has loaded and reports active: every
  successful run ends in a status call on the single host manager whose answer is active, and
  a run that finds the VM active at first starts nothing.
\<close>

theorem start_vm_active:
  assumes "start_vm call name a = (Inr (), b)"
  shows "\<exists>ec s status. host_endpoint a = Inr ec \<and>
    get_remote_status call ec name s = (Inr status, b) \<and> us_active_state status = ''active'' \<and>
    (s = a \<or> (\<exists>s0 s1 st0. get_remote_status call ec name a = (Inr st0, s0) \<and>
       us_load_state st0 = ''loaded'' \<and> us_active_state st0 \<noteq> ''active'' \<and>
       (\<exists>st1. start_remote call ec name s0 = (Inr st1, s1)) \<and> s = s1))"
proof -
  obtain ec s0 st0 where ec: "host_endpoint a = Inr ec"
    and st0: "get_remote_status call ec name a = (Inr st0, s0)" and
    rest: "(if us_load_state st0 \<noteq> ''loaded'' then sfail (Msg (''vm '' @ name @ '' not loaded''))
       else if us_active_state st0 \<noteq> ''active'' then
         sbind (scontext (''spawn remote VM service '' @ name) (start_remote call ec name)) (\<lambda>_.
         sbind (scontext (''cannot retrieve vm status for '' @ name)
                  (get_remote_status call ec name)) (\<lambda>new_status.
           if us_active_state new_status \<noteq> ''active'' then sfail (Msg (''Unable to launch VM '' @ name))
           else sret ()))
       else sret ()) s0 = (Inr (), b)"
    using assms unfolding start_vm_def sbind_Inr sread_Inr scontext_Inr
    by (elim exE conjE) simp
  show ?thesis
  proof (cases "us_active_state st0 = ''active''")
    case True
    with rest have "b = s0" by (auto split: if_splits)
    with ec st0 True show ?thesis by blast
  next
    case False
    with rest obtain st1 s1 st2 where loaded: "us_load_state st0 = ''loaded''" and
      "start_remote call ec name s0 = (Inr st1, s1)"
      "get_remote_status call ec name s1 = (Inr st2, b)" "us_active_state st2 = ''active''"
      by (auto simp: sbind_Inr split: if_splits)
    with ec st0 False show ?thesis by blast
  qed
qed

text \<open>A registry with a host manager, and a host agent that reports the VM active.\<close>

definition ex_host :: registry_entry where
  "ex_host =
     \<lparr>re_name = ''givc-host.service'', re_type = unit_ty Host Mgr, re_status = ex_running ''givc-host.service'',
      re_placement = Endpoint ex_endpoint [], re_watch = True\<rparr>"

definition ex_host_admin :: "unit admin" where
  "ex_host_admin = (admin_new None None None ())\<lparr>ad_registry := register ex_host registry_new\<rparr>"

theorem start_vm_active_witness:
  "\<exists>ec. host_endpoint ex_host_admin = Inr ec"
proof -
  let ?r = "start_vm (ex_call (ex_running ''microvm@gui-vm.service'')) ''microvm@gui-vm.service'' ex_host_admin"
  have "fst ?r = Inr ()" by code_simp
  then have "?r = (Inr (), snd ?r)" by (metis prod.collapse)
  from start_vm_active [OF this] show ?thesis by blast
qed

section \<open>Monitoring\<close>

text \<open>
  C10. The monitor's recovery of managers does nothing: \<open>handle_error\<close> restarts the VM only of
  a manager that is managed by another agent, and no reachable registry has one. For every
  manager in the registry it succeeds without a call and without a change.
\<close>

theorem handle_error_manager_noop:
  fixes a :: "'w admin" and call :: "'w admin agent_call"
  assumes "admin_ok a" and "e \<in> set (contents (ad_registry a))" and "ut_service (re_type e) = Mgr"
  shows "handle_error call e = sret ()"
proof -
  obtain ep vm where "re_placement e = Endpoint ep vm"
    using placement_ok_mgr [OF admin_okD(3) [OF assms(1,2)] assms(3)] by blast
  with assms(3) show ?thesis by (simp add: handle_error_def split: vm_type.splits)
qed

theorem handle_error_manager_noop_witness:
  "handle_error (ex_call (ex_exited ''givc-gui-vm.service'')) ex_agent ex_admin = (Inr (), ex_admin)"
proof -
  have "ex_agent \<in> set (contents (ad_registry ex_admin))" "ut_service (re_type ex_agent) = Mgr"
    by (simp_all add: ex_admin_def contents_def register_def registry_new_def hm_defs Let_def
        send_event_def ex_agent_def)
  from handle_error_manager_noop [OF ex_admin_ok this, of "ex_call (ex_exited ''givc-gui-vm.service'')"]
  show ?thesis by (simp add: sret_def)
qed



section \<open>Locale and time zone\<close>

lemma check_assignment_ok: "is_ok (check_assignment x) \<longleftrightarrow> validate_locale (la_value x)"
proof -
  have "\<not> validate_locale []" by code_simp
  then show ?thesis by (auto simp: check_assignment_def is_ok_iff result_simps)
qed

lemma locale_content_ok:
  "is_ok (locale_content as) \<longleftrightarrow> (\<forall>x \<in> set as. locale_key_try_from (la_key x) \<noteq> None)"
proof -
  have "is_ok (locale_content as) \<longleftrightarrow> is_ok (rmap_list locale_line as)"
    by (auto simp: locale_content_def is_ok_iff result_simps)
  also have "\<dots> \<longleftrightarrow> (\<forall>x \<in> set as. locale_key_try_from (la_key x) \<noteq> None)"
  proof -
    have "is_ok (locale_line x) \<longleftrightarrow> locale_key_try_from (la_key x) \<noteq> None" for x
      by (cases "locale_key_try_from (la_key x)") (simp_all add: locale_line_def)
    then show ?thesis by (simp only: rmap_list_is_ok)
  qed
  finally show ?thesis .
qed

lemma set_locale_accepts:
  assumes ok: "admin_ok a" and "as \<noteq> []"
    and valid: "list_all (\<lambda>x. validate_locale (la_value x) \<and> locale_key_try_from (la_key x) \<noteq> None) as"
  shows "\<exists>b. set_locale w as a = (Inr (), b) \<and> ad_locale_assigns b = as \<and>
    (w \<longrightarrow> read_locale_conf (ad_locale_conf b) = as) \<and> ad_registry b = ad_registry a"
proof -
  obtain ms where "managers a = Inr ms" using managers_Inr [OF ok] by blast
  then have ms: "managers (a\<lparr>ad_locale_conf := x\<rparr>) = Inr ms" for x
    by (simp add: managers_def cong: if_cong)
  have v: "\<forall>x \<in> set as. validate_locale (la_value x)" "\<forall>x \<in> set as. locale_key_try_from (la_key x) \<noteq> None"
    using valid by (simp_all add: list_all_iff)
  then have "is_ok (rmap_list check_assignment as)" "is_ok (locale_content as)"
    by (simp_all add: rmap_list_is_ok check_assignment_ok locale_content_ok)
  then obtain us content where "rmap_list check_assignment as = Inr us" "locale_content as = Inr content"
    by (auto simp: is_ok_iff)
  then show ?thesis using \<open>managers a = Inr ms\<close> ms v assms(2)
    by (simp add: set_locale_def sbind_def sread_def ensure_def smodify_def spawn_def locale_conf_roundtrip)
qed

text \<open>
  C7. \<open>set_locale\<close> succeeds exactly on a non-empty list of assignments with valid values and
  known keys. Then the assignments are in force, and the file it writes, read at the next
  start of the service, gives the same assignments. On an error nothing has changed.
\<close>

theorem set_locale_persists:
  assumes ok: "admin_ok a"
  shows "case set_locale True as a of
     (Inr _, b) \<Rightarrow>
       as \<noteq> [] \<and> list_all (\<lambda>x. validate_locale (la_value x) \<and> locale_key_try_from (la_key x) \<noteq> None) as \<and>
       ad_locale_assigns b = as \<and> read_locale_conf (ad_locale_conf b) = as \<and>
       ad_registry b = ad_registry a
   | (Inl _, b) \<Rightarrow>
       b = a \<and>
       \<not> (as \<noteq> [] \<and> list_all (\<lambda>x. validate_locale (la_value x) \<and> locale_key_try_from (la_key x) \<noteq> None) as)"
proof -
  consider (empty) "as = []"
    | (invalid) e where "as \<noteq> []" "rmap_list check_assignment as = Inl e"
    | (key) us e where "as \<noteq> []" "rmap_list check_assignment as = Inr us" "locale_content as = Inl e"
    | (good) us c where "as \<noteq> []" "rmap_list check_assignment as = Inr us" "locale_content as = Inr c"
    by (cases "rmap_list check_assignment as"; cases "locale_content as") auto
  then show ?thesis
  proof cases
    case empty
    then show ?thesis by (simp add: set_locale_def sbind_def sread_def ensure_def)
  next
    case invalid
    then have "\<not> (\<forall>x \<in> set as. validate_locale (la_value x))"
      using rmap_list_is_ok [of check_assignment as] by (simp add: check_assignment_ok)
    with invalid show ?thesis
      by (auto simp: set_locale_def sbind_def sread_def ensure_def list_all_iff)
  next
    case key
    then have "\<not> (\<forall>x \<in> set as. locale_key_try_from (la_key x) \<noteq> None)"
      using locale_content_ok [of as] by simp
    with key show ?thesis
      by (auto simp: set_locale_def sbind_def sread_def ensure_def list_all_iff)
  next
    case good
    then have "is_ok (rmap_list check_assignment as)" "is_ok (locale_content as)" by simp_all
    then have v: "\<forall>x \<in> set as. validate_locale (la_value x)"
      "\<forall>x \<in> set as. locale_key_try_from (la_key x) \<noteq> None"
      by (simp_all add: rmap_list_is_ok check_assignment_ok locale_content_ok)
    with good(1) show ?thesis
      using set_locale_accepts [OF ok, of as True] by (auto simp: list_all_iff)
  qed
qed

theorem set_locale_persists_witness:
  "case set_locale True [\<lparr>la_key = 0, la_value = ''fi_FI.UTF-8''\<rparr>] ex_admin of
     (Inr _, b) \<Rightarrow> read_locale_conf (ad_locale_conf b) = [\<lparr>la_key = 0, la_value = ''fi_FI.UTF-8''\<rparr>]
   | (Inl _, b) \<Rightarrow> False"
proof -
  have "list_all (\<lambda>x. validate_locale (la_value x) \<and> locale_key_try_from (la_key x) \<noteq> None)
      [\<lparr>la_key = 0, la_value = ''fi_FI.UTF-8''\<rparr>]"
    by code_simp
  then show ?thesis
    using set_locale_persists [OF ex_admin_ok, of "[\<lparr>la_key = 0, la_value = ''fi_FI.UTF-8''\<rparr>]"]
    by (auto split: prod.splits sum.splits)
qed

section \<open>Registration\<close>

text \<open>
  C11. What a client registers is what the service records: for every unit type except the
  combination of host and VM, the request the client builds is accepted and the entry has the
  name, type, status and endpoint the client gave; the remaining combination is encoded as a
  number the service rejects.
\<close>

theorem client_registration:
  "case registry_entry_try_from (client_register_request name ty ep status) of
     Inr e \<Rightarrow> legal_unit_type ty \<and> re_name e = name \<and> re_type e = ty \<and> re_status e = status \<and>
       re_placement e = Endpoint ep []
   | Inl _ \<Rightarrow> ty = unit_ty Host VM"
  by (cases ty) (simp add: client_register_entry legal_unit_type_def)

text \<open>
  C12. The list the service reports is read back by the client as the results the registry's
  entries stand for, in the same order.
\<close>

theorem query_list_roundtrip:
  "case query_list a of
     (Inr items, b) \<Rightarrow> b = a \<and>
       client_query_list items = Inr (map query_result_from (contents (ad_registry a)))
   | (Inl _, _) \<Rightarrow> False"
  using parse_list_items [of "map query_result_from (contents (ad_registry a))"]
  by (simp add: query_list_def sread_def client_query_list_def parse_list_def comp_def)

end
