(* ===== verification/Rpc_Status.thy ===== *)
theory Rpc_Status
  imports State_Result
begin

text \<open>
  How errors and streams cross the wire: \<open>utils/tonic.rs\<close> of the admin service turns the
  error of a handler into a gRPC status, \<open>error.rs\<close> and \<open>stream.rs\<close> of the client turn a
  status back into an error and drain a stream of answers.
\<close>

section \<open>Statuses\<close>

text \<open>The gRPC status codes, and a status with the debug information the service attaches.\<close>

datatype code =
    CodeOk | CodeCancelled | CodeUnknown | CodeInvalidArgument | CodeDeadlineExceeded | CodeNotFound
  | CodeAlreadyExists | CodePermissionDenied | CodeResourceExhausted | CodeFailedPrecondition
  | CodeAborted | CodeOutOfRange | CodeUnimplemented | CodeInternal | CodeUnavailable | CodeDataLoss
  | CodeUnauthenticated

record debug_info =
  di_stack_entries :: "string list"
  di_detail :: string

record status =
  st_code :: code
  st_message :: string
  st_debug_info :: "debug_info option"

definition plain_status :: "code \<Rightarrow> string \<Rightarrow> status" where
  "plain_status c m = \<lparr>st_code = c, st_message = m, st_debug_info = None\<rparr>"

section \<open>Errors of the service\<close>

text \<open>\<open>Error::chain\<close>: the messages of an error, the outermost context first.\<close>

fun error_chain :: "error \<Rightarrow> string list" where
  "error_chain (Msg m) = [m]"
| "error_chain (NotRegistered name) = [''Service '' @ name @ '' not registered'']"
| "error_chain CancellationError = [''operation cancelled'']"
| "error_chain (Ctx c e) = c # error_chain e"
| "error_chain (Panic m) = [m]"

definition root_cause :: "error \<Rightarrow> string" where
  "root_cause e = List.last (error_chain e)"

fun is_expected_miss :: "error \<Rightarrow> bool" where
  "is_expected_miss (NotRegistered _) = True"
| "is_expected_miss (Ctx _ e) = is_expected_miss e"
| "is_expected_miss _ = False"

datatype log_level = LevelDebug | LevelError

text \<open>What \<open>wrap_error\<close> writes to the log, and the status it returns.\<close>

definition wrap_error_log :: "error \<Rightarrow> (log_level \<times> string) list" where
  "wrap_error_log any_err =
     (let stack = drop 1 (error_chain any_err);
          level = (if is_expected_miss any_err then LevelDebug else LevelError)
      in (level, ''Local error cause is '' @ root_cause any_err)
           # map (\<lambda>each. (level, ''Local reasons is '' @ each)) stack)"

definition wrap_error :: "error \<Rightarrow> status" where
  "wrap_error any_err =
     (let stack = drop 1 (error_chain any_err); cause = root_cause any_err
      in \<lparr>st_code = CodeInvalidArgument, st_message = ''request contains invalid arguments'',
          st_debug_info = Some \<lparr>di_stack_entries = stack, di_detail = cause\<rparr>\<rparr>)"

text \<open>
  \<open>escalate\<close> runs a handler on the message of a request. A handler that panics gives no
  answer at all.
\<close>

definition escalate ::
  "('t \<Rightarrow> ('s, 'r) sresult) \<Rightarrow> 't \<Rightarrow> 's \<Rightarrow> (status + 'r) option \<times> 's" where
  "escalate handler req s =
     (case handler req s of
        (Inr r, t) \<Rightarrow> (Some (Inr r), t)
      | (Inl (Panic _), t) \<Rightarrow> (None, t)
      | (Inl e, t) \<Rightarrow> (Some (Inl (wrap_error e)), t))"

section \<open>Errors of the client\<close>

definition rewrap_error :: "status \<Rightarrow> error" where
  "rewrap_error status =
     (let err = Msg (st_message status) in
      case st_debug_info status of
        None \<Rightarrow> err
      | Some debug_info \<Rightarrow>
          fold (\<lambda>each err. Ctx (''Stack: '' @ each) err) (di_stack_entries debug_info)
            (Ctx (''Detail: '' @ di_detail debug_info) err))"

definition rewrap_err :: "status + 'a \<Rightarrow> 'a result" where
  "rewrap_err r = (case r of Inl status \<Rightarrow> Inl (rewrap_error status) | Inr x \<Rightarrow> Inr x)"

section \<open>Streams\<close>

text \<open>
  A stream of answers: its messages, a status where the transport or the server failed,
  and the trailers that follow them, \<open>Some None\<close> when they hold no readable status. The
  text \<open>show\<close> gives a status is that of the transport library.
\<close>

record 'a streaming =
  sm_items :: "(status + 'a) list"
  sm_trailers :: "status option option"

definition status_error :: "(status \<Rightarrow> string) \<Rightarrow> status \<Rightarrow> error" where
  "status_error show st = Msg (show st)"

text \<open>\<open>Streaming::trailers\<close> first reads the messages that are left.\<close>

fun stream_trailers ::
  "(status \<Rightarrow> string) \<Rightarrow> (status + 'a) list \<Rightarrow> status option option \<Rightarrow> status option option result" where
  "stream_trailers show [] trailers = Inr trailers"
| "stream_trailers show (Inl st # _) trailers = Inl (status_error show st)"
| "stream_trailers show (Inr _ # rest) trailers = stream_trailers show rest trailers"

definition check_trailers ::
  "(status \<Rightarrow> string) \<Rightarrow> (status + 'a) list \<Rightarrow> status option option \<Rightarrow> unit result" where
  "check_trailers show rest trailers =
     rbind (stream_trailers show rest trailers) (\<lambda>t.
       case t of
         None \<Rightarrow> Inr ()
       | Some (Some status) \<Rightarrow> if st_code status \<noteq> CodeOk then Inl (rewrap_error status) else Inr ()
       | Some None \<Rightarrow> Inl (Msg ''invalid grpc-status trailer''))"

fun drain_items ::
  "(status \<Rightarrow> string) \<Rightarrow> status option option \<Rightarrow> ('a \<Rightarrow> ('s, unit) sresult) \<Rightarrow> (status + 'a) list \<Rightarrow>
   ('s, unit) sresult" where
  "drain_items show trailers callback [] =
     sread (\<lambda>_. with_context ''While check trailers'' (check_trailers show ([] :: (status + 'a) list) trailers))"
| "drain_items show trailers callback (Inr item # rest) =
     sbind (callback item) (\<lambda>_. drain_items show trailers callback rest)"
| "drain_items show trailers callback (Inl status # _) = sfail (rewrap_error status)"

definition drain_stream_with_callback ::
  "(status \<Rightarrow> string) \<Rightarrow> 'a streaming \<Rightarrow> ('a \<Rightarrow> ('s, unit) sresult) \<Rightarrow> ('s, unit) sresult" where
  "drain_stream_with_callback show stream callback =
     drain_items show (sm_trailers stream) callback (sm_items stream)"

section \<open>Lemmas\<close>

lemma error_chain_nonempty [simp]: "error_chain e \<noteq> []"
  by (cases e) auto

lemma error_chain_fold:
  "error_chain (fold (\<lambda>each err. Ctx (f each) err) xs e) = map f (rev xs) @ error_chain e"
  by (induction xs arbitrary: e) auto

lemma is_expected_miss_iff: "is_expected_miss e \<longleftrightarrow> (\<exists>cs name. e = foldr Ctx cs (NotRegistered name))"
proof (induction e)
  case (NotRegistered n)
  show ?case by (auto intro: exI [of _ "[]"])
next
  case (Ctx c e)
  have "(\<exists>cs name. Ctx c e = foldr Ctx cs (NotRegistered name)) \<longleftrightarrow>
      (\<exists>cs name. e = foldr Ctx cs (NotRegistered name))" (is "?l \<longleftrightarrow> ?r")
  proof
    assume ?l
    then obtain cs name where "Ctx c e = foldr Ctx cs (NotRegistered name)" by blast
    then show ?r by (cases cs) auto
  next
    assume ?r
    then obtain cs name where "e = foldr Ctx cs (NotRegistered name)" by blast
    then show ?l by (auto intro!: exI [of _ "c # cs"])
  qed
  with Ctx show ?case by simp
next
  case (Msg m)
  have "Msg m \<noteq> foldr Ctx cs (NotRegistered name)" for cs name by (cases cs) auto
  then show ?case by auto
next
  case CancellationError
  have "CancellationError \<noteq> foldr Ctx cs (NotRegistered name)" for cs name by (cases cs) auto
  then show ?case by auto
next
  case (Panic m)
  have "Panic m \<noteq> foldr Ctx cs (NotRegistered name)" for cs name by (cases cs) auto
  then show ?case by auto
qed

lemma wrapped_chain:
  "error_chain (rewrap_error (wrap_error e)) =
     map ((@) ''Stack: '') (rev (tl (error_chain e))) @
     [''Detail: '' @ List.last (error_chain e), ''request contains invalid arguments'']"
  by (simp add: rewrap_error_def wrap_error_def Let_def root_cause_def error_chain_fold drop_Suc)

lemma stream_trailers_Inr [simp]: "stream_trailers show (map Inr xs) t = Inr t"
  by (induction xs) auto

text \<open>A stream without an error is handed to the callback message by message.\<close>

lemma drain_items_append:
  "drain_items show t cb (map Inr xs @ ys) =
     sbind (sforeach xs cb) (\<lambda>_. drain_items show t cb ys)"
  by (induction xs) (auto simp: fun_eq_iff sresult_defs result_simps split: prod.splits sum.splits)

end
