(* ===== verification/Access_Control.thy ===== *)
theory Access_Control
  imports Rpc_Status "HOL-Library.AList"
begin

text \<open>
  Who may call the admin service: the peer's certificate (\<open>utils/x509.rs\<close>), the
  authentication of a connection (\<open>utils/auth.rs\<close>), the authorization of a call against the
  Cedar policy (\<open>utils/access_control.rs\<close>), and the order in which \<open>givc-admin\<close> puts the two
  before the handlers. The certificate parser, the protobuf descriptors and the Cedar engine
  are parameters.
\<close>

section \<open>Addresses\<close>

type_synonym u8 = "8 word"

datatype ip_addr = V4 "u8 list" | V6 "u8 list"

definition show_ipv4 :: "u8 list \<Rightarrow> string" where
  "show_ipv4 b = join_with ''.'' (map (\<lambda>x. show_nat (unat x)) b)"

fun segments :: "u8 list \<Rightarrow> nat list" where
  "segments (h # l # rest) = (unat h * 256 + unat l) # segments rest"
| "segments _ = []"

definition hex_digit :: "nat \<Rightarrow> char" where
  "hex_digit d = (if d < 10 then char_of (48 + d) else char_of (87 + d))"

fun show_hex :: "nat \<Rightarrow> string" where
  "show_hex n = (if n < 16 then [hex_digit n] else show_hex (n div 16) @ [hex_digit (n mod 16)])"

declare show_hex.simps [simp del]

text \<open>The longest run of zero segments, as its start and its length: the first of them.\<close>

fun longest_zeros :: "nat \<Rightarrow> nat \<times> nat \<Rightarrow> nat \<times> nat \<Rightarrow> nat list \<Rightarrow> nat \<times> nat" where
  "longest_zeros i longest current [] = longest"
| "longest_zeros i longest current (s # rest) =
     (if s = 0 then
        let current = (if snd current = 0 then i else fst current, snd current + 1) in
        longest_zeros (i + 1) (if snd current > snd longest then current else longest) current rest
      else longest_zeros (i + 1) longest (0, 0) rest)"

definition show_segments :: "nat list \<Rightarrow> string" where
  "show_segments ss = join_with '':'' (map show_hex ss)"

definition show_ipv6 :: "u8 list \<Rightarrow> string" where
  "show_ipv6 b =
     (if take 12 b = replicate 10 0 @ [255, 255] then ''::ffff:'' @ show_ipv4 (drop 12 b)
      else
        let ss = segments b; (start, len) = longest_zeros 0 (0, 0) (0, 0) ss in
        if len > 1 then show_segments (take start ss) @ ''::'' @ show_segments (drop (start + len) ss)
        else show_segments ss)"

fun show_ip :: "ip_addr \<Rightarrow> string" where
  "show_ip (V4 b) = show_ipv4 b"
| "show_ip (V6 b) = show_ipv6 b"

section \<open>Certificates\<close>

record security_info =
  si_enabled :: bool
  si_dns_names :: "string list"
  si_ip_addrs :: "ip_addr list"

definition security_info_new :: security_info where
  "security_info_new = \<lparr>si_enabled = True, si_dns_names = [], si_ip_addrs = []\<rparr>"

definition security_info_disabled :: security_info where
  "security_info_disabled = security_info_new\<lparr>si_enabled := False\<rparr>"

definition check_address :: "security_info \<Rightarrow> ip_addr \<Rightarrow> bool" where
  "check_address si ia = (\<not> si_enabled si \<or> ia \<in> set (si_ip_addrs si))"

definition check_hostname :: "security_info \<Rightarrow> string \<Rightarrow> bool" where
  "check_hostname si hostname = (\<not> si_enabled si \<or> hostname \<in> set (si_dns_names si))"

definition si_hostname :: "security_info \<Rightarrow> string option" where
  "si_hostname si = (case si_dns_names si of [] \<Rightarrow> None | h # _ \<Rightarrow> Some h)"

text \<open>What the certificate parser gives: the extensions, the names of the alternative one.\<close>

datatype general_name = DNSName string | IPAddress "u8 list" | OtherName

datatype parsed_extension = SubjectAlternativeName "general_name list" | OtherExtension

fun add_general_name :: "general_name \<Rightarrow> security_info \<Rightarrow> security_info" where
  "add_general_name (DNSName s) this = this\<lparr>si_dns_names := si_dns_names this @ [s]\<rparr>"
| "add_general_name (IPAddress b) this =
     (if length b = 4 then this\<lparr>si_ip_addrs := si_ip_addrs this @ [V4 b]\<rparr>
      else if length b = 16 then this\<lparr>si_ip_addrs := si_ip_addrs this @ [V6 b]\<rparr>
      else this)"
| "add_general_name OtherName this = this"

fun add_extension :: "parsed_extension \<Rightarrow> security_info \<Rightarrow> security_info" where
  "add_extension (SubjectAlternativeName names) this = fold add_general_name names this"
| "add_extension OtherExtension this = this"

definition security_info_try_from ::
  "('cert \<Rightarrow> parsed_extension list option) \<Rightarrow> 'cert \<Rightarrow> security_info option" where
  "security_info_try_from parse_x509 cert =
     map_option (\<lambda>exts. fold add_extension exts security_info_new) (parse_x509 cert)"

section \<open>Authentication\<close>

text \<open>
  A request: its path, its body (or the error of reading it), what the TLS layer knows of the
  connection, and the security information the authenticator adds.
\<close>

datatype connect_info = TcpInfo "ip_addr option" | OtherInfo

record 'cert tls_connect_info =
  ti_peer_certs :: "'cert list option"
  ti_connect_info :: connect_info

record 'cert http_request =
  rq_path :: string
  rq_body :: "string + u8 list"
  rq_tls :: "'cert tls_connect_info option"
  rq_security :: "security_info option"

primrec find_map :: "('a \<Rightarrow> 'b option) \<Rightarrow> 'a list \<Rightarrow> 'b option" where
  "find_map f [] = None"
| "find_map f (x # xs) = (case f x of Some y \<Rightarrow> Some y | None \<Rightarrow> find_map f xs)"

definition security_info_from_request ::
  "('cert \<Rightarrow> parsed_extension list option) \<Rightarrow> 'cert http_request \<Rightarrow> status + security_info" where
  "security_info_from_request parse_x509 req =
     (case Option.bind (rq_tls req) ti_peer_certs of
        None \<Rightarrow> Inl (plain_status CodeUnauthenticated ''No peer certificate'')
      | Some certs \<Rightarrow>
          (case find_map (security_info_try_from parse_x509) certs of
             None \<Rightarrow> Inl (plain_status CodeUnauthenticated ''Can't parse certificate'')
           | Some si \<Rightarrow> Inr si))"

definition transport_info_from_request :: "'cert http_request \<Rightarrow> connect_info option" where
  "transport_info_from_request req = map_option ti_connect_info (rq_tls req)"

definition authenticate ::
  "('cert \<Rightarrow> parsed_extension list option) \<Rightarrow> bool \<Rightarrow> 'cert http_request \<Rightarrow> status + 'cert http_request" where
  "authenticate parse_x509 use_tls req =
     (if use_tls then
        rbind (security_info_from_request parse_x509 req) (\<lambda>security_info.
          case transport_info_from_request req of
            Some (TcpInfo remote_addr) \<Rightarrow>
              (case remote_addr of
                 None \<Rightarrow> Inl (plain_status CodeUnauthenticated ''Can't determine peer IP'')
               | Some ip \<Rightarrow>
                   if check_address security_info ip
                   then Inr (req\<lparr>rq_security := Some security_info\<rparr>)
                   else Inl (plain_status CodePermissionDenied
                          (''IP '' @ show_ip ip @ '' not in certificate SAN'')))
          | Some OtherInfo \<Rightarrow> Inr (req\<lparr>rq_security := Some security_info\<rparr>)
          | None \<Rightarrow> Inl (plain_status CodeUnauthenticated ''No transport info''))
      else Inr (req\<lparr>rq_security := Some security_info_disabled\<rparr>))"

definition ensure_host :: "security_info option \<Rightarrow> string list \<Rightarrow> status + unit" where
  "ensure_host si hostnames =
     (if is_some_and si (\<lambda>si. list_ex (check_hostname si) hostnames) then Inr ()
      else Inl (plain_status CodePermissionDenied
        (''Permissions for '' @ join_with '', '' hostnames @ '' not confirmed by certificate'')))"

section \<open>Authorization\<close>

text \<open>A JSON value, as far as the context of a decision needs it.\<close>

datatype 'x json = JsonObject "(string \<times> 'x json) list" | JsonString string | JsonOther 'x

fun insert_service :: "string \<Rightarrow> 'x json \<Rightarrow> 'x json" where
  "insert_service service_name (JsonObject m) = JsonObject (AList.update ''service'' (JsonString service_name) m)"
| "insert_service service_name j = j"

text \<open>
  The Cedar engine with the policies of the file: the context it reads from a JSON value, the
  request it builds, and its decision. The descriptor pool gives the methods of a service.
\<close>

record ('x, 'c, 'q) cedar =
  ce_context :: "'x json \<Rightarrow> string + 'c"
  ce_request :: "string \<Rightarrow> string \<Rightarrow> string \<Rightarrow> 'c \<Rightarrow> string + 'q"
  ce_allows :: "'q \<Rightarrow> bool"

record ('x, 'm) grpc_method =
  gm_name :: string
  gm_client_streaming :: bool
  gm_decode :: "u8 list \<Rightarrow> string + 'm"
  gm_to_json :: "'m \<Rightarrow> 'x json option"

type_synonym ('x, 'm) descriptor_pool = "string \<Rightarrow> ('x, 'm) grpc_method list option"

definition status_or :: "string \<Rightarrow> string + 'a \<Rightarrow> status + 'a" where
  "status_or msg r = (case r of Inl e \<Rightarrow> Inl (plain_status CodeInternal (msg @ e)) | Inr x \<Rightarrow> Inr x)"

definition authorize ::
  "('x, 'c, 'q) cedar \<Rightarrow> string \<Rightarrow> string \<Rightarrow> string \<Rightarrow> 'x json \<Rightarrow> status + unit" where
  "authorize ce source full_service_name grpc_method_name context_json =
     (case split_once CHR ''.'' full_service_name of
        None \<Rightarrow> Inl (plain_status CodeInternal (''Invalid service name format: '' @ full_service_name))
      | Some (module_name, service_name) \<Rightarrow>
          if trim module_name = [] \<or> trim service_name = [] \<or> trim grpc_method_name = [] \<or> trim source = []
          then Inl (plain_status CodeInternal
                 (''Invalid service name format (empty tokens): '' @ full_service_name))
          else
            rbind (status_or ''Invalid Cedar context: '' (ce_context ce (insert_service service_name context_json)))
              (\<lambda>cx.
            rbind (status_or ''failed to build Cedar request: ''
                     (ce_request ce source grpc_method_name module_name cx)) (\<lambda>request.
              if ce_allows ce request then Inr ()
              else Inl (plain_status CodePermissionDenied
                     ''cedar: permission denied by admin access control policy''))))"

definition parse_grpc_path :: "string \<Rightarrow> (string \<times> string) option" where
  "parse_grpc_path path =
     (case split_on CHR ''/'' (trim_matches CHR ''/'' path) of a # b # _ \<Rightarrow> Some (a, b) | _ \<Rightarrow> None)"

text \<open>The message of a gRPC frame: a flag, its length in four bytes, and that many bytes.\<close>

fun frame_payload :: "u8 list \<Rightarrow> u8 list option" where
  "frame_payload (_ # a # b # c # d # rest) =
     (let len = ((unat a * 256 + unat b) * 256 + unat c) * 256 + unat d in
      if len \<le> length rest then Some (take len rest) else None)"
| "frame_payload _ = None"

text \<open>
  The context of the decision on a unary method: the message of the frame, or the empty object
  when there is no complete frame or the message has no JSON form.
\<close>

definition frame_context :: "('x, 'm) grpc_method \<Rightarrow> u8 list \<Rightarrow> status + 'x json" where
  "frame_context method body_bytes =
     (case frame_payload body_bytes of
        Some payload \<Rightarrow>
          rbind (status_or ''Failed to decode: '' (gm_decode method payload)) (\<lambda>msg.
            Inr (case gm_to_json method msg of Some j \<Rightarrow> j | None \<Rightarrow> JsonObject []))
      | None \<Rightarrow> Inr (JsonObject []))"

definition unary_method ::
  "('x, 'm) descriptor_pool \<Rightarrow> string \<Rightarrow> string \<Rightarrow> ('x, 'm) grpc_method option" where
  "unary_method pool service_name method_name =
     (case pool service_name of
        None \<Rightarrow> None
      | Some methods \<Rightarrow>
          (case find (\<lambda>m. gm_name m = method_name) methods of
             Some method \<Rightarrow> if gm_client_streaming method then None else Some method
           | None \<Rightarrow> None))"

definition authorize_request ::
  "('x, 'm) descriptor_pool \<Rightarrow> ('x, 'c, 'q) cedar \<Rightarrow> 'cert http_request \<Rightarrow> status + 'cert http_request" where
  "authorize_request pool ce req =
     (case Option.bind (rq_security req) si_hostname of
        None \<Rightarrow> Inl (plain_status CodeInternal
                  ''Cedar authorization denied: SecurityInfo extension or hostname is missing'')
      | Some source \<Rightarrow>
          (case parse_grpc_path (rq_path req) of
             None \<Rightarrow> Inl (plain_status CodeInternal ''Cedar authorization denied: Bad request'')
           | Some (service_name, method_name) \<Rightarrow>
               (case unary_method pool service_name method_name of
                  Some method \<Rightarrow>
                    rbind (status_or ''Failed to buffer body: '' (rq_body req)) (\<lambda>body_bytes.
                    rbind (frame_context method body_bytes) (\<lambda>cx.
                    rbind (authorize ce source service_name method_name cx) (\<lambda>_.
                      Inr (req\<lparr>rq_body := Inr body_bytes\<rparr>))))
                | None \<Rightarrow>
                    rbind (authorize ce source service_name method_name (JsonObject [])) (\<lambda>_. Inr req))))"

section \<open>The layers of the service\<close>

text \<open>
  \<open>givc-admin\<close> puts the authenticator outermost and, with access control switched on, the
  authorizer below it.
\<close>

definition admit ::
  "('cert \<Rightarrow> parsed_extension list option) \<Rightarrow> ('x, 'm) descriptor_pool \<Rightarrow> bool \<Rightarrow> ('x, 'c, 'q) cedar option \<Rightarrow>
   'cert http_request \<Rightarrow> status + 'cert http_request" where
  "admit parse_x509 pool use_tls access_control req =
     rbind (authenticate parse_x509 use_tls req) (\<lambda>req.
       case access_control of None \<Rightarrow> Inr req | Some ce \<Rightarrow> authorize_request pool ce req)"

section \<open>Lemmas\<close>

lemma find_map_Some: "find_map f xs = Some y \<Longrightarrow> \<exists>x \<in> set xs. f x = Some y"
  by (induction xs) (auto split: option.splits)

text \<open>The names and addresses of a certificate, read off its alternative names in order.\<close>

definition san_names :: "parsed_extension list \<Rightarrow> general_name list" where
  "san_names exts = concat (map (\<lambda>e. case e of SubjectAlternativeName ns \<Rightarrow> ns | OtherExtension \<Rightarrow> []) exts)"

definition dns_of :: "general_name \<Rightarrow> string option" where
  "dns_of n = (case n of DNSName s \<Rightarrow> Some s | _ \<Rightarrow> None)"

definition ip_of :: "general_name \<Rightarrow> ip_addr option" where
  "ip_of n =
     (case n of
        IPAddress b \<Rightarrow> if length b = 4 then Some (V4 b) else if length b = 16 then Some (V6 b) else None
      | _ \<Rightarrow> None)"

lemma add_general_name_eq:
  "add_general_name n si =
     si\<lparr>si_dns_names := si_dns_names si @ (case dns_of n of Some s \<Rightarrow> [s] | None \<Rightarrow> []),
        si_ip_addrs := si_ip_addrs si @ (case ip_of n of Some a \<Rightarrow> [a] | None \<Rightarrow> [])\<rparr>"
  by (cases n) (auto simp: dns_of_def ip_of_def)

lemma fold_general_names:
  "fold add_general_name ns si =
     si\<lparr>si_dns_names := si_dns_names si @ List.map_filter dns_of ns,
        si_ip_addrs := si_ip_addrs si @ List.map_filter ip_of ns\<rparr>"
  by (induction ns arbitrary: si) (auto simp: add_general_name_eq map_filter_simps split: option.splits)

lemma fold_extensions: "fold add_extension exts si = fold add_general_name (san_names exts) si"
proof (induction exts arbitrary: si)
  case (Cons e exts)
  then show ?case by (cases e) (simp_all add: san_names_def)
qed (simp add: san_names_def)

lemma security_info_try_from_eq:
  "security_info_try_from parse cert = Some si \<longleftrightarrow>
     (\<exists>exts. parse cert = Some exts \<and>
       si = \<lparr>si_enabled = True, si_dns_names = List.map_filter dns_of (san_names exts),
             si_ip_addrs = List.map_filter ip_of (san_names exts)\<rparr>)"
  by (auto simp: security_info_try_from_def fold_extensions fold_general_names security_info_new_def)

lemma status_or_Inr [simp]: "status_or m r = Inr x \<longleftrightarrow> r = Inr x"
  by (auto simp: status_or_def split: sum.splits)

lemma authorize_Inr:
  "authorize ce source full method j = Inr u \<longleftrightarrow>
     (\<exists>module service cx rq.
        split_once CHR ''.'' full = Some (module, service) \<and>
        trim module \<noteq> [] \<and> trim service \<noteq> [] \<and> trim method \<noteq> [] \<and> trim source \<noteq> [] \<and>
        ce_context ce (insert_service service j) = Inr cx \<and>
        ce_request ce source method module cx = Inr rq \<and> ce_allows ce rq)"
proof (cases "split_once CHR ''.'' full")
  case (Some p)
  then show ?thesis
    by (cases p) (auto simp: authorize_def rbind_Inr_iff)
qed (simp add: authorize_def)

lemma authenticate_Inr:
  assumes "authenticate parse True req = Inr req'"
  shows "\<exists>ti certs cert si. rq_tls req = Some ti \<and> ti_peer_certs ti = Some certs \<and> cert \<in> set certs \<and>
    security_info_try_from parse cert = Some si \<and> req' = req\<lparr>rq_security := Some si\<rparr> \<and>
    (\<forall>addr. ti_connect_info ti = TcpInfo addr \<longrightarrow> (\<exists>ip. addr = Some ip \<and> ip \<in> set (si_ip_addrs si)))"
proof -
  obtain si where si: "security_info_from_request parse req = Inr si"
    and rest: "(case transport_info_from_request req of
            Some (TcpInfo remote_addr) \<Rightarrow>
              (case remote_addr of
                 None \<Rightarrow> Inl (plain_status CodeUnauthenticated ''Can't determine peer IP'')
               | Some ip \<Rightarrow>
                   if check_address si ip then Inr (req\<lparr>rq_security := Some si\<rparr>)
                   else Inl (plain_status CodePermissionDenied
                          (''IP '' @ show_ip ip @ '' not in certificate SAN'')))
          | Some OtherInfo \<Rightarrow> Inr (req\<lparr>rq_security := Some si\<rparr>)
          | None \<Rightarrow> Inl (plain_status CodeUnauthenticated ''No transport info'')) = Inr req'"
    using assms by (auto simp: authenticate_def rbind_Inr_iff)
  obtain ti certs where ti: "rq_tls req = Some ti" "ti_peer_certs ti = Some certs"
    and "find_map (security_info_try_from parse) certs = Some si"
    using si by (auto simp: security_info_from_request_def bind_eq_Some_conv split: option.splits)
  then obtain cert where cert: "cert \<in> set certs" "security_info_try_from parse cert = Some si"
    using find_map_Some by metis
  then have "si_enabled si" by (auto simp: security_info_try_from_eq)
  with rest ti have "req' = req\<lparr>rq_security := Some si\<rparr> \<and>
    (\<forall>addr. ti_connect_info ti = TcpInfo addr \<longrightarrow> (\<exists>ip. addr = Some ip \<and> ip \<in> set (si_ip_addrs si)))"
    by (auto simp: transport_info_from_request_def check_address_def
        split: connect_info.splits option.splits if_splits)
  with ti cert show ?thesis by blast
qed

lemma authorize_request_Inr:
  "authorize_request pool ce req = Inr req' \<longleftrightarrow>
     (\<exists>si source full method j.
        rq_security req = Some si \<and> si_hostname si = Some source \<and>
        parse_grpc_path (rq_path req) = Some (full, method) \<and>
        (case unary_method pool full method of
           Some m \<Rightarrow> \<exists>b. rq_body req = Inr b \<and> frame_context m b = Inr j
         | None \<Rightarrow> j = JsonObject []) \<and>
        authorize ce source full method j = Inr () \<and> req' = req)"
  by (cases req)
    (auto simp: authorize_request_def rbind_Inr_iff bind_eq_Some_conv split: option.splits)

text \<open>Without TLS there is no host name, so access control turns every request away.\<close>

lemma no_tls_denied: "admit parse pool False (Some ce) req =
    Inl (plain_status CodeInternal
      ''Cedar authorization denied: SecurityInfo extension or hostname is missing'')"
  by (simp add: admit_def authenticate_def authorize_request_def security_info_disabled_def
      security_info_new_def si_hostname_def)

end
