(* ===== verification/Exec_Client.thy ===== *)
theory Exec_Client
  imports Rpc_Status
begin

text \<open>
  Running a command through an agent (\<open>client/src/exec.rs\<close>): the agent is a parameter that
  answers with a stream of events; bytes are characters.
\<close>

section \<open>The exec client\<close>

record start_command =
  sc_command :: string
  sc_arguments :: "string list"
  sc_working_directory :: "string option"
  sc_env_vars :: "(string \<times> string) list"
  sc_stdin :: "string option"
  sc_role :: "string option"

datatype command_event = EventStdout string | EventStderr string | EventStarted int | EventFinished int

text \<open>
  The loop over the answers: it hands the output on, stops at the end of the process, and
  returns the code with the messages it left in the stream.
\<close>

fun exec_loop ::
  "(status \<Rightarrow> string) \<Rightarrow> (string \<Rightarrow> 's \<Rightarrow> 's) \<Rightarrow> (string \<Rightarrow> 's \<Rightarrow> 's) \<Rightarrow>
   (status + command_event option) list \<Rightarrow> ('s, int \<times> (status + command_event option) list) sresult" where
  "exec_loop show stdout_fn stderr_fn [] = sret (-1, [])"
| "exec_loop show stdout_fn stderr_fn (Inl st # _) = sfail (status_error show st)"
| "exec_loop show stdout_fn stderr_fn (Inr ev # rest) =
     (case ev of
        Some (EventStdout payload) \<Rightarrow>
          sbind (smodify (stdout_fn payload)) (\<lambda>_. exec_loop show stdout_fn stderr_fn rest)
      | Some (EventStderr payload) \<Rightarrow>
          sbind (smodify (stderr_fn payload)) (\<lambda>_. exec_loop show stdout_fn stderr_fn rest)
      | Some (EventStarted _) \<Rightarrow> exec_loop show stdout_fn stderr_fn rest
      | Some (EventFinished return_code) \<Rightarrow> sret (return_code, rest)
      | None \<Rightarrow> exec_loop show stdout_fn stderr_fn rest)"

text \<open>\<open>run\<close> is the call of the agent: a status, or the stream of its answers.\<close>

definition exec_start_command ::
  "(status \<Rightarrow> string) \<Rightarrow> (start_command \<Rightarrow> status + command_event option streaming) \<Rightarrow> string \<Rightarrow> string list \<Rightarrow>
   string option \<Rightarrow> (string \<times> string) list option \<Rightarrow> string option \<Rightarrow> string option \<Rightarrow>
   (string \<Rightarrow> 's \<Rightarrow> 's) \<Rightarrow> (string \<Rightarrow> 's \<Rightarrow> 's) \<Rightarrow> ('s, int) sresult" where
  "exec_start_command show run command arguments working_directory env_vars stdin role stdout_fn stderr_fn =
     (let start = \<lparr>sc_command = command, sc_arguments = arguments,
                   sc_working_directory = working_directory,
                   sc_env_vars = (case env_vars of Some e \<Rightarrow> e | None \<Rightarrow> []),
                   sc_stdin = stdin, sc_role = role\<rparr>
      in case run start of
           Inl st \<Rightarrow> sfail (status_error show st)
         | Inr response \<Rightarrow>
             sbind (exec_loop show stdout_fn stderr_fn (sm_items response)) (\<lambda>(return_code, rest).
             sbind (sread (\<lambda>_. with_context ''While check trailers in exec.rs''
                       (check_trailers show rest (sm_trailers response)))) (\<lambda>_.
               sret return_code)))"

definition get_program_output ::
  "(status \<Rightarrow> string) \<Rightarrow> (start_command \<Rightarrow> status + command_event option streaming) \<Rightarrow> string \<Rightarrow> string list \<Rightarrow>
   string option \<Rightarrow> (string \<times> string) list option \<Rightarrow> string option \<Rightarrow> string option \<Rightarrow>
   (string \<times> string \<times> int) result" where
  "get_program_output show run command arguments working_directory env_vars stdin role =
     (case exec_start_command show run command arguments working_directory env_vars stdin role
             (\<lambda>payload (out, err). (out @ payload, err)) (\<lambda>payload (out, err). (out, err @ payload))
             ([], []) of
        (Inr rc, (out, err)) \<Rightarrow> Inr (out, err, rc)
      | (Inl e, _) \<Rightarrow> Inl e)"

section \<open>Lemmas\<close>

text \<open>The answers up to the end of the process, and the code they end with.\<close>

fun run_of :: "command_event option list \<Rightarrow> (command_event list \<times> int)" where
  "run_of [] = ([], -1)"
| "run_of (Some (EventFinished c) # _) = ([], c)"
| "run_of (Some ev # rest) = (case run_of rest of (evs, c) \<Rightarrow> (ev # evs, c))"
| "run_of (None # rest) = run_of rest"

definition stdout_of :: "command_event \<Rightarrow> string option" where
  "stdout_of ev = (case ev of EventStdout p \<Rightarrow> Some p | _ \<Rightarrow> None)"

definition stderr_of :: "command_event \<Rightarrow> string option" where
  "stderr_of ev = (case ev of EventStderr p \<Rightarrow> Some p | _ \<Rightarrow> None)"

definition feed :: "(string \<Rightarrow> 's \<Rightarrow> 's) \<Rightarrow> (string \<Rightarrow> 's \<Rightarrow> 's) \<Rightarrow> command_event \<Rightarrow> 's \<Rightarrow> 's" where
  "feed out err ev = (case ev of EventStdout p \<Rightarrow> out p | EventStderr p \<Rightarrow> err p | _ \<Rightarrow> (\<lambda>s. s))"

lemma exec_loop_run:
  "\<exists>rest. exec_loop show out err (map Inr evs) s =
     (Inr (snd (run_of evs), map Inr rest), fold (feed out err) (fst (run_of evs)) s)"
proof (induction evs arbitrary: s rule: run_of.induct)
  case 1
  show ?case by (auto simp: sresult_defs intro: exI [of _ "[]"])
next
  case (2 c rest)
  show ?case by (auto simp: sresult_defs)
qed (auto simp: sresult_defs feed_def split: prod.splits)

lemma start_command_run:
  assumes "\<And>start. sc_command start = cmd \<Longrightarrow> sc_arguments start = args \<Longrightarrow>
      run start = Inr \<lparr>sm_items = map Inr evs, sm_trailers = tr\<rparr>"
    and "tr = None \<or> (\<exists>st. tr = Some (Some st) \<and> st_code st = CodeOk)"
  shows "exec_start_command show run cmd args wd ev stdin role out err s =
    (Inr (snd (run_of evs)), fold (feed out err) (fst (run_of evs)) s)"
proof -
  obtain rest where "exec_loop show out err (map Inr evs) s =
      (Inr (snd (run_of evs), map Inr rest), fold (feed out err) (fst (run_of evs)) s)"
    using exec_loop_run by metis
  with assms(2) show ?thesis
    by (auto simp: exec_start_command_def assms(1) sresult_defs check_trailers_def)
qed

lemma fold_feed_emit:
  "fold (feed (\<lambda>p l. l @ [f p]) (\<lambda>p l. l @ [g p])) evs l =
     l @ List.map_filter (\<lambda>ev. case ev of EventStdout p \<Rightarrow> Some (f p) | EventStderr p \<Rightarrow> Some (g p) | _ \<Rightarrow> None) evs"
  by (induction evs arbitrary: l) (auto simp: feed_def map_filter_simps split: command_event.splits)

lemma fold_feed_buffers:
  "fold (feed (\<lambda>p (o', e). (o' @ p, e)) (\<lambda>p (o', e). (o', e @ p))) evs (a, b) =
     (a @ concat (List.map_filter stdout_of evs), b @ concat (List.map_filter stderr_of evs))"
  by (induction evs arbitrary: a b)
    (auto simp: feed_def map_filter_simps stdout_of_def stderr_of_def split: command_event.splits)

text \<open>The output of a program is what it printed up to its end, and its code.\<close>

lemma get_program_output_run:
  assumes "\<And>start. sc_command start = cmd \<Longrightarrow> sc_arguments start = args \<Longrightarrow>
      run start = Inr \<lparr>sm_items = map Inr evs, sm_trailers = tr\<rparr>"
    and "tr = None \<or> (\<exists>st. tr = Some (Some st) \<and> st_code st = CodeOk)"
  shows "get_program_output show run cmd args wd ev stdin role =
    Inr (concat (List.map_filter stdout_of (fst (run_of evs))),
         concat (List.map_filter stderr_of (fst (run_of evs))), snd (run_of evs))"
  by (simp add: get_program_output_def start_command_run [OF assms] fold_feed_buffers)

end
