(* ===== verification/Ota_Service.thy ===== *)
theory Ota_Service
  imports Exec_Client Admin_Server Bootctl
begin

text \<open>
  The update handlers of the admin service: \<open>admin/OTA.rs\<close> runs \<open>ota-update\<close> on the host
  through the exec client, \<open>server.rs\<close> answers with the result or streams it, and \<open>client.rs\<close>
  drains that stream.
\<close>

section \<open>Generations\<close>

text \<open>The fields of \<open>GenerationDetails\<close>; the boot specification is its raw document.\<close>

record 'b generation_details =
  gd_name :: string
  gd_generation :: int
  gd_nixos_version :: string
  gd_kernel_version :: string
  gd_nixpkgs_revision :: "string option"
  gd_configuration_revision :: "string option"
  gd_store_path :: string
  gd_current :: bool
  gd_booted :: bool
  gd_bootable :: bool
  gd_default :: bool
  gd_bootspec :: 'b
  gd_bootctl :: "bootctl_item option"

record pb_generation =
  pg_generation :: int
  pg_date :: string
  pg_nixos_version :: string
  pg_kernel_version :: string
  pg_configuration_revision :: string
  pg_specialisations :: "string list"
  pg_current :: bool
  pg_store_path :: string

definition pb_generation_from :: "'b generation_details \<Rightarrow> pb_generation" where
  "pb_generation_from g =
     \<lparr>pg_generation = gd_generation g, pg_date = ''bogus'', pg_nixos_version = gd_nixos_version g,
      pg_kernel_version = gd_kernel_version g,
      pg_configuration_revision = (case gd_configuration_revision g of Some r \<Rightarrow> r | None \<Rightarrow> ''unknown''),
      pg_specialisations = [], pg_current = gd_current g, pg_store_path = gd_store_path g\<rparr>"

text \<open>
  \<open>OTA::list\<close>; \<open>connect\<close> opens the connection to an agent and gives its \<open>run_command\<close>,
  \<open>from_json\<close> is the JSON reader.
\<close>

type_synonym exec_connect = "endpoint_config \<Rightarrow> (start_command \<Rightarrow> status + command_event option streaming) result"

definition ota_list ::
  "(status \<Rightarrow> string) \<Rightarrow> exec_connect \<Rightarrow> (string \<Rightarrow> 'b generation_details list result) \<Rightarrow> endpoint_config \<Rightarrow>
   pb_generation list result" where
  "ota_list show connect from_json ec =
     rbind (connect ec) (\<lambda>run.
     rbind (get_program_output show run ''ota-update'' [''get''] None None None None) (\<lambda>(out, err, rc).
       if rc > 0 then Inl (Msg (''Exec error: '' @ err))
       else rbind (from_json out) (\<lambda>gens. Inr (map pb_generation_from gens))))"

section \<open>Updates from a cache\<close>

record cachix_request =
  cx_pin :: string
  cx_cachix_host :: "string option"
  cx_cache :: string
  cx_token :: "string option"

record set_generation_response =
  sg_finished :: bool
  sg_output :: "string option"
  sg_error :: "string option"

definition cachix_args :: "cachix_request \<Rightarrow> string list" where
  "cachix_args r =
     [''cachix'', cx_pin r, ''--cache'', cx_cache r] @
     (case cx_token r of Some token \<Rightarrow> [''--token'', token] | None \<Rightarrow> []) @
     (case cx_cachix_host r of Some host \<Rightarrow> [''--cachix-host'', host] | None \<Rightarrow> [])"

text \<open>
  The stream \<open>install_via_cachix\<close> answers with: what the command prints as it goes, a final
  message, and an error status after it when the command failed.
\<close>

definition cachix_stream ::
  "(status \<Rightarrow> string) \<Rightarrow> (start_command \<Rightarrow> status + command_event option streaming) \<Rightarrow> cachix_request \<Rightarrow>
   (status + set_generation_response) list" where
  "cachix_stream show run cachix_request =
     (case exec_start_command show run ''ota-update'' (cachix_args cachix_request) None None None None
             (\<lambda>out emitted. emitted @ [Inr \<lparr>sg_finished = False, sg_output = Some out, sg_error = None\<rparr>])
             (\<lambda>err emitted. emitted @ [Inr \<lparr>sg_finished = False, sg_output = None, sg_error = Some err\<rparr>])
             [] of
        (Inl e, emitted) \<Rightarrow> emitted @ [Inl (plain_status CodeUnknown (hd (error_chain e)))]
      | (Inr rc, emitted) \<Rightarrow>
          emitted @ [Inr \<lparr>sg_finished = True, sg_output = None, sg_error = None\<rparr>] @
          (if rc > 0
           then [Inl (wrap_error (Msg (''Execution of ota-update failed, RC code is '' @ show_i32 rc)))]
           else []))"

definition install_via_cachix ::
  "(status \<Rightarrow> string) \<Rightarrow> exec_connect \<Rightarrow> endpoint_config \<Rightarrow> cachix_request \<Rightarrow>
   (status + set_generation_response) list result" where
  "install_via_cachix show connect ec cachix_request =
     rbind (connect ec) (\<lambda>run. Inr (cachix_stream show run cachix_request))"

section \<open>Handlers\<close>

definition list_generations ::
  "(status \<Rightarrow> string) \<Rightarrow> exec_connect \<Rightarrow> (string \<Rightarrow> 'b generation_details list result) \<Rightarrow>
   ('w admin, pb_generation list) sresult" where
  "list_generations show connect from_json =
     sbind (sread host_endpoint) (\<lambda>ec. sread (\<lambda>_. ota_list show connect from_json ec))"

datatype update_request = UpdateCachix cachix_request | UpdateUnset

definition set_generation ::
  "(status \<Rightarrow> string) \<Rightarrow> exec_connect \<Rightarrow> update_request \<Rightarrow>
   ('w admin, (status + set_generation_response) list) sresult" where
  "set_generation show connect update =
     sbind (sread host_endpoint) (\<lambda>ec.
       case update of
         UpdateCachix cachix_request \<Rightarrow> sread (\<lambda>_. install_via_cachix show connect ec cachix_request)
       | UpdateUnset \<Rightarrow> sfail (Msg ''unimplemented update method''))"

text \<open>
  The client's \<open>set_generation_cachix\<close> over the stream, keeping the lines it logs.
\<close>

definition client_set_generation ::
  "(status \<Rightarrow> string) \<Rightarrow> set_generation_response streaming \<Rightarrow> (string list, unit) sresult" where
  "client_set_generation show stream =
     drain_stream_with_callback show stream (\<lambda>next.
       case sg_output next of Some out \<Rightarrow> smodify (\<lambda>l. l @ [out]) | None \<Rightarrow> sret ())"

end
