(* ===== verification/Policy_Manager.thy ===== *)
theory Policy_Manager
  imports Hash_Map Disk
begin

text \<open>
  The policy administration of the crate \<open>policyadmin\<close>: its configuration (\<open>policy.rs\<close>) and
  the manager (\<open>policy_manager.rs\<close>) that routes policy files to one worker per VM. A worker
  puts an update on the manager's channel and waits for the answer of the admin service,
  which takes the updates one by one. The order of the policies and of the workers is that
  of their maps.
\<close>

section \<open>Configuration\<close>

datatype policy_source_type = SourceNone | SourceGitUrl | SourcePerPolicy

record policy_source =
  ps_kind :: policy_source_type
  ps_url :: "string option"
  ps_branch :: "string option"
  ps_poll_interval_secs :: "u64 option"

record policy_updater =
  pu_url :: string
  pu_head :: "string option"
  pu_poll_interval_secs :: "u64 option"

record policy_config_policy =
  pp_url :: "string option"
  pp_vms :: "string list"
  pp_updater :: "policy_updater option"

record policy_config =
  pc_source :: policy_source
  pc_policies :: "policy_config_policy hash_map"

section \<open>The manager\<close>

record policy_msg =
  po_policy_name :: string
  po_file :: string

record policy_update =
  up_vm_name :: string
  up_file :: string
  up_policy :: string

text \<open>A worker: the messages in its channel, and whether it waits for an answer.\<close>

record worker =
  wk_queue :: "policy_msg list"
  wk_waiting :: bool

record policy_manager =
  pm_policy_dir :: string
  pm_configs :: policy_config
  pm_updates :: "policy_update list"
  pm_workers :: "worker hash_map"

definition add_worker :: "string \<Rightarrow> policy_manager \<Rightarrow> policy_manager" where
  "add_worker vm m =
     (if hm_contains_key (pm_workers m) vm then m
      else m\<lparr>pm_workers := hm_insert vm \<lparr>wk_queue = [], wk_waiting = False\<rparr> (pm_workers m)\<rparr>)"

definition configured_vms :: "policy_config \<Rightarrow> string list" where
  "configured_vms configs = remdups (concat (map pp_vms (hm_values (pc_policies configs))))"

definition policy_manager_new :: "string \<Rightarrow> policy_config \<Rightarrow> policy_manager" where
  "policy_manager_new store_dir configs =
     fold add_worker (configured_vms configs)
       \<lparr>pm_policy_dir = store_dir, pm_configs = configs, pm_updates = [], pm_workers = hm_empty\<rparr>"

text \<open>The manager keeps a receiver alive for every worker, so the channel takes the message.\<close>

definition send_to_vm :: "string \<Rightarrow> string \<Rightarrow> string \<Rightarrow> (policy_manager, unit) sresult" where
  "send_to_vm vm policy_name file_path m =
     (case hm_get (pm_workers m) vm of
        Some w \<Rightarrow>
          (Inr (), m\<lparr>pm_workers := hm_insert vm
             (w\<lparr>wk_queue := wk_queue w @ [\<lparr>po_policy_name = policy_name, po_file = file_path\<rparr>]\<rparr>)
             (pm_workers m)\<rparr>)
      | None \<Rightarrow> (Inl (Msg (''No worker found for VM: '' @ vm)), m))"

text \<open>An error that is only logged.\<close>

definition logged :: "('s, 'a) sresult \<Rightarrow> ('s, unit) sresult" where
  "logged c s = (Inr (), snd (c s))"

definition exists_at :: "disk_faults \<Rightarrow> disk \<Rightarrow> string \<Rightarrow> bool" where
  "exists_at f d p = (path_exists f p d = Inr True)"

definition file_at :: "disk_faults \<Rightarrow> disk \<Rightarrow> string \<Rightarrow> bool" where
  "file_at f d p = (path_is_file f p d = Inr True)"

definition send_policy_dir ::
  "disk_faults \<Rightarrow> disk \<Rightarrow> string \<Rightarrow> string \<Rightarrow> (policy_manager, unit) sresult" where
  "send_policy_dir f d vm_name policy m =
     (let policy_dir = path_join (pm_policy_dir m) policy in
      if exists_at f d policy_dir \<and>
         is_some_and (hm_get (pc_policies (pm_configs m)) policy) (\<lambda>p. vm_name \<in> set (pp_vms p))
      then case read_dir f policy_dir d of
             Inr entries \<Rightarrow>
               sforeach entries (\<lambda>path.
                 if file_at f d path then logged (send_to_vm vm_name policy path) else sret ()) m
           | Inl _ \<Rightarrow> (Inr (), m)
      else (Inr (), m))"

definition send_all_policies :: "disk_faults \<Rightarrow> disk \<Rightarrow> string \<Rightarrow> (policy_manager, unit) sresult" where
  "send_all_policies f d vm_name m =
     sforeach (hm_keys (pc_policies (pm_configs m))) (send_policy_dir f d vm_name) m"

definition force_update_all_vms :: "disk_faults \<Rightarrow> disk \<Rightarrow> (policy_manager, unit) sresult" where
  "force_update_all_vms f d m =
     sforeach (hm_keys (pm_workers m)) (\<lambda>vm. logged (send_all_policies f d vm)) m"

text \<open>The policy and the file a line of a change set names.\<close>

definition changeset_target :: "string \<Rightarrow> (string \<times> string) option" where
  "changeset_target line =
     (case split_whitespace (trim line) of
        _ # relative_path # _ \<Rightarrow>
          (case strip_prefix ''vm-policies/'' relative_path of
             Some rest \<Rightarrow>
               (case split_on CHR ''/'' rest of
                  policy_name # file_name # _ \<Rightarrow> Some (policy_name, file_name)
                | _ \<Rightarrow> None)
           | None \<Rightarrow> None)
      | _ \<Rightarrow> None)"

definition process_change :: "disk_faults \<Rightarrow> disk \<Rightarrow> string \<Rightarrow> (policy_manager, unit) sresult" where
  "process_change f d line m =
     (case changeset_target line of
        None \<Rightarrow> (Inr (), m)
      | Some (policy_name, file_name) \<Rightarrow>
          let full_path = path_join (path_join (pm_policy_dir m) policy_name) file_name in
          if exists_at f d full_path
          then sforeach (case hm_get (pc_policies (pm_configs m)) policy_name of
                           Some p \<Rightarrow> pp_vms p | None \<Rightarrow> [])
                 (\<lambda>vm. logged (send_to_vm vm policy_name full_path)) m
          else (Inr (), m))"

definition process_changeset :: "disk_faults \<Rightarrow> disk \<Rightarrow> string \<Rightarrow> (policy_manager, unit) sresult" where
  "process_changeset f d changeset = sforeach (lines changeset) (process_change f d)"

section \<open>The workers\<close>

text \<open>
  One round of \<open>worker_loop\<close> in two halves: the worker takes a message, puts an update on the
  channel and waits; when the admin service has answered, whatever its answer, it goes on.
\<close>

definition worker_take :: "string \<Rightarrow> policy_manager \<Rightarrow> policy_manager option" where
  "worker_take vm m =
     (case hm_get (pm_workers m) vm of
        Some w \<Rightarrow>
          (case wk_queue w of
             msg # rest \<Rightarrow>
               if wk_waiting w then None
               else Some (m\<lparr>pm_updates := pm_updates m @
                              [\<lparr>up_vm_name = vm, up_file = po_file msg, up_policy = po_policy_name msg\<rparr>],
                            pm_workers := hm_insert vm \<lparr>wk_queue = rest, wk_waiting = True\<rparr> (pm_workers m)\<rparr>)
           | [] \<Rightarrow> None)
      | None \<Rightarrow> None)"

definition worker_answered :: "policy_manager \<Rightarrow> (policy_update \<times> policy_manager) option" where
  "worker_answered m =
     (case pm_updates m of
        u # rest \<Rightarrow>
          Some (u, m\<lparr>pm_updates := rest,
            pm_workers := (case hm_get (pm_workers m) (up_vm_name u) of
               Some w \<Rightarrow> hm_insert (up_vm_name u) (w\<lparr>wk_waiting := False\<rparr>) (pm_workers m)
             | None \<Rightarrow> pm_workers m)\<rparr>)
      | [] \<Rightarrow> None)"

section \<open>Start\<close>

text \<open>
  \<open>run_policy_admin\<close> up to the choice of a monitor; \<open>from_json\<close> reads the configuration.
\<close>

definition policy_root_of :: "string option \<Rightarrow> string" where
  "policy_root_of policy_store = (case policy_store of Some p \<Rightarrow> p | None \<Rightarrow> ''/etc/policies'')"

definition run_policy_admin ::
  "(string \<Rightarrow> policy_config result) \<Rightarrow> string option \<Rightarrow> string option \<Rightarrow>
   (policy_manager \<times> policy_source_type) result" where
  "run_policy_admin from_json policy_store policy_config =
     (let policy_root = policy_root_of policy_store;
          config_json = (case policy_config of Some c \<Rightarrow> c | None \<Rightarrow> ''{}'') in
      rbind (from_json config_json) (\<lambda>config.
        Inr (policy_manager_new (path_join (path_join policy_root ''data'') ''vm-policies'') config,
             ps_kind (pc_source config))))"

section \<open>Routing invariant\<close>

text \<open>
  A file is routed to a VM when it is an entry of the directory of a policy the VM subscribes to.
\<close>

definition routed :: "policy_config \<Rightarrow> string \<Rightarrow> string \<Rightarrow> string \<Rightarrow> string \<Rightarrow> bool" where
  "routed c dir vm policy file \<longleftrightarrow>
     (\<exists>p name. hm_get (pc_policies c) policy = Some p \<and> vm \<in> set (pp_vms p) \<and>
        file = path_join (path_join dir policy) name)"

definition pending :: "string \<Rightarrow> policy_manager \<Rightarrow> nat" where
  "pending vm m = length (filter (\<lambda>u. up_vm_name u = vm) (pm_updates m))"

text \<open>
  The manager of a configuration: a worker for every subscribed VM and no other, nothing in a
  queue or on the channel that is not routed, and at most one update of a VM on its way.
\<close>

definition manager_ok :: "policy_config \<Rightarrow> string \<Rightarrow> policy_manager \<Rightarrow> bool" where
  "manager_ok c dir m \<longleftrightarrow>
     pm_configs m = c \<and> pm_policy_dir m = dir \<and> hm_ok (pm_workers m) \<and>
     dom (hm_get (pm_workers m)) = set (configured_vms c) \<and>
     (\<forall>vm w. hm_get (pm_workers m) vm = Some w \<longrightarrow>
        (\<forall>msg \<in> set (wk_queue w). routed c dir vm (po_policy_name msg) (po_file msg)) \<and>
        pending vm m = (if wk_waiting w then 1 else 0)) \<and>
     (\<forall>u \<in> set (pm_updates m). routed c dir (up_vm_name u) (up_policy u) (up_file u))"

lemma routed_configured:
  assumes "hm_ok (pc_policies c)" "routed c dir vm policy file"
  shows "vm \<in> set (configured_vms c)"
proof -
  obtain p where "hm_get (pc_policies c) policy = Some p" "vm \<in> set (pp_vms p)"
    using assms(2) by (auto simp: routed_def)
  moreover from this have "p \<in> set (hm_values (pc_policies c))"
    using hm.in_vals_iff [OF assms(1)] by auto
  ultimately show ?thesis by (auto simp: configured_vms_def)
qed

lemma add_workers:
  assumes "hm_ok (pm_workers m)" "\<forall>w \<in> ran (hm_get (pm_workers m)). w = \<lparr>wk_queue = [], wk_waiting = False\<rparr>"
  shows "hm_ok (pm_workers (fold add_worker vms m)) \<and>
    dom (hm_get (pm_workers (fold add_worker vms m))) = dom (hm_get (pm_workers m)) \<union> set vms \<and>
    (\<forall>w \<in> ran (hm_get (pm_workers (fold add_worker vms m))). w = \<lparr>wk_queue = [], wk_waiting = False\<rparr>) \<and>
    pm_configs (fold add_worker vms m) = pm_configs m \<and>
    pm_policy_dir (fold add_worker vms m) = pm_policy_dir m \<and>
    pm_updates (fold add_worker vms m) = pm_updates m"
  using assms
proof (induction vms arbitrary: m)
  case (Cons vm vms)
  let ?m = "add_worker vm m"
  have "hm_ok (pm_workers ?m)" "dom (hm_get (pm_workers ?m)) = insert vm (dom (hm_get (pm_workers m)))"
    "\<forall>w \<in> ran (hm_get (pm_workers ?m)). w = \<lparr>wk_queue = [], wk_waiting = False\<rparr>"
    "pm_configs ?m = pm_configs m" "pm_policy_dir ?m = pm_policy_dir m" "pm_updates ?m = pm_updates m"
    using Cons.prems hm.all_insert [OF Cons.prems(1) Cons.prems(2)]
    by (auto simp: add_worker_def hm_contains_key_def hm.ok_insert hm.get_insert)
  with Cons.IH [of ?m] show ?case by auto
qed simp

lemma manager_new_ok: "manager_ok c dir (policy_manager_new dir c)"
proof -
  define m0 where "m0 = \<lparr>pm_policy_dir = dir, pm_configs = c, pm_updates = [], pm_workers = hm_empty\<rparr>"
  have m0: "hm_ok (pm_workers m0)" "\<forall>w \<in> ran (hm_get (pm_workers m0)). w = \<lparr>wk_queue = [], wk_waiting = False\<rparr>"
    by (simp_all add: m0_def)
  have new: "policy_manager_new dir c = fold add_worker (configured_vms c) m0"
    by (simp add: policy_manager_new_def m0_def)
  show ?thesis
    using add_workers [OF m0, of "configured_vms c"]
    unfolding new manager_ok_def pending_def by (auto simp: m0_def ran_def)
qed

lemma send_to_vm_ok:
  assumes "routed c dir vm policy file"
  shows "preserves (manager_ok c dir) (send_to_vm vm policy file)"
  unfolding preserves_def
proof (intro allI impI)
  fix m
  assume ok: "manager_ok c dir m"
  show "manager_ok c dir (snd (send_to_vm vm policy file m))"
  proof (cases "hm_get (pm_workers m) vm")
    case (Some w)
    then show ?thesis
      using ok assms by (auto simp: manager_ok_def send_to_vm_def hm.get_insert hm.ok_insert pending_def)
  qed (use ok in \<open>simp add: send_to_vm_def\<close>)
qed

text \<open>A routed file never lacks a worker.\<close>

lemma send_to_vm_Inr:
  assumes "manager_ok c dir m" "hm_ok (pc_policies c)" "routed c dir vm policy file"
  shows "fst (send_to_vm vm policy file m) = Inr ()"
proof -
  have "vm \<in> dom (hm_get (pm_workers m))"
    using assms routed_configured by (auto simp: manager_ok_def)
  then show ?thesis by (auto simp: send_to_vm_def)
qed

lemma preserves_logged [preserves_rules]: "preserves P c \<Longrightarrow> preserves P (logged c)"
  by (simp add: preserves_def logged_def)

lemma send_policy_dir_ok: "preserves (manager_ok c dir) (send_policy_dir f d vm policy)"
  unfolding preserves_def
proof (intro allI impI)
  fix m
  assume ok: "manager_ok c dir m"
  then have cd: "pm_configs m = c" "pm_policy_dir m = dir" by (simp_all add: manager_ok_def)
  let ?dir = "path_join dir policy"
  show "manager_ok c dir (snd (send_policy_dir f d vm policy m))"
  proof (cases "exists_at f d ?dir \<and> is_some_and (hm_get (pc_policies c) policy) (\<lambda>p. vm \<in> set (pp_vms p)) \<and>
      is_ok (read_dir f ?dir d)")
    case True
    then obtain entries where es: "read_dir f ?dir d = Inr entries"
      by (auto simp: is_ok_def split: sum.splits)
    have "routed c dir vm policy path" if "path \<in> set entries" for path
      using that True es by (auto simp: routed_def read_dir_def rbind_Inr_iff is_some_and_def
          split: if_splits option.splits)
    then have "preserves (manager_ok c dir) (sforeach entries (\<lambda>path.
                 if file_at f d path then logged (send_to_vm vm policy path) else sret ()))"
      by (intro preserves_rules send_to_vm_ok)
    with ok True es show ?thesis by (simp add: send_policy_dir_def cd Let_def preserves_def)
  next
    case False
    then show ?thesis
      using ok by (auto simp: send_policy_dir_def cd Let_def is_ok_def split: sum.splits)
  qed
qed

lemma send_all_policies_ok: "preserves (manager_ok c dir) (send_all_policies f d vm)"
proof -
  have "preserves (manager_ok c dir) (sforeach policies (send_policy_dir f d vm))" for policies
    by (rule preserves_sforeach) (rule send_policy_dir_ok)
  then show ?thesis by (simp add: send_all_policies_def preserves_def)
qed

lemma force_update_all_vms_ok: "preserves (manager_ok c dir) (force_update_all_vms f d)"
proof -
  have "preserves (manager_ok c dir) (sforeach vms (\<lambda>vm. logged (send_all_policies f d vm)))" for vms
    by (rule preserves_sforeach) (rule preserves_logged [OF send_all_policies_ok])
  then show ?thesis by (simp add: force_update_all_vms_def preserves_def)
qed

lemma process_change_ok: "preserves (manager_ok c dir) (process_change f d line)"
  unfolding preserves_def
proof (intro allI impI)
  fix m
  assume ok: "manager_ok c dir m"
  then have cd: "pm_configs m = c" "pm_policy_dir m = dir" by (simp_all add: manager_ok_def)
  show "manager_ok c dir (snd (process_change f d line m))"
  proof (cases "changeset_target line")
    case (Some t)
    obtain policy entry where t: "t = (policy, entry)" by (cases t)
    let ?vms = "case hm_get (pc_policies c) policy of Some p \<Rightarrow> pp_vms p | None \<Rightarrow> []"
    let ?path = "path_join (path_join dir policy) entry"
    have "routed c dir vm policy ?path" if "vm \<in> set ?vms" for vm
      using that by (cases "hm_get (pc_policies c) policy") (auto simp: routed_def)
    then have "preserves (manager_ok c dir) (sforeach ?vms (\<lambda>vm. logged (send_to_vm vm policy ?path)))"
      by (intro preserves_rules send_to_vm_ok)
    with ok Some t show ?thesis by (simp add: process_change_def cd Let_def preserves_def)
  qed (use ok in \<open>simp add: process_change_def\<close>)
qed

lemma process_changeset_ok: "preserves (manager_ok c dir) (process_changeset f d changeset)"
  unfolding process_changeset_def by (intro preserves_rules process_change_ok)

lemma worker_take_ok:
  assumes ok: "manager_ok c dir m" and take: "worker_take vm m = Some n"
  shows "manager_ok c dir n"
proof -
  obtain w msg rest where w: "hm_get (pm_workers m) vm = Some w" "wk_queue w = msg # rest" "\<not> wk_waiting w"
    and n: "n = m\<lparr>pm_updates := pm_updates m @
        [\<lparr>up_vm_name = vm, up_file = po_file msg, up_policy = po_policy_name msg\<rparr>],
      pm_workers := hm_insert vm \<lparr>wk_queue = rest, wk_waiting = True\<rparr> (pm_workers m)\<rparr>"
    using take by (auto simp: worker_take_def split: option.splits list.splits if_splits)
  have "routed c dir vm (po_policy_name msg) (po_file msg)" "pending vm m = 0"
    using ok w by (auto simp: manager_ok_def)
  with ok w show ?thesis
    unfolding n by (auto simp: manager_ok_def hm.get_insert hm.ok_insert pending_def)
qed

lemma worker_answered_ok:
  assumes ok: "manager_ok c dir m" and policies: "hm_ok (pc_policies c)"
    and ans: "worker_answered m = Some (u, n)"
  shows "manager_ok c dir n \<and> routed c dir (up_vm_name u) (up_policy u) (up_file u)"
proof -
  obtain rest where us: "pm_updates m = u # rest"
    using ans by (auto simp: worker_answered_def split: list.splits)
  then have r: "routed c dir (up_vm_name u) (up_policy u) (up_file u)"
    using ok by (simp add: manager_ok_def)
  then have "up_vm_name u \<in> dom (hm_get (pm_workers m))"
    using routed_configured [OF policies] ok by (auto simp: manager_ok_def)
  then obtain w where w: "hm_get (pm_workers m) (up_vm_name u) = Some w" by auto
  then have "pending (up_vm_name u) m = (if wk_waiting w then 1 else 0)"
    using ok by (auto simp: manager_ok_def)
  then have "wk_waiting w" "filter (\<lambda>x. up_vm_name x = up_vm_name u) rest = []"
    by (auto simp: pending_def us split: if_splits)
  moreover have n: "n = m\<lparr>pm_updates := rest,
      pm_workers := hm_insert (up_vm_name u) (w\<lparr>wk_waiting := False\<rparr>) (pm_workers m)\<rparr>"
    using ans us w by (simp add: worker_answered_def)
  moreover have "(\<forall>msg \<in> set (wk_queue x). routed c dir vm (po_policy_name msg) (po_file msg)) \<and>
      pending vm n = (if wk_waiting x then 1 else 0)"
    if x: "hm_get (pm_workers n) vm = Some x" for vm x
  proof (cases "vm = up_vm_name u")
    case True
    with x n w ok have "x = w\<lparr>wk_waiting := False\<rparr>" by (simp add: manager_ok_def hm.get_insert)
    with True calculation w ok show ?thesis by (auto simp: manager_ok_def n pending_def)
  next
    case False
    with x n ok have "hm_get (pm_workers m) vm = Some x" by (simp add: manager_ok_def hm.get_insert)
    moreover from False have "pending vm n = pending vm m" by (simp add: n pending_def us)
    ultimately show ?thesis using ok by (auto simp: manager_ok_def)
  qed
  ultimately show ?thesis
    using ok w r us by (auto simp: manager_ok_def hm.get_insert hm.ok_insert)
qed

end
