(* ===== verification/Policy_Repo.thy ===== *)
theory Policy_Repo
  imports Policy_Manager
begin

text \<open>
  The monitor of a policy repository (\<open>policy_repo.rs\<close>): cloning with retries, fetching, the
  change set between two commits, and one round of its endless loop. The git library and the
  file system below it are the parameter \<open>git_env\<close>, over a state of the world \<open>'g\<close>.
\<close>

section \<open>Git\<close>

datatype change = Modification string | Addition string | Deletion string | Rewrite string

text \<open>
  The calls the monitor makes, each with the path of the repository. \<open>gi_open\<close> is \<open>gix::open\<close>;
  the fetch and the checkout stand for the chains of calls the source makes of them.
\<close>

record 'g git_env =
  gi_exists :: "string \<Rightarrow> 'g \<Rightarrow> bool"
  gi_open :: "string \<Rightarrow> 'g \<Rightarrow> unit result"
  gi_remote_url :: "string \<Rightarrow> string \<Rightarrow> 'g \<Rightarrow> string option"
  gi_head_id :: "string \<Rightarrow> 'g \<Rightarrow> string result"
  gi_find_reference :: "string \<Rightarrow> string \<Rightarrow> 'g \<Rightarrow> string result"
  gi_changes :: "string \<Rightarrow> string \<Rightarrow> string \<Rightarrow> 'g \<Rightarrow> change list result"
  gi_remove_dir_all :: "string \<Rightarrow> ('g, unit) sresult"
  gi_clone :: "string \<Rightarrow> string \<Rightarrow> string \<Rightarrow> ('g, unit) sresult"
  gi_rename :: "string \<Rightarrow> string \<Rightarrow> ('g, unit) sresult"
  gi_fetch :: "string \<Rightarrow> string \<Rightarrow> ('g, unit) sresult"
  gi_checkout :: "string \<Rightarrow> string \<Rightarrow> ('g, unit) sresult"
  gi_faults :: disk_faults
  gi_disk :: "'g \<Rightarrow> disk"

section \<open>The monitor\<close>

record repo_state =
  rs_new_head :: "string option"
  rs_old_head :: "string option"

record repo_monitor =
  rm_url :: string
  rm_branch :: string
  rm_destination :: string
  rm_remote_name :: string
  rm_poll_interval :: u64

record 'g repo_system =
  ry_git :: 'g
  ry_state :: repo_state
  ry_manager :: policy_manager

definition on_git :: "('g, 'a) sresult \<Rightarrow> ('g repo_system, 'a) sresult" where
  "on_git c s = (case c (ry_git s) of (r, g) \<Rightarrow> (r, s\<lparr>ry_git := g\<rparr>))"

definition on_manager :: "('g \<Rightarrow> (policy_manager, 'a) sresult) \<Rightarrow> ('g repo_system, 'a) sresult" where
  "on_manager c s = (case c (ry_git s) (ry_manager s) of (r, m) \<Rightarrow> (r, s\<lparr>ry_manager := m\<rparr>))"

definition set_heads :: "string option \<Rightarrow> string option \<Rightarrow> ('g repo_system, unit) sresult" where
  "set_heads new old = smodify (\<lambda>s. s\<lparr>ry_state := \<lparr>rs_new_head = new, rs_old_head = old\<rparr>\<rparr>)"

definition repo_monitor_of :: "string \<Rightarrow> policy_config \<Rightarrow> repo_monitor" where
  "repo_monitor_of policy_root configs =
     \<lparr>rm_url = (case ps_url (pc_source configs) of Some u \<Rightarrow> u | None \<Rightarrow> []),
      rm_branch = (case ps_branch (pc_source configs) of Some b \<Rightarrow> b | None \<Rightarrow> ''master''),
      rm_destination = path_join policy_root ''data'', rm_remote_name = ''origin'',
      rm_poll_interval = (case ps_poll_interval_secs (pc_source configs) of Some i \<Rightarrow> i | None \<Rightarrow> 300)\<rparr>"

text \<open>The heads a new monitor starts with: those of the existing clone of the same remote.\<close>

definition repo_state_new :: "'g git_env \<Rightarrow> repo_monitor \<Rightarrow> 'g \<Rightarrow> repo_state result" where
  "repo_state_new env mon g =
     (let fresh = \<lparr>rs_new_head = None, rs_old_head = None\<rparr> in
      if gi_exists env (rm_destination mon) g \<and> is_ok (gi_open env (rm_destination mon) g) \<and>
         gi_remote_url env (rm_destination mon) (rm_remote_name mon) g = Some (rm_url mon)
      then rbind (gi_head_id env (rm_destination mon) g) (\<lambda>head.
             Inr \<lparr>rs_new_head = Some head, rs_old_head = Some head\<rparr>)
      else Inr fresh)"

text \<open>\<open>Path::with_extension\<close>.\<close>

definition path_with_extension :: "string \<Rightarrow> string \<Rightarrow> string" where
  "path_with_extension p ext =
     (case path_file_name p of
        None \<Rightarrow> p
      | Some n \<Rightarrow>
          let base = rev (trim_back (rev p));
              stem = (case path_extension p of
                        None \<Rightarrow> base
                      | Some e \<Rightarrow> take (length base - (length e + 1)) base)
          in stem @ ''.'' @ ext)"

definition clone_repo :: "'g git_env \<Rightarrow> repo_monitor \<Rightarrow> ('g repo_system, unit) sresult" where
  "clone_repo env mon =
     (let destination = rm_destination mon; temp_dest = path_with_extension destination ''tmp'' in
      sbind (sread (\<lambda>s. Inr (gi_exists env temp_dest (ry_git s)))) (\<lambda>stale.
      sbind (if stale then on_git (gi_remove_dir_all env temp_dest) else sret ()) (\<lambda>_.
      sbind (on_git (gi_clone env (rm_url mon) (rm_branch mon) temp_dest)) (\<lambda>_.
      sbind (sread (\<lambda>s. Inr (gi_exists env destination (ry_git s)))) (\<lambda>old.
      sbind (if old then on_git (gi_remove_dir_all env destination) else sret ()) (\<lambda>_.
      sbind (on_git (gi_rename env temp_dest destination)) (\<lambda>_.
      sbind (sread (\<lambda>s. gi_open env destination (ry_git s))) (\<lambda>_.
      sbind (sread (\<lambda>s. gi_head_id env destination (ry_git s))) (\<lambda>head.
        set_heads (Some head) None)))))))))"

text \<open>\<open>attempts\<close> counts down from the four the source makes.\<close>

fun ensure_clone_loop :: "nat \<Rightarrow> 'g git_env \<Rightarrow> repo_monitor \<Rightarrow> ('g repo_system, unit) sresult" where
  "ensure_clone_loop attempts env mon =
     sbind (scatch (clone_repo env mon)) (\<lambda>r.
       case r of
         Inr _ \<Rightarrow> sret ()
       | Inl _ \<Rightarrow>
           (case attempts of
              Suc (Suc n) \<Rightarrow> ensure_clone_loop (Suc n) env mon
            | _ \<Rightarrow> sfail (Msg ''Failed to clone repo after retries'')))"

declare ensure_clone_loop.simps [simp del]

definition ensure_clone :: "'g git_env \<Rightarrow> repo_monitor \<Rightarrow> ('g repo_system, unit) sresult" where
  "ensure_clone env mon = ensure_clone_loop 4 env mon"

definition get_update :: "'g git_env \<Rightarrow> repo_monitor \<Rightarrow> ('g repo_system, bool) sresult" where
  "get_update env mon =
     (let destination = rm_destination mon in
      sbind (scontext ''Repo not initialized'' (sread (\<lambda>s. gi_open env destination (ry_git s)))) (\<lambda>_.
      sbind (on_git (gi_fetch env destination (rm_remote_name mon))) (\<lambda>_.
      sbind (sread (\<lambda>s. gi_find_reference env destination
               (''refs/remotes/'' @ rm_remote_name mon @ ''/'' @ rm_branch mon) (ry_git s))) (\<lambda>remote_id.
      sbind (sread (\<lambda>s. Inr (rs_new_head (ry_state s)))) (\<lambda>new_head.
        if Some remote_id = new_head then sret False
        else
          sbind (on_git (gi_checkout env destination remote_id)) (\<lambda>_.
          sbind (set_heads (Some remote_id) new_head) (\<lambda>_. sret True)))))))"

text \<open>The text of a change; a rewrite leaves none, and no separator follows any.\<close>

fun change_text :: "change \<Rightarrow> string" where
  "change_text (Modification location) = ''M '' @ location"
| "change_text (Addition location) = ''A '' @ location"
| "change_text (Deletion location) = ''D '' @ location"
| "change_text (Rewrite _) = []"

definition get_change_set :: "'g git_env \<Rightarrow> repo_monitor \<Rightarrow> ('g repo_system, string) sresult" where
  "get_change_set env mon = sread (\<lambda>s.
     rbind (with_context ''Repo not initialized'' (gi_open env (rm_destination mon) (ry_git s))) (\<lambda>_.
     rbind (ok_or (rs_old_head (ry_state s)) (Msg ''Old head missing'')) (\<lambda>old.
     rbind (ok_or (rs_new_head (ry_state s)) (Msg ''New head missing'')) (\<lambda>new.
       if old = new then Inr []
       else rbind (gi_changes env (rm_destination mon) old new (ry_git s)) (\<lambda>changes.
              Inr (concat (map change_text changes)))))))"

section \<open>The loop\<close>

text \<open>What a look at the repository ends with: nothing new, something applied, or an error.\<close>

datatype check_outcome = UpToDate | Applied | Failed

definition repo_check :: "'g git_env \<Rightarrow> repo_monitor \<Rightarrow> ('g repo_system, check_outcome) sresult" where
  "repo_check env mon =
     sbind (scatch (get_update env mon)) (\<lambda>updated.
       case updated of
         Inl _ \<Rightarrow> sret Failed
       | Inr False \<Rightarrow> sret UpToDate
       | Inr True \<Rightarrow>
           sbind (scatch (get_change_set env mon)) (\<lambda>changes.
             case changes of
               Inl _ \<Rightarrow> sret Failed
             | Inr changes \<Rightarrow>
                 sbind (scatch (on_manager (\<lambda>g.
                   if changes \<noteq> [] then process_changeset (gi_faults env) (gi_disk env g) changes
                   else force_update_all_vms (gi_faults env) (gi_disk env g)))) (\<lambda>r.
                     sret (if is_ok r then Applied else Failed))))"

text \<open>
  One round of \<open>start\<close>: the time to wait before the next one, or \<open>None\<close> when the monitor
  ends. \<open>wait_time\<close> is the time of the round before.
\<close>

definition repo_round :: "'g git_env \<Rightarrow> repo_monitor \<Rightarrow> u64 \<Rightarrow> ('g repo_system, u64 option) sresult" where
  "repo_round env mon wait_time =
     sbind (repo_check env mon) (\<lambda>outcome.
       if outcome = Failed then
         sbind (scatch (ensure_clone env mon)) (\<lambda>_.
         sbind (scatch (on_manager (\<lambda>g. force_update_all_vms (gi_faults env) (gi_disk env g)))) (\<lambda>_.
           sret (Some wait_time)))
       else if rm_poll_interval mon = 0 then sret None
       else sret (Some (rm_poll_interval mon)))"

section \<open>Lemmas\<close>

text \<open>After an update the new head is the remote's, and the head before it is the old one.\<close>

lemma get_update_heads:
  assumes "get_update env mon s = (Inr b, t)"
  shows "\<exists>remote_id. rs_new_head (ry_state t) = Some remote_id \<and> ry_manager t = ry_manager s \<and>
    (if b then rs_old_head (ry_state t) = rs_new_head (ry_state s) \<and> rs_new_head (ry_state s) \<noteq> Some remote_id
     else ry_state t = ry_state s)"
  using assms
  by (auto simp: get_update_def Let_def sbind_Inr sread_def on_git_def set_heads_def sret_def scontext_def
      smodify_def split: prod.splits if_splits dest!: sym [of "Some _"])

text \<open>A change set is never empty because the heads are equal: an update moves the head.\<close>

lemma change_set_after_update:
  assumes "get_update env mon s = (Inr True, t)" "get_change_set env mon t = (Inr cs, u)"
  shows "\<exists>old new changes. rs_new_head (ry_state s) = Some old \<and> rs_new_head (ry_state t) = Some new \<and>
    old \<noteq> new \<and> gi_changes env (rm_destination mon) old new (ry_git t) = Inr changes \<and>
    cs = concat (map change_text changes)"
proof -
  obtain new where t: "rs_new_head (ry_state t) = Some new" "rs_old_head (ry_state t) = rs_new_head (ry_state s)"
    "rs_new_head (ry_state s) \<noteq> Some new"
    using get_update_heads [OF assms(1)] by auto
  with assms(2) show ?thesis
    by (cases "rs_new_head (ry_state s)")
      (auto simp: get_change_set_def sread_def rbind_Inr_iff ok_or_def)
qed

text \<open>The monitor keeps the routing invariant of the manager.\<close>

definition system_ok :: "policy_config \<Rightarrow> string \<Rightarrow> 'g repo_system \<Rightarrow> bool" where
  "system_ok c dir s = manager_ok c dir (ry_manager s)"

lemma preserves_bool [preserves_rules]:
  "preserves P m \<Longrightarrow> preserves P n \<Longrightarrow> preserves P (case b of True \<Rightarrow> m | False \<Rightarrow> n)"
  by (cases b) simp_all

lemma system_on_git [preserves_rules]: "preserves (system_ok c dir) (on_git x)"
  by (auto simp: preserves_def system_ok_def on_git_def split: prod.splits)

lemma system_set_heads [preserves_rules]: "preserves (system_ok c dir) (set_heads new old)"
  by (auto simp: preserves_def system_ok_def set_heads_def smodify_def)

lemma system_on_manager:
  "(\<And>g. preserves (manager_ok c dir) (x g)) \<Longrightarrow> preserves (system_ok c dir) (on_manager x)"
  by (auto simp: preserves_def system_ok_def on_manager_def split_beta)

lemma system_clone_repo: "preserves (system_ok c dir) (clone_repo env mon)"
  unfolding clone_repo_def Let_def by (intro preserves_rules)

lemma system_ensure_clone: "preserves (system_ok c dir) (ensure_clone_loop n env mon)"
proof (induction n rule: less_induct)
  case (less n)
  have "preserves (system_ok c dir) (case n of Suc (Suc k) \<Rightarrow> ensure_clone_loop (Suc k) env mon
      | _ \<Rightarrow> sfail (Msg ''Failed to clone repo after retries''))"
    using less by (auto split: nat.splits intro: preserves_rules)
  then show ?case
    by (subst ensure_clone_loop.simps) (intro preserves_rules system_clone_repo)
qed

lemma system_get_update: "preserves (system_ok c dir) (get_update env mon)"
  unfolding get_update_def Let_def by (intro preserves_rules)

lemma system_repo_check: "preserves (system_ok c dir) (repo_check env mon)"
proof -
  have apply_ok: "preserves (system_ok c dir) (on_manager (\<lambda>g.
      if cs \<noteq> [] then process_changeset (gi_faults env) (gi_disk env g) cs
      else force_update_all_vms (gi_faults env) (gi_disk env g)))" for cs
    by (rule system_on_manager) (simp add: process_changeset_ok force_update_all_vms_ok)
  show ?thesis
    unfolding repo_check_def get_change_set_def
    by (intro preserves_rules system_get_update apply_ok)
qed

lemma system_repo_round: "preserves (system_ok c dir) (repo_round env mon wait)"
proof -
  have force: "preserves (system_ok c dir) (on_manager (\<lambda>g. force_update_all_vms (gi_faults env) (gi_disk env g)))"
    by (rule system_on_manager) (rule force_update_all_vms_ok)
  show ?thesis
    unfolding repo_round_def ensure_clone_def
    by (intro preserves_rules system_repo_check system_ensure_clone force)
qed

text \<open>A failed clone is tried again, at most four times in all.\<close>

lemma ensure_clone_attempts:
  assumes "\<And>s. \<exists>e t. clone_repo env mon s = (Inl (Msg e), t)" and "n > 0"
  shows "\<exists>t. ensure_clone_loop n env mon s = (Inl (Msg ''Failed to clone repo after retries''), t) \<and>
    t = ((\<lambda>s. snd (clone_repo env mon s)) ^^ n) s"
  using assms(2)
proof (induction n arbitrary: s)
  case (Suc n)
  obtain e t where t: "clone_repo env mon s = (Inl (Msg e), t)" using assms(1) by blast
  show ?case
  proof (cases n)
    case 0
    with t show ?thesis
      by (subst ensure_clone_loop.simps) (simp add: sresult_defs)
  next
    case (Suc k)
    with Suc.IH [of t] t show ?thesis
      by (subst ensure_clone_loop.simps) (auto simp: sresult_defs funpow_Suc_right simp del: funpow.simps)
  qed
qed simp

lemma trim_id: "s \<noteq> [] \<Longrightarrow> \<not> is_ws (hd s) \<Longrightarrow> \<not> is_ws (List.last s) \<Longrightarrow> trim s = s"
  using dropWhile_eq_self_iff [of is_ws s] dropWhile_eq_self_iff [of is_ws "rev s"]
  by (simp add: trim_def hd_rev)

text \<open>
  A commit that changes two files loses both: the second change is written right after the
  first, and the line names a file whose name ends in the letter of the second change.
\<close>

lemma change_set_runs_together:
  assumes pol: "policy \<noteq> []" "\<forall>x \<in> set policy. \<not> is_ws x \<and> x \<noteq> CHR ''/''"
    and one: "first \<noteq> []" "\<forall>x \<in> set first. \<not> is_ws x \<and> x \<noteq> CHR ''/''"
    and two: "loc2 \<noteq> []" "\<forall>x \<in> set loc2. \<not> is_ws x"
  shows "process_changeset f d
      (concat (map change_text [Modification (''vm-policies/'' @ policy @ ''/'' @ first), Modification loc2])) =
    process_change f d (''M vm-policies/'' @ policy @ ''/'' @ first @ ''M '' @ loc2) \<and>
    changeset_target (''M vm-policies/'' @ policy @ ''/'' @ first @ ''M '' @ loc2) = Some (policy, first @ ''M'')"
proof -
  define tok where "tok = ''vm-policies/'' @ policy @ ''/'' @ first @ ''M''"
  define line where "line = ''M'' @ CHR '' '' # tok @ CHR '' '' # loc2"
  have line: "''M vm-policies/'' @ policy @ ''/'' @ first @ ''M '' @ loc2 = line"
    by (simp add: line_def tok_def)
  have ws: "\<not> is_ws CHR ''M''" "is_ws CHR '' ''" "is_ws (CHR 0x0A)" "is_ws (CHR 0x0D)"
    by (simp_all add: is_ws_def)
  have lits: "\<forall>x \<in> set ''vm-policies/''. \<not> is_ws x" "\<forall>x \<in> set ''/''. \<not> is_ws x" "\<forall>x \<in> set ''M''. \<not> is_ws x"
    by code_simp+
  have "\<forall>x \<in> set policy. \<not> is_ws x" "\<forall>x \<in> set first. \<not> is_ws x"
    using pol(2) one(2) by auto
  then have tok: "tok \<noteq> []" "\<forall>x \<in> set tok. \<not> is_ws x"
    unfolding tok_def set_append ball_Un using lits by (blast | simp)+
  have "CHR 0x0A \<notin> set line" "CHR 0x0D \<notin> set line"
    using tok(2) two(2) ws unfolding line_def by auto
  then have l: "lines line = [line]"
    using lines_join [of "[line]"] by (simp add: line_def)
  have "trim line = line"
    using two last_in_set [OF two(1)] ws by (intro trim_id) (auto simp: line_def)
  moreover have "split_whitespace line = ''M'' # tok # [loc2]"
    using split_whitespace_cons [of "''M''" "CHR '' ''" "tok @ CHR '' '' # loc2"] ws
      split_whitespace_cons [OF tok, of "CHR '' ''" loc2] split_whitespace_token [OF two]
    by (simp add: line_def)
  moreover have "split_on CHR ''/'' (policy @ CHR ''/'' # first @ ''M'') = [policy, first @ ''M'']"
    using pol one split_on_join [of "[policy, first @ ''M'']" "CHR ''/''"] by auto
  moreover have "strip_prefix ''vm-policies/'' tok = Some (policy @ CHR ''/'' # first @ ''M'')"
    by (simp add: strip_prefix_Some tok_def)
  ultimately have "changeset_target line = Some (policy, first @ ''M'')"
    by (simp add: changeset_target_def)
  with l show ?thesis unfolding line by (simp add: process_changeset_def line [symmetric])
qed

end
