(* ===== verification/Policy_Urls.thy ===== *)
theory Policy_Urls
  imports Policy_Manager
begin

text \<open>
  The monitor of single policy files (\<open>policy_urls.rs\<close>): each policy has an address that is
  polled for a new version, told by its \<open>ETag\<close>, its date or its hash. HTTP, the hash and the
  JSON form of the configuration are parameters; the answers of the server are those of one
  round.
\<close>

section \<open>Environment\<close>

text \<open>An answer to \<open>HEAD\<close>: its status, and the headers that are present and readable.\<close>

record head_response =
  hr_success :: bool
  hr_status :: string
  hr_etag :: "string option"
  hr_last_modified :: "string option"

record get_response =
  gr_success :: bool
  gr_status :: string
  gr_body :: "string result"

record url_net =
  un_head :: "string \<Rightarrow> head_response result"
  un_get :: "string \<Rightarrow> get_response result"

record url_env =
  ue_faults :: disk_faults
  ue_sha256 :: "string \<Rightarrow> string"
  ue_to_json :: "policy_config \<Rightarrow> string result"
  ue_from_json :: "string \<Rightarrow> policy_config result"

record url_monitor =
  um_config_file :: string
  um_output_dir :: string

record url_system =
  uy_disk :: disk
  uy_config :: policy_config
  uy_manager :: policy_manager

definition on_url_disk :: "(disk, 'a) sresult \<Rightarrow> (url_system, 'a) sresult" where
  "on_url_disk c s = (case c (uy_disk s) of (r, d) \<Rightarrow> (r, s\<lparr>uy_disk := d\<rparr>))"

definition on_url_manager :: "(policy_manager, 'a) sresult \<Rightarrow> (url_system, 'a) sresult" where
  "on_url_manager c s = (case c (uy_manager s) of (r, m) \<Rightarrow> (r, s\<lparr>uy_manager := m\<rparr>))"

section \<open>Start\<close>

definition url_monitor_of :: "string \<Rightarrow> url_monitor" where
  "url_monitor_of root =
     \<lparr>um_config_file = path_join root ''config.json'',
      um_output_dir = path_join (path_join root ''data'') ''vm-policies''\<rparr>"

text \<open>
  \<open>new\<close>: the configuration kept on disk wins over the one given; without one, the given one is
  written there, and a failure of that is only logged.
\<close>

definition url_monitor_new ::
  "url_env \<Rightarrow> string \<Rightarrow> policy_config \<Rightarrow> (disk, policy_config) sresult" where
  "url_monitor_new env root configs =
     (let mon = url_monitor_of root; cfgpath = um_config_file mon in
      sbind (scontext (''Failed to create local policy directory '' @ um_output_dir mon)
               (create_dir_all (ue_faults env) (um_output_dir mon))) (\<lambda>_.
      sbind (sread (\<lambda>d. Inr (exists_at (ue_faults env) d cfgpath))) (\<lambda>present.
        if present then
          sbind (scontext (''Failed to load config from '' @ cfgpath)
                   (sread (read_file (ue_faults env) cfgpath))) (\<lambda>bytes.
            scontext (''Failed to parse config '' @ cfgpath) (sread (\<lambda>_. ue_from_json env bytes)))
        else
          sbind (logged (sbind (sread (\<lambda>_. with_context ''Serializing data'' (ue_to_json env configs))) (\<lambda>json.
                   scontext ''Writing config file'' (write_file (ue_faults env) cfgpath json)))) (\<lambda>_.
            sret configs))))"

section \<open>Polling\<close>

definition remote_head :: "head_response \<Rightarrow> string option" where
  "remote_head r =
     (case hr_etag r of
        Some s \<Rightarrow> Some (''etag:'' @ s)
      | None \<Rightarrow> map_option (\<lambda>s. ''last-modified:'' @ s) (hr_last_modified r))"

text \<open>What the last piece of the address names the file.\<close>

definition url_file_name :: "string \<Rightarrow> string" where
  "url_file_name url = List.last (split_on CHR ''/'' url)"

text \<open>The version to download: its head and its body, or \<open>None\<close> when it is the current one.\<close>

definition poll_version ::
  "url_env \<Rightarrow> url_net \<Rightarrow> string \<Rightarrow> string \<Rightarrow> (string \<times> string) option result" where
  "poll_version env net url current_head =
     rbind (un_head net url) (\<lambda>head_resp.
     rbind (ensure (hr_success head_resp) (''HEAD request failed with status: '' @ hr_status head_resp)) (\<lambda>_.
       if remote_head head_resp = Some current_head then Inr None
       else
         rbind (un_get net url) (\<lambda>get_resp.
         rbind (ensure (gr_success get_resp) (''GET request failed with status: '' @ gr_status get_resp)) (\<lambda>_.
         rbind (gr_body get_resp) (\<lambda>body.
           case remote_head head_resp of
             Some rh \<Rightarrow> Inr (Some (rh, body))
           | None \<Rightarrow>
               let hash = ''sha256:'' @ ue_sha256 env body in
               if hash = current_head then Inr None else Inr (Some (hash, body)))))))"

definition poll_once ::
  "url_env \<Rightarrow> url_net \<Rightarrow> url_monitor \<Rightarrow> string \<Rightarrow> string \<Rightarrow> string \<Rightarrow> (disk, (string \<times> string) option) sresult" where
  "poll_once env net mon name url current_head =
     sbind (sread (\<lambda>_. poll_version env net url current_head)) (\<lambda>version.
       case version of
         None \<Rightarrow> sret None
       | Some (final_head, body) \<Rightarrow>
           (let policy_dir = path_join (um_output_dir mon) name;
                file_path = path_join policy_dir (url_file_name url) in
            sbind (sread (\<lambda>d. Inr (exists_at (ue_faults env) d policy_dir))) (\<lambda>present.
            sbind (if present then sret () else create_dir_all (ue_faults env) policy_dir) (\<lambda>_.
            sbind (write_file (ue_faults env) file_path body) (\<lambda>_.
              sret (Some (final_head, url_file_name url)))))))"

definition read_policy_config ::
  "policy_config \<Rightarrow> string \<Rightarrow> (string \<times> string \<times> string list \<times> u64) result" where
  "read_policy_config config name =
     rbind (ok_or (hm_get (pc_policies config) name) (Msg (''Policy '' @ name @ '' not found in config''))) (\<lambda>policy.
     rbind (ok_or (pp_updater policy) (Msg (''Policy '' @ name @ '' has no updater''))) (\<lambda>updater.
       Inr (pu_url updater, (case pu_head updater of Some h \<Rightarrow> h | None \<Rightarrow> []), pp_vms policy,
            (case pu_poll_interval_secs updater of Some i \<Rightarrow> i | None \<Rightarrow> 60))))"

text \<open>The head is changed in memory first, then the whole configuration is written.\<close>

definition set_head :: "string \<Rightarrow> string \<Rightarrow> policy_config \<Rightarrow> policy_config result" where
  "set_head name new_head config =
     rbind (ok_or (hm_get (pc_policies config) name) (Msg (''Policy '' @ name @ '' not found in config''))) (\<lambda>policy.
     rbind (ok_or (pp_updater policy) (Msg (''Policy '' @ name @ '' has no updater in config''))) (\<lambda>updater.
       Inr (config\<lparr>pc_policies := hm_insert name
              (policy\<lparr>pp_updater := Some (updater\<lparr>pu_head := Some new_head\<rparr>)\<rparr>) (pc_policies config)\<rparr>)))"

definition update_head :: "url_env \<Rightarrow> url_monitor \<Rightarrow> string \<Rightarrow> string \<Rightarrow> (url_system, unit) sresult" where
  "update_head env mon name new_head =
     sbind (sread (\<lambda>s. set_head name new_head (uy_config s))) (\<lambda>config.
     sbind (smodify (\<lambda>s. s\<lparr>uy_config := config\<rparr>)) (\<lambda>_.
     sbind (sread (\<lambda>_. with_context ''Failed to serialize config for saving'' (ue_to_json env config))) (\<lambda>json.
       scontext ''Failed to write config'' (on_url_disk (write_file (ue_faults env) (um_config_file mon) json)))))"

text \<open>
  One round of \<open>monitor_loop\<close> with the head and the waiting time it carries: those of the next
  round, or \<open>None\<close> when the task ends.
\<close>

definition url_round ::
  "url_env \<Rightarrow> url_net \<Rightarrow> url_monitor \<Rightarrow> string \<Rightarrow> string \<Rightarrow> string list \<Rightarrow> u64 \<Rightarrow> string \<times> u64 \<Rightarrow>
   (url_system, (string \<times> u64) option) sresult" where
  "url_round env net mon name url vms interval = (\<lambda>(current_head, wait_time).
     sbind (scatch (on_url_disk (poll_once env net mon name url current_head))) (\<lambda>polled.
       case polled of
         Inl _ \<Rightarrow> sret (Some (current_head, wait_time))
       | Inr None \<Rightarrow> sret (if interval = 0 then None else Some (current_head, interval))
       | Inr (Some (new_head, file_name)) \<Rightarrow>
           (let full_path = path_join (path_join (um_output_dir mon) name) file_name in
            sbind (sforeach vms (\<lambda>vm. logged (on_url_manager (send_to_vm vm name full_path)))) (\<lambda>_.
            sbind (logged (update_head env mon name new_head)) (\<lambda>_.
              sret (if interval = 0 then None else Some (new_head, interval)))))))"

text \<open>\<open>start\<close> spawns a task for each policy of the configuration.\<close>

definition url_tasks :: "policy_config \<Rightarrow> string list" where
  "url_tasks config = hm_keys (pc_policies config)"

text \<open>What the task of a policy reads before its loop; without an address it ends at once.\<close>

definition monitor_loop_start ::
  "policy_config \<Rightarrow> string \<Rightarrow> (string \<times> string list \<times> u64 \<times> string \<times> u64) option result" where
  "monitor_loop_start config name =
     rbind (read_policy_config config name) (\<lambda>(url, current_head, vms, interval).
       Inr (if url = [] then None else Some (url, vms, interval, current_head, 30)))"

text \<open>A task, as long as it runs against \<open>nets\<close>, the network at each of its rounds.\<close>

fun url_rounds ::
  "url_env \<Rightarrow> url_monitor \<Rightarrow> string \<Rightarrow> string \<Rightarrow> string list \<Rightarrow> u64 \<Rightarrow> url_net list \<Rightarrow> string \<times> u64 \<Rightarrow>
   (url_system, (string \<times> u64) option) sresult" where
  "url_rounds env mon name url vms interval [] st = sret (Some st)"
| "url_rounds env mon name url vms interval (net # nets) st =
     sbind (url_round env net mon name url vms interval st) (\<lambda>next.
       case next of None \<Rightarrow> sret None | Some st \<Rightarrow> url_rounds env mon name url vms interval nets st)"

definition url_task ::
  "url_env \<Rightarrow> url_monitor \<Rightarrow> url_net list \<Rightarrow> string \<Rightarrow> (url_system, (string \<times> u64) option) sresult" where
  "url_task env mon nets name =
     sbind (sread (\<lambda>s. monitor_loop_start (uy_config s) name)) (\<lambda>start.
       case start of
         None \<Rightarrow> sret None
       | Some (url, vms, interval, st) \<Rightarrow> url_rounds env mon name url vms interval nets st)"

section \<open>Lemmas\<close>

text \<open>A version that was downloaded is the current one from then on.\<close>

lemma poll_again:
  assumes "poll_version env net url current_head = Inr (Some (h, body))"
  shows "poll_version env net url h = Inr None"
proof -
  obtain hr where hr: "un_head net url = Inr hr" "hr_success hr"
    and v: "remote_head hr \<noteq> Some current_head"
    using assms by (auto simp: poll_version_def rbind_Inr_iff ensure_def split: if_splits)
  obtain gr where "un_get net url = Inr gr" "gr_success gr" "gr_body gr = Inr body"
    "h = (case remote_head hr of Some rh \<Rightarrow> rh | None \<Rightarrow> ''sha256:'' @ ue_sha256 env body)"
    using assms hr v
    by (auto simp: poll_version_def rbind_Inr_iff ensure_def Let_def split: if_splits option.splits)
  with hr show ?thesis by (cases "remote_head hr") (simp_all add: poll_version_def ensure_def)
qed

text \<open>The heads change nothing else of the configuration.\<close>

lemma set_head_vms:
  assumes "set_head name h c = Inr c'" "hm_ok (pc_policies c)"
  shows "pc_source c' = pc_source c \<and> hm_ok (pc_policies c') \<and>
    (\<forall>p. map_option pp_vms (hm_get (pc_policies c') p) = map_option pp_vms (hm_get (pc_policies c) p)) \<and>
    (\<exists>url vms i. read_policy_config c' name = Inr (url, h, vms, i) \<and>
       (\<exists>h0. read_policy_config c name = Inr (url, h0, vms, i)))"
  using assms
  by (auto simp: set_head_def rbind_Inr_iff ok_or_def hm.get_insert hm.ok_insert read_policy_config_def
      split: option.splits)

definition url_ok :: "policy_config \<Rightarrow> string \<Rightarrow> url_system \<Rightarrow> bool" where
  "url_ok c dir s \<longleftrightarrow> manager_ok c dir (uy_manager s) \<and> hm_ok (pc_policies (uy_config s)) \<and>
     (\<forall>p. map_option pp_vms (hm_get (pc_policies (uy_config s)) p) = map_option pp_vms (hm_get (pc_policies c) p))"

lemma url_on_disk [preserves_rules]: "preserves (url_ok c dir) (on_url_disk x)"
  by (auto simp: preserves_def url_ok_def on_url_disk_def split: prod.splits)

lemma url_on_manager:
  "preserves (manager_ok c dir) x \<Longrightarrow> preserves (url_ok c dir) (on_url_manager x)"
  by (auto simp: preserves_def url_ok_def on_url_manager_def split_beta)

lemma url_update_head: "preserves (url_ok c dir) (update_head env mon name h)"
proof -
  have rest: "preserves (url_ok c dir) (sbind (sread (\<lambda>_. with_context ''Failed to serialize config for saving'' (ue_to_json env x)))
      (\<lambda>json. scontext ''Failed to write config'' (on_url_disk (write_file (ue_faults env) (um_config_file mon) json))))" for x
    by (intro preserves_rules)
  show ?thesis
    unfolding preserves_def
  proof (intro allI impI)
    fix s
    assume ok: "url_ok c dir s"
    show "url_ok c dir (snd (update_head env mon name h s))"
    proof (cases "set_head name h (uy_config s)")
      case (Inr x)
      have "url_ok c dir (s\<lparr>uy_config := x\<rparr>)"
        using ok set_head_vms [OF Inr] by (auto simp: url_ok_def)
      then show ?thesis
        using preservesD [OF rest [of x]] Inr
        by (simp add: update_head_def sbind_def sread_def smodify_def split: sum.splits prod.splits)
    qed (use ok in \<open>simp add: update_head_def sbind_def sread_def\<close>)
  qed
qed

lemma url_round_ok:
  assumes "hm_get (pc_policies c) name = Some p" "pp_vms p = vms" "um_output_dir mon = dir"
  shows "preserves (url_ok c dir) (url_round env net mon name url vms interval st)"
proof -
  have send: "preserves (url_ok c dir)
      (logged (on_url_manager (send_to_vm vm name (path_join (path_join dir name) e))))"
    if "vm \<in> set vms" for vm e
    using that assms by (intro preserves_logged url_on_manager send_to_vm_ok) (auto simp: routed_def)
  obtain h w where st: "st = (h, w)" by (cases st)
  show ?thesis
    unfolding url_round_def st assms(3) Let_def prod.case
    by (intro preserves_rules url_update_head send)
qed

text \<open>A task sends its files only to the VMs the configuration of the manager subscribes.\<close>

lemma url_rounds_ok:
  assumes "hm_get (pc_policies c) name = Some p" "pp_vms p = vms" "um_output_dir mon = dir"
  shows "preserves (url_ok c dir) (url_rounds env mon name url vms interval nets st)"
  by (induction nets arbitrary: st) (auto intro!: preserves_rules url_round_ok [OF assms])

lemma url_task_ok:
  assumes "um_output_dir mon = dir"
  shows "preserves (url_ok c dir) (url_task env mon nets name)"
  unfolding preserves_def
proof (intro allI impI)
  fix s
  assume ok: "url_ok c dir s"
  show "url_ok c dir (snd (url_task env mon nets name s))"
  proof (cases "read_policy_config (uy_config s) name")
    case (Inr r)
    then obtain url h vms i where r: "r = (url, h, vms, i)" by (cases r)
    obtain p where "hm_get (pc_policies (uy_config s)) name = Some p" "pp_vms p = vms"
      using Inr r by (auto simp: read_policy_config_def rbind_Inr_iff)
    moreover have "map_option pp_vms (hm_get (pc_policies (uy_config s)) name) = map_option pp_vms (hm_get (pc_policies c) name)"
      using ok by (simp add: url_ok_def)
    ultimately obtain q where "hm_get (pc_policies c) name = Some q" "pp_vms q = vms"
      by (cases "hm_get (pc_policies c) name") auto
    from preservesD [OF url_rounds_ok [OF this assms] ok] ok show ?thesis
      by (simp add: url_task_def monitor_loop_start_def Inr r sresult_defs)
  qed (use ok in \<open>simp add: url_task_def monitor_loop_start_def sresult_defs\<close>)
qed

end
