(* ===== verification/Policy_Push.thy ===== *)
theory Policy_Push
  imports Admin_Server Policy_Repo Policy_Urls
begin

text \<open>
  The way of a policy file from the manager to a VM: the update the worker put on the channel
  is taken by the task of \<open>AdminService::new\<close> (\<open>server.rs\<close>), which copies the file aside and
  streams it to the agent of the VM (\<open>admin/policyclient.rs\<close>). The call of the agent and the
  pieces in which a file is read are parameters.
\<close>

section \<open>Streaming a file\<close>

record stream_policy_request =
  sp_policy_name :: string
  sp_policy_chunk :: string

text \<open>
  The requests made of what the reads of the file return: an empty piece is its end, and an
  error ends the stream as well.
\<close>

fun policy_stream :: "string \<Rightarrow> bool \<Rightarrow> string result list \<Rightarrow> stream_policy_request list" where
  "policy_stream name is_first_chunk (Inr chunk # rest) =
     (if chunk = [] then []
      else \<lparr>sp_policy_name = (if is_first_chunk then name else []), sp_policy_chunk = chunk\<rparr>
             # policy_stream name False rest)"
| "policy_stream name is_first_chunk _ = []"

text \<open>\<open>call\<close> connects to the agent and makes the call; it gives the status the agent answers.\<close>

definition stream_policy ::
  "(endpoint_config \<Rightarrow> stream_policy_request list \<Rightarrow> string result) \<Rightarrow> endpoint_config \<Rightarrow>
   stream_policy_request list \<Rightarrow> unit result" where
  "stream_policy call ec updates =
     rbind (call ec updates) (\<lambda>status.
       ensure (status = ''Success'') (''Policy update failed: '' @ status))"

definition upload_policy ::
  "disk_faults \<Rightarrow> (string \<Rightarrow> string result list) \<Rightarrow>
   (endpoint_config \<Rightarrow> stream_policy_request list \<Rightarrow> string result) \<Rightarrow> endpoint_config \<Rightarrow>
   string \<Rightarrow> string \<Rightarrow> disk \<Rightarrow> unit result" where
  "upload_policy f reads call ec name path d =
     stream_policy call ec
       (case open_file f path d of
          Inl _ \<Rightarrow> []
        | Inr _ \<Rightarrow>
            (case lookup_node d (locate d path) of
               Some (FileNode content) \<Rightarrow> policy_stream name True (reads content)
             | _ \<Rightarrow> policy_stream name True [Inl (Msg ''Is a directory'')]))"

section \<open>Pushing an update\<close>

record 'w push_system =
  px_admin :: "'w admin"
  px_disk :: disk
  px_manager :: policy_manager

definition on_push_disk :: "(disk, 'a) sresult \<Rightarrow> ('w push_system, 'a) sresult" where
  "on_push_disk c s = (case c (px_disk s) of (r, d) \<Rightarrow> (r, s\<lparr>px_disk := d\<rparr>))"

definition push_policy_update ::
  "disk_faults \<Rightarrow> (string \<Rightarrow> string result list) \<Rightarrow>
   (endpoint_config \<Rightarrow> stream_policy_request list \<Rightarrow> string result) \<Rightarrow>
   string \<Rightarrow> string \<Rightarrow> string \<Rightarrow> ('w push_system, unit) sresult" where
  "push_policy_update f reads call vm_name policy_file_path policy_name =
     (let agent_service_name = agent_service (Vm vm_name);
          temp_path = path_with_extension policy_file_path ''tmp'' in
      sbind (scontext (''policy-admin: failed to get endpoint for agent '' @ agent_service_name)
               (sread (\<lambda>s. agent_endpoint agent_service_name (px_admin s)))) (\<lambda>ec.
      sbind (on_push_disk (copy_file f policy_file_path temp_path)) (\<lambda>_.
      sbind (scatch (sread (\<lambda>s. upload_policy f reads call ec policy_name temp_path (px_disk s)))) (\<lambda>result.
      sbind (logged (on_push_disk (remove_file f temp_path))) (\<lambda>_.
        sread (\<lambda>_. result))))))"

text \<open>
  One turn of the task: the next update, pushed, and its worker told. The worker looks only
  at whether it was told, not at the result.
\<close>

definition push_turn ::
  "disk_faults \<Rightarrow> (string \<Rightarrow> string result list) \<Rightarrow>
   (endpoint_config \<Rightarrow> stream_policy_request list \<Rightarrow> string result) \<Rightarrow> ('w push_system, unit) sresult" where
  "push_turn f reads call s =
     (case worker_answered (px_manager s) of
        None \<Rightarrow> (Inr (), s)
      | Some (u, m) \<Rightarrow>
          (case push_policy_update f reads call (up_vm_name u) (up_file u) (up_policy u) s of
             (_, t) \<Rightarrow> (Inr (), t\<lparr>px_manager := m\<rparr>)))"

section \<open>Lemmas\<close>

text \<open>
  A file read to its end is streamed whole: the chunks give its contents, and only the first
  of them carries the name.
\<close>

lemma policy_stream_chunks:
  "\<forall>c \<in> set cs. c \<noteq> [] \<Longrightarrow>
     map sp_policy_chunk (policy_stream name b (map Inr cs @ [Inr []])) = cs \<and>
     map sp_policy_name (policy_stream name b (map Inr cs @ [Inr []])) =
       (case cs of [] \<Rightarrow> [] | _ # rest \<Rightarrow> (if b then name else []) # replicate (length rest) [])"
proof (induction cs arbitrary: b)
  case (Cons c cs)
  with Cons.IH [of False] show ?case by (cases cs) simp_all
qed simp

text \<open>A read that fails leaves the agent with the part of the file before it.\<close>

lemma policy_stream_cut:
  "\<forall>c \<in> set cs. c \<noteq> [] \<Longrightarrow>
     concat (map sp_policy_chunk (policy_stream name b (map Inr cs @ Inl e # rest))) = concat cs"
  by (induction cs arbitrary: b) auto

lemma copy_file_Inr:
  assumes "copy_file f p q d = (Inr u, d')"
  shows "\<exists>c. lookup_node d (locate d p) = Some (FileNode c) \<and> dk_cwd d' = dk_cwd d \<and>
    (\<forall>r. lookup_node d' r =
       (if r = locate d q then Some (FileNode (if locate d p = locate d q then [] else c)) else lookup_node d r))"
proof -
  obtain c e b where c: "read_file f p d = Inr c" and e: "create_file f q d = (Inr (), e)"
    and b: "read_file f p e = Inr b" and d': "append_file f q b e = (Inr u, d')"
    using assms by (auto simp: copy_file_def sbind_Inr sread_def)
  have le: "locate e x = locate d x" for x using create_file_Inr [OF e] by (simp add: locate_def)
  have node: "lookup_node d (locate d p) = Some (FileNode c)"
    using c by (auto simp: read_file_def rbind_Inr_iff split: option.splits node.splits)
  moreover have "b = (if locate d p = locate d q then [] else c)"
    using b node create_file_Inr [OF e]
    by (auto simp: read_file_def rbind_Inr_iff le split: if_splits)
  moreover have "lookup_node e (locate e q) = Some (FileNode [])" using create_file_Inr [OF e] le by simp
  ultimately show ?thesis
    using append_file_Inr [OF d' \<open>lookup_node e (locate e q) = Some (FileNode [])\<close>] create_file_Inr [OF e] le
    by auto
qed

text \<open>
  What reaches the agent of the VM when a push reports success: the contents of the file, under
  the name of the policy, unless the file is the temporary one itself.
\<close>

lemma push_policy_update_Inr:
  assumes "push_policy_update f reads call vm path name s = (Inr u, t)"
    and other: "locate (px_disk s) (path_with_extension path ''tmp'') \<noteq> locate (px_disk s) path"
    and reads: "reads = (\<lambda>c. map Inr (pieces c) @ [Inr []])"
    and pieces: "\<And>c. concat (pieces c) = c \<and> (\<forall>p \<in> set (pieces c). p \<noteq> [])"
  shows "\<exists>ec c reqs.
    agent_endpoint (agent_service (Vm vm)) (px_admin s) = Inr ec \<and>
    lookup_node (px_disk s) (locate (px_disk s) path) = Some (FileNode c) \<and>
    (call ec reqs = Inr ''Success'') \<and>
    (reqs = [] \<or> concat (map sp_policy_chunk reqs) = c \<and> sp_policy_name (hd reqs) = name)"
proof -
  let ?tmp = "path_with_extension path ''tmp''"
  have caught: "scatch m x = (Inr (Inr y), z) \<Longrightarrow> m x = (Inr y, z)" for m :: "('a push_system, unit) sresult" and x y z
    by (auto simp: scatch_def split: prod.splits sum.splits error.splits)
  obtain ec s1 s2 where ec: "agent_endpoint (agent_service (Vm vm)) (px_admin s) = Inr ec"
    and s1: "on_push_disk (copy_file f path ?tmp) s = (Inr (), s1)"
    and s2: "scatch (sread (\<lambda>s. upload_policy f reads call ec name ?tmp (px_disk s))) s1 = (Inr (Inr ()), s2)"
    using assms(1) unfolding push_policy_update_def Let_def sbind_Inr
    by (auto simp: sread_def scontext_def logged_def split: prod.splits)
  define d1 where "d1 = px_disk s1"
  have d1: "copy_file f path ?tmp (px_disk s) = (Inr (), d1)"
    using s1 by (auto simp: on_push_disk_def d1_def split: prod.splits)
  have up: "upload_policy f reads call ec name ?tmp d1 = Inr ()"
    using caught [OF s2] by (auto simp: sread_def d1_def)
  from copy_file_Inr [OF d1] obtain c where c: "lookup_node (px_disk s) (locate (px_disk s) path) = Some (FileNode c)"
    and n: "lookup_node d1 (locate d1 ?tmp) = Some (FileNode c)"
    using other by (auto simp: locate_def)
  let ?reqs = "case open_file f ?tmp d1 of Inl _ \<Rightarrow> [] | Inr _ \<Rightarrow> policy_stream name True (reads c)"
  have "call ec ?reqs = Inr ''Success''"
    using up n by (cases "open_file f ?tmp d1")
      (auto simp: upload_policy_def stream_policy_def rbind_Inr_iff ensure_def split: if_splits)
  moreover have "?reqs = [] \<or> concat (map sp_policy_chunk ?reqs) = c \<and> sp_policy_name (hd ?reqs) = name"
    using policy_stream_chunks [of "pieces c" name True] pieces [of c] reads
    by (cases "pieces c") (auto split: sum.splits)
  ultimately show ?thesis using ec c by blast
qed

section \<open>The system of manager, monitors and pushes\<close>

text \<open>
  The steps of the policy administration: a VM asks for all its policies, a monitor applies a
  change set, refreshes all VMs or announces a file it downloaded, a worker takes a message, the
  admin service pushes an update; the disk and the registry change on their own.
\<close>

inductive policy_step ::
  "disk_faults \<Rightarrow> (string \<Rightarrow> string result list) \<Rightarrow>
   (endpoint_config \<Rightarrow> stream_policy_request list \<Rightarrow> string result) \<Rightarrow> 'w push_system \<Rightarrow> 'w push_system \<Rightarrow> bool"
  for f reads call where
  step_send: "policy_step f reads call s (s\<lparr>px_manager := snd (send_all_policies f (px_disk s) vm (px_manager s))\<rparr>)"
| step_force: "policy_step f reads call s (s\<lparr>px_manager := snd (force_update_all_vms f (px_disk s) (px_manager s))\<rparr>)"
| step_changes: "policy_step f reads call s
    (s\<lparr>px_manager := snd (process_changeset f (px_disk s) changes (px_manager s))\<rparr>)"
| step_announce: "hm_get (pc_policies (pm_configs (px_manager s))) name = Some p \<Longrightarrow>
    policy_step f reads call s (s\<lparr>px_manager := snd (sforeach (pp_vms p) (\<lambda>vm. logged (send_to_vm vm name
      (path_join (path_join (pm_policy_dir (px_manager s)) name) entry))) (px_manager s))\<rparr>)"
| step_take: "worker_take vm (px_manager s) = Some m \<Longrightarrow> policy_step f reads call s (s\<lparr>px_manager := m\<rparr>)"
| step_push: "policy_step f reads call s (snd (push_turn f reads call s))"
| step_world: "policy_step f reads call s (s\<lparr>px_admin := a, px_disk := d\<rparr>)"

inductive_cases policy_stepE: "policy_step f reads call s t"

lemma push_policy_update_manager:
  "px_manager (snd (push_policy_update f reads call vm path name s)) = px_manager s"
proof -
  have "preserves (\<lambda>t. px_manager t = px_manager s) (push_policy_update f reads call vm path name)"
    unfolding push_policy_update_def Let_def
    by (intro preserves_rules) (auto simp: preserves_def on_push_disk_def split_beta)
  from preservesD [OF this, of s] show ?thesis by simp
qed

lemma policy_step_ok:
  assumes "policy_step f reads call s t" "hm_ok (pc_policies c)" "manager_ok c dir (px_manager s)"
  shows "manager_ok c dir (px_manager t)"
  using assms(1)
proof (rule policy_stepE)
  fix vm assume "t = s\<lparr>px_manager := snd (send_all_policies f (px_disk s) vm (px_manager s))\<rparr>"
  then show ?thesis using preservesD [OF send_all_policies_ok assms(3)] by simp
next
  assume "t = s\<lparr>px_manager := snd (force_update_all_vms f (px_disk s) (px_manager s))\<rparr>"
  then show ?thesis using preservesD [OF force_update_all_vms_ok assms(3)] by simp
next
  fix changes assume "t = s\<lparr>px_manager := snd (process_changeset f (px_disk s) changes (px_manager s))\<rparr>"
  then show ?thesis using preservesD [OF process_changeset_ok assms(3)] by simp
next
  fix name p entry
  assume p: "hm_get (pc_policies (pm_configs (px_manager s))) name = Some p"
    and t: "t = s\<lparr>px_manager := snd (sforeach (pp_vms p) (\<lambda>vm. logged (send_to_vm vm name
      (path_join (path_join (pm_policy_dir (px_manager s)) name) entry))) (px_manager s))\<rparr>"
  have "pm_configs (px_manager s) = c" "pm_policy_dir (px_manager s) = dir"
    using assms(3) by (simp_all add: manager_ok_def)
  with p have "preserves (manager_ok c dir) (sforeach (pp_vms p) (\<lambda>vm. logged (send_to_vm vm name
      (path_join (path_join (pm_policy_dir (px_manager s)) name) entry))))"
    by (intro preserves_sforeach preserves_logged send_to_vm_ok) (auto simp: routed_def)
  from preservesD [OF this assms(3)] show ?thesis using t by simp
next
  fix vm m assume "t = s\<lparr>px_manager := m\<rparr>" "worker_take vm (px_manager s) = Some m"
  then show ?thesis using worker_take_ok [OF assms(3)] by simp
next
  assume t: "t = snd (push_turn f reads call s)"
  show ?thesis
  proof (cases "worker_answered (px_manager s)")
    case None
    with t assms(3) show ?thesis by (simp add: push_turn_def)
  next
    case (Some um)
    then show ?thesis
      using worker_answered_ok [OF assms(3,2), of "fst um" "snd um"] t
      by (simp add: push_turn_def split_beta)
  qed
next
  fix a d assume "t = s\<lparr>px_admin := a, px_disk := d\<rparr>"
  then show ?thesis using assms(3) by simp
qed

lemma policy_reachable_ok:
  assumes "(policy_step f reads call)\<^sup>*\<^sup>* s t" "hm_ok (pc_policies c)" "manager_ok c dir (px_manager s)"
  shows "manager_ok c dir (px_manager t)"
  using assms(1) by (induction rule: rtranclp_induct) (use assms policy_step_ok in blast)+

section \<open>The start of the service\<close>

text \<open>
  \<open>run_policy_admin\<close> as a whole, with the monitor it starts, and \<open>AdminService::new\<close> (\<open>server.rs\<close>). The
  git repository is in the state \<open>g\<close>; the configuration files are those of \<open>admin_new\<close>.
\<close>

datatype policy_monitor = GitMonitor repo_monitor repo_state | UrlMonitor policy_config | NoMonitor

definition setup_policy_admin ::
  "(string \<Rightarrow> policy_config result) \<Rightarrow> 'g git_env \<Rightarrow> 'g \<Rightarrow> url_env \<Rightarrow> string option \<Rightarrow> string option \<Rightarrow>
   (disk, policy_manager \<times> policy_monitor) sresult" where
  "setup_policy_admin from_json git g env policy_store policy_config =
     (let policy_root = policy_root_of policy_store in
      sbind (sread (\<lambda>_. run_policy_admin from_json policy_store policy_config)) (\<lambda>(manager, kind).
        let config = pm_configs manager in
        case kind of
          SourceGitUrl \<Rightarrow>
            let mon = repo_monitor_of policy_root config in
            sbind (sread (\<lambda>_. repo_state_new git mon g)) (\<lambda>st. sret (manager, GitMonitor mon st))
        | SourcePerPolicy \<Rightarrow>
            sbind (url_monitor_new env policy_root config) (\<lambda>cfg. sret (manager, UrlMonitor cfg))
        | SourceNone \<Rightarrow> sret (manager, NoMonitor)))"

record 'w admin_service =
  svc_inner :: "'w admin"
  svc_monitoring :: bool
  svc_policy :: "(policy_manager \<times> policy_monitor) option"

definition admin_service_new ::
  "(string \<Rightarrow> policy_config result) \<Rightarrow> 'g git_env \<Rightarrow> 'g \<Rightarrow> url_env \<Rightarrow>
   string option \<Rightarrow> string option \<Rightarrow> 'w \<Rightarrow>
   tls_config option \<Rightarrow> bool \<Rightarrow> bool \<Rightarrow> string option \<Rightarrow> string option \<Rightarrow> (disk, 'w admin_service) sresult" where
  "admin_service_new from_json git g env locale_conf timezone_conf w
     use_tls monitoring enable_policy_admin policy_store policy_config =
     sbind (if enable_policy_admin
            then sbind (setup_policy_admin from_json git g env policy_store policy_config) (\<lambda>p. sret (Some p))
            else sret None) (\<lambda>policy.
       sret \<lparr>svc_inner = admin_new use_tls locale_conf timezone_conf w, svc_monitoring = monitoring,
             svc_policy = policy\<rparr>)"

text \<open>A service that has started is in the states its invariants describe.\<close>

lemma setup_policy_admin_ok:
  assumes "setup_policy_admin from_json git g env store config d = (Inr (m, mon), d')"
  shows "\<exists>c. from_json (case config of Some c \<Rightarrow> c | None \<Rightarrow> ''{}'') = Inr c \<and>
    manager_ok c (path_join (path_join (policy_root_of store) ''data'') ''vm-policies'') m"
proof -
  obtain m' kind where run: "run_policy_admin from_json store config = Inr (m', kind)"
    using assms by (auto simp: setup_policy_admin_def Let_def sbind_Inr)
  then have "m' = m"
    using assms by (cases kind) (auto simp: setup_policy_admin_def Let_def sbind_Inr)
  with run show ?thesis
    by (auto simp: run_policy_admin_def Let_def rbind_Inr_iff manager_new_ok)
qed

lemma admin_service_new_ok:
  assumes "admin_service_new from_json git g env lc tc w tls monitoring enable store config d = (Inr s, d')"
  shows "admin_ok (svc_inner s) \<and> (svc_policy s \<noteq> None \<longleftrightarrow> enable) \<and>
    (\<forall>m mon. svc_policy s = Some (m, mon) \<longrightarrow>
      (\<exists>c. manager_ok c (path_join (path_join (policy_root_of store) ''data'') ''vm-policies'') m))"
proof -
  obtain policy where s: "s = \<lparr>svc_inner = admin_new tls lc tc w, svc_monitoring = monitoring, svc_policy = policy\<rparr>"
    and p: "if enable then \<exists>p. setup_policy_admin from_json git g env store config d = (Inr p, d') \<and> policy = Some p
      else policy = None"
    using assms by (auto simp: admin_service_new_def sbind_Inr split: if_splits)
  then show ?thesis
    by (auto split: if_splits dest: setup_policy_admin_ok)
qed

end
