(* ===== verification/Nix_Profile.thy ===== *)
theory Nix_Profile
  imports Ota_Service Regex Paths
begin

text \<open>
  NixOS generations on a machine: the links of a profile (\<open>ota-update/src/profile.rs\<close>) and what
  is read of each system (\<open>nixos.rs\<close>). Directories, links and files are read through the
  parameter \<open>profile_env\<close>; the documents of the boot specification come through its reader.
\<close>

section \<open>Environment\<close>

text \<open>
  The fields of a boot specification the program uses. A directory gives its entries one by
  one; an entry has no name when that is not UTF-8.
\<close>

record bootspec =
  bs_toplevel :: string
  bs_init :: string
  bs_system :: string
  bs_label :: string

record nixos_version =
  nv_nixos_version :: string
  nv_nixpkgs_revision :: "string option"
  nv_configuration_revision :: "string option"

record profile_env =
  pe_read_link :: "string \<Rightarrow> string result"
  pe_read_dir :: "string \<Rightarrow> string option result list result"
  pe_exists :: "string \<Rightarrow> bool"
  pe_read_file :: "string \<Rightarrow> string result"
  pe_bootspec :: "string \<Rightarrow> bootspec result"
  pe_version :: "string \<Rightarrow> nixos_version result"
  pe_bootctl :: "bootctl_item list result"

section \<open>Profile links\<close>

definition format_profile_link :: "string \<Rightarrow> int \<Rightarrow> string" where
  "format_profile_link profile generation = profile @ ''-'' @ show_i32 generation @ ''-link''"

definition parse_profile_link :: "string \<Rightarrow> string \<Rightarrow> int result" where
  "parse_profile_link profile link =
     ok_or (Option.bind (strip_prefix profile link) (\<lambda>p.
            Option.bind (strip_prefix ''-'' p) (\<lambda>p.
            Option.bind (strip_suffix ''-link'' p) parse_i32)))
       (Msg ''Unable to parse generation'')"

record profile_element =
  pl_num :: int
  pl_store_path :: string
  pl_current :: bool

definition read_symlink :: "profile_env \<Rightarrow> string \<Rightarrow> string result" where
  "read_symlink env path = with_context (''While read symlink '' @ path) (pe_read_link env path)"

text \<open>The element an entry of the directory gives, if it is a link of the profile to a system.\<close>

definition profile_link ::
  "profile_env \<Rightarrow> string \<Rightarrow> string \<Rightarrow> string \<Rightarrow> string option result \<Rightarrow> profile_element list result" where
  "profile_link env path profile default_target entry =
     rbind entry (\<lambda>name.
     rbind (ok_or name (Msg ''Decode UTF-8 string'')) (\<lambda>name.
       case parse_profile_link profile name of
         Inl _ \<Rightarrow> Inr []
       | Inr num \<Rightarrow>
           (case pe_read_link env (path_join path name) of
              Inr t \<Rightarrow>
                if path_is_absolute t \<and> pe_exists env t
                then Inr [\<lparr>pl_num = num, pl_store_path = t, pl_current = (default_target = name)\<rparr>]
                else Inr []
            | Inl _ \<Rightarrow> Inr [])))"

definition read_profile_links ::
  "profile_env \<Rightarrow> string \<Rightarrow> string \<Rightarrow> (int \<times> profile_element list) result" where
  "read_profile_links env path profile =
     rbind (read_symlink env (path_join path profile)) (\<lambda>default_target.
     rbind (with_context ''Parsing {default_target_str}'' (parse_profile_link profile default_target))
       (\<lambda>default_gen_no.
     rbind (with_context (''while read_dir() on '' @ path) (pe_read_dir env path)) (\<lambda>entries.
     rbind (rmap_list (profile_link env path profile default_target) entries) (\<lambda>generations.
       Inr (default_gen_no, concat generations)))))"

section \<open>Versions\<close>

text \<open>
  The document a \<open>nixos-version\<close> script holds, by the expression \<open>cat <<EOF\s*(\{.*?\})\s*EOF\<close>:
  at the first place where the opening matches, up to the first brace the closing follows.
\<close>

fun heredoc_end :: "string \<Rightarrow> string \<Rightarrow> string option" where
  "heredoc_end acc [] = None"
| "heredoc_end acc (c # s) =
     (if c = CHR ''}'' \<and> starts_with ''EOF'' (dropWhile is_ws s) then Some (rev (c # acc))
      else heredoc_end (c # acc) s)"

definition heredoc_at :: "string \<Rightarrow> string option" where
  "heredoc_at s =
     (case strip_prefix ''cat <<EOF'' s of
        None \<Rightarrow> None
      | Some r \<Rightarrow>
          (case dropWhile is_ws r of
             c # body \<Rightarrow> if c = CHR ''{'' then heredoc_end [c] body else None
           | [] \<Rightarrow> None))"

fun json_capture :: "string \<Rightarrow> string option" where
  "json_capture s =
     (case heredoc_at s of
        Some j \<Rightarrow> Some j
      | None \<Rightarrow> (case s of [] \<Rightarrow> None | _ # r \<Rightarrow> json_capture r))"

declare json_capture.simps [simp del]

definition read_nixos_version :: "profile_env \<Rightarrow> string \<Rightarrow> nixos_version result" where
  "read_nixos_version env path =
     (let path = path_join path ''sw/bin/nixos-version'' in
      rbind (with_context (''Reading nixos-version script from '' @ path) (pe_read_file env path)) (\<lambda>script.
        case json_capture script of
          Some json_str \<Rightarrow> with_context (''while parsing '' @ json_str) (pe_version env json_str)
        | None \<Rightarrow> Inl (Msg (''Can't find embedded json with version info in '' @ path))))"

definition kernel_regex :: regex where
  "kernel_regex =
     Seq (plus1 (Class is_digit)) (Seq (chr CHR ''.'') (Seq (plus1 (Class is_digit)) (Seq (chr CHR ''.'')
       (Seq (plus1 (Class is_digit))
         (opt (Seq (chr CHR ''-'')
            (plus1 (Class (\<lambda>c. is_alnum c \<or> c \<in> {CHR ''_'', CHR ''.'', CHR ''+''})))))))))"

fun first_kernel :: "string option result list \<Rightarrow> string result" where
  "first_kernel [] = Inl (Msg ''Unable to find kernel version'')"
| "first_kernel (Inl e # _) = Inl e"
| "first_kernel (Inr name # rest) =
     (case name of
        Some n \<Rightarrow> if re_match kernel_regex n then Inr n else first_kernel rest
      | None \<Rightarrow> first_kernel rest)"

definition read_kernel_version :: "profile_env \<Rightarrow> string \<Rightarrow> string result" where
  "read_kernel_version env toplevel =
     (let mod_dir = path_join toplevel ''kernel-modules/lib/modules'' in
      rbind (with_context (''while read_dir() on '' @ mod_dir) (pe_read_dir env mod_dir)) first_kernel)"

section \<open>Generations\<close>

text \<open>Paths are equal when their components are.\<close>

definition path_eq :: "string \<Rightarrow> string \<Rightarrow> bool" where
  "path_eq p q = (components p = components q)"

definition generation_of ::
  "profile_env \<Rightarrow> string \<Rightarrow> string \<Rightarrow> bootctl_item list \<Rightarrow> profile_element \<Rightarrow> bootspec generation_details result" where
  "generation_of env booted_system current_system bootctl profile =
     (let bootspec_path = path_join (pl_store_path profile) ''boot.json'' in
      rbind (with_context (''while reading bootspec '' @ bootspec_path) (pe_read_file env bootspec_path)) (\<lambda>json.
      rbind (with_context ''while parsing bootspec.json'' (pe_bootspec env json)) (\<lambda>bootspec.
      rbind (with_context ''while read nixos version'' (read_nixos_version env (bs_toplevel bootspec))) (\<lambda>version.
      rbind (with_context ''while read kernel version'' (read_kernel_version env (bs_toplevel bootspec))) (\<lambda>kernel_version.
        let bootctl = find (\<lambda>b. is_some_and (find_init b) (path_eq (bs_init bootspec))) bootctl in
        Inr \<lparr>gd_name = bs_label bootspec, gd_generation = pl_num profile,
             gd_nixos_version = nv_nixos_version version, gd_kernel_version = kernel_version,
             gd_nixpkgs_revision = nv_nixpkgs_revision version,
             gd_configuration_revision = nv_configuration_revision version,
             gd_store_path = pl_store_path profile,
             gd_current = path_eq (pl_store_path profile) current_system,
             gd_booted = path_eq (pl_store_path profile) booted_system,
             gd_bootable = is_some_and bootctl bi_is_default,
             gd_default = pl_current profile, gd_bootspec = bootspec, gd_bootctl = bootctl\<rparr>)))))"

definition read_generations :: "profile_env \<Rightarrow> bootspec generation_details list result" where
  "read_generations env =
     rbind (read_symlink env ''/run/booted-system'') (\<lambda>booted_system.
     rbind (read_symlink env ''/run/current-system'') (\<lambda>current_system.
     rbind (pe_bootctl env) (\<lambda>bootctl.
     rbind (read_profile_links env ''/nix/var/nix/profiles'' ''system'') (\<lambda>(_, system_profiles).
       rmap_list (generation_of env booted_system current_system bootctl) system_profiles))))"

text \<open>
  \<open>profile::set\<close> over \<open>exec\<close>, which runs a program with arguments and gives whether it
  succeeded.
\<close>

definition profile_set ::
  "(string \<Rightarrow> string list \<Rightarrow> ('s, bool) sresult) \<Rightarrow> string \<Rightarrow> string \<Rightarrow> string \<Rightarrow> ('s, unit) sresult" where
  "profile_set exec path profile closure =
     sbind (scontext ''Fail to execute nix-env''
              (exec ''nix-env'' [''-p'', path_join path profile, ''--set'', closure])) (\<lambda>success.
       if success then sret () else sfail (Msg ''nix-env failed''))"

section \<open>Lemmas\<close>

lemma profile_link_roundtrip:
  "- (2 ^ 31) \<le> n \<Longrightarrow> n < 2 ^ 31 \<Longrightarrow> parse_profile_link p (format_profile_link p n) = Inr n"
  using strip_prefix_append [of "''-''" "show_i32 n @ ''-link''"]
  by (simp add: parse_profile_link_def format_profile_link_def parse_i32_show ok_or_def)

text \<open>
  What is listed of a profile: links of the directory with the profile's name and a number, to
  an existing absolute path, and the one the default points to is the current one.
\<close>

lemma read_profile_links_Inr:
  assumes "read_profile_links env path profile = Inr (g, ps)" "x \<in> set ps"
  shows "\<exists>entries name target. pe_read_dir env path = Inr entries \<and> Inr (Some name) \<in> set entries \<and>
    parse_profile_link profile name = Inr (pl_num x) \<and>
    pe_read_link env (path_join path name) = Inr (pl_store_path x) \<and>
    path_is_absolute (pl_store_path x) \<and> pe_exists env (pl_store_path x) \<and>
    pe_read_link env (path_join path profile) = Inr target \<and> pl_current x = (target = name) \<and>
    parse_profile_link profile target = Inr g"
proof -
  obtain target entries gens where t: "pe_read_link env (path_join path profile) = Inr target"
    "parse_profile_link profile target = Inr g" "pe_read_dir env path = Inr entries"
    and gens: "rmap_list (profile_link env path profile target) entries = Inr gens" "ps = concat gens"
    using assms(1) by (auto simp: read_profile_links_def read_symlink_def rbind_Inr_iff)
  obtain gen where gen: "gen \<in> set gens" "x \<in> set gen" using assms(2) gens(2) by auto
  obtain entry where entry: "entry \<in> set entries" "profile_link env path profile target entry = Inr gen"
    using rmap_list_in [OF gens(1) gen(1)] by blast
  then obtain name where name: "entry = Inr (Some name)"
    by (auto simp: profile_link_def rbind_Inr_iff ok_or_def split: option.splits)
  obtain num where num: "parse_profile_link profile name = Inr num"
    using entry(2) gen(2) name
    by (cases "parse_profile_link profile name") (auto simp: profile_link_def ok_or_def)
  obtain link where link: "pe_read_link env (path_join path name) = Inr link"
    using entry(2) gen(2) name num
    by (cases "pe_read_link env (path_join path name)") (auto simp: profile_link_def ok_or_def)
  from entry gen(2) t name num link show ?thesis
    by (auto simp: profile_link_def ok_or_def split: if_splits)
qed

text \<open>The version of a kernel has no separator in it.\<close>

lemma kernel_regex_plain: "re_match kernel_regex n \<Longrightarrow> CHR ''/'' \<notin> set n"
  using re_match_admits [of kernel_regex n "CHR ''/''"]
  by (auto simp: kernel_regex_def plus1_def opt_def chr_def is_digit_def is_alnum_def is_lower_def is_upper_def)

text \<open>A captured document is the text between the opening and the closing.\<close>

lemma heredoc_end_Some:
  "heredoc_end acc s = Some j \<Longrightarrow>
     \<exists>b r. s = b @ CHR ''}'' # r \<and> j = rev acc @ b @ ''}'' \<and> starts_with ''EOF'' (dropWhile is_ws r)"
proof (induction acc s rule: heredoc_end.induct)
  case (2 acc c s)
  then show ?case by (fastforce split: if_splits intro: exI [of _ "[]"] exI [of _ "c # _"])
qed simp

lemma json_capture_Some:
  "json_capture s = Some j \<Longrightarrow>
     \<exists>a w b r. s = a @ ''cat <<EOF'' @ w @ j @ r \<and> list_all is_ws w \<and> j = ''{'' @ b @ ''}'' \<and>
       starts_with ''EOF'' (dropWhile is_ws r)"
proof (induction s rule: json_capture.induct)
  case (1 s)
  show ?case
  proof (cases "heredoc_at s")
    case None
    with 1 obtain c t where s: "s = c # t" "json_capture t = Some j"
      by (subst (asm) (2) json_capture.simps) (auto split: list.splits)
    with 1 None obtain a w b r where "t = a @ ''cat <<EOF'' @ w @ j @ r" "list_all is_ws w"
      "j = ''{'' @ b @ ''}''" "starts_with ''EOF'' (dropWhile is_ws r)" by blast
    with s show ?thesis by (intro exI [of _ "c # a"] exI [of _ w] exI [of _ b] exI [of _ r]) simp
  next
    case (Some k)
    with 1 have k: "k = j" by (subst (asm) (2) json_capture.simps) simp
    obtain u body where u: "s = ''cat <<EOF'' @ u" "dropWhile is_ws u = CHR ''{'' # body"
      "heredoc_end ''{'' body = Some j"
      using Some k by (auto simp: heredoc_at_def strip_prefix_Some split: option.splits list.splits if_splits)
    obtain b r where b: "body = b @ CHR ''}'' # r" "j = rev ''{'' @ b @ ''}''" "starts_with ''EOF'' (dropWhile is_ws r)"
      using heredoc_end_Some [OF u(3)] by blast
    have "u = takeWhile is_ws u @ CHR ''{'' # body"
      using u(2) takeWhile_dropWhile_id [of is_ws u] by simp
    then have "s = [] @ ''cat <<EOF'' @ takeWhile is_ws u @ j @ r"
      using u(1) b by simp
    moreover have "list_all is_ws (takeWhile is_ws u)" by (auto simp: list_all_iff dest: set_takeWhileD)
    ultimately show ?thesis using b by (intro exI [of _ "[]"] exI [of _ "takeWhile is_ws u"] exI [of _ b] exI [of _ r]) simp
  qed
qed

end
