(* ===== verification/Update_Server.thy ===== *)
theory Update_Server
  imports Nix_Profile
begin

text \<open>
  The update server (\<open>bin/update-server.rs\<close>), which offers the generations of a profile in
  the form of a Cachix cache, and the Cachix client (crate \<open>cachix-client\<close>) that reads them.
  The two share the types of their answers, so an answer is modelled by its value, not by its
  JSON text. A path and a name have no characters that an address escapes.
\<close>

section \<open>Answers\<close>

record update_info =
  ui_name :: string
  ui_store_path :: string
  ui_current :: bool
  ui_pub_key :: string

record revision =
  rv_store_path :: string
  rv_created_on :: string
  rv_revision :: int
  rv_artifacts :: "string list"

record pin =
  pn_name :: string
  pn_created_on :: string
  pn_last_revision :: revision

record cache_info =
  ci_name :: string
  ci_uri :: string
  ci_public_signing_keys :: "string list"
  ci_permission :: string
  ci_preferred_compression_method :: string
  ci_github_username :: string

datatype body = UpdatesBody "update_info list" | PinsBody "pin list" | CacheBody cache_info | RawBody string

record response =
  rp_status :: nat
  rp_body :: body

section \<open>The server\<close>

record serve =
  sv_path :: string
  sv_allowed_profiles :: "string list"
  sv_pub_key :: string
  sv_cachix :: string

definition get_update_list ::
  "profile_env \<Rightarrow> string \<Rightarrow> string \<Rightarrow> string \<Rightarrow> update_info list result" where
  "get_update_list env path default_name pub_key =
     rbind (with_context (''While reading profile '' @ path @ '' with '' @ default_name)
              (read_profile_links env path default_name)) (\<lambda>(_, profiles).
       Inr (map (\<lambda>profile.
         \<lparr>ui_name = ''Update #'' @ show_i32 (pl_num profile), ui_store_path = pl_store_path profile,
          ui_current = pl_current profile, ui_pub_key = pub_key\<rparr>) profiles))"

text \<open>An error of a handler is answered with its outermost message.\<close>

definition into_response :: "('a \<Rightarrow> body) \<Rightarrow> 'a result \<Rightarrow> response" where
  "into_response f r =
     (case r of
        Inr x \<Rightarrow> \<lparr>rp_status = 200, rp_body = f x\<rparr>
      | Inl e \<Rightarrow> \<lparr>rp_status = 500, rp_body = RawBody (''Something went wrong: '' @ hd (error_chain e))\<rparr>)"

definition update_handler :: "profile_env \<Rightarrow> serve \<Rightarrow> string \<Rightarrow> response" where
  "update_handler env serve profile =
     (if profile \<notin> set (sv_allowed_profiles serve) then \<lparr>rp_status = 200, rp_body = UpdatesBody []\<rparr>
      else into_response UpdatesBody (get_update_list env (sv_path serve) profile (sv_pub_key serve)))"

definition not_found :: "string \<Rightarrow> response" where
  "not_found text = \<lparr>rp_status = 404, rp_body = RawBody text\<rparr>"

definition profile_has_hash :: "string \<Rightarrow> update_info \<Rightarrow> bool" where
  "profile_has_hash hash p =
     is_some_and (Option.bind (path_file_name (ui_store_path p)) (strip_prefix hash)) (starts_with ''-'')"

definition boot_json :: "profile_env \<Rightarrow> serve \<Rightarrow> string \<Rightarrow> string \<Rightarrow> response" where
  "boot_json env serve profile hash =
     (if profile \<notin> set (sv_allowed_profiles serve) then not_found ''boot.json not found''
      else case get_update_list env (sv_path serve) profile (sv_pub_key serve) of
        Inl _ \<Rightarrow> not_found ''boot.json not found''
      | Inr profiles \<Rightarrow>
          (case find (profile_has_hash hash) profiles of
             None \<Rightarrow> not_found (''profile not found for cache='' @ profile @ '', hash='' @ hash)
           | Some p \<Rightarrow>
               (let boot_json = path_join (ui_store_path p) ''boot.json'' in
                case pe_read_file env boot_json of
                  Inr content \<Rightarrow> \<lparr>rp_status = 200, rp_body = RawBody content\<rparr>
                | Inl _ \<Rightarrow> not_found (''boot.json not found at '' @ boot_json))))"

definition cache_info_handler :: "serve \<Rightarrow> string \<Rightarrow> response" where
  "cache_info_handler serve profile =
     \<lparr>rp_status = 200, rp_body = CacheBody
        \<lparr>ci_name = profile, ci_uri = sv_cachix serve, ci_public_signing_keys = [sv_pub_key serve],
         ci_permission = ''read'', ci_preferred_compression_method = ''ZSTD'', ci_github_username = ''bogus''\<rparr>\<rparr>"

definition pin_list :: "profile_env \<Rightarrow> serve \<Rightarrow> string \<Rightarrow> response" where
  "pin_list env serve profile =
     into_response PinsBody
       (if profile \<notin> set (sv_allowed_profiles serve)
        then Inl (Msg (''Requested profile '' @ profile @ '' not in list of allowed profiles''))
        else rbind (get_update_list env (sv_path serve) profile (sv_pub_key serve)) (\<lambda>profiles.
          Inr (map (\<lambda>each.
            \<lparr>pn_name = profile, pn_created_on = ''dummy date'',
             pn_last_revision = \<lparr>rv_store_path = ui_store_path each, rv_created_on = ''dummy date'',
                                 rv_revision = 1, rv_artifacts = []\<rparr>\<rparr>) profiles)))"

text \<open>The routes of \<open>main\<close>: a parameter is one piece of the path that is not empty.\<close>

definition serve_route :: "profile_env \<Rightarrow> serve \<Rightarrow> string \<Rightarrow> response" where
  "serve_route env serve path =
     (case split_on CHR ''/'' path of
        [e, a, profile] \<Rightarrow>
          if e = [] \<and> a = ''update'' \<and> profile \<noteq> [] then update_handler env serve profile else not_found []
      | [e, a, v, c, cache, f] \<Rightarrow>
          if e = [] \<and> a = ''api'' \<and> v = ''v1'' \<and> c = ''cache'' \<and> cache \<noteq> [] then
            (if f = [] then cache_info_handler serve cache
             else if f = ''pin'' then pin_list env serve cache
             else not_found [])
          else not_found []
      | [e, a, v, c, cache, s, hash, b] \<Rightarrow>
          if e = [] \<and> a = ''api'' \<and> v = ''v1'' \<and> c = ''cache'' \<and> cache \<noteq> [] \<and> s = ''serve'' \<and> hash \<noteq> [] \<and>
             b = ''boot.json''
          then boot_json env serve cache hash else not_found []
      | _ \<Rightarrow> not_found [])"

section \<open>The Cachix client\<close>

record cachix_config =
  cc_cache_name :: string
  cc_hostname :: string
  cc_auth_token :: "string option"

definition cachix_config_new :: "string \<Rightarrow> cachix_config" where
  "cachix_config_new cache_name =
     \<lparr>cc_cache_name = cache_name, cc_hostname = ''https://cachix.org'', cc_auth_token = None\<rparr>"

definition set_hostname :: "string \<Rightarrow> cachix_config \<Rightarrow> cachix_config" where
  "set_hostname hostname c = c\<lparr>cc_hostname := hostname\<rparr>"

definition set_auth_token :: "string \<Rightarrow> cachix_config \<Rightarrow> cachix_config" where
  "set_auth_token token c = c\<lparr>cc_auth_token := Some token\<rparr>"

definition api_url :: "cachix_config \<Rightarrow> string list \<Rightarrow> string" where
  "api_url c path = cc_hostname c @ ''/api/v1/cache/'' @ cc_cache_name c @ ''/'' @ join_with ''/'' path"

text \<open>
  A request carries its address and the token; \<open>http\<close> answers it, or fails. \<open>error_for_status\<close>
  turns the client and server errors into errors; their text is that of the library and left out.
\<close>

type_synonym http_get = "string \<Rightarrow> string option \<Rightarrow> response result"

definition auth_header :: "cachix_config \<Rightarrow> string option" where
  "auth_header c = map_option (\<lambda>token. ''Bearer '' @ token) (cc_auth_token c)"

definition cachix_get :: "http_get \<Rightarrow> cachix_config \<Rightarrow> string list \<Rightarrow> body result" where
  "cachix_get http c path =
     rbind (http (api_url c path) (auth_header c)) (\<lambda>r.
       if 400 \<le> rp_status r \<and> rp_status r < 600 then Inl (Msg ''HTTP error'') else Inr (rp_body r))"

definition client_cache_info :: "http_get \<Rightarrow> cachix_config \<Rightarrow> cache_info result" where
  "client_cache_info http c =
     rbind (cachix_get http c []) (\<lambda>b. case b of CacheBody i \<Rightarrow> Inr i | _ \<Rightarrow> Inl (Msg ''HTTP error''))"

definition list_pins :: "http_get \<Rightarrow> cachix_config \<Rightarrow> pin list result" where
  "list_pins http c =
     rbind (cachix_get http c [''pin'']) (\<lambda>b. case b of PinsBody ps \<Rightarrow> Inr ps | _ \<Rightarrow> Inl (Msg ''HTTP error''))"

definition get_file_from_store :: "http_get \<Rightarrow> cachix_config \<Rightarrow> string \<Rightarrow> string \<Rightarrow> string result" where
  "get_file_from_store http c nar_hash path =
     rbind (cachix_get http c [''serve'', nar_hash, dropWhile (\<lambda>x. x = CHR ''/'') path]) (\<lambda>b.
       case b of RawBody bytes \<Rightarrow> Inr bytes | _ \<Rightarrow> Inl (Msg ''HTTP error''))"

text \<open>A deletion is answered with a status and its text, or fails.\<close>

type_synonym http_delete = "string \<Rightarrow> string option \<Rightarrow> (nat \<times> string) result"

definition delete_pin :: "http_delete \<Rightarrow> cachix_config \<Rightarrow> string \<Rightarrow> unit result" where
  "delete_pin del c name =
     rbind (del (api_url c [''pin'', name]) (auth_header c)) (\<lambda>(code, text).
       if code = 204 then Inr () else if code = 401 then Inl (Msg ''Unauthorized (401)'')
       else Inl (Msg (''Unexpected status code: '' @ text)))"

text \<open>The hash in the name of a store path below \<open>/nix/store\<close>.\<close>

definition under_store :: "string \<Rightarrow> path_component list option" where
  "under_store p = strip_prefix [RootDir, Normal ''nix'', Normal ''store''] (components p)"

definition store_hash :: "string \<Rightarrow> string option" where
  "store_hash store_path =
     Option.bind (under_store store_path) (\<lambda>rest.
       case rev rest of
         Normal name # _ \<Rightarrow> map_option fst (split_once CHR ''-'' name)
       | _ \<Rightarrow> None)"

definition valid_system ::
  "(string \<Rightarrow> bootspec result) \<Rightarrow> http_get \<Rightarrow> cachix_config \<Rightarrow> string \<Rightarrow> pin \<Rightarrow> (pin \<times> bootspec) option" where
  "valid_system parse http c system pin =
     Option.bind (store_hash (rv_store_path (pn_last_revision pin))) (\<lambda>hash.
     Option.bind (result_ok (get_file_from_store http c hash ''boot.json'')) (\<lambda>bytes.
     Option.bind (result_ok (parse bytes)) (\<lambda>spec.
       if path_eq (bs_toplevel spec) (rv_store_path (pn_last_revision pin)) \<and> bs_system spec = system
       then Some (pin, spec) else None)))"

definition filter_valid_systems ::
  "(string \<Rightarrow> bootspec result) \<Rightarrow> http_get \<Rightarrow> cachix_config \<Rightarrow> string \<Rightarrow> (pin \<times> bootspec) list result" where
  "filter_valid_systems parse http c system =
     rbind (list_pins http c) (\<lambda>pins. Inr (List.map_filter (valid_system parse http c system) pins))"

section \<open>The command of the client\<close>

datatype cachix_command = CachixInfo | ListPins | DeletePin string | ServeFile string string | ListSystems string

datatype cachix_output = ShowInfo cache_info | ShowLine string | ShowData string

definition cachix_client_of :: "string \<Rightarrow> string option \<Rightarrow> string option \<Rightarrow> cachix_config" where
  "cachix_client_of cache token host =
     (let c = cachix_config_new cache;
          c = (case token of Some t \<Rightarrow> set_auth_token t c | None \<Rightarrow> c)
      in case host of Some h \<Rightarrow> set_hostname h c | None \<Rightarrow> c)"

definition system_line :: "pin \<Rightarrow> bootspec \<Rightarrow> string" where
  "system_line pin spec =
     pn_name pin @ '' -> '' @ rv_store_path (pn_last_revision pin) @ '' ('' @ bs_label spec @ '')''"

text \<open>What \<open>bin/cachix-client.rs\<close> prints.\<close>

definition cachix_main ::
  "(string \<Rightarrow> bootspec result) \<Rightarrow> http_get \<Rightarrow> http_delete \<Rightarrow>
   string \<Rightarrow> string option \<Rightarrow> string option \<Rightarrow> cachix_command \<Rightarrow> cachix_output list result" where
  "cachix_main parse http del cache token host command =
     (let client = cachix_client_of cache token host in
      case command of
        CachixInfo \<Rightarrow> rbind (client_cache_info http client) (\<lambda>info. Inr [ShowInfo info])
      | ListPins \<Rightarrow>
          rbind (list_pins http client) (\<lambda>pins.
            Inr (map (\<lambda>pin. ShowLine (pn_name pin @ '' -> '' @ rv_store_path (pn_last_revision pin))) pins))
      | DeletePin name \<Rightarrow> rbind (delete_pin del client name) (\<lambda>_. Inr [ShowLine (''Deleted pin: '' @ name)])
      | ServeFile hash path \<Rightarrow> rbind (get_file_from_store http client hash path) (\<lambda>data. Inr [ShowData data])
      | ListSystems system \<Rightarrow>
          rbind (filter_valid_systems parse http client system) (\<lambda>systems.
            Inr (map (\<lambda>(pin, spec). ShowLine (system_line pin spec)) systems)))"

text \<open>Every listed system is a listed pin whose boot specification names its path and that system.\<close>

lemma list_systems_are_pins:
  assumes "cachix_main parse http del cache token host (ListSystems system) = Inr out"
  shows "\<exists>pins. list_pins http (cachix_client_of cache token host) = Inr pins \<and>
    (\<forall>l \<in> set out. \<exists>pin spec. pin \<in> set pins \<and> bs_system spec = system \<and>
       path_eq (bs_toplevel spec) (rv_store_path (pn_last_revision pin)) \<and> l = ShowLine (system_line pin spec))"
proof -
  let ?c = "cachix_client_of cache token host"
  obtain pins where pins: "list_pins http ?c = Inr pins"
    and out: "out = map (\<lambda>(pin, spec). ShowLine (system_line pin spec))
      (List.map_filter (valid_system parse http ?c system) pins)"
    using assms by (auto simp: cachix_main_def Let_def filter_valid_systems_def rbind_Inr_iff)
  have valid: "pin' = pin \<and> bs_system spec = system \<and> path_eq (bs_toplevel spec) (rv_store_path (pn_last_revision pin))"
    if "valid_system parse http ?c system pin = Some (pin', spec)" for pin pin' spec
    using that by (auto simp: valid_system_def bind_eq_Some_conv split: if_splits)
  show ?thesis
    by (rule exI [of _ pins]) (use pins in \<open>fastforce simp: out in_map_filter_iff dest: valid\<close>)
qed

end
