(* ===== verification/Nix_Update.thy ===== *)
theory Nix_Update
  imports Update_Server
begin

text \<open>
  The commands of \<open>ota-update\<close> that switch the system to another generation
  (\<open>bin/ota-update.rs\<close>, \<open>query.rs\<close>, \<open>cli.rs\<close>): the check of a store path, the build, the new
  profile and the boot entry, for an update taken from a server or from a Cachix cache.
  Programs are run through \<open>exec\<close>, which gives whether the program succeeded.
\<close>

section \<open>Store paths\<close>

definition nix_hash_char :: "char \<Rightarrow> bool" where
  "nix_hash_char c = ((is_lower c \<and> c \<notin> {CHR ''e'', CHR ''o'', CHR ''t'', CHR ''u''}) \<or> is_digit c)"

definition nix_path_regex :: regex where
  "nix_path_regex =
     Seq (lit ''/nix/store/'') (Seq (times 32 (Class nix_hash_char))
       (Seq (lit ''-nixos-system-'') (plus1 (Class (\<lambda>c. c \<noteq> CHR ''/'')))))"

definition is_valid_nix_path :: "string \<Rightarrow> unit result" where
  "is_valid_nix_path path =
     ensure (re_match nix_path_regex path) (''Path '' @ path @ '' is not valid NixOS system path!'')"

section \<open>Switching\<close>

type_synonym 's exec = "string \<Rightarrow> string list \<Rightarrow> ('s, bool) sresult"

definition gcroot :: string where
  "gcroot = ''/nix/var/nix/gcroots/auto/ota-update''"

definition nix_build_args :: "string \<Rightarrow> string list \<Rightarrow> string list \<Rightarrow> bool \<Rightarrow> string list" where
  "nix_build_args path sources pub_keys no_check_signs =
     [''--extra-experimental-features'', ''nix-command'', ''build'', path, ''--out-link'', gcroot] @
     concat (map (\<lambda>source. [''--extra-substituters'', source]) sources) @
     concat (map (\<lambda>pub_key. [''--extra-trusted-public-keys'', pub_key]) pub_keys) @
     (if no_check_signs then [''--no-check-sigs''] else [])"

text \<open>
  \<open>set_generation\<close>: a failure to unlink the root is only logged, and the exit status of
  \<open>switch-to-configuration\<close> is not looked at.
\<close>

definition set_system_generation ::
  "'s exec \<Rightarrow> (string \<Rightarrow> ('s, unit) sresult) \<Rightarrow> string \<Rightarrow> string list \<Rightarrow> string list \<Rightarrow> bool \<Rightarrow> ('s, unit) sresult" where
  "set_system_generation exec unlink path sources pub_keys no_check_signs =
     sbind (sread (\<lambda>_. is_valid_nix_path path)) (\<lambda>_.
     sbind (scontext (''Failed to execute '' @ quoted ''nix build'')
              (exec ''nix'' (nix_build_args path sources pub_keys no_check_signs))) (\<lambda>success.
       if \<not> success then sfail (Msg ''nix build failed'')
       else
         sbind (profile_set exec ''/nix/var/nix/profiles/'' ''system'' path) (\<lambda>_.
         sbind (scatch (unlink gcroot)) (\<lambda>_.
         sbind (scontext (''Fail to execute '' @ path_join path ''bin/switch-to-configuration'')
                  (exec (path_join path ''bin/switch-to-configuration'') [''boot''])) (\<lambda>_.
           sret ())))))"

section \<open>Updates\<close>

text \<open>\<open>http\<close> here gives the updates a server answers with, or its error.\<close>

definition query_available_updates ::
  "(string \<Rightarrow> response result) \<Rightarrow> string \<Rightarrow> string \<Rightarrow> update_info list result" where
  "query_available_updates http server_url pin_name =
     (let url = server_url @ ''/update/'' @ pin_name in
      rbind (with_context (''Fail to fetch updates info! Url is '' @ url) (http url)) (\<lambda>r.
        case rp_body r of
          UpdatesBody us \<Rightarrow> Inr us
        | _ \<Rightarrow> Inl (Ctx ''fail to parse update info json'' (Msg ''error decoding response body''))))"

record query_updates_args =
  qu_source :: string
  qu_raw :: bool
  qu_current :: bool
  qu_pin_name :: string

text \<open>What \<open>query\<close> prints: a line for each update, or their JSON text.\<close>

definition query_updates ::
  "(string \<Rightarrow> response result) \<Rightarrow> (update_info list \<Rightarrow> string result) \<Rightarrow> query_updates_args \<Rightarrow> string list result" where
  "query_updates http to_json query =
     rbind (query_available_updates http (qu_source query) (qu_pin_name query)) (\<lambda>updates.
       let updates = filter (\<lambda>each. qu_current query \<or> ui_current each) updates in
       if qu_raw query then Inr (map ui_store_path updates)
       else rbind (to_json updates) (\<lambda>json. Inr [json]))"

definition perform_local_update ::
  "'s exec \<Rightarrow> (string \<Rightarrow> ('s, unit) sresult) \<Rightarrow> (string \<Rightarrow> response result) \<Rightarrow>
   string option \<Rightarrow> string \<Rightarrow> string \<Rightarrow> bool \<Rightarrow> ('s, unit) sresult" where
  "perform_local_update exec unlink http maybe_path source pin_name no_check_signs =
     sbind (sread (\<lambda>_. query_available_updates http source pin_name)) (\<lambda>updates.
     sbind (sread (\<lambda>_. ok_or (find (\<lambda>update.
                case maybe_path of Some path \<Rightarrow> path_eq path (ui_store_path update) | None \<Rightarrow> ui_current update) updates)
              (Msg ''No valid candidate found''))) (\<lambda>candidate.
       set_system_generation exec unlink (ui_store_path candidate) [source] [ui_pub_key candidate] no_check_signs))"

definition read_system_boot_json :: "profile_env \<Rightarrow> string result" where
  "read_system_boot_json env =
     rbind (pe_read_file env ''/run/current-system/boot.json'') (\<lambda>contents.
     rbind (pe_bootspec env contents) (\<lambda>spec. Inr (bs_system spec)))"

definition cachix_client_config :: "string \<Rightarrow> string option \<Rightarrow> string option \<Rightarrow> cachix_config" where
  "cachix_client_config cache token host =
     (let c = cachix_config_new cache;
          c = (case token of Some t \<Rightarrow> set_auth_token t c | None \<Rightarrow> c)
      in case host of Some h \<Rightarrow> set_hostname h c | None \<Rightarrow> c)"

definition perform_cachix_update ::
  "profile_env \<Rightarrow> 's exec \<Rightarrow> (string \<Rightarrow> ('s, unit) sresult) \<Rightarrow> http_get \<Rightarrow>
   string \<Rightarrow> string option \<Rightarrow> string option \<Rightarrow> string \<Rightarrow> ('s, unit) sresult" where
  "perform_cachix_update env exec unlink http pin_name token host cache =
     sbind (sread (\<lambda>_. read_system_boot_json env)) (\<lambda>system.
       let client = cachix_client_config cache token host in
       sbind (sread (\<lambda>_. filter_valid_systems (pe_bootspec env) http client system)) (\<lambda>systems.
       sbind (sread (\<lambda>_. ok_or (find (\<lambda>(pin, _). pn_name pin = pin_name) systems) (Msg ''no valid systems'')))
         (\<lambda>(pin, _).
       sbind (sread (\<lambda>_. client_cache_info http client)) (\<lambda>info.
         set_system_generation exec unlink (rv_store_path (pn_last_revision pin)) [ci_uri info]
           (ci_public_signing_keys info) False))))"

definition get_generations ::
  "profile_env \<Rightarrow> (bootspec generation_details list \<Rightarrow> string result) \<Rightarrow> string result" where
  "get_generations env to_json =
     rbind (with_context ''While read list of generations'' (read_generations env)) to_json"

section \<open>Lemmas\<close>

text \<open>A valid path is an entry of the store: no further separator, and no way out of it.\<close>

lemma lang_lit: "lang (lit s) = {s}"
  by (induction s) (auto simp: chr_def)

lemma seq_class: "w \<in> lang (Seq (Class p) r) \<longleftrightarrow> (\<exists>c v. w = c # v \<and> p c \<and> v \<in> lang r)"
proof
  assume "\<exists>c v. w = c # v \<and> p c \<and> v \<in> lang r"
  then obtain c v where "w = [c] @ v" "p c" "v \<in> lang r" by auto
  then show "w \<in> lang (Seq (Class p) r)" unfolding lang.simps by blast
qed auto

lemma lang_times_class: "w \<in> lang (times n (Class p)) \<longleftrightarrow> length w = n \<and> list_all p w"
proof (induction n arbitrary: w)
  case 0
  show ?case by auto
next
  case (Suc n)
  have "w \<in> lang (times (Suc n) (Class p)) \<longleftrightarrow> (\<exists>c v. w = c # v \<and> p c \<and> v \<in> lang (times n (Class p)))"
    by (subst times.simps) (rule seq_class)
  also have "\<dots> \<longleftrightarrow> (\<exists>c v. w = c # v \<and> p c \<and> length v = n \<and> list_all p v)"
    by (simp only: Suc.IH)
  also have "\<dots> \<longleftrightarrow> length w = Suc n \<and> list_all p w"
    by (cases w) auto
  finally show ?case .
qed

lemma star_of_class: "star_of {[c] |c. p c} v \<longleftrightarrow> list_all p v"
proof
  show "star_of {[c] |c. p c} v \<Longrightarrow> list_all p v" by (induction rule: star_of.induct) auto
  show "list_all p v \<Longrightarrow> star_of {[c] |c. p c} v"
  proof (induction v)
    case (Cons c v)
    then have "star_of {[c] |c. p c} ([c] @ v)" by (intro star_app) auto
    then show ?case by simp
  qed (rule star_nil)
qed

lemma lang_plus1_class: "w \<in> lang (plus1 (Class p)) \<longleftrightarrow> w \<noteq> [] \<and> list_all p w"
proof -
  have "w \<in> lang (plus1 (Class p)) \<longleftrightarrow> (\<exists>c v. w = c # v \<and> p c \<and> v \<in> lang (Star (Class p)))"
    unfolding plus1_def by (rule seq_class)
  also have "\<dots> \<longleftrightarrow> (\<exists>c v. w = c # v \<and> p c \<and> list_all p v)"
    by (simp add: star_of_class)
  also have "\<dots> \<longleftrightarrow> w \<noteq> [] \<and> list_all p w"
    by (cases w) auto
  finally show ?thesis .
qed

lemma lits_class_iff:
  "w \<in> lang (Seq (lit a) (Seq (times n (Class p)) (Seq (lit b) (plus1 (Class (\<lambda>c. c \<noteq> x)))))) \<longleftrightarrow>
     (\<exists>u v. w = a @ u @ b @ v \<and> length u = n \<and> list_all p u \<and> v \<noteq> [] \<and> x \<notin> set v)"
proof -
  have "list_all (\<lambda>c. c \<noteq> x) v \<longleftrightarrow> x \<notin> set v" for v by (auto simp: list_all_iff)
  then show ?thesis
    unfolding lang.simps(5) lang_lit mem_Collect_eq lang_times_class lang_plus1_class by blast
qed

lemma valid_nix_path_iff:
  "is_valid_nix_path path = Inr () \<longleftrightarrow>
     (\<exists>hash name. path = ''/nix/store/'' @ hash @ ''-nixos-system-'' @ name \<and> length hash = 32 \<and>
        list_all nix_hash_char hash \<and> name \<noteq> [] \<and> CHR ''/'' \<notin> set name)"
proof -
  have "is_valid_nix_path path = Inr () \<longleftrightarrow> path \<in> lang nix_path_regex"
    by (simp add: is_valid_nix_path_def ensure_def re_match_iff)
  then show ?thesis unfolding nix_path_regex_def lits_class_iff .
qed

text \<open>What the client executes: the build and the new profile of a path it has checked.\<close>

lemma set_system_generation_Inr:
  assumes "set_system_generation exec unlink path sources keys no_check s = (Inr u, t)"
  shows "is_valid_nix_path path = Inr () \<and> (\<exists>s1 s2.
    exec ''nix'' (nix_build_args path sources keys no_check) s = (Inr True, s1) \<and>
    profile_set exec ''/nix/var/nix/profiles/'' ''system'' path s1 = (Inr (), s2))"
  using assms by (auto simp: set_system_generation_def sbind_Inr sread_def sfail_def split: if_splits)

lemma perform_cachix_update_Inr:
  assumes "perform_cachix_update env exec unlink http pin_name token host cache s = (Inr u, t)"
    and c: "c = cachix_client_config cache token host"
  shows "\<exists>system pins pin spec info.
    read_system_boot_json env = Inr system \<and> list_pins http c = Inr pins \<and> pin \<in> set pins \<and>
    valid_system (pe_bootspec env) http c system pin = Some (pin, spec) \<and> pn_name pin = pin_name \<and>
    client_cache_info http c = Inr info \<and>
    set_system_generation exec unlink (rv_store_path (pn_last_revision pin)) [ci_uri info]
      (ci_public_signing_keys info) False s = (Inr u, t)"
proof -
  obtain system systems p info where sys: "read_system_boot_json env = Inr system"
    and systems: "filter_valid_systems (pe_bootspec env) http c system = Inr systems"
    and p: "find (\<lambda>(pin, _). pn_name pin = pin_name) systems = Some p"
    and info: "client_cache_info http c = Inr info"
    and set: "set_system_generation exec unlink (rv_store_path (pn_last_revision (fst p))) [ci_uri info]
      (ci_public_signing_keys info) False s = (Inr u, t)"
    using assms
    by (auto simp: perform_cachix_update_def Let_def sbind_Inr sread_def ok_or_def split: option.splits)
  obtain pins where pins: "list_pins http c = Inr pins"
    and map: "systems = List.map_filter (valid_system (pe_bootspec env) http c system) pins"
    using systems by (auto simp: filter_valid_systems_def rbind_Inr_iff)
  have "p \<in> set systems" and name: "pn_name (fst p) = pin_name"
    using p by (auto simp: find_Some_iff split_beta)
  then obtain pin where "pin \<in> set pins" "valid_system (pe_bootspec env) http c system pin = Some p"
    by (auto simp: map List.map_filter_def)
  moreover from this have "fst p = pin"
    by (auto simp: valid_system_def bind_eq_Some_conv split: if_splits)
  ultimately show ?thesis using sys pins info set name by (cases p) auto
qed

section \<open>The client against the server\<close>

lemma route_split:
  assumes "CHR ''/'' \<notin> set cache" "list_all (\<lambda>p. CHR ''/'' \<notin> set p) path" "path \<noteq> []"
  shows "split_on CHR ''/'' (''/api/v1/cache/'' @ cache @ ''/'' @ join_with ''/'' path) =
    [[], ''api'', ''v1'', ''cache'', cache] @ path"
proof -
  have "''/api/v1/cache/'' @ cache @ ''/'' @ join_with ''/'' path =
      join_with ''/'' ([[], ''api'', ''v1'', ''cache'', cache] @ path)"
    using assms(3) by (cases path) simp_all
  moreover have "split_on CHR ''/'' (join_with ''/'' ([[], ''api'', ''v1'', ''cache'', cache] @ path)) =
      [[], ''api'', ''v1'', ''cache'', cache] @ path"
    using assms by (intro split_on_join) (auto simp: list_all_iff)
  ultimately show ?thesis by simp
qed

lemma body_Inr:
  "(case b of PinsBody ps \<Rightarrow> Inr ps | _ \<Rightarrow> Inl e) = Inr pins \<longleftrightarrow> b = PinsBody pins"
  "(case b of CacheBody i \<Rightarrow> Inr i | _ \<Rightarrow> Inl e) = Inr info \<longleftrightarrow> b = CacheBody info"
  "(case b of RawBody t \<Rightarrow> Inr t | _ \<Rightarrow> Inl e) = Inr bytes \<longleftrightarrow> b = RawBody bytes"
  by (cases b; auto)+

text \<open>A server at \<open>base\<close> as the client reaches it.\<close>

definition served_at :: "profile_env \<Rightarrow> serve \<Rightarrow> string \<Rightarrow> http_get" where
  "served_at env serve base url token =
     (case strip_prefix base url of
        Some path \<Rightarrow> Inr (serve_route env serve path)
      | None \<Rightarrow> Inl (Msg ''HTTP error''))"

lemma cachix_get_served:
  assumes "cc_hostname c = base" "CHR ''/'' \<notin> set (cc_cache_name c)"
    and "list_all (\<lambda>p. CHR ''/'' \<notin> set p) path" "path \<noteq> []"
  shows "http = served_at env serve base \<Longrightarrow> cachix_get http c path =
    (let r = serve_route env serve (''/api/v1/cache/'' @ cc_cache_name c @ ''/'' @ join_with ''/'' path) in
     if 400 \<le> rp_status r \<and> rp_status r < 600 then Inl (Msg ''HTTP error'') else Inr (rp_body r))"
  using assms strip_prefix_append [of base "''/api/v1/cache/'' @ cc_cache_name c @ ''/'' @ join_with ''/'' path"]
  by (simp add: cachix_get_def served_at_def api_url_def Let_def)

text \<open>
  The pins the client lists are the generations of an allowed profile, and all carry the
  name of the cache.
\<close>

lemma list_pins_served:
  assumes "cc_hostname c = base" "CHR ''/'' \<notin> set (cc_cache_name c)"
    and "list_pins (served_at env serve base) c = Inr pins" "pin \<in> set pins"
  shows "cc_cache_name c \<in> set (sv_allowed_profiles serve) \<and> pn_name pin = cc_cache_name c \<and>
    (\<exists>g ps x. read_profile_links env (sv_path serve) (cc_cache_name c) = Inr (g, ps) \<and> x \<in> set ps \<and>
       rv_store_path (pn_last_revision pin) = pl_store_path x)"
proof -
  let ?cache = "cc_cache_name c"
  have split: "split_on CHR ''/'' (''/api/v1/cache/'' @ ?cache @ ''/'' @ join_with ''/'' [''pin'']) =
      [[], ''api'', ''v1'', ''cache'', ?cache] @ [''pin'']"
    by (rule route_split) (use assms(2) in simp_all)
  have get: "cachix_get (served_at env serve base) c [''pin''] = Inr (PinsBody pins)"
    using assms(3) by (auto simp: list_pins_def rbind_Inr_iff body_Inr)
  have "rp_body (pin_list env serve ?cache) = PinsBody pins"
  proof (cases "?cache = []")
    case True
    with get show ?thesis
      using cachix_get_served [of c base "[''pin'']" "served_at env serve base" env serve] assms(1,2) split
      by (simp add: serve_route_def not_found_def Let_def split: if_splits)
  next
    case False
    with get show ?thesis
      using cachix_get_served [of c base "[''pin'']" "served_at env serve base" env serve] assms(1,2) split
      by (simp add: serve_route_def Let_def split: if_splits)
  qed
  then have "?cache \<in> set (sv_allowed_profiles serve)"
    and "\<exists>us. get_update_list env (sv_path serve) ?cache (sv_pub_key serve) = Inr us \<and>
      pins = map (\<lambda>each. \<lparr>pn_name = ?cache, pn_created_on = ''dummy date'',
        pn_last_revision = \<lparr>rv_store_path = ui_store_path each, rv_created_on = ''dummy date'',
          rv_revision = 1, rv_artifacts = []\<rparr>\<rparr>) us"
    by (auto simp: pin_list_def into_response_def rbind_Inr_iff split: if_splits sum.splits)
  with assms(4) show ?thesis
    by (fastforce simp: get_update_list_def rbind_Inr_iff split: prod.splits elim!: with_context.elims)
qed

lemma cache_info_served:
  assumes "cc_hostname c = base" "CHR ''/'' \<notin> set (cc_cache_name c)"
    and "client_cache_info (served_at env serve base) c = Inr info"
  shows "ci_uri info = sv_cachix serve \<and> ci_public_signing_keys info = [sv_pub_key serve]"
proof -
  let ?cache = "cc_cache_name c"
  have "''/api/v1/cache/'' @ ?cache @ ''/'' = ''/api/v1/cache/'' @ ?cache @ ''/'' @ join_with ''/'' [[]]" by simp
  then have split: "split_on CHR ''/'' (''/api/v1/cache/'' @ ?cache @ ''/'') = [[], ''api'', ''v1'', ''cache'', ?cache, []]"
    using route_split [of ?cache "[[]]"] assms(2) by simp
  have get: "cachix_get (served_at env serve base) c [] = Inr (CacheBody info)"
    using assms(3) by (auto simp: client_cache_info_def rbind_Inr_iff body_Inr)
  moreover have "served_at env serve base (api_url c []) tok =
      Inr (serve_route env serve (''/api/v1/cache/'' @ ?cache @ ''/''))" for tok
    using assms(1) strip_prefix_append [of base "''/api/v1/cache/'' @ ?cache @ ''/''"]
    by (simp add: served_at_def api_url_def)
  ultimately have "rp_body (serve_route env serve (''/api/v1/cache/'' @ ?cache @ ''/'')) = CacheBody info"
    by (auto simp: cachix_get_def split: if_splits)
  then show ?thesis
    unfolding serve_route_def split by (auto simp: cache_info_handler_def not_found_def split: if_splits)
qed

text \<open>
  A boot specification the client reads is that of a generation of the profile whose store path
  has the hash in its name.
\<close>

lemma boot_json_served:
  assumes "cc_hostname c = base" "CHR ''/'' \<notin> set (cc_cache_name c)" "CHR ''/'' \<notin> set hash"
    and "get_file_from_store (served_at env serve base) c hash ''boot.json'' = Inr bytes"
  shows "\<exists>g ps x r. read_profile_links env (sv_path serve) (cc_cache_name c) = Inr (g, ps) \<and> x \<in> set ps \<and>
    path_file_name (pl_store_path x) = Some (hash @ ''-'' @ r) \<and>
    pe_read_file env (path_join (pl_store_path x) ''boot.json'') = Inr bytes"
proof -
  let ?cache = "cc_cache_name c"
  have split: "split_on CHR ''/'' (''/api/v1/cache/'' @ ?cache @ ''/'' @ join_with ''/'' [''serve'', hash, ''boot.json'']) =
      [[], ''api'', ''v1'', ''cache'', ?cache] @ [''serve'', hash, ''boot.json'']"
    by (rule route_split) (use assms(2,3) in simp_all)
  have get: "cachix_get (served_at env serve base) c [''serve'', hash, ''boot.json''] = Inr (RawBody bytes)"
    using assms(4) by (auto simp: get_file_from_store_def rbind_Inr_iff body_Inr)
  have "cachix_get (served_at env serve base) c [''serve'', hash, ''boot.json''] =
    (let r = (if ?cache \<noteq> [] \<and> hash \<noteq> [] then boot_json env serve ?cache hash else not_found []) in
     if 400 \<le> rp_status r \<and> rp_status r < 600 then Inl (Msg ''HTTP error'') else Inr (rp_body r))"
    using cachix_get_served [of c base "[''serve'', hash, ''boot.json'']" "served_at env serve base" env serve]
      assms(1,2,3) split
    by (simp add: serve_route_def)
  with get have "rp_body (boot_json env serve ?cache hash) = RawBody bytes \<and> rp_status (boot_json env serve ?cache hash) < 400"
    by (auto simp: Let_def not_found_def boot_json_def split: if_splits sum.splits option.splits)
  then obtain us p where us: "get_update_list env (sv_path serve) ?cache (sv_pub_key serve) = Inr us"
    and p: "find (profile_has_hash hash) us = Some p" "pe_read_file env (path_join (ui_store_path p) ''boot.json'') = Inr bytes"
    by (auto simp: boot_json_def not_found_def Let_def split: if_splits sum.splits option.splits)
  then have "p \<in> set us" "profile_has_hash hash p" by (auto simp: find_Some_iff)
  moreover from this(2) obtain r where "path_file_name (ui_store_path p) = Some (hash @ ''-'' @ r)"
    by (auto simp: profile_has_hash_def is_some_and_def bind_eq_Some_conv strip_prefix_Some starts_with_iff split: option.splits)
  ultimately show ?thesis
    using us p(2) by (fastforce simp: get_update_list_def rbind_Inr_iff split: prod.splits)
qed

lemma store_hash_plain:
  assumes "store_hash p = Some h"
  shows "CHR ''/'' \<notin> set h"
proof -
  obtain rest where rest: "under_store p = Some rest"
    and h: "(case rev rest of Normal name # _ \<Rightarrow> map_option fst (split_once CHR ''-'' name) | _ \<Rightarrow> None) = Some h"
    using assms unfolding store_hash_def by (auto simp: bind_eq_Some_conv)
  obtain x t where x: "rev rest = x # t" using h by (cases "rev rest") simp_all
  then obtain n where n: "x = Normal n" using h by (cases x) simp_all
  have "x \<in> set rest" using x by (metis list.set_intros(1) set_rev)
  moreover have "set rest \<subseteq> set (components p)"
    using rest by (auto simp: under_store_def strip_prefix_Some)
  ultimately have "plain_name n" using n components_Normal by blast
  then have "CHR ''/'' \<notin> set n" by (simp add: plain_name_def)
  moreover have "set h \<subseteq> set n" using h x n by (auto simp: split_once_Some)
  ultimately show ?thesis by blast
qed

end
