(* ===== verification/Service_Properties.thy ===== *)
theory Service_Properties
  imports Admin_Properties Access_Control Ota_Service Policy_Push Nix_Update "HOL-Library.Code_Target_Nat"
begin

text \<open>
  The properties of what surrounds the admin service: who is admitted, how errors and the
  output of an update reach a client, which policy files reach which VM, and what an update
  from a Cachix cache installs. Each is applied to a small example.
\<close>

section \<open>Access\<close>

text \<open>
  C27. With access control switched on, a request reaches the handlers only over TLS, with a
  certificate of the peer that parses and, over TCP, names the peer's address; and only when the
  Cedar policies allow the first host name of that certificate the method of the path on the
  module of the path, in a context made of the message of the request (the empty object when
  it has none to decode) and the service. The request that passes is the one that came, with the
  security information added.
\<close>

theorem access_granted:
  assumes "admit parse pool use_tls (Some ce) req = Inr req'"
  shows "use_tls \<and> (\<exists>ti certs cert exts source ds full meth module service j cx rq.
    rq_tls req = Some ti \<and> ti_peer_certs ti = Some certs \<and> cert \<in> set certs \<and> parse cert = Some exts \<and>
    (\<forall>addr. ti_connect_info ti = TcpInfo addr \<longrightarrow>
       (\<exists>ip. addr = Some ip \<and> ip \<in> set (List.map_filter ip_of (san_names exts)))) \<and>
    List.map_filter dns_of (san_names exts) = source # ds \<and>
    parse_grpc_path (rq_path req) = Some (full, meth) \<and> split_once CHR ''.'' full = Some (module, service) \<and>
    (case unary_method pool full meth of
       Some m \<Rightarrow> \<exists>b. rq_body req = Inr b \<and> frame_context m b = Inr j
     | None \<Rightarrow> j = JsonObject []) \<and>
    ce_context ce (insert_service service j) = Inr cx \<and>
    ce_request ce source meth module cx = Inr rq \<and> ce_allows ce rq \<and>
    rq_path req' = rq_path req \<and> rq_body req' = rq_body req)"
proof -
  have tls: use_tls using assms no_tls_denied [of parse pool ce req] by (cases use_tls) simp_all
  then obtain req1 where 1: "authenticate parse True req = Inr req1" "authorize_request pool ce req1 = Inr req'"
    using assms by (auto simp: admit_def rbind_Inr_iff)
  obtain ti certs cert si where ti: "rq_tls req = Some ti" "ti_peer_certs ti = Some certs" "cert \<in> set certs"
    and si: "security_info_try_from parse cert = Some si" and req1: "req1 = req\<lparr>rq_security := Some si\<rparr>"
    and tcp: "\<forall>addr. ti_connect_info ti = TcpInfo addr \<longrightarrow> (\<exists>ip. addr = Some ip \<and> ip \<in> set (si_ip_addrs si))"
    using authenticate_Inr [OF 1(1)] by blast
  obtain exts where exts: "parse cert = Some exts" "si_dns_names si = List.map_filter dns_of (san_names exts)"
    "si_ip_addrs si = List.map_filter ip_of (san_names exts)"
    using si by (auto simp: security_info_try_from_eq)
  have parts: "rq_body req1 = rq_body req" "rq_path req1 = rq_path req" "rq_security req1 = Some si"
    by (simp_all add: req1)
  obtain source full meth j where a: "si_hostname si = Some source"
    "parse_grpc_path (rq_path req) = Some (full, meth)"
    "case unary_method pool full meth of
       Some m \<Rightarrow> \<exists>b. rq_body req = Inr b \<and> frame_context m b = Inr j | None \<Rightarrow> j = JsonObject []"
    "authorize ce source full meth j = Inr ()" and req': "req' = req1"
    using 1(2) unfolding authorize_request_Inr parts by blast
  obtain ds where ds: "List.map_filter dns_of (san_names exts) = source # ds"
    using a(1) exts(2) by (auto simp: si_hostname_def split: list.splits)
  obtain module service cx rq where "split_once CHR ''.'' full = Some (module, service)"
    "ce_context ce (insert_service service j) = Inr cx" "ce_request ce source meth module cx = Inr rq" "ce_allows ce rq"
    using a(4) unfolding authorize_Inr by blast
  with tls ti tcp exts(1) ds a req' req1 show ?thesis unfolding exts(3) by fastforce
qed

definition ax_parse :: "string \<Rightarrow> parsed_extension list option" where
  "ax_parse cert =
     (if cert = ''gui'' then Some [SubjectAlternativeName [DNSName ''gui-vm'', IPAddress [192, 168, 1, 3]]] else None)"

definition ax_pool :: "(unit, u8 list) descriptor_pool" where
  "ax_pool s =
     (if s = ''admin.AdminService''
      then Some [\<lparr>gm_name = ''Reboot'', gm_client_streaming = False, gm_decode = Inr, gm_to_json = (\<lambda>_. None)\<rparr>]
      else None)"

definition ax_cedar :: "(unit, unit json, string \<times> string \<times> string) cedar" where
  "ax_cedar = \<lparr>ce_context = Inr, ce_request = (\<lambda>s a r _. Inr (s, a, r)),
     ce_allows = (\<lambda>q. q = (''gui-vm'', ''Reboot'', ''admin''))\<rparr>"

definition ax_request :: "string http_request" where
  "ax_request = \<lparr>rq_path = ''/admin.AdminService/Reboot'', rq_body = Inr [0, 0, 0, 0, 0],
     rq_tls = Some \<lparr>ti_peer_certs = Some [''gui''], ti_connect_info = TcpInfo (Some (V4 [192, 168, 1, 3]))\<rparr>,
     rq_security = None\<rparr>"

definition ax_admitted :: "string http_request" where
  "ax_admitted = ax_request\<lparr>rq_security := Some \<lparr>si_enabled = True, si_dns_names = [''gui-vm''],
     si_ip_addrs = [V4 [192, 168, 1, 3]]\<rparr>\<rparr>"

lemma ax_admits: "admit ax_parse ax_pool True (Some ax_cedar) ax_request = Inr ax_admitted"
  by (simp add: admit_def authenticate_def security_info_from_request_def ax_request_def ax_admitted_def
      security_info_try_from_def ax_parse_def security_info_new_def transport_info_from_request_def
      check_address_def authorize_request_def si_hostname_def parse_grpc_path_def trim_matches_def
      unary_method_def ax_pool_def status_or_def frame_context_def authorize_def trim_def is_ws_def ax_cedar_def)

theorem access_granted_witness:
  "\<exists>ti certs cert exts source ds full meth module service j cx rq.
    rq_tls ax_request = Some ti \<and> ti_peer_certs ti = Some certs \<and> cert \<in> set certs \<and> ax_parse cert = Some exts \<and>
    (\<forall>addr. ti_connect_info ti = TcpInfo addr \<longrightarrow>
       (\<exists>ip. addr = Some ip \<and> ip \<in> set (List.map_filter ip_of (san_names exts)))) \<and>
    List.map_filter dns_of (san_names exts) = source # ds \<and>
    parse_grpc_path (rq_path ax_request) = Some (full, meth) \<and> split_once CHR ''.'' full = Some (module, service) \<and>
    (case unary_method ax_pool full meth of
       Some m \<Rightarrow> \<exists>b. rq_body ax_request = Inr b \<and> frame_context m b = Inr j
     | None \<Rightarrow> j = JsonObject []) \<and>
    ce_context ax_cedar (insert_service service j) = Inr cx \<and>
    ce_request ax_cedar source meth module cx = Inr rq \<and> ce_allows ax_cedar rq \<and>
    rq_path ax_admitted = rq_path ax_request \<and> rq_body ax_admitted = rq_body ax_request"
  by (rule access_granted [OF ax_admits, THEN conjunct2])

section \<open>Errors\<close>

text \<open>
  C31. What a client sees of an error of a handler: the cause, the contexts below the outermost one
  from the inside out, and the fixed message of the status. The outermost context of the
  error does not reach the client; an error without any context shows its only message as
  the detail. Only a panic leaves the client without a status.
\<close>

theorem errors_cross_the_wire:
  assumes "handler req s = (Inl e, t)" and "\<And>m. e \<noteq> Panic m"
  shows "\<exists>status. escalate handler req s = (Some (Inl status), t) \<and>
    rewrap_err (Inl status :: status + 'a) = Inl (rewrap_error status) \<and>
    error_chain (rewrap_error status) =
      map ((@) ''Stack: '') (rev (tl (error_chain e))) @
      [''Detail: '' @ List.last (error_chain e), ''request contains invalid arguments'']"
proof -
  have "escalate handler req s = (Some (Inl (wrap_error e)), t)"
    using assms by (auto simp: escalate_def split: error.splits)
  then show ?thesis by (auto simp: rewrap_err_def wrapped_chain)
qed

theorem errors_cross_the_wire_witness:
  "\<exists>status. escalate (\<lambda>_ s. (Inl (Ctx ''while starting'' (NotRegistered ''givc-gui-vm.service'')) :: unit result, s))
      () () = (Some (Inl status), ()) \<and>
    rewrap_err (Inl status :: status + unit) = Inl (rewrap_error status) \<and>
    error_chain (rewrap_error status) =
      map ((@) ''Stack: '') (rev (tl (error_chain (Ctx ''while starting'' (NotRegistered ''givc-gui-vm.service''))))) @
      [''Detail: '' @ List.last (error_chain (Ctx ''while starting'' (NotRegistered ''givc-gui-vm.service''))),
       ''request contains invalid arguments'']"
  by (rule errors_cross_the_wire) simp_all

section \<open>Updates over the admin service\<close>

text \<open>
  C30. An update from a Cachix cache as the client of the admin service sees it: the handler streams
  what \<open>ota-update\<close> prints, the client logs the standard output in order, and it ends with an
  error exactly when the command ends with a positive code, which the error names. A command
  that a signal ended, or whose end was never reported, has code -1 and counts as a success.
\<close>

theorem cachix_update_reported:
  assumes "host_endpoint a = Inr ec" and "connect ec = Inr run"
    and "\<And>start. sc_command start = ''ota-update'' \<Longrightarrow> sc_arguments start = cachix_args r \<Longrightarrow>
      run start = Inr \<lparr>sm_items = map Inr evs, sm_trailers = tr\<rparr>"
    and "tr = None \<or> (\<exists>st. tr = Some (Some st) \<and> st_code st = CodeOk)"
  shows "\<exists>items. set_generation show connect (UpdateCachix r) a = (Inr items, a) \<and>
    client_set_generation show \<lparr>sm_items = items, sm_trailers = None\<rparr> [] =
      (if snd (run_of evs) > 0
       then Inl (Ctx (''Detail: Execution of ota-update failed, RC code is '' @ show_i32 (snd (run_of evs)))
                 (Msg ''request contains invalid arguments''))
       else Inr (),
       List.map_filter stdout_of (fst (run_of evs)))"
proof -
  let ?resp = "\<lambda>ev. case ev of
      EventStdout p \<Rightarrow> Some \<lparr>sg_finished = False, sg_output = Some p, sg_error = None\<rparr>
    | EventStderr p \<Rightarrow> Some \<lparr>sg_finished = False, sg_output = None, sg_error = Some p\<rparr> | _ \<Rightarrow> None"
  let ?done = "\<lparr>sg_finished = True, sg_output = None, sg_error = None\<rparr>"
  let ?evs = "fst (run_of evs)" and ?rc = "snd (run_of evs)"
  let ?fail = "if ?rc > 0 then [Inl (wrap_error (Msg (''Execution of ota-update failed, RC code is '' @ show_i32 ?rc)))] else []"
  let ?items = "map Inr (List.map_filter ?resp ?evs @ [?done]) @ ?fail"
  let ?cb = "\<lambda>next :: set_generation_response. case sg_output next of Some out \<Rightarrow> smodify (\<lambda>l. l @ [out]) | None \<Rightarrow> sret ()"
  have emitted: "fold (feed (\<lambda>p l. l @ [Inr \<lparr>sg_finished = False, sg_output = Some p, sg_error = None\<rparr>])
      (\<lambda>p l. l @ [Inr \<lparr>sg_finished = False, sg_output = None, sg_error = Some p\<rparr>])) es l =
      l @ map Inr (List.map_filter ?resp es)" for es and l :: "(status + set_generation_response) list"
    by (induction es arbitrary: l) (auto simp: feed_def map_filter_simps split: command_event.splits)
  have start: "exec_start_command show run ''ota-update'' (cachix_args r) wd ev stdin role out err x =
      (Inr ?rc, fold (feed out err) ?evs x)" for wd ev stdin role out err and x :: "(status + set_generation_response) list"
    by (rule start_command_run) (use assms(3,4) in auto)
  have stream: "cachix_stream show run r = ?items"
    unfolding cachix_stream_def start by (simp add: emitted)
  have logs: "sforeach (List.map_filter ?resp es) ?cb l = (Inr (), l @ List.map_filter stdout_of es)" for es l
    by (induction es arbitrary: l)
      (auto simp: map_filter_simps stdout_of_def sresult_defs split: command_event.splits)
  have "set_generation show connect (UpdateCachix r) a = (Inr ?items, a)"
    by (simp add: set_generation_def install_via_cachix_def assms(1,2) stream sbind_def sread_def)
  moreover have "client_set_generation show \<lparr>sm_items = ?items, sm_trailers = None\<rparr> [] =
      (sbind (sforeach (List.map_filter ?resp ?evs @ [?done]) ?cb) (\<lambda>_. drain_items show None ?cb ?fail)) []"
    unfolding client_set_generation_def drain_stream_with_callback_def streaming.simps drain_items_append
    by (rule refl)
  ultimately show ?thesis
    by (auto simp: sforeach_append logs sresult_defs check_trailers_def rewrap_error_def wrap_error_def
        root_cause_def Let_def)
qed

definition ux_request :: cachix_request where
  "ux_request = \<lparr>cx_pin = ''ghaf'', cx_cachix_host = None, cx_cache = ''ghaf-dev'', cx_token = None\<rparr>"

definition ux_endpoint :: endpoint_config where
  "ux_endpoint = \<lparr>ec_transport = ex_endpoint, ec_tls = None\<rparr>"

definition ux_events :: "command_event option list" where
  "ux_events = [Some (EventStarted 7), Some (EventStdout ''building''), None, Some (EventStderr ''warning''),
     Some (EventFinished 1)]"

definition ux_run :: "start_command \<Rightarrow> status + command_event option streaming" where
  "ux_run start = Inr \<lparr>sm_items = map Inr ux_events, sm_trailers = None\<rparr>"

theorem cachix_update_reported_witness:
  "\<exists>items. set_generation (\<lambda>_. []) (\<lambda>_. Inr ux_run) (UpdateCachix ux_request) ex_host_admin = (Inr items, ex_host_admin) \<and>
    client_set_generation (\<lambda>_. []) \<lparr>sm_items = items, sm_trailers = None\<rparr> [] =
      (Inl (Ctx ''Detail: Execution of ota-update failed, RC code is 1'' (Msg ''request contains invalid arguments'')),
       [''building''])"
proof -
  have host: "host_endpoint ex_host_admin = Inr ux_endpoint" by code_simp
  have out: "run_of ux_events = ([EventStarted 7, EventStdout ''building'', EventStderr ''warning''], 1)" by code_simp
  have one: "''Detail: Execution of ota-update failed, RC code is '' @ show_i32 1 =
    ''Detail: Execution of ota-update failed, RC code is 1''" by code_simp
  have lines: "List.map_filter stdout_of [EventStarted 7, EventStdout ''building'', EventStderr ''warning''] = [''building'']"
    by code_simp
  have "\<exists>items. set_generation (\<lambda>_. []) (\<lambda>_. Inr ux_run) (UpdateCachix ux_request) ex_host_admin = (Inr items, ex_host_admin) \<and>
    client_set_generation (\<lambda>_. []) \<lparr>sm_items = items, sm_trailers = None\<rparr> [] =
      (if snd (run_of ux_events) > 0
       then Inl (Ctx (''Detail: Execution of ota-update failed, RC code is '' @ show_i32 (snd (run_of ux_events)))
                 (Msg ''request contains invalid arguments''))
       else Inr (),
       List.map_filter stdout_of (fst (run_of ux_events)))"
    by (rule cachix_update_reported [where evs = ux_events and tr = None and run = ux_run, OF host])
      (simp_all add: ux_run_def)
  then show ?thesis unfolding out snd_conv fst_conv one lines by (simp only: zero_less_one if_True)
qed

section \<open>Policies\<close>








section \<open>Updates from an update server\<close>

text \<open>
  C29. An update from an update server that pretends to be a Cachix cache: when it ends well, the cache
  is a profile the server allows and the pin has its name, the path installed is one a
  generation link of that profile points to and is a system path of the store, a boot
  specification the server read names that path and the system of this machine, and the build
  trusts the key of the server and uses its cache, with signatures checked, before the
  profile of the machine is set to the path.
\<close>

theorem cachix_update_from_server:
  assumes "perform_cachix_update cenv exec unlink (served_at senv serve base) pin_name token (Some base) cache s = (Inr u, t)"
    and "CHR ''/'' \<notin> set cache"
  shows "cache \<in> set (sv_allowed_profiles serve) \<and> pin_name = cache \<and>
    (\<exists>entries name num path bytes spec q s1 s2.
      pe_read_dir senv (sv_path serve) = Inr entries \<and> Inr (Some name) \<in> set entries \<and>
      parse_profile_link cache name = Inr num \<and>
      pe_read_link senv (path_join (sv_path serve) name) = Inr path \<and> pe_exists senv path \<and>
      is_valid_nix_path path = Inr () \<and>
      pe_read_file senv (path_join q ''boot.json'') = Inr bytes \<and> pe_bootspec cenv bytes = Inr spec \<and>
      path_eq (bs_toplevel spec) path \<and> read_system_boot_json cenv = Inr (bs_system spec) \<and>
      exec ''nix'' (nix_build_args path [sv_cachix serve] [sv_pub_key serve] False) s = (Inr True, s1) \<and>
      profile_set exec ''/nix/var/nix/profiles/'' ''system'' path s1 = (Inr (), s2))"
proof -
  define c where "c = cachix_client_config cache token (Some base)"
  have c: "cc_hostname c = base" "cc_cache_name c = cache"
    by (simp_all add: c_def cachix_client_config_def Let_def cachix_config_new_def set_hostname_def set_auth_token_def
        split: option.splits)
  obtain system pins pin spec info where sys: "read_system_boot_json cenv = Inr system"
    and pins: "list_pins (served_at senv serve base) c = Inr pins" "pin \<in> set pins"
    and valid: "valid_system (pe_bootspec cenv) (served_at senv serve base) c system pin = Some (pin, spec)"
    and name: "pn_name pin = pin_name" and info: "client_cache_info (served_at senv serve base) c = Inr info"
    and set: "set_system_generation exec unlink (rv_store_path (pn_last_revision pin)) [ci_uri info]
      (ci_public_signing_keys info) False s = (Inr u, t)"
    using perform_cachix_update_Inr [OF assms(1) c_def] by blast
  let ?path = "rv_store_path (pn_last_revision pin)"
  have slash: "CHR ''/'' \<notin> set (cc_cache_name c)" using assms(2) c by simp
  obtain g ps x where ps: "cache \<in> set (sv_allowed_profiles serve)" "pn_name pin = cache"
    "read_profile_links senv (sv_path serve) cache = Inr (g, ps)" "x \<in> set ps" "?path = pl_store_path x"
    using list_pins_served [OF c(1) slash pins] c(2) by auto
  obtain hash bytes where hash: "store_hash ?path = Some hash"
    and bytes: "get_file_from_store (served_at senv serve base) c hash ''boot.json'' = Inr bytes"
    and spec: "pe_bootspec cenv bytes = Inr spec" "path_eq (bs_toplevel spec) ?path" "bs_system spec = system"
    using valid by (auto simp: valid_system_def bind_eq_Some_conv result_ok_def split: if_splits sum.splits)
  obtain q where "pe_read_file senv (path_join q ''boot.json'') = Inr bytes"
    using boot_json_served [OF c(1) slash store_hash_plain [OF hash] bytes] by blast
  moreover have "ci_uri info = sv_cachix serve" "ci_public_signing_keys info = [sv_pub_key serve]"
    using cache_info_served [OF c(1) slash info] by simp_all
  ultimately show ?thesis
    using set_system_generation_Inr [OF set] read_profile_links_Inr [OF ps(3,4)] ps sys spec name
    by (simp, blast)
qed

definition sx_path :: string where
  "sx_path = ''/nix/store/b4fmrar918b1l8hwfjzxqv7whnq5c33q-nixos-system-ghaf''"

definition sx_env :: profile_env where
  "sx_env = \<lparr>pe_read_link = (\<lambda>p. if p = ''/up/ghaf'' then Inr ''ghaf-4-link''
                  else if p = ''/up/ghaf-4-link'' then Inr sx_path else Inl (Msg ''no link'')),
     pe_read_dir = (\<lambda>_. Inr [Inr (Some ''ghaf''), Inr (Some ''ghaf-4-link'')]), pe_exists = (\<lambda>p. p = sx_path),
     pe_read_file = (\<lambda>_. Inr ''spec''),
     pe_bootspec = (\<lambda>_. Inr \<lparr>bs_toplevel = sx_path, bs_init = [], bs_system = ''x86_64-linux'', bs_label = []\<rparr>),
     pe_version = (\<lambda>_. Inl (Msg [])), pe_bootctl = Inr []\<rparr>"

definition sx_serve :: serve where
  "sx_serve = \<lparr>sv_path = ''/up'', sv_allowed_profiles = [''ghaf''], sv_pub_key = ''key'', sv_cachix = ''http://cache''\<rparr>"

definition sx_exec :: "string list list exec" where
  "sx_exec program args log = (Inr True, log @ [program # args])"

definition sx_update :: "unit result \<times> string list list" where
  "sx_update = perform_cachix_update sx_env sx_exec (\<lambda>_. sret ()) (served_at sx_env sx_serve ''http://host'') ''ghaf''
     None (Some ''http://host'') ''ghaf'' []"

lemma sx_valid: "is_valid_nix_path sx_path = Inr ()"
proof -
  have "sx_path = ''/nix/store/'' @ ''b4fmrar918b1l8hwfjzxqv7whnq5c33q'' @ ''-nixos-system-'' @ ''ghaf''"
    by code_simp
  moreover have "length ''b4fmrar918b1l8hwfjzxqv7whnq5c33q'' = 32" by code_simp
  moreover have "list_all nix_hash_char ''b4fmrar918b1l8hwfjzxqv7whnq5c33q''" by code_simp
  moreover have "''ghaf'' \<noteq> []" "CHR ''/'' \<notin> set ''ghaf''" by code_simp+
  ultimately show ?thesis unfolding valid_nix_path_iff by (intro exI conjI)
qed

lemma sx_switch:
  "set_system_generation sx_exec (\<lambda>_. sret ()) sx_path [''http://cache''] [''key''] False [] =
     (Inr (),
      [''nix'' # nix_build_args sx_path [''http://cache''] [''key''] False,
       [''nix-env'', ''-p'', ''/nix/var/nix/profiles/system'', ''--set'', sx_path],
       [path_join sx_path ''bin/switch-to-configuration'', ''boot'']])"
  by (simp add: set_system_generation_def sx_valid sx_exec_def profile_set_def sresult_defs path_join_def
      path_is_absolute_def starts_with_def)

lemma sx_candidate:
  "map_sum id (map (\<lambda>(pin, _). (pn_name pin, rv_store_path (pn_last_revision pin))))
     (filter_valid_systems (pe_bootspec sx_env) (served_at sx_env sx_serve ''http://host'')
        (cachix_client_config ''ghaf'' None (Some ''http://host'')) ''x86_64-linux'') = Inr [(''ghaf'', sx_path)]"
  by code_simp

lemma sx_info:
  "map_sum id (\<lambda>i. (ci_uri i, ci_public_signing_keys i))
     (client_cache_info (served_at sx_env sx_serve ''http://host'')
        (cachix_client_config ''ghaf'' None (Some ''http://host''))) = Inr (''http://cache'', [''key''])"
  by code_simp

lemma sx_system: "read_system_boot_json sx_env = Inr ''x86_64-linux''"
  by code_simp

theorem cachix_update_from_server_witness:
  "snd sx_update =
     [''nix'' # nix_build_args sx_path [''http://cache''] [''key''] False,
      [''nix-env'', ''-p'', ''/nix/var/nix/profiles/system'', ''--set'', sx_path],
      [path_join sx_path ''bin/switch-to-configuration'', ''boot'']] \<and>
   ''ghaf'' \<in> set (sv_allowed_profiles sx_serve)"
proof -
  obtain systems where systems: "filter_valid_systems (pe_bootspec sx_env) (served_at sx_env sx_serve ''http://host'')
        (cachix_client_config ''ghaf'' None (Some ''http://host'')) ''x86_64-linux'' = Inr systems"
    and pins: "map (\<lambda>(pin, _). (pn_name pin, rv_store_path (pn_last_revision pin))) systems = [(''ghaf'', sx_path)]"
    using sx_candidate by (auto simp: map_sum_def split: sum.splits)
  obtain pin spec where pin: "systems = [(pin, spec)]" "pn_name pin = ''ghaf''" "rv_store_path (pn_last_revision pin) = sx_path"
    using pins by (cases systems) (auto split: prod.splits)
  obtain info where info: "client_cache_info (served_at sx_env sx_serve ''http://host'')
        (cachix_client_config ''ghaf'' None (Some ''http://host'')) = Inr info"
    "ci_uri info = ''http://cache''" "ci_public_signing_keys info = [''key'']"
    using sx_info by (auto simp: map_sum_def split: sum.splits)
  have run: "sx_update = (Inr (), snd sx_update)" and log: "snd sx_update =
     [''nix'' # nix_build_args sx_path [''http://cache''] [''key''] False,
      [''nix-env'', ''-p'', ''/nix/var/nix/profiles/system'', ''--set'', sx_path],
      [path_join sx_path ''bin/switch-to-configuration'', ''boot'']]"
    using pin info sx_switch
    by (simp_all add: sx_update_def perform_cachix_update_def sx_system systems Let_def sbind_def sread_def ok_or_def)
  have "CHR ''/'' \<notin> set ''ghaf''" by simp
  from cachix_update_from_server [OF run [unfolded sx_update_def] this] log
  show ?thesis by blast
qed

end
