(* ===== verification/Admin_Rpc.thy ===== *)
theory Admin_Rpc
  imports Admin_Client Ota_Service
begin

text \<open>
  The gRPC interface of the admin service (\<open>api/admin/admin.proto\<close>) as the record \<open>admin_api\<close>, with
  one field for each procedure. The server provides it (\<open>impl AdminService\<close> in \<open>server.rs\<close>) by
  its handlers, wrapped by \<open>escalate\<close>; the methods of \<open>AdminClient\<close> (\<open>client.rs\<close>) use it. The
  interface \<open>admin_contract\<close> states what a client relies on, and is interpreted by the server.
\<close>

section \<open>Messages\<close>

record service_request =
  sr_service_name :: string
  sr_vm_name :: string

record application_response =
  ap_cmd_status :: string
  ap_app_status :: string

record user_notification =
  un_event :: string
  un_title :: string
  un_urgency :: int
  un_icon :: string
  un_message :: string

definition user_notification_default :: user_notification where
  "user_notification_default =
     \<lparr>un_event = [], un_title = [], un_urgency = 0, un_icon = [], un_message = []\<rparr>"

record ctap_request =
  ct_req :: string
  ct_args :: "string list"
  ct_payload :: string

record sysinfo_response =
  sy_ghaf_version :: string
  sy_secure_boot :: "bool option"
  sy_disk_encrypted :: "bool option"

section \<open>The interface\<close>

text \<open>
  A procedure answers with a status or a message, and may change the state \<open>'s\<close> of the
  service. The items of a watch stream are those it has delivered when the service is in a later
  state. The type \<open>'st\<close> is that of statistics.
\<close>

type_synonym ('s, 'r) rpc = "'s \<Rightarrow> (status + 'r) \<times> 's"

record ('s, 'st) admin_api =
  rpc_register_service :: "registry_request \<Rightarrow> ('s, string option) rpc"
  rpc_start_application :: "application_request \<Rightarrow> ('s, string) rpc"
  rpc_start_vm :: "string \<Rightarrow> ('s, string) rpc"
  rpc_start_service :: "service_request \<Rightarrow> ('s, string) rpc"
  rpc_stop_service :: "service_request \<Rightarrow> ('s, application_response) rpc"
  rpc_pause_application :: "application_request \<Rightarrow> ('s, application_response) rpc"
  rpc_resume_application :: "application_request \<Rightarrow> ('s, application_response) rpc"
  rpc_stop_application :: "application_request \<Rightarrow> ('s, application_response) rpc"
  rpc_set_locale :: "locale_assignment list \<Rightarrow> ('s, unit) rpc"
  rpc_set_timezone :: "string \<Rightarrow> ('s, unit) rpc"
  rpc_poweroff :: "('s, unit) rpc"
  rpc_reboot :: "('s, unit) rpc"
  rpc_suspend :: "('s, unit) rpc"
  rpc_wakeup :: "('s, unit) rpc"
  rpc_get_unit_status :: "string \<Rightarrow> string \<Rightarrow> ('s, pb_unit_status) rpc"
  rpc_get_stats :: "string \<Rightarrow> ('s, 'st) rpc"
  rpc_query_list :: "('s, query_list_item list) rpc"
  rpc_watch :: "('s, 's \<Rightarrow> watch_item list) rpc"
  rpc_list_generations :: "('s, pb_generation list) rpc"
  rpc_set_generation :: "update_request \<Rightarrow> ('s, set_generation_response streaming) rpc"
  rpc_notify_user :: "string \<Rightarrow> user_notification option \<Rightarrow> ('s, string) rpc"
  rpc_ctap :: "ctap_request \<Rightarrow> ('s, string) rpc"
  rpc_sysinfo :: "('s, sysinfo_response) rpc"

section \<open>The server\<close>

text \<open>
  What the service relies on: the agents' unit control and exec services, the services it only
  forwards messages to (connecting included), the reader of the generations of \<open>ota-update\<close>, the
  text of a status, whether the write of a configuration file succeeds, and the status a
  client sees when a handler panics. A handler has nothing left to do when it has forwarded
  its message, so other tasks run before it or after it, and the message itself changes
  only what is outside.
\<close>

record ('w, 'st, 'b) agents =
  ag_units :: "'w admin agent_call"
  ag_exec :: exec_connect
  ag_stats :: "endpoint_config \<Rightarrow> ('w, 'st) sresult"
  ag_sysinfo :: "endpoint_config \<Rightarrow> ('w, sysinfo_response) sresult"
  ag_notify :: "endpoint_config \<Rightarrow> user_notification \<Rightarrow> ('w, string) sresult"
  ag_ctap :: "endpoint_config \<Rightarrow> ctap_request \<Rightarrow> ('w, string) sresult"
  ag_generations :: "string \<Rightarrow> 'b generation_details list result"
  ag_show :: "status \<Rightarrow> string"
  ag_written :: "string \<Rightarrow> 'w \<Rightarrow> bool"
  ag_lost :: status

definition on_world :: "('w, 'a) sresult \<Rightarrow> ('w admin, 'a) sresult" where
  "on_world f a = (case f (ad_world a) of (r, w) \<Rightarrow> (r, a\<lparr>ad_world := w\<rparr>))"

definition get_sysinfo :: "('w, 'st, 'b) agents \<Rightarrow> ('w admin, sysinfo_response) sresult" where
  "get_sysinfo ag = sbind (sread host_endpoint) (\<lambda>ec. on_world (ag_sysinfo ag ec))"

definition notify_user :: "('w, 'st, 'b) agents \<Rightarrow> string \<Rightarrow> user_notification \<Rightarrow> ('w admin, string) sresult" where
  "notify_user ag vm_name notification =
     sbind (sread (agent_endpoint vm_name)) (\<lambda>ec. on_world (ag_notify ag ec notification))"

definition app_success :: "application_response result" where
  "app_success = Inr \<lparr>ap_cmd_status = ''Command successful.'', ap_app_status = ''Command successful.''\<rparr>"

text \<open>The answer to a request whose handler is wrapped by \<open>escalate\<close>.\<close>

definition answer :: "('w, 'st, 'b) agents \<Rightarrow> ('t \<Rightarrow> ('w admin, 'r) sresult) \<Rightarrow> 't \<Rightarrow> ('w admin, 'r) rpc" where
  "answer ag handler req a =
     (case escalate handler req a of
        (Some r, b) \<Rightarrow> (r, b)
      | (None, b) \<Rightarrow> (Inl (ag_lost ag), b))"

text \<open>\<open>register_service\<close> makes a status of its own of the error.\<close>

definition register_service_rpc :: "('w, 'st, 'b) agents \<Rightarrow> registry_request \<Rightarrow> ('w admin, string option) rpc" where
  "register_service_rpc ag req a =
     (case register_service req a of
        (Inr _, b) \<Rightarrow> (Inr None, b)
      | (Inl (Panic _), b) \<Rightarrow> (Inl (ag_lost ag), b)
      | (Inl e, b) \<Rightarrow> (Inl (plain_status CodeInvalidArgument (hd (error_chain e))), b))"

definition start_application_rpc :: "('w, 'st, 'b) agents \<Rightarrow> application_request \<Rightarrow> ('w admin, string) rpc" where
  "start_application_rpc ag = answer ag (start_app (ag_units ag))"

definition start_vm_rpc :: "('w, 'st, 'b) agents \<Rightarrow> string \<Rightarrow> ('w admin, string) rpc" where
  "start_vm_rpc ag = answer ag (start_vm_handler (ag_units ag))"

definition start_service_rpc :: "('w, 'st, 'b) agents \<Rightarrow> service_request \<Rightarrow> ('w admin, string) rpc" where
  "start_service_rpc ag =
     answer ag (\<lambda>req. start_unit_on_vm (ag_units ag) (sr_service_name req) (sr_vm_name req))"

definition stop_service_rpc :: "('w, 'st, 'b) agents \<Rightarrow> service_request \<Rightarrow> ('w admin, application_response) rpc" where
  "stop_service_rpc ag =
     answer ag (\<lambda>req. sbind (stop_unit_on_vm (ag_units ag) (sr_service_name req) (sr_vm_name req))
       (\<lambda>_. sread (\<lambda>_. app_success)))"

definition application_rpc ::
  "('w, 'st, 'b) agents \<Rightarrow> (application_request \<Rightarrow> ('w admin, unit) sresult) \<Rightarrow> application_request \<Rightarrow>
   ('w admin, application_response) rpc" where
  "application_rpc ag handler = answer ag (\<lambda>req. sbind (handler req) (\<lambda>_. sread (\<lambda>_. app_success)))"

definition set_locale_rpc :: "('w, 'st, 'b) agents \<Rightarrow> locale_assignment list \<Rightarrow> ('w admin, unit) rpc" where
  "set_locale_rpc ag =
     answer ag (\<lambda>req a. set_locale (ag_written ag ''/etc/locale-givc.conf'' (ad_world a)) req a)"

definition set_timezone_rpc :: "('w, 'st, 'b) agents \<Rightarrow> string \<Rightarrow> ('w admin, unit) rpc" where
  "set_timezone_rpc ag =
     answer ag (\<lambda>req a. set_timezone (ag_written ag ''/etc/timezone.conf'' (ad_world a)) req a)"

definition wakeup_rpc :: "('w admin, unit) rpc" where
  "wakeup_rpc a = (Inl (plain_status CodeUnimplemented ''Not supported''), a)"

definition get_stats :: "('w, 'st, 'b) agents \<Rightarrow> string \<Rightarrow> ('w admin, 'st) sresult" where
  "get_stats ag vm_name = sbind (sread (stats_endpoint vm_name)) (\<lambda>ec. on_world (ag_stats ag ec))"

text \<open>The registry does not change between the two steps of \<open>subscribe\<close> here.\<close>

definition watch_handler :: "('w admin, 'w admin \<Rightarrow> watch_item list) sresult" where
  "watch_handler =
     sread (\<lambda>a. Inr (\<lambda>b. watch_stream (ad_registry a) (ad_registry a) (ad_registry b)
       (length (rg_log (ad_registry b)))))"

definition notify_user_handler ::
  "('w, 'st, 'b) agents \<Rightarrow> string \<Rightarrow> user_notification option \<Rightarrow> ('w admin, string) sresult" where
  "notify_user_handler ag vm_name notification =
     notify_user ag (agent_service (Vm vm_name))
       (case notification of Some n \<Rightarrow> n | None \<Rightarrow> user_notification_default)"

definition ctap_handler :: "('w, 'st, 'b) agents \<Rightarrow> ctap_request \<Rightarrow> ('w admin, string) sresult" where
  "ctap_handler ag req =
     sbind (scontext ''VM not found'' (sread (agent_endpoint ''givc-gui-vm.service''))) (\<lambda>ec. on_world (ag_ctap ag ec req))"

text \<open>The items of the stream of \<open>set_generation\<close>, which ends without trailers of its own.\<close>

definition set_generation_rpc ::
  "('w, 'st, 'b) agents \<Rightarrow> update_request \<Rightarrow> ('w admin, set_generation_response streaming) rpc" where
  "set_generation_rpc ag =
     answer ag (\<lambda>update. sbind (set_generation (ag_show ag) (ag_exec ag) update)
       (\<lambda>items. sret \<lparr>sm_items = items, sm_trailers = None\<rparr>))"

definition admin_api_of :: "('w, 'st, 'b) agents \<Rightarrow> ('w admin, 'st) admin_api" where
  "admin_api_of ag =
     \<lparr>rpc_register_service = register_service_rpc ag,
      rpc_start_application = start_application_rpc ag,
      rpc_start_vm = start_vm_rpc ag,
      rpc_start_service = start_service_rpc ag,
      rpc_stop_service = stop_service_rpc ag,
      rpc_pause_application = application_rpc ag (pause_application (ag_units ag)),
      rpc_resume_application = application_rpc ag (resume_application (ag_units ag)),
      rpc_stop_application = application_rpc ag (stop_application (ag_units ag)),
      rpc_set_locale = set_locale_rpc ag,
      rpc_set_timezone = set_timezone_rpc ag,
      rpc_poweroff = answer ag (\<lambda>_. poweroff (ag_units ag)) (),
      rpc_reboot = answer ag (\<lambda>_. reboot (ag_units ag)) (),
      rpc_suspend = answer ag (\<lambda>_. suspend (ag_units ag)) (),
      rpc_wakeup = wakeup_rpc,
      rpc_get_unit_status = (\<lambda>unit vm. answer ag (\<lambda>_. get_unit_status_handler (ag_units ag) unit vm) ()),
      rpc_get_stats = answer ag (get_stats ag),
      rpc_query_list = answer ag (\<lambda>_. query_list) (),
      rpc_watch = answer ag (\<lambda>_. watch_handler) (),
      rpc_list_generations = answer ag (\<lambda>_. list_generations (ag_show ag) (ag_exec ag) (ag_generations ag)) (),
      rpc_set_generation = set_generation_rpc ag,
      rpc_notify_user = (\<lambda>vm n. answer ag (notify_user_handler ag vm) n),
      rpc_ctap = answer ag (ctap_handler ag),
      rpc_sysinfo = answer ag (\<lambda>_. get_sysinfo ag) ()\<rparr>"

section \<open>The client\<close>

text \<open>
  A client opens a connection for each call; \<open>dial\<close> stands for \<open>EndpointConfig::connect\<close> and the
  stub on the channel.
\<close>

type_synonym ('s, 'st) dial = "endpoint_config \<Rightarrow> ('s, 'st) admin_api result"

definition admin_client_new :: "string \<Rightarrow> 16 word \<Rightarrow> (string \<times> tls_config) option \<Rightarrow> endpoint_config" where
  "admin_client_new addr port tls_info = admin_client_endpoint (Tcp addr port) tls_info"

definition connect_to :: "('s, 'st) dial \<Rightarrow> endpoint_config \<Rightarrow> ('s, ('s, 'st) admin_api) sresult" where
  "connect_to dial ac = sread (\<lambda>_. dial ac)"

definition rewrapped :: "('s, 'r) rpc \<Rightarrow> ('s, 'r) sresult" where
  "rewrapped f s = (case f s of (r, t) \<Rightarrow> (rewrap_err r, t))"

text \<open>Where \<open>?\<close> takes the status as the error, as it is.\<close>

definition plain_err :: "(status \<Rightarrow> string) \<Rightarrow> ('s, 'r) rpc \<Rightarrow> ('s, 'r) sresult" where
  "plain_err show f s =
     (case f s of (Inl st, t) \<Rightarrow> (Inl (status_error show st), t) | (Inr r, t) \<Rightarrow> (Inr r, t))"

text \<open>A call whose answer is returned as it is.\<close>

definition call_admin ::
  "('s, 'st) dial \<Rightarrow> endpoint_config \<Rightarrow> (('s, 'st) admin_api \<Rightarrow> ('s, 'r) rpc) \<Rightarrow> ('s, 'r) sresult" where
  "call_admin dial ac f = sbind (connect_to dial ac) (\<lambda>client. rewrapped (f client))"

text \<open>A call whose answer is dropped.\<close>

definition call_admin_unit ::
  "('s, 'st) dial \<Rightarrow> endpoint_config \<Rightarrow> (('s, 'st) admin_api \<Rightarrow> ('s, 'r) rpc) \<Rightarrow> ('s, unit) sresult" where
  "call_admin_unit dial ac f = sbind (call_admin dial ac f) (\<lambda>_. sret ())"

definition client_register_service ::
  "(status \<Rightarrow> string) \<Rightarrow> ('s, 'st) dial \<Rightarrow> endpoint_config \<Rightarrow> string \<Rightarrow> unit_type \<Rightarrow> endpoint_entry \<Rightarrow> unit_status \<Rightarrow>
   ('s, unit) sresult" where
  "client_register_service show dial ac name ty ep status =
     sbind (connect_to dial ac) (\<lambda>client.
     sbind (plain_err show (rpc_register_service client (client_register_request name ty ep status))) (\<lambda>error.
       case error of Some e \<Rightarrow> sfail (Msg e) | None \<Rightarrow> sret ()))"

definition client_start_app ::
  "('s, 'st) dial \<Rightarrow> endpoint_config \<Rightarrow> string \<Rightarrow> string \<Rightarrow> string list \<Rightarrow> ('s, string) sresult" where
  "client_start_app dial ac app_name vm_name args =
     call_admin dial ac (\<lambda>c. rpc_start_application c (client_start_app_request app_name vm_name args))"

definition client_start_vm :: "('s, 'st) dial \<Rightarrow> endpoint_config \<Rightarrow> string \<Rightarrow> ('s, string) sresult" where
  "client_start_vm dial ac vm_name = call_admin dial ac (\<lambda>c. rpc_start_vm c vm_name)"

definition client_start_service ::
  "('s, 'st) dial \<Rightarrow> endpoint_config \<Rightarrow> string \<Rightarrow> string \<Rightarrow> ('s, string) sresult" where
  "client_start_service dial ac service_name vm_name =
     call_admin dial ac (\<lambda>c. rpc_start_service c \<lparr>sr_service_name = service_name, sr_vm_name = vm_name\<rparr>)"

definition client_stop_service ::
  "('s, 'st) dial \<Rightarrow> endpoint_config \<Rightarrow> string \<Rightarrow> string \<Rightarrow> ('s, unit) sresult" where
  "client_stop_service dial ac service_name vm_name =
     call_admin_unit dial ac (\<lambda>c. rpc_stop_service c \<lparr>sr_service_name = service_name, sr_vm_name = vm_name\<rparr>)"

definition client_stop :: "('s, 'st) dial \<Rightarrow> endpoint_config \<Rightarrow> string \<Rightarrow> ('s, unit) sresult" where
  "client_stop dial ac app_name =
     call_admin_unit dial ac (\<lambda>c. rpc_stop_application c (client_app_request app_name))"

definition client_pause :: "('s, 'st) dial \<Rightarrow> endpoint_config \<Rightarrow> string \<Rightarrow> ('s, unit) sresult" where
  "client_pause dial ac app_name =
     call_admin_unit dial ac (\<lambda>c. rpc_pause_application c (client_app_request app_name))"

definition client_resume :: "('s, 'st) dial \<Rightarrow> endpoint_config \<Rightarrow> string \<Rightarrow> ('s, unit) sresult" where
  "client_resume dial ac app_name =
     call_admin_unit dial ac (\<lambda>c. rpc_resume_application c (client_app_request app_name))"

definition client_get_status ::
  "('s, 'st) dial \<Rightarrow> endpoint_config \<Rightarrow> string \<Rightarrow> string \<Rightarrow> ('s, pb_unit_status) sresult" where
  "client_get_status dial ac vm_name unit_name = call_admin dial ac (\<lambda>c. rpc_get_unit_status c unit_name vm_name)"

definition client_reboot :: "('s, 'st) dial \<Rightarrow> endpoint_config \<Rightarrow> ('s, unit) sresult" where
  "client_reboot dial ac = call_admin_unit dial ac rpc_reboot"

definition client_poweroff :: "('s, 'st) dial \<Rightarrow> endpoint_config \<Rightarrow> ('s, unit) sresult" where
  "client_poweroff dial ac = call_admin_unit dial ac rpc_poweroff"

definition client_suspend :: "('s, 'st) dial \<Rightarrow> endpoint_config \<Rightarrow> ('s, unit) sresult" where
  "client_suspend dial ac = call_admin_unit dial ac rpc_suspend"

definition client_wakeup :: "('s, 'st) dial \<Rightarrow> endpoint_config \<Rightarrow> ('s, unit) sresult" where
  "client_wakeup dial ac = call_admin_unit dial ac rpc_wakeup"

definition client_sysinfo :: "('s, 'st) dial \<Rightarrow> endpoint_config \<Rightarrow> ('s, sysinfo_response) sresult" where
  "client_sysinfo dial ac = call_admin dial ac rpc_sysinfo"

definition client_query_results :: "('s, 'st) dial \<Rightarrow> endpoint_config \<Rightarrow> ('s, query_result list) sresult" where
  "client_query_results dial ac =
     sbind (call_admin dial ac rpc_query_list) (\<lambda>list. sread (\<lambda>_. client_query_list list))"

text \<open>\<open>query\<close> takes a type and names, and uses neither.\<close>

definition client_query ::
  "('s, 'st) dial \<Rightarrow> endpoint_config \<Rightarrow> unit_type option \<Rightarrow> string list \<Rightarrow> ('s, query_result list) sresult" where
  "client_query dial ac ty names = client_query_results dial ac"

definition client_set_locales ::
  "('s, 'st) dial \<Rightarrow> endpoint_config \<Rightarrow> locale_assignment list \<Rightarrow> ('s, unit) sresult" where
  "client_set_locales dial ac locales = call_admin_unit dial ac (\<lambda>c. rpc_set_locale c locales)"

definition client_set_locale :: "('s, 'st) dial \<Rightarrow> endpoint_config \<Rightarrow> string \<Rightarrow> ('s, unit) sresult" where
  "client_set_locale dial ac locale = client_set_locales dial ac (client_set_locale_request locale)"

definition client_set_timezone :: "('s, 'st) dial \<Rightarrow> endpoint_config \<Rightarrow> string \<Rightarrow> ('s, unit) sresult" where
  "client_set_timezone dial ac timezone = call_admin_unit dial ac (\<lambda>c. rpc_set_timezone c timezone)"

definition client_get_stats :: "('s, 'st) dial \<Rightarrow> endpoint_config \<Rightarrow> string \<Rightarrow> ('s, 'st) sresult" where
  "client_get_stats dial ac vm_name = call_admin dial ac (\<lambda>c. rpc_get_stats c vm_name)"

text \<open>
  The first item of a watch stream is read at once; the channel has the events of the items that
  follow.
\<close>

definition client_open_watch ::
  "('s, 'st) dial \<Rightarrow> endpoint_config \<Rightarrow> ('s, query_result list \<times> ('s \<Rightarrow> event list)) sresult" where
  "client_open_watch dial ac =
     sbind (call_admin dial ac rpc_watch) (\<lambda>stream.
       sread (\<lambda>s. rbind (client_watch (stream s)) (\<lambda>(initial_list, _).
         Inr (initial_list, \<lambda>t. client_events (drop 1 (stream t))))))"

definition client_notify_user ::
  "string \<Rightarrow> ('s, 'st) dial \<Rightarrow> endpoint_config \<Rightarrow> string \<Rightarrow> string \<Rightarrow> string \<Rightarrow> string \<Rightarrow> string \<Rightarrow> string \<Rightarrow>
   ('s, string) sresult" where
  "client_notify_user hostname dial ac vm_name event title urgency icon message =
     (let origin_and_event = ''['' @ hostname @ ''] '' @ event;
          urgency_level = (case urgency_of urgency of UrgencyLow \<Rightarrow> 0 | UrgencyNormal \<Rightarrow> 1 | UrgencyCritical \<Rightarrow> 2)
      in call_admin dial ac (\<lambda>c. rpc_notify_user c vm_name (Some
           \<lparr>un_event = origin_and_event, un_title = title, un_urgency = urgency_level, un_icon = icon,
            un_message = message\<rparr>)))"

definition client_list_generations :: "('s, 'st) dial \<Rightarrow> endpoint_config \<Rightarrow> ('s, pb_generation list) sresult" where
  "client_list_generations dial ac = call_admin dial ac rpc_list_generations"

text \<open>The lines \<open>set_generation_cachix\<close> logs are part of its result.\<close>

definition client_set_generation_cachix ::
  "(status \<Rightarrow> string) \<Rightarrow> ('s, 'st) dial \<Rightarrow> endpoint_config \<Rightarrow> string \<Rightarrow> string option \<Rightarrow> string \<Rightarrow> string option \<Rightarrow>
   ('s, unit result \<times> string list) sresult" where
  "client_set_generation_cachix show dial ac pin server cache token =
     sbind (call_admin dial ac (\<lambda>c. rpc_set_generation c (UpdateCachix
              \<lparr>cx_pin = pin, cx_cachix_host = server, cx_cache = cache, cx_token = token\<rparr>)))
       (\<lambda>stream. sret (client_set_generation show stream []))"

definition client_ctap ::
  "(status \<Rightarrow> string) \<Rightarrow> ('s, 'st) dial \<Rightarrow> endpoint_config \<Rightarrow> string \<Rightarrow> string list \<Rightarrow> string \<Rightarrow> ('s, string) sresult" where
  "client_ctap show dial ac req args payload =
     sbind (connect_to dial ac) (\<lambda>client.
       plain_err show (rpc_ctap client \<lparr>ct_req = req, ct_args = args, ct_payload = payload\<rparr>))"

section \<open>What a client relies on\<close>

text \<open>A connection to an endpoint is one to the service behind \<open>api\<close>, or it fails.\<close>

definition reaches :: "('s, 'st) dial \<Rightarrow> endpoint_config \<Rightarrow> ('s, 'st) admin_api \<Rightarrow> bool" where
  "reaches dial ac api = (case dial ac of Inr api' \<Rightarrow> api' = api | Inl _ \<Rightarrow> True)"

text \<open>
  The contract of the interface: no procedure leaves the states \<open>I\<close>. What a client does then
  stays in them too.
\<close>

locale admin_contract =
  fixes api :: "('s, 'st) admin_api" and I :: "'s \<Rightarrow> bool"
  assumes register_service: "I s \<Longrightarrow> I (snd (rpc_register_service api rr s))"
    and start_application: "I s \<Longrightarrow> I (snd (rpc_start_application api ar s))"
    and start_vm: "I s \<Longrightarrow> I (snd (rpc_start_vm api vm s))"
    and start_service: "I s \<Longrightarrow> I (snd (rpc_start_service api sr s))"
    and stop_service: "I s \<Longrightarrow> I (snd (rpc_stop_service api sr s))"
    and pause_application: "I s \<Longrightarrow> I (snd (rpc_pause_application api ar s))"
    and resume_application: "I s \<Longrightarrow> I (snd (rpc_resume_application api ar s))"
    and stop_application: "I s \<Longrightarrow> I (snd (rpc_stop_application api ar s))"
    and set_locale: "I s \<Longrightarrow> I (snd (rpc_set_locale api las s))"
    and set_timezone: "I s \<Longrightarrow> I (snd (rpc_set_timezone api tz s))"
    and poweroff: "I s \<Longrightarrow> I (snd (rpc_poweroff api s))"
    and reboot: "I s \<Longrightarrow> I (snd (rpc_reboot api s))"
    and suspend: "I s \<Longrightarrow> I (snd (rpc_suspend api s))"
    and wakeup: "I s \<Longrightarrow> I (snd (rpc_wakeup api s))"
    and get_unit_status: "I s \<Longrightarrow> I (snd (rpc_get_unit_status api u vm s))"
    and get_stats: "I s \<Longrightarrow> I (snd (rpc_get_stats api vm s))"
    and query_list: "I s \<Longrightarrow> I (snd (rpc_query_list api s))"
    and watch: "I s \<Longrightarrow> I (snd (rpc_watch api s))"
    and list_generations: "I s \<Longrightarrow> I (snd (rpc_list_generations api s))"
    and set_generation: "I s \<Longrightarrow> I (snd (rpc_set_generation api up s))"
    and notify_user: "I s \<Longrightarrow> I (snd (rpc_notify_user api vm n s))"
    and ctap: "I s \<Longrightarrow> I (snd (rpc_ctap api ct s))"
    and sysinfo: "I s \<Longrightarrow> I (snd (rpc_sysinfo api s))"
begin

lemmas procedures = register_service start_application start_vm start_service stop_service
  pause_application resume_application stop_application set_locale set_timezone poweroff reboot
  suspend wakeup get_unit_status get_stats query_list watch list_generations set_generation
  notify_user ctap sysinfo

lemma keeps_rewrapped: "(\<And>s. I s \<Longrightarrow> I (snd (f s))) \<Longrightarrow> preserves I (rewrapped f)"
  by (simp add: preserves_def rewrapped_def split_beta)

lemma keeps_plain_err: "(\<And>s. I s \<Longrightarrow> I (snd (f s))) \<Longrightarrow> preserves I (plain_err show f)"
  unfolding preserves_def plain_err_def by (auto split: prod.splits sum.splits) (metis snd_conv)+

lemma keeps_connected:
  assumes "reaches dial ac api" and "preserves I (g api)"
  shows "preserves I (sbind (connect_to dial ac) g)"
  using assms unfolding connect_to_def reaches_def by (intro preserves_sread_bind) simp

lemma keeps_call:
  assumes "reaches dial ac api" and "\<And>s. I s \<Longrightarrow> I (snd (f api s))"
  shows "preserves I (call_admin dial ac f)" "preserves I (call_admin_unit dial ac f)"
  unfolding call_admin_unit_def call_admin_def
  by (intro preserves_rules keeps_connected [OF assms(1)] keeps_rewrapped assms(2), assumption)+

lemma client_keeps [preserves_rules]:
  assumes "reaches dial ac api"
  shows "preserves I (client_register_service show dial ac name ty ep status)"
    "preserves I (client_start_app dial ac app vm args)"
    "preserves I (client_start_vm dial ac vm)"
    "preserves I (client_start_service dial ac service vm)"
    "preserves I (client_stop_service dial ac service vm)"
    "preserves I (client_stop dial ac app)"
    "preserves I (client_pause dial ac app)"
    "preserves I (client_resume dial ac app)"
    "preserves I (client_get_status dial ac vm u)"
    "preserves I (client_reboot dial ac)"
    "preserves I (client_poweroff dial ac)"
    "preserves I (client_suspend dial ac)"
    "preserves I (client_wakeup dial ac)"
    "preserves I (client_sysinfo dial ac)"
    "preserves I (client_query_results dial ac)"
    "preserves I (client_query dial ac by names)"
    "preserves I (client_set_locales dial ac las)"
    "preserves I (client_set_locale dial ac l)"
    "preserves I (client_set_timezone dial ac tz)"
    "preserves I (client_get_stats dial ac vm)"
    "preserves I (client_open_watch dial ac)"
    "preserves I (client_notify_user hostname dial ac vm event title urgency icon message)"
    "preserves I (client_list_generations dial ac)"
    "preserves I (client_set_generation_cachix show dial ac pin server cache token)"
    "preserves I (client_ctap show dial ac req args payload)"
  unfolding client_register_service_def client_start_app_def client_start_vm_def client_start_service_def
    client_stop_service_def client_stop_def client_pause_def client_resume_def client_get_status_def
    client_reboot_def client_poweroff_def client_suspend_def client_wakeup_def client_sysinfo_def
    client_query_def client_query_results_def client_set_locale_def client_set_locales_def
    client_set_timezone_def client_get_stats_def client_open_watch_def client_notify_user_def
    client_list_generations_def client_set_generation_cachix_def client_ctap_def Let_def
  by (intro preserves_rules keeps_connected [OF assms] keeps_plain_err keeps_call [OF assms] procedures, assumption?)+

end

section \<open>The server keeps the contract\<close>

lemma answer_state [simp]: "snd (answer ag h req a) = snd (h req a)"
  by (auto simp: answer_def escalate_def split: prod.splits sum.splits error.splits)

lemma register_service_rpc_state [simp]: "snd (register_service_rpc ag req a) = snd (register_service req a)"
  by (auto simp: register_service_rpc_def split: prod.splits sum.splits error.splits)

lemma sbind_sread_state [simp]: "snd (sbind m (\<lambda>x. sread (f x)) a) = snd (m a)"
  "snd (sbind m (\<lambda>x. sret (g x)) a) = snd (m a)"
  by (auto simp: sresult_defs split: prod.splits sum.splits)

lemma on_world_step: "admin_step call a (snd (on_world f a))"
  using as_world [of call a "snd (f (ad_world a))"] by (simp add: on_world_def split_beta)

lemma forwarded_step:
  "(admin_step call)\<^sup>*\<^sup>* a (snd (sbind (sread ep) (\<lambda>ec. on_world (f ec)) a))"
  "(admin_step call)\<^sup>*\<^sup>* a (snd (sbind (scontext c (sread ep)) (\<lambda>ec. on_world (f ec)) a))"
  by (auto simp: sbind_def sread_def scontext_def intro: on_world_step split: sum.splits)

lemma handler_states [simp]:
  "snd (list_generations show connect from_json a) = a" "snd (set_generation show connect up a) = a"
  "snd (query_list a) = a" "snd (watch_handler a) = a" "snd (wakeup_rpc a) = a"
  by (simp_all add: list_generations_def set_generation_def query_list_def watch_handler_def wakeup_rpc_def
      sresult_defs split: sum.splits update_request.splits)

lemma procedure_steps:
  fixes ag :: "('w, 'st, 'b) agents"
  defines "api \<equiv> admin_api_of ag" and "steps \<equiv> (admin_step (ag_units ag))\<^sup>*\<^sup>*"
  shows "steps a (snd (rpc_register_service api rr a))"
    "steps a (snd (rpc_start_application api ar a))" "steps a (snd (rpc_start_vm api vm a))"
    "steps a (snd (rpc_start_service api sr a))" "steps a (snd (rpc_stop_service api sr a))"
    "steps a (snd (rpc_pause_application api ar a))" "steps a (snd (rpc_resume_application api ar a))"
    "steps a (snd (rpc_stop_application api ar a))" "steps a (snd (rpc_set_locale api las a))"
    "steps a (snd (rpc_set_timezone api tz a))" "steps a (snd (rpc_poweroff api a))"
    "steps a (snd (rpc_reboot api a))" "steps a (snd (rpc_suspend api a))"
    "steps a (snd (rpc_wakeup api a))" "steps a (snd (rpc_get_unit_status api u vm a))"
    "steps a (snd (rpc_get_stats api vm a))" "steps a (snd (rpc_query_list api a))"
    "steps a (snd (rpc_watch api a))" "steps a (snd (rpc_list_generations api a))"
    "steps a (snd (rpc_set_generation api up a))" "steps a (snd (rpc_notify_user api vm n a))"
    "steps a (snd (rpc_ctap api ct a))" "steps a (snd (rpc_sysinfo api a))"
  unfolding api_def steps_def admin_api_of_def admin_api.simps
  by (auto simp: start_application_rpc_def start_vm_rpc_def start_service_rpc_def stop_service_rpc_def
      application_rpc_def set_locale_rpc_def set_timezone_rpc_def set_generation_rpc_def get_stats_def
      notify_user_handler_def notify_user_def ctap_handler_def get_sysinfo_def poweroff_def reboot_def suspend_def
      intro: admin_step.intros forwarded_step)

text \<open>
  Every procedure is a step of the service: whatever a client asks for, the service stays in the
  states its steps reach.
\<close>

interpretation srv: admin_contract "admin_api_of ag" "(admin_step (ag_units ag))\<^sup>*\<^sup>* a\<^sub>0"
  for ag :: "('w, 'st, 'b) agents" and a\<^sub>0 :: "'w admin"
  by unfold_locales (erule rtranclp_trans, rule procedure_steps)+

end
