(* ===== verification/Givc_Cli.thy ===== *)
theory Givc_Cli
  imports Admin_Rpc Nix_Update
begin

text \<open>
  The command line of the admin service (\<open>crates/admin/src/bin/givc-cli.rs\<close>): its commands, as clap
  delivers them, carried out through the methods of \<open>AdminClient\<close>. What is printed is kept as
  the values printed; their debug text is not modelled.
\<close>

section \<open>Commands\<close>

datatype start_sub =
    StartSub_App string string "string list"
  | StartSub_Vm string
  | StartSub_Service string string

datatype stop_sub =
    StopSub_App string
  | StopSub_Service string string

record cachix_options =
  co_pin_name :: string
  co_token :: "string option"
  co_cache :: string
  co_cachix_host :: "string option"

datatype update_sub =
    UpdateSub_Query query_updates_args
  | UpdateSub_List
  | UpdateSub_Cachix cachix_options

record notification =
  nt_vm :: string
  nt_event :: string
  nt_title :: string
  nt_urgency :: string
  nt_icon :: string
  nt_message :: string

record test_ensure =
  te_retry :: int
  te_service :: string
  te_type :: "unit_type option"
  te_vm :: "string option"

datatype commands =
    Start start_sub
  | Stop stop_sub
  | Pause string
  | Resume string
  | Reboot
  | Poweroff
  | Suspend
  | Wakeup
  | Sysinfo
  | CmdQuery bool "u32 option" "string list"
  | CmdQueryList bool
  | GetStatus string string
  | SetLocale "string list"
  | SetTimezone string
  | GetStats string
  | CmdWatch bool bool "u32 option"
  | NotifyUser notification
  | CmdUpdate update_sub
  | Test test_ensure
  | Ctap string

record cli_args =
  ca_addr :: string
  ca_port :: u16
  ca_name :: string
  ca_vsock :: "string option"
  ca_cacert :: "string option"
  ca_cert :: "string option"
  ca_key :: "string option"
  ca_notls :: bool
  ca_command :: commands

section \<open>Arguments\<close>

definition unit_type_parse :: "string \<Rightarrow> unit_type result" where
  "unit_type_parse s = rbind (ok_or (parse_u32 s) (Msg ''invalid digit found in string'')) unit_type_try_from"

definition optional_bool_to_display :: "bool option \<Rightarrow> string" where
  "optional_bool_to_display state =
     (case state of Some True \<Rightarrow> ''enabled'' | Some False \<Rightarrow> ''disabled'' | None \<Rightarrow> ''unknown'')"

text \<open>
  The expression of \<open>parse_locales\<close> is, character for character, that of \<open>Validator::validate_locale\<close>.
\<close>

fun parse_assigns :: "locale_assignment list \<Rightarrow> bool \<Rightarrow> string list \<Rightarrow> locale_assignment list result" where
  "parse_assigns parsed_assigns has_lang [] =
     (if has_lang then Inr parsed_assigns
      else Inl (Msg ''At least one of LANG or LC_ALL assignment is required''))"
| "parse_assigns parsed_assigns has_lang (assign # rest) =
     rbind (ok_or (split_once CHR ''='' assign)
              (Msg (''Invalid locale assignment format: '' @ quoted assign))) (\<lambda>(key, val).
     rbind (ok_or (from_str_name key) (Msg (''Unknown locale key: '' @ quoted key))) (\<lambda>key_enum.
     rbind (ensure (re_match locale_regex val) (''Invalid locale value in '' @ quoted assign)) (\<lambda>_.
       if key_enum = LC_ALL
       then Inr [\<lparr>la_key = locale_key_i32 LC_ALL, la_value = val\<rparr>]
       else parse_assigns (parsed_assigns @ [\<lparr>la_key = locale_key_i32 key_enum, la_value = val\<rparr>])
              (has_lang \<or> key_enum = LANG) rest)))"

definition parse_locales :: "string list \<Rightarrow> locale_assignment list result" where
  "parse_locales locale_assigns =
     (case locale_assigns of
        [] \<Rightarrow> Inl (Msg ''No locale assignments provided'')
      | first # _ \<Rightarrow>
          if re_match locale_regex first
          then Inr [\<lparr>la_key = locale_key_i32 LANG, la_value = first\<rparr>]
          else parse_assigns [] False locale_assigns)"

definition cli_tls :: "cli_args \<Rightarrow> (string \<times> tls_config) option result" where
  "cli_tls cli =
     (if ca_notls cli then Inr None
      else rbind (ok_or (ca_cacert cli) (Panic ''cacert is required'')) (\<lambda>cacert.
           rbind (ok_or (ca_cert cli) (Panic ''cert is required'')) (\<lambda>cert.
           rbind (ok_or (ca_key cli) (Panic ''key is required'')) (\<lambda>key.
             Inr (Some (ca_name cli,
               \<lparr>tls_ca_cert_file_path = cacert, tls_cert_file_path = cert, tls_key_file_path = key,
                tls_tls_name = Some (ca_name cli)\<rparr>))))))"

definition cli_endpoint :: "u32 \<Rightarrow> u32 \<Rightarrow> cli_args \<Rightarrow> endpoint_config result" where
  "cli_endpoint cid_local cid_host cli =
     rbind (cli_tls cli) (\<lambda>tls.
       case ca_vsock cli of
         Some vsock \<Rightarrow>
           rbind (parse_vsock_addr cid_local cid_host vsock) (\<lambda>(cid, port).
             Inr (admin_client_endpoint (Vsock cid port) tls))
       | None \<Rightarrow> Inr (admin_client_new (ca_addr cli) (ca_port cli) tls))"

section \<open>The commands at work\<close>

text \<open>
  The environment: connections, the text of a status, the host name, the standard input, the
  JSON text of what is dumped, the update server, what others do to the service until the
  \<open>n\<close>-th tick of a test and until the stream of a watch breaks off, and the two vsock constants.
\<close>

record ('s, 'st) cli_env =
  ce_dial :: "('s, 'st) dial"
  ce_show :: "status \<Rightarrow> string"
  ce_hostname :: string
  ce_stdin :: "string result"
  ce_results_json :: "query_result list \<Rightarrow> string result"
  ce_event_json :: "event \<Rightarrow> string result"
  ce_http :: "string \<Rightarrow> response result"
  ce_updates_json :: "update_info list \<Rightarrow> string result"
  ce_tick :: "nat \<Rightarrow> 's \<Rightarrow> 's"
  ce_until :: "'s \<Rightarrow> 's"
  ce_cid_local :: u32
  ce_cid_host :: u32

datatype 'st printed =
    PrintStarted string
  | PrintResults "query_result list"
  | PrintEvent event
  | PrintStatus pb_unit_status
  | PrintStats 'st
  | PrintGenerations "pb_generation list"
  | PrintNotified string
  | PrintLine string
  | PrintBytes string
  | PrintLog string

record ('s, 'st) cli_state =
  cs_service :: 's
  cs_out :: "'st printed list"

definition on_admin :: "('s, 'a) sresult \<Rightarrow> (('s, 'st) cli_state, 'a) sresult" where
  "on_admin f c = (case f (cs_service c) of (r, s) \<Rightarrow> (r, c\<lparr>cs_service := s\<rparr>))"

definition print :: "'st printed list \<Rightarrow> (('s, 'st) cli_state, unit) sresult" where
  "print ps = smodify (\<lambda>c. c\<lparr>cs_out := cs_out c @ ps\<rparr>)"

definition dump :: "('q \<Rightarrow> string result) \<Rightarrow> ('q \<Rightarrow> 'st printed) \<Rightarrow> bool \<Rightarrow> 'q \<Rightarrow> (('s, 'st) cli_state, unit) sresult" where
  "dump to_json debug as_json qr =
     (if as_json then sbind (sread (\<lambda>_. to_json qr)) (\<lambda>js. print [PrintLine js])
      else print [debug qr])"

definition start_cmd :: "('s, 'st) cli_env \<Rightarrow> endpoint_config \<Rightarrow> start_sub \<Rightarrow> (('s, 'st) cli_state, unit) sresult" where
  "start_cmd env admin self =
     sbind (on_admin (case self of
         StartSub_App app vm args \<Rightarrow> client_start_app (ce_dial env) admin app vm args
       | StartSub_Vm vm \<Rightarrow> client_start_vm (ce_dial env) admin vm
       | StartSub_Service servicename vm \<Rightarrow> client_start_service (ce_dial env) admin servicename vm))
     (\<lambda>response. print [PrintStarted response])"

definition stop_cmd :: "('s, 'st) cli_env \<Rightarrow> endpoint_config \<Rightarrow> stop_sub \<Rightarrow> (('s, 'st) cli_state, unit) sresult" where
  "stop_cmd env admin self =
     on_admin (case self of
         StopSub_App app \<Rightarrow> client_stop (ce_dial env) admin app
       | StopSub_Service servicename vm \<Rightarrow> client_stop_service (ce_dial env) admin servicename vm)"

text \<open>The loop of \<open>Test::handle\<close>; \<open>i\<close> counts the ticks.\<close>

fun ensure_loop ::
  "('s, 'st) cli_env \<Rightarrow> endpoint_config \<Rightarrow> test_ensure \<Rightarrow> nat \<Rightarrow> nat \<Rightarrow> ('s, unit) sresult" where
  "ensure_loop env admin t i 0 = sfail (Msg (''test failed '' @ quoted (te_service t) @ '' not registered''))"
| "ensure_loop env admin t i (Suc n) =
     sbind (smodify (ce_tick env i)) (\<lambda>_.
     sbind (client_query_results (ce_dial env) admin) (\<lambda>list.
       case find (\<lambda>r. qr_name r = te_service t) list of
         Some r \<Rightarrow>
           if is_some_and (te_type t) (\<lambda>ty. ut_vm ty \<noteq> qr_vm_type r \<or> ut_service ty \<noteq> qr_service_type r)
           then sfail (Msg (''test failed '' @ quoted (te_service t) @ '' registered but of wrong type''))
           else if te_vm t \<noteq> None \<and> te_vm t \<noteq> qr_vm_name r
           then sfail (Msg (''test failed '' @ quoted (te_service t) @ '' registered but on wrong VM''))
           else sret ()
       | None \<Rightarrow> ensure_loop env admin t (Suc i) n))"

definition test_handle :: "('s, 'st) cli_env \<Rightarrow> endpoint_config \<Rightarrow> test_ensure \<Rightarrow> (('s, 'st) cli_state, unit) sresult" where
  "test_handle env admin t = on_admin (ensure_loop env admin t 0 (nat (te_retry t)))"

definition update_handle ::
  "('s, 'st) cli_env \<Rightarrow> endpoint_config \<Rightarrow> update_sub \<Rightarrow> (('s, 'st) cli_state, unit) sresult" where
  "update_handle env admin self =
     (case self of
        UpdateSub_Query query \<Rightarrow>
          sbind (sread (\<lambda>_. query_updates (ce_http env) (ce_updates_json env) query)) (\<lambda>ls. print (map PrintLine ls))
      | UpdateSub_List \<Rightarrow>
          sbind (on_admin (client_list_generations (ce_dial env) admin)) (\<lambda>response. print [PrintGenerations response])
      | UpdateSub_Cachix options \<Rightarrow>
          sbind (on_admin (client_set_generation_cachix (ce_show env) (ce_dial env) admin (co_pin_name options)
                   (co_cachix_host options) (co_cache options) (co_token options))) (\<lambda>(r, logged).
          sbind (print (map PrintLog logged)) (\<lambda>_. sread (\<lambda>_. r))))"

definition ctap_cmd :: "('s, 'st) cli_env \<Rightarrow> endpoint_config \<Rightarrow> string \<Rightarrow> (('s, 'st) cli_state, unit) sresult" where
  "ctap_cmd env admin operation =
     sbind (sread (\<lambda>_. ce_stdin env)) (\<lambda>payload.
       let (op, args) = (case split_once CHR ''+'' operation of
             Some (op, args) \<Rightarrow> (op, [args]) | None \<Rightarrow> (operation, []))
       in sbind (on_admin (client_ctap (ce_show env) (ce_dial env) admin op args payload)) (\<lambda>output.
            print [PrintBytes output]))"

definition notify_user_cmd ::
  "('s, 'st) cli_env \<Rightarrow> endpoint_config \<Rightarrow> notification \<Rightarrow> (('s, 'st) cli_state, unit) sresult" where
  "notify_user_cmd env admin n =
     sbind (on_admin (client_notify_user (ce_hostname env) (ce_dial env) admin (nt_vm n) (nt_event n) (nt_title n)
              (nt_urgency n) (nt_icon n) (nt_message n))) (\<lambda>reply. print [PrintNotified reply])"

definition sysinfo_cmd :: "('s, 'st) cli_env \<Rightarrow> endpoint_config \<Rightarrow> (('s, 'st) cli_state, unit) sresult" where
  "sysinfo_cmd env admin =
     sbind (on_admin (client_sysinfo (ce_dial env) admin)) (\<lambda>status.
       print [PrintLine (''Ghaf Version: '' @ sy_ghaf_version status),
              PrintLine (''Secure Boot: '' @ optional_bool_to_display (sy_secure_boot status)),
              PrintLine (''Disk Encryption: '' @ optional_bool_to_display (sy_disk_encrypted status))])"

text \<open>
  The loop of a watch over the events the channel delivers before it is closed; without a limit it
  ends only then.
\<close>

fun watch_loop ::
  "('s, 'st) cli_env \<Rightarrow> bool \<Rightarrow> nat option \<Rightarrow> event list \<Rightarrow> (('s, 'st) cli_state, unit) sresult" where
  "watch_loop env as_json (Some 0) evs = sret ()"
| "watch_loop env as_json limit [] = sfail (Msg ''receiving from an empty and closed channel'')"
| "watch_loop env as_json limit (ev # evs) =
     sbind (dump (ce_event_json env) PrintEvent as_json ev) (\<lambda>_.
       watch_loop env as_json (map_option (\<lambda>l. l - 1) limit) evs)"

definition watch_cmd ::
  "('s, 'st) cli_env \<Rightarrow> endpoint_config \<Rightarrow> bool \<Rightarrow> bool \<Rightarrow> u32 option \<Rightarrow> (('s, 'st) cli_state, unit) sresult" where
  "watch_cmd env admin as_json dump_initial limit =
     sbind (on_admin (client_open_watch (ce_dial env) admin)) (\<lambda>(initial_list, channel).
     sbind (if dump_initial then dump (ce_results_json env) PrintResults as_json initial_list else sret ()) (\<lambda>_.
     sbind (on_admin (sbind (smodify (ce_until env)) (\<lambda>_. sread (\<lambda>s. Inr (channel s))))) (\<lambda>evs.
       watch_loop env as_json (map_option unat limit) evs)))"

definition run_command :: "('s, 'st) cli_env \<Rightarrow> endpoint_config \<Rightarrow> commands \<Rightarrow> (('s, 'st) cli_state, unit) sresult" where
  "run_command env admin command =
     (case command of
        Test test \<Rightarrow> test_handle env admin test
      | Start start \<Rightarrow> start_cmd env admin start
      | Stop stop \<Rightarrow> stop_cmd env admin stop
      | Pause app \<Rightarrow> on_admin (client_pause (ce_dial env) admin app)
      | Resume app \<Rightarrow> on_admin (client_resume (ce_dial env) admin app)
      | Reboot \<Rightarrow> on_admin (client_reboot (ce_dial env) admin)
      | Poweroff \<Rightarrow> on_admin (client_poweroff (ce_dial env) admin)
      | Suspend \<Rightarrow> on_admin (client_suspend (ce_dial env) admin)
      | Wakeup \<Rightarrow> on_admin (client_wakeup (ce_dial env) admin)
      | Sysinfo \<Rightarrow> sysinfo_cmd env admin
      | CmdQuery as_json type_filter name_filter \<Rightarrow>
          sbind (sread (\<lambda>_. case type_filter of
              Some x \<Rightarrow> rbind (unit_type_try_from x) (\<lambda>ty. Inr (Some ty)) | None \<Rightarrow> Inr None)) (\<lambda>ty.
          sbind (on_admin (client_query (ce_dial env) admin ty name_filter)) (\<lambda>reply.
            dump (ce_results_json env) PrintResults as_json reply))
      | CmdQueryList as_json \<Rightarrow>
          sbind (on_admin (client_query_results (ce_dial env) admin)) (\<lambda>reply.
            dump (ce_results_json env) PrintResults as_json reply)
      | GetStatus vm_name unit_name \<Rightarrow>
          sbind (on_admin (client_get_status (ce_dial env) admin vm_name unit_name)) (\<lambda>reply. print [PrintStatus reply])
      | SetLocale locales \<Rightarrow>
          sbind (sread (\<lambda>_. parse_locales locales)) (\<lambda>assigns.
            on_admin (client_set_locales (ce_dial env) admin assigns))
      | SetTimezone timezone \<Rightarrow> on_admin (client_set_timezone (ce_dial env) admin timezone)
      | GetStats vm_name \<Rightarrow>
          sbind (on_admin (client_get_stats (ce_dial env) admin vm_name)) (\<lambda>reply. print [PrintStats reply])
      | CmdWatch as_json dump_initial limit \<Rightarrow> watch_cmd env admin as_json dump_initial limit
      | Ctap op \<Rightarrow> ctap_cmd env admin op
      | NotifyUser n \<Rightarrow> notify_user_cmd env admin n
      | CmdUpdate update \<Rightarrow> update_handle env admin update)"

definition cli_main :: "('s, 'st) cli_env \<Rightarrow> cli_args \<Rightarrow> (('s, 'st) cli_state, unit) sresult" where
  "cli_main env cli =
     sbind (sread (\<lambda>_. cli_endpoint (ce_cid_local env) (ce_cid_host env) cli)) (\<lambda>admin.
       run_command env admin (ca_command cli))"

section \<open>The command line keeps the contract\<close>

lemma preserves_on_admin [preserves_rules]:
  "preserves I f \<Longrightarrow> preserves (\<lambda>c. I (cs_service c)) (on_admin f)"
  by (simp add: preserves_def on_admin_def split_beta)

lemma preserves_print [preserves_rules]: "preserves (\<lambda>c. I (cs_service c)) (print ps)"
  by (simp add: preserves_def print_def smodify_def)

lemma preserves_dump [preserves_rules]: "preserves (\<lambda>c. I (cs_service c)) (dump to_json debug as_json qr)"
  unfolding dump_def by (intro preserves_rules)

lemma preserves_watch_loop [preserves_rules]: "preserves (\<lambda>c. I (cs_service c)) (watch_loop env as_json limit evs)"
  by (induction env as_json limit evs rule: watch_loop.induct) (simp_all add: preserves_rules)

text \<open>An environment in which every connection is one to \<open>api\<close>, and others keep \<open>I\<close> too.\<close>

definition cli_env_ok :: "('s, 'st) admin_api \<Rightarrow> ('s \<Rightarrow> bool) \<Rightarrow> ('s, 'st) cli_env \<Rightarrow> bool" where
  "cli_env_ok api I env =
     ((\<forall>ac. reaches (ce_dial env) ac api) \<and> (\<forall>i s. I s \<longrightarrow> I (ce_tick env i s)) \<and> (\<forall>s. I s \<longrightarrow> I (ce_until env s)))"

context admin_contract
begin

lemma keeps_others [preserves_rules]:
  assumes "cli_env_ok api I env"
  shows "preserves I (smodify (ce_tick env i))" "preserves I (smodify (ce_until env))"
  using assms by (simp_all add: cli_env_ok_def preserves_smodify)

lemma keeps_ensure_loop [preserves_rules]:
  assumes "cli_env_ok api I env"
  shows "preserves I (ensure_loop env admin t i n)"
proof (induction n arbitrary: i)
  case (Suc n)
  have "reaches (ce_dial env) admin api" using assms by (simp add: cli_env_ok_def)
  then show ?case unfolding ensure_loop.simps by (intro preserves_rules assms Suc)
qed (simp add: preserves_rules)

lemma keeps_run_command:
  assumes env: "cli_env_ok api I env"
  shows "preserves (\<lambda>c. I (cs_service c)) (run_command env admin command)"
proof -
  have r: "reaches (ce_dial env) admin api" using env by (simp add: cli_env_ok_def)
  note defs = run_command_def test_handle_def start_cmd_def stop_cmd_def sysinfo_cmd_def watch_cmd_def ctap_cmd_def
    notify_user_cmd_def update_handle_def Let_def
  show ?thesis unfolding defs
    by (cases command) (auto split: start_sub.splits stop_sub.splits update_sub.splits
        intro!: preserves_rules env r)
qed

lemma keeps_cli_main:
  assumes "cli_env_ok api I env" and "I (cs_service c)"
  shows "I (cs_service (snd (cli_main env cli c)))"
proof -
  have "preserves (\<lambda>c. I (cs_service c)) (cli_main env cli)"
    unfolding cli_main_def by (intro preserves_rules keeps_run_command assms(1))
  from preservesD [OF this assms(2)] show ?thesis .
qed

end

end
