(* ===== verification/Cli_Properties.thy ===== *)
theory Cli_Properties
  imports Givc_Cli Admin_Properties "HOL-Library.Code_Target_Nat"
begin

text \<open>
  The command line, the client and the service together: what a command does to the service,
  and what it reports of it. Each property is applied to a small service.
\<close>

section \<open>An example\<close>

text \<open>
  A service without units, whose agents report every unit as running, and a user without TLS; the
  agent of \<open>gui-vm\<close> registers before the second tick.
\<close>

definition cx_agents :: "(unit, unit, unit) agents" where
  "cx_agents =
     \<lparr>ag_units = ex_call (ex_running ''app@0.service''), ag_exec = (\<lambda>_. Inl (Msg ''no exec service'')),
      ag_stats = (\<lambda>_. sret ()), ag_sysinfo = (\<lambda>_. sfail (Msg ''no stats service'')),
      ag_notify = (\<lambda>_ _. sret ''ok''), ag_ctap = (\<lambda>_ _. sret []), ag_generations = (\<lambda>_. Inr []),
      ag_show = st_message, ag_written = (\<lambda>_ _. True), ag_lost = plain_status CodeCancelled []\<rparr>"

definition cx_env :: "(unit admin, unit) cli_env" where
  "cx_env =
     \<lparr>ce_dial = (\<lambda>_. Inr (admin_api_of cx_agents)), ce_show = st_message, ce_hostname = ''host'', ce_stdin = Inr [],
      ce_results_json = (\<lambda>_. Inr ''[]''), ce_event_json = (\<lambda>_. Inr ''null''), ce_http = (\<lambda>_. Inl (Msg ''offline'')),
      ce_updates_json = (\<lambda>_. Inr ''[]''),
      ce_tick = (\<lambda>i a. if i = 1 then snd (register_service ex_mgr_request a) else a),
      ce_until = (\<lambda>a. a), ce_cid_local = 1, ce_cid_host = 2\<rparr>"

definition cx_state :: "(unit admin, unit) cli_state" where
  "cx_state = \<lparr>cs_service = admin_new None None None (), cs_out = []\<rparr>"

definition cx_args :: "commands \<Rightarrow> cli_args" where
  "cx_args cmd =
     \<lparr>ca_addr = ''127.0.0.1'', ca_port = 9000, ca_name = ''admin.ghaf'', ca_vsock = None, ca_cacert = None, ca_cert = None,
      ca_key = None, ca_notls = True, ca_command = cmd\<rparr>"

definition cx_endpoint :: endpoint_config where
  "cx_endpoint = admin_client_new ''127.0.0.1'' 9000 None"

lemma cx_env_simps [simp]:
  "ce_dial cx_env ac = Inr (admin_api_of cx_agents)" "ce_until cx_env a = a"
  "ce_tick cx_env i a = (if i = 1 then snd (register_service ex_mgr_request a) else a)"
  "ag_written cx_agents f w" "cs_service cx_state = admin_new None None None ()"
  "cli_endpoint cid_local cid_host (cx_args cmd) = Inr cx_endpoint" "ca_command (cx_args cmd) = cmd"
  by (simp_all add: cx_env_def cx_agents_def cx_state_def cx_args_def cli_endpoint_def cli_tls_def cx_endpoint_def)

section \<open>From a command to the service\<close>

lemma answer_Inr: "h req a = (Inr r, b) \<Longrightarrow> answer ag h req a = (Inr r, b)"
  by (simp add: answer_def escalate_def)

lemma call_admin_Inr:
  assumes "dial ac = Inr api" and "f api a = (Inr r, b)"
  shows "call_admin dial ac f a = (Inr r, b)" "call_admin_unit dial ac f a = (Inr (), b)"
  using assms by (simp_all add: call_admin_unit_def call_admin_def connect_to_def rewrapped_def rewrap_err_def sresult_defs)

lemma client_query_server:
  assumes "dial ac = Inr (admin_api_of ag)"
  shows "client_query_results dial ac a = (Inr (map query_result_from (contents (ad_registry a))), a)"
proof -
  let ?items = "map (\<lambda>e. query_list_item_from (query_result_from e)) (contents (ad_registry a))"
  have "rpc_query_list (admin_api_of ag) a = (Inr ?items, a)"
    by (simp add: admin_api_of_def answer_Inr query_list_def sread_def)
  then have "call_admin dial ac rpc_query_list a = (Inr ?items, a)"
    using assms by (rule call_admin_Inr(1) [rotated])
  moreover have "client_query_list ?items = Inr (map query_result_from (contents (ad_registry a)))"
    using parse_list_items [of "map query_result_from (contents (ad_registry a))"]
    by (simp add: client_query_list_def parse_list_def comp_def)
  ultimately show ?thesis by (simp add: client_query_results_def sbind_def sread_def)
qed

section \<open>Locales\<close>

definition assigns_ok :: "locale_assignment list \<Rightarrow> bool" where
  "assigns_ok as =
     (list_all (\<lambda>x. validate_locale (la_value x) \<and> locale_key_try_from (la_key x) \<noteq> None) as \<and>
      list_ex (\<lambda>x. la_key x = locale_key_i32 LANG \<or> la_key x = locale_key_i32 LC_ALL) as)"

lemma key_i32_known [simp]: "locale_key_try_from (locale_key_i32 k) = Some k"
  using lki.parse_print [of k] by simp

declare parse_assigns.simps [simp del]

lemma parse_assigns_ok:
  assumes "parse_assigns acc has_lang args = Inr as"
    and "list_all (\<lambda>x. validate_locale (la_value x) \<and> locale_key_try_from (la_key x) \<noteq> None) acc"
    and "has_lang \<longrightarrow> list_ex (\<lambda>x. la_key x = locale_key_i32 LANG) acc"
  shows "assigns_ok as"
  using assms
proof (induction acc has_lang args rule: parse_assigns.induct)
  case (1 acc has_lang)
  then show ?case by (auto simp: parse_assigns.simps assigns_ok_def list_ex_iff split: if_splits)
next
  case (2 acc has_lang assign rest)
  from 2(2) obtain key val k where s: "split_once CHR ''='' assign = Some (key, val)" "from_str_name key = Some k"
    "re_match locale_regex val"
    and r: "(if k = LC_ALL then Inr [\<lparr>la_key = locale_key_i32 LC_ALL, la_value = val\<rparr>]
      else parse_assigns (acc @ [\<lparr>la_key = locale_key_i32 k, la_value = val\<rparr>]) (has_lang \<or> k = LANG) rest) = Inr as"
    unfolding parse_assigns.simps by (auto simp: rbind_Inr_iff)
  show ?case
  proof (cases "k = LC_ALL")
    case True
    then show ?thesis using r s(3) by (auto simp: assigns_ok_def validate_locale_def)
  next
    case False
    show ?thesis
      by (rule 2(1) [OF False])
        (use 2(3,4) r s(3) False in \<open>auto simp: validate_locale_def\<close>)
  qed
qed

lemma parse_locales_ok:
  assumes "parse_locales args = Inr as"
  shows "assigns_ok as"
proof (cases "\<exists>first rest. args = first # rest \<and> re_match locale_regex first")
  case True
  with assms show ?thesis by (auto simp: parse_locales_def assigns_ok_def validate_locale_def)
next
  case False
  then have "parse_assigns [] False args = Inr as"
    using assms by (cases args) (simp_all add: parse_locales_def)
  then show ?thesis by (rule parse_assigns_ok) simp_all
qed

text \<open>
  C24. Setting the locale from the command line: the command fails, and has asked the service for
  nothing, exactly when its arguments do not parse. Otherwise the service accepts the
  assignments, which name LANG or LC_ALL; they are in force then, and again after a restart.
\<close>

theorem cli_set_locale:
  assumes "admin_ok (cs_service c)" and "ca_command cli = SetLocale args"
    and "cli_endpoint (ce_cid_local env) (ce_cid_host env) cli = Inr ac"
    and "ce_dial env ac = Inr (admin_api_of ag)"
    and "ag_written ag ''/etc/locale-givc.conf'' (ad_world (cs_service c))"
  shows "case parse_locales args of
     Inl e \<Rightarrow> cli_main env cli c = (Inl e, c)
   | Inr as \<Rightarrow> \<exists>b. cli_main env cli c = (Inr (), c\<lparr>cs_service := b\<rparr>) \<and> ad_locale_assigns b = as \<and>
       list_ex (\<lambda>x. la_key x = locale_key_i32 LANG \<or> la_key x = locale_key_i32 LC_ALL) as \<and>
       ad_locale_assigns (admin_new tls (ad_locale_conf b) (ad_timezone_conf b) w) = as"
proof (cases "parse_locales args")
  case (Inl e)
  then show ?thesis
    using assms(2,3) by (simp add: cli_main_def run_command_def sbind_def sread_def)
next
  case (Inr as)
  then have ok: "assigns_ok as" by (rule parse_locales_ok)
  then have "as \<noteq> []" by (auto simp: assigns_ok_def)
  with ok obtain b where b: "set_locale True as (cs_service c) = (Inr (), b)" "ad_locale_assigns b = as"
    "read_locale_conf (ad_locale_conf b) = as"
    using set_locale_accepts [OF assms(1), of as True] by (auto simp: assigns_ok_def)
  have "rpc_set_locale (admin_api_of ag) as (cs_service c) = (Inr (), b)"
    by (simp add: admin_api_of_def set_locale_rpc_def answer_Inr b(1) assms(5))
  then have "client_set_locales (ce_dial env) ac as (cs_service c) = (Inr (), b)"
    unfolding client_set_locales_def
    by (rule call_admin_Inr(2) [where dial = "ce_dial env" and ac = ac, rotated]) (rule assms(4))
  then have "cli_main env cli c = (Inr (), c\<lparr>cs_service := b\<rparr>)"
    using assms(2,3) Inr by (simp add: cli_main_def run_command_def on_admin_def sbind_def sread_def)
  then show ?thesis using Inr ok b(2,3) by (auto simp: assigns_ok_def admin_new_def)
qed

theorem cli_set_locale_witness:
  "\<exists>b. cli_main cx_env (cx_args (SetLocale [''LANG=fi_FI.UTF-8'', ''LC_TIME=C''])) cx_state =
      (Inr (), cx_state\<lparr>cs_service := b\<rparr>) \<and>
    ad_locale_assigns (admin_new None (ad_locale_conf b) (ad_timezone_conf b) ()) =
      [\<lparr>la_key = 0, la_value = ''fi_FI.UTF-8''\<rparr>, \<lparr>la_key = 12, la_value = ''C''\<rparr>]"
proof -
  have "parse_locales [''LANG=fi_FI.UTF-8'', ''LC_TIME=C''] =
      Inr [\<lparr>la_key = 0, la_value = ''fi_FI.UTF-8''\<rparr>, \<lparr>la_key = 12, la_value = ''C''\<rparr>]"
    by code_simp
  moreover have "admin_ok (cs_service cx_state)" by simp
  ultimately show ?thesis
    using cli_set_locale [of cx_state "cx_args (SetLocale [''LANG=fi_FI.UTF-8'', ''LC_TIME=C''])"
        "[''LANG=fi_FI.UTF-8'', ''LC_TIME=C'']" cx_env cx_endpoint cx_agents None "()"]
    by auto
qed

section \<open>Tests\<close>

text \<open>The state of the service at the \<open>n\<close>-th poll of a test, counted from \<open>i\<close>.\<close>

primrec polled :: "('s, 'st) cli_env \<Rightarrow> nat \<Rightarrow> 's \<Rightarrow> nat \<Rightarrow> 's" where
  "polled env i s 0 = ce_tick env i s"
| "polled env i s (Suc n) = polled env (Suc i) (ce_tick env i s) n"

text \<open>An entry of the registry is the one a test asks for.\<close>

definition ensured :: "test_ensure \<Rightarrow> registry_entry \<Rightarrow> bool" where
  "ensured t e =
     ((\<forall>ty. te_type t = Some ty \<longrightarrow> ut_vm ty = ut_vm (re_type e) \<and> ut_service ty = ut_service (re_type e)) \<and>
      (te_vm t = None \<or> te_vm t = entry_vm_name e))"

lemma find_result:
  assumes "registry_ok r"
  shows "find (\<lambda>q. qr_name q = n) (map query_result_from (contents r)) =
    map_option query_result_from (hm_get (rg_map r) n)"
proof -
  have "find (\<lambda>q. qr_name q = n) (map query_result_from (map snd m)) =
      map_option query_result_from (map_of m n)"
    if "\<forall>(k, e) \<in> set m. re_name e = k" for m
    using that by (induction m) auto
  then show ?thesis using assms by (simp add: registry_ok_def contents_def hm_values_def hm_get_def)
qed

lemma ensure_loop_server:
  assumes "ce_dial env ac = Inr (admin_api_of ag)"
    and "\<And>j. j < n \<Longrightarrow> registry_ok (ad_registry (polled env i a j))"
  shows "fst (ensure_loop env ac t i n a) = Inr () \<longleftrightarrow>
    (\<exists>k < n. \<exists>e. hm_get (rg_map (ad_registry (polled env i a k))) (te_service t) = Some e \<and> ensured t e \<and>
      (\<forall>j < k. hm_get (rg_map (ad_registry (polled env i a j))) (te_service t) = None))"
  using assms(2)
proof (induction n arbitrary: i a)
  case 0
  then show ?case by (simp add: sfail_def)
next
  case (Suc n)
  let ?a = "ce_tick env i a"
  let ?get = "\<lambda>j. hm_get (rg_map (ad_registry (polled env i a j))) (te_service t)"
  have ok: "registry_ok (ad_registry ?a)" using Suc.prems [of 0] by simp
  have poll: "client_query_results (ce_dial env) ac ?a = (Inr (map query_result_from (contents (ad_registry ?a))), ?a)"
    by (rule client_query_server) (rule assms(1))
  show ?case
  proof (cases "?get 0")
    case None
    have "fst (ensure_loop env ac t i (Suc n) a) = fst (ensure_loop env ac t (Suc i) n ?a)"
      using None by (simp add: sbind_def smodify_def poll find_result [OF ok])
    also have "\<dots> = Inr () \<longleftrightarrow> (\<exists>k < n. \<exists>e. ?get (Suc k) = Some e \<and> ensured t e \<and> (\<forall>j < k. ?get (Suc j) = None))"
      unfolding polled.simps using Suc.prems [of "Suc _"] by (intro Suc.IH) simp
    also have "\<dots> \<longleftrightarrow> (\<exists>k < Suc n. \<exists>e. ?get k = Some e \<and> ensured t e \<and> (\<forall>j < k. ?get j = None))"
      using None by (simp only: Ex_less_Suc2 All_less_Suc2 not_less0 option.distinct simp_thms ex_simps)
    finally show ?thesis .
  next
    case (Some e)
    have "fst (ensure_loop env ac t i (Suc n) a) = Inr () \<longleftrightarrow> ensured t e"
      using Some
      by (auto simp: sbind_def smodify_def poll find_result [OF ok] ensured_def query_result_from_def sfail_def sret_def
          is_some_and_def split: option.splits)
    also have "\<dots> \<longleftrightarrow> (\<exists>k < Suc n. \<exists>e. ?get k = Some e \<and> ensured t e \<and> (\<forall>j < k. ?get j = None))"
      using Some by (simp add: Ex_less_Suc2 All_less_Suc2)
    finally show ?thesis .
  qed
qed

text \<open>
  C25. \<open>givc-cli test ensure\<close> succeeds exactly when one of its polls, at most \<open>retry\<close> of them, finds
  the service in the registry, and the entry it finds first is of the type and on the VM asked
  for. What happens to the service between the polls is arbitrary.
\<close>

theorem test_ensure_result:
  assumes "ce_dial env ac = Inr (admin_api_of ag)"
    and "\<And>j. registry_ok (ad_registry (polled env 0 (cs_service c) j))"
  shows "fst (run_command env ac (Test t) c) = Inr () \<longleftrightarrow>
    (\<exists>k < nat (te_retry t). \<exists>e.
      hm_get (rg_map (ad_registry (polled env 0 (cs_service c) k))) (te_service t) = Some e \<and> ensured t e \<and>
      (\<forall>j < k. hm_get (rg_map (ad_registry (polled env 0 (cs_service c) j))) (te_service t) = None))"
proof -
  have "fst (run_command env ac (Test t) c) = fst (ensure_loop env ac t 0 (nat (te_retry t)) (cs_service c))"
    by (simp add: run_command_def test_handle_def on_admin_def split_beta)
  then show ?thesis by (simp only: ensure_loop_server [of env ac ag, OF assms])
qed

lemma polled_ok:
  assumes "\<And>i a. admin_ok a \<Longrightarrow> admin_ok (ce_tick env i a)" and "admin_ok a"
  shows "admin_ok (polled env i a n)"
  using assms(2) by (induction n arbitrary: i a) (simp_all add: assms(1))

definition cx_test :: test_ensure where
  "cx_test = \<lparr>te_retry = 3, te_service = ''givc-gui-vm.service'', te_type = Some (unit_ty SysVM Mgr), te_vm = None\<rparr>"

theorem test_ensure_result_witness: "fst (run_command cx_env cx_endpoint (Test cx_test) cx_state) = Inr ()"
proof -
  let ?get = "\<lambda>k. hm_get (rg_map (ad_registry (polled cx_env 0 (cs_service cx_state) k))) (te_service cx_test)"
  have "admin_ok (ce_tick cx_env i a)" if "admin_ok a" for i a
    using preservesD [OF preserves_register_service that] that by simp
  then have "admin_ok (polled cx_env 0 (cs_service cx_state) j)" for j
    by (rule polled_ok) simp_all
  then have ok: "registry_ok (ad_registry (polled cx_env 0 (cs_service cx_state) j))" for j
    by (rule admin_okD)
  have "1 < nat (te_retry cx_test)" by code_simp
  moreover have "?get 0 = None" by code_simp
  moreover have "is_some_and (?get 1) (\<lambda>e. re_type e = unit_ty SysVM Mgr)" by code_simp
  moreover have "te_type cx_test = Some (unit_ty SysVM Mgr)" "te_vm cx_test = None" by (simp_all add: cx_test_def)
  ultimately show ?thesis
    unfolding test_ensure_result [OF cx_env_simps(1) ok] is_some_and_iff
    by (intro exI [where x = 1]) (auto simp: ensured_def)
qed

section \<open>Any command\<close>



end
