(* ===== verification/Givc_Programs.thy ===== *)
theory Givc_Programs
  imports Admin_Rpc Access_Control Policy_Push
begin

text \<open>
  The start of the two servers: \<open>bin/givc-admin.rs\<close>, which brings up the admin service with its TLS
  configuration and its access control, and \<open>bin/givc-agent.rs\<close>, which registers itself with it.
  The arguments are as clap delivers them, without those nothing reads; reading a file, the acceptance of a TLS configuration,
  binding the listeners, and parsing Cedar policies and addresses are parameters.
\<close>

section \<open>TLS\<close>

record start_env =
  se_read :: "string \<Rightarrow> string result"
  se_accept_tls :: "string \<Rightarrow> string \<Rightarrow> string \<Rightarrow> unit result"
  se_bind :: "unit result"
  se_parse_addr :: "string \<Rightarrow> unit result"

text \<open>\<open>TlsConfig::server_config\<close>: the authority, the certificate and the key that were read.\<close>

definition server_config :: "start_env \<Rightarrow> tls_config \<Rightarrow> (string \<times> string \<times> string) result" where
  "server_config env tls =
     rbind (se_read env (tls_ca_cert_file_path tls)) (\<lambda>ca_pem.
     rbind (se_read env (tls_cert_file_path tls)) (\<lambda>cert.
     rbind (se_read env (tls_key_file_path tls)) (\<lambda>key.
       Inr (ca_pem, cert, key))))"

text \<open>What both programs do when TLS is on; \<open>names\<close> are the texts of their errors.\<close>

definition server_tls ::
  "start_env \<Rightarrow> string \<times> string \<times> string \<Rightarrow> bool \<Rightarrow> string option \<Rightarrow> string option \<Rightarrow> string option \<Rightarrow>
   tls_config option result" where
  "server_tls env names use_tls ca_cert host_cert host_key =
     (if use_tls then
        rbind (ok_or ca_cert (Msg (fst names))) (\<lambda>ca.
        rbind (ok_or host_cert (Msg (fst (snd names)))) (\<lambda>cert.
        rbind (ok_or host_key (Msg (snd (snd names)))) (\<lambda>key.
          let tls = \<lparr>tls_ca_cert_file_path = ca, tls_cert_file_path = cert, tls_key_file_path = key,
                     tls_tls_name = None\<rparr> in
          rbind (server_config env tls) (\<lambda>(ca_pem, cert, key).
          rbind (se_accept_tls env ca_pem cert key) (\<lambda>_. Inr (Some tls))))))
      else Inr None)"

section \<open>The admin program\<close>

record admin_cli =
  al_use_tls :: bool
  al_ca_cert :: "string option"
  al_host_cert :: "string option"
  al_host_key :: "string option"
  al_monitoring :: bool
  al_policy_admin :: bool
  al_policy_config :: "string option"
  al_access_control :: bool
  al_cedar_file :: "string option"
  al_policy_store :: "string option"

text \<open>
  \<open>Authorizer::new\<close>; \<open>parse_policies\<close> gives the policies of a text, ready to decide. The message
  descriptors and the type names built into the program always decode.
\<close>

definition authorizer_new :: "start_env \<Rightarrow> (string \<Rightarrow> 'ce result) \<Rightarrow> string \<Rightarrow> 'ce result" where
  "authorizer_new env parse_policies acl_file =
     rbind (with_context (''Failed to read cedar policy file: '' @ acl_file) (se_read env acl_file)) (\<lambda>policy_text.
       with_context ''Failed to parse cedar policy'' (parse_policies policy_text))"

text \<open>
  \<open>new\<close> is \<open>AdminService::new\<close> for the machine at hand. The reflection service, which only
  describes the interface, is left out.
\<close>

definition givc_admin_main ::
  "start_env \<Rightarrow> (string \<Rightarrow> 'ce result) \<Rightarrow>
   (tls_config option \<Rightarrow> bool \<Rightarrow> bool \<Rightarrow> string option \<Rightarrow> string option \<Rightarrow> (disk, 'w admin_service) sresult) \<Rightarrow>
   admin_cli \<Rightarrow> (disk, 'w admin_service \<times> 'ce option) sresult" where
  "givc_admin_main env parse_policies new cli =
     sbind (sread (\<lambda>_. server_tls env (''CA_CERT required'', ''HOST_CERT required'', ''HOST_KEY required'')
              (al_use_tls cli) (al_ca_cert cli) (al_host_cert cli) (al_host_key cli))) (\<lambda>tls.
     sbind (new tls (al_monitoring cli) (al_policy_admin cli) (al_policy_store cli) (al_policy_config cli)) (\<lambda>admin_impl.
     sbind (sread (\<lambda>_. se_bind env)) (\<lambda>_.
     sbind (sread (\<lambda>_.
         if al_access_control cli then
           rbind (ok_or (al_cedar_file cli) (Msg ''Initialization failed: No Cedar policy file provided'')) (\<lambda>cedar_path.
           rbind (authorizer_new env parse_policies cedar_path) (\<lambda>authorizer. Inr (Some authorizer)))
         else Inr None)) (\<lambda>authorizer.
       sret (admin_impl, authorizer)))))"

lemma server_tls_Inr:
  "server_tls env names use_tls ca cert key = Inr tls \<Longrightarrow> tls \<noteq> None \<longleftrightarrow> use_tls"
  by (auto simp: server_tls_def rbind_Inr_iff Let_def split: if_splits)

text \<open>
  A service that has started is well-formed, has TLS exactly when it was asked for, and checks
  requests against policies it could read and parse exactly when access control was asked for.
\<close>

lemma givc_admin_main_ok:
  fixes env parse_policies cli from_json git g uenv lc tc
  assumes "givc_admin_main env parse_policies (admin_service_new from_json git g uenv lc tc w) cli d = (Inr (svc, ce), d')"
  shows "admin_ok (svc_inner svc) \<and> (ad_tls_config (svc_inner svc) \<noteq> None \<longleftrightarrow> al_use_tls cli) \<and>
    svc_monitoring svc = al_monitoring cli \<and> (svc_policy svc \<noteq> None \<longleftrightarrow> al_policy_admin cli) \<and>
    (if al_access_control cli
     then \<exists>path text p. al_cedar_file cli = Some path \<and> se_read env path = Inr text \<and> parse_policies text = Inr p \<and> ce = Some p
     else ce = None)"
proof -
  obtain tls d1 where tls: "server_tls env (''CA_CERT required'', ''HOST_CERT required'', ''HOST_KEY required'')
      (al_use_tls cli) (al_ca_cert cli) (al_host_cert cli) (al_host_key cli) = Inr tls"
    and new: "admin_service_new from_json git g uenv lc tc w tls (al_monitoring cli) (al_policy_admin cli)
      (al_policy_store cli) (al_policy_config cli) d = (Inr svc, d1)"
    and ce: "(if al_access_control cli then
           rbind (ok_or (al_cedar_file cli) (Msg ''Initialization failed: No Cedar policy file provided'')) (\<lambda>cedar_path.
           rbind (authorizer_new env parse_policies cedar_path) (\<lambda>authorizer. Inr (Some authorizer)))
         else Inr None) = Inr ce"
    using assms by (auto simp: givc_admin_main_def sbind_Inr)
  have "ad_tls_config (svc_inner svc) = tls" "svc_monitoring svc = al_monitoring cli"
    using new by (auto simp: admin_service_new_def sbind_Inr admin_new_def split: if_splits)
  moreover have "if al_access_control cli
     then \<exists>path text p. al_cedar_file cli = Some path \<and> se_read env path = Inr text \<and> parse_policies text = Inr p \<and> ce = Some p
     else ce = None"
    using ce by (auto simp: rbind_Inr_iff authorizer_new_def split: if_splits)
  ultimately show ?thesis using server_tls_Inr [OF tls] admin_service_new_ok [OF new] by auto
qed

section \<open>The agent program\<close>

record agent_cli =
  gl_name :: string
  gl_addr :: string
  gl_port :: u16
  gl_use_tls :: bool
  gl_type :: u32
  gl_ca_cert :: "string option"
  gl_host_cert :: "string option"
  gl_host_key :: "string option"
  gl_admin_server_addr :: string
  gl_admin_server_port :: u16
  gl_admin_server_name :: string

definition bogus_status :: unit_status where
  "bogus_status =
     \<lparr>us_name = ''bogus'', us_description = ''bogus'', us_load_state = ''bogus'', us_active_state = ''bogus'',
      us_sub_state = ''bogus'', us_path = ''bogus'', us_freezer_state = ''bogus''\<rparr>"

text \<open>The program up to the point where it serves.\<close>

definition givc_agent_main ::
  "start_env \<Rightarrow> (status \<Rightarrow> string) \<Rightarrow> ('s, 'st) dial \<Rightarrow> agent_cli \<Rightarrow> ('s, unit) sresult" where
  "givc_agent_main env show dial cli =
     sbind (sread (\<lambda>_. se_parse_addr env (gl_addr cli))) (\<lambda>_.
       let agent_service_name = agent_service (AppVm (gl_name cli)) in
     sbind (sread (\<lambda>_. server_tls env (''CA cert file required'', ''cert file required'', ''key file required'')
              (gl_use_tls cli) (gl_ca_cert cli) (gl_host_cert cli) (gl_host_key cli))) (\<lambda>tls.
       let endpoint = \<lparr>ee_address = Tcp (gl_addr cli) (gl_port cli), ee_tls_name = gl_name cli\<rparr>;
           admin_tls = map_option (\<lambda>tls. (gl_admin_server_name cli, tls)) tls;
           admin = admin_client_new (gl_admin_server_addr cli) (gl_admin_server_port cli) admin_tls in
     sbind (sread (\<lambda>_. unit_type_try_from (gl_type cli))) (\<lambda>ty.
       client_register_service show dial admin agent_service_name ty endpoint bogus_status)))"

text \<open>
  What the service records of a registration: the entry, and, when the reported status is not one
  of a unit, a task that asks for a better one.
\<close>

lemma register_service_records:
  assumes "registry_ok (ad_registry a)" and req: "registry_entry_try_from req = Inr e"
  shows "\<exists>b. register_service req a = (Inr (), b) \<and> ad_registry b = register e (ad_registry a) \<and>
    (\<not> is_valid (re_status e) \<longrightarrow> Task_monitor e \<in> set (ad_spawned b))"
proof -
  let ?b = "a\<lparr>ad_registry := register e (ad_registry a)\<rparr>"
  obtain ep vm where "re_placement e = Endpoint ep vm" using registry_entry_try_from_Inr(4) [OF req] by blast
  then obtain ec where ec: "\<And>x. agent_endpoint (re_name e) (?b\<lparr>ad_spawned := x\<rparr>) = Inr ec"
    using assms(1)
    by (simp add: agent_endpoint_def by_name_def register_get registry_okD endpoint_direct)
  from ec [of "ad_spawned a"] have "agent_endpoint (re_name e) ?b = Inr ec" by simp
  with ec req show ?thesis
    by (auto simp: register_service_def admin_register_def on_registry_def spawn_def sresult_defs)
qed

lemma client_register_server:
  assumes "dial ac = Inr (admin_api_of ag)" and "registry_ok (ad_registry a)" and "legal_unit_type ty"
  shows "\<exists>b e. client_register_service show dial ac name ty ep status a = (Inr (), b) \<and>
    hm_get (rg_map (ad_registry b)) name = Some e \<and> re_name e = name \<and> re_type e = ty \<and> re_status e = status \<and>
    re_placement e = Endpoint ep [] \<and> (\<not> is_valid status \<longrightarrow> Task_monitor e \<in> set (ad_spawned b))"
proof -
  let ?req = "client_register_request name ty ep status"
  obtain e where e: "registry_entry_try_from ?req = Inr e" "re_name e = name" "re_type e = ty" "re_status e = status"
    "re_placement e = Endpoint ep []"
    using client_register_entry [of name ty ep status] assms(3) by simp
  obtain b where "register_service ?req a = (Inr (), b)" "ad_registry b = register e (ad_registry a)"
    "\<not> is_valid (re_status e) \<longrightarrow> Task_monitor e \<in> set (ad_spawned b)"
    using register_service_records [OF assms(2) e(1)] by blast
  with e assms(1,2) show ?thesis
    by (auto simp: client_register_service_def connect_to_def plain_err_def admin_api_of_def register_service_rpc_def
        register_get sresult_defs)
qed

text \<open>
  An agent that has started is registered under its name, with an endpoint at its address; because
  it reports no real status, the service asks for one.
\<close>

lemma givc_agent_registered:
  assumes "givc_agent_main env show dial cli a = (Inr (), b)" and "registry_ok (ad_registry a)"
    and "\<And>ac. dial ac = Inr (admin_api_of ag)"
  shows "\<exists>e. hm_get (rg_map (ad_registry b)) (agent_service (AppVm (gl_name cli))) = Some e \<and>
    u32_from_unit_type (re_type e) = gl_type cli \<and>
    re_placement e = Endpoint \<lparr>ee_address = Tcp (gl_addr cli) (gl_port cli), ee_tls_name = gl_name cli\<rparr> [] \<and>
    Task_monitor e \<in> set (ad_spawned b)"
proof -
  obtain ty ac where ty: "unit_type_try_from (gl_type cli) = Inr ty"
    and reg: "client_register_service show dial ac (agent_service (AppVm (gl_name cli))) ty
      \<lparr>ee_address = Tcp (gl_addr cli) (gl_port cli), ee_tls_name = gl_name cli\<rparr> bogus_status a = (Inr (), b)"
    using assms(1) by (auto simp: givc_agent_main_def Let_def sbind_Inr)
  have legal: "legal_unit_type ty" "u32_from_unit_type ty = gl_type cli" using ut.print_parse [of "gl_type cli" ty] ty by simp_all
  have "\<not> is_valid bogus_status" by code_simp
  moreover obtain b' e where "client_register_service show dial ac (agent_service (AppVm (gl_name cli))) ty
      \<lparr>ee_address = Tcp (gl_addr cli) (gl_port cli), ee_tls_name = gl_name cli\<rparr> bogus_status a = (Inr (), b')"
    "hm_get (rg_map (ad_registry b')) (agent_service (AppVm (gl_name cli))) = Some e" "re_type e = ty"
    "re_placement e = Endpoint \<lparr>ee_address = Tcp (gl_addr cli) (gl_port cli), ee_tls_name = gl_name cli\<rparr> []"
    "\<not> is_valid bogus_status \<longrightarrow> Task_monitor e \<in> set (ad_spawned b')"
    using client_register_server [of dial ac, OF assms(3,2) legal(1)] by blast
  ultimately show ?thesis using reg legal(2) by auto
qed

end
