(* ===== verification/Spec2Isabelle.thy ===== *)
theory Spec2Isabelle
  imports Image_Properties Oci_Properties Service_Properties Cli_Properties Givc_Programs
begin

text \<open>
  This is a verification development for givc, the inter-VM control of the Ghaf platform. The
  program is a set of Rust crates under \<open>src/crates/\<close>; paths below are relative to that
  directory.

  \<^bold>\<open>The program and its parts.\<close> An admin service (\<open>admin\<close>) runs in a VM of its own. Agents in the
  host and in the other VMs register the units they run with it; it keeps them in a registry,
  starts and stops units through the agents, watches them, propagates locale, time zone and
  policies, and answers clients (\<open>client\<close>), who also subscribe to the changes of the registry.
  The crate \<open>common\<close> holds the types they exchange. The crate \<open>policyadmin\<close> fetches policy
  files from a git repository or from addresses and routes them to the VMs that subscribe to
  them. The program \<open>ota-update\<close> updates the host, either by images in LVM volumes (slots), which
  it may pull from an OCI registry, or by NixOS generations from a Cachix cache; \<open>update-server\<close>
  offers the generations of a machine as such a cache, which the crate \<open>cachix-client\<close> reads. The
  admin service runs \<open>ota-update\<close> on the host on behalf of its clients.

  \<^bold>\<open>Conventions.\<close> Fallible code returns \<open>error + 'a\<close>; an \<open>error\<close> is a chain of contexts over a
  message, and \<open>Panic\<close> is the error of a panic. Code that changes state is a function to a
  result and the new state (\<open>State_Result\<close>), which keeps what was done before an early
  return. Spawned tasks are recorded and run as steps of their own. Third-party code and the
  operating system are parameters: functions, or records of functions (\<open>profile_env\<close>, \<open>oci_env\<close>
  and the like), with named hypotheses where a theorem relies on their documented behaviour.
  Strings are lists of ASCII characters, and a byte is a character. Machine integers whose
  width matters are words.

  \<^bold>\<open>The library.\<close> \<open>Prelude\<close> has results, strings and numbers; \<open>State_Result\<close> the state and
  error monad with the calculus of preserved invariants; \<open>Codec\<close> the interfaces \<open>printer\<close> and
  \<open>codec\<close>, interpreted for every printed or encoded type of the program; \<open>Hash_Map\<close> the interface
  \<open>hash_map\<close> of a Rust map and its implementation by association lists; \<open>Event_Log\<close> the interface
  \<open>event_log\<close> of a store that announces its changes, interpreted by the registry; \<open>Regex\<close>
  a matcher by derivatives, proved equal to the language of an expression; \<open>Paths\<close> the paths of
  \<open>std::path\<close>; \<open>Disk\<close> a file system of directories and files with the operations the
  updater uses (no symbolic links, no permissions; a failure from outside is a parameter).

  \<^bold>\<open>The admin service.\<close>
  \<^item> \<open>Common_Types\<close>, \<open>Query\<close>: \<open>common/src/types.rs\<close>, \<open>address.rs\<close>, \<open>query.rs\<close>, with round trips
    between the types and their protobuf forms.
  \<^item> \<open>Naming\<close>, \<open>Entry\<close>, \<open>Registry\<close>: \<open>utils/naming.rs\<close>, \<open>utils/vsock.rs\<close>, \<open>admin/entry.rs\<close> and
    \<open>admin/registry.rs\<close>. The registry is a map with a lock flag and the log of its events.
  \<^item> \<open>Systemd_Client\<close>, \<open>Locale_Config\<close>, \<open>Admin_Server\<close>: \<open>systemd_api/client.rs\<close> and
    \<open>admin/server.rs\<close>. The state is the record \<open>admin\<close>; agents are a parameter that may change
    the world behind it. The relation \<open>admin_step\<close> runs handlers, monitor and tasks in any order.
  \<^item> \<open>Admin_Client\<close>: \<open>client/src/client.rs\<close>, the requests and the reading of the answers.
  \<^item> \<open>Admin_Rpc\<close>: the gRPC interface as the record \<open>admin_api\<close>. The server provides it
    (\<open>admin_api_of\<close>, the \<open>impl AdminService\<close> of \<open>admin/server.rs\<close>), the methods of the client use it;
    the interface \<open>admin_contract\<close> is interpreted by the server with its state machine.
  \<^item> \<open>Givc_Cli\<close>: \<open>bin/givc-cli.rs\<close>, every command over the methods of the client.
  \<^item> \<open>Givc_Programs\<close>: the start of \<open>bin/givc-admin.rs\<close> and \<open>bin/givc-agent.rs\<close>; a service that has
    started satisfies its invariants, an agent that has started is registered.
  \<^item> \<open>Admin_Properties\<close>: the replay of a watch stream gives the registry; the invariant of all
    reachable states; what removing, starting, naming and monitoring units do; no handler
    locks the registry twice; settings survive a restart.
  \<^item> \<open>Cli_Properties\<close>: all a command does to the service are steps of its state machine; what setting
    the locale and testing for a unit from the command line do, through client and server.

  \<^bold>\<open>Around the service.\<close>
  \<^item> \<open>Rpc_Status\<close>: \<open>admin/src/utils/tonic.rs\<close>, \<open>client/src/error.rs\<close>, \<open>stream.rs\<close>.
  \<^item> \<open>Access_Control\<close>: \<open>utils/x509.rs\<close>, \<open>auth.rs\<close>, \<open>access_control.rs\<close> and the layers of
    \<open>bin/givc-admin.rs\<close>. X.509 decoding, message descriptors and Cedar are parameters.
  \<^item> \<open>Exec_Client\<close>, \<open>Ota_Service\<close>: \<open>client/src/exec.rs\<close>, \<open>admin/OTA.rs\<close> and its handlers.
  \<^item> \<open>Policy_Manager\<close>, \<open>Policy_Repo\<close>, \<open>Policy_Urls\<close>, \<open>Policy_Push\<close>: the crate \<open>policyadmin\<close>,
    \<open>admin/policyclient.rs\<close> and the pushing task of \<open>admin/server.rs\<close>. The relation
    \<open>policy_step\<close> interleaves monitors, registrations, workers and pushes.
  \<^item> \<open>Nix_Profile\<close>, \<open>Update_Server\<close>, \<open>Nix_Update\<close>: \<open>ota-update/src/profile.rs\<close>, \<open>nixos.rs\<close>,
    \<open>bin/update-server.rs\<close>, the crate \<open>cachix-client\<close> and its command, \<open>bin/ota-update.rs\<close>, \<open>query.rs\<close>,
    \<open>cli.rs\<close>.
  \<^item> \<open>Service_Properties\<close>: who is admitted; what of an error reaches a client; how an update is
    reported; which policy files reach which VM; what an update from an update server installs.

  \<^bold>\<open>Image updates.\<close>
  \<^item> \<open>Image_Slot\<close>, \<open>Bootctl\<close>, \<open>Image_Uki\<close>, \<open>Image_Group\<close>, \<open>Image_Manifest\<close>, \<open>Image_Runtime\<close>,
    \<open>Image_Plan\<close>, \<open>Image_Inspect\<close>, \<open>Image_Install\<close>: \<open>ota-update/src/image/\<close> and \<open>bootctl.rs\<close>,
    file by file: volumes, boot entries, their grouping, the choice of a slot, the plan
    of commands and its execution.
  \<^item> \<open>Update_Lock\<close>: \<open>lock.rs\<close>, over inodes and paths of a file system of its own, with the
    relation \<open>lock_step\<close> for any number of updaters.
  \<^item> \<open>Image_Properties\<close>: names read back; scanning equals partitioning by status; a plan writes
    only to empty volumes and installs the kernel last; what was installed is found again;
    removal is safe; the lock excludes, and when it does not; paths stay confined.

  \<^bold>\<open>The update registry\<close> (\<open>ota-update/src/registry/\<close>).
  \<^item> \<open>Oci_Types\<close>, \<open>Oci_Client\<close>, \<open>Oci_Registry\<close>, \<open>Oci_Cli\<close>: media types, progress, the client
    around the crate \<open>oci_client\<close>, discover, pull, push, prune, and the commands.
  \<^item> \<open>Oci_Prune\<close>, \<open>Oci_Pull\<close>, \<open>Oci_Push\<close>: the facts on these operations; pruning is
    proved equal to a definition without a stack.
  \<^item> \<open>Oci_Properties\<close>: a pull stays in its directory whatever the registry sends, leaves the
    files its manifest names, and cleans up when cancelled; what is pushed is selected;
    discovery; pruning; progress reports.

  \<^bold>\<open>Loops.\<close> No definition takes fuel. The loop that names units ends because its counter has 31
  bits, after which the addition panics; it is proved to find a free name before. Pruning and
  the reports of a download are loops of \<open>partial_function (option)\<close>: pruning is proved to
  return on every well-formed disk, and for the reports it is characterised exactly when
  they end. Cloning counts its attempts. Monitors that run forever are modelled by one
  round, with the rounds as steps.

  \<^bold>\<open>Not modelled.\<close> Opening connections, TLS, the scheduler and time, logging, argument parsing
  by clap, JSON text and protobuf bytes (their decoders are parameters), SHA-256, git and
  HTTP; the debug text of what is printed; \<open>systemd_api/server.rs\<close>, whose handlers are all
  unimplemented; \<open>bin/givc-x509.rs\<close>, which prints the fields of a certificate; the dispatch of
  the commands of \<open>bin/ota-update.rs\<close>, which are modelled each on its own; test support and
  examples; the Go agents and packages under \<open>src/modules/\<close>.
\<close>

end
